(* ===== verification/Prelude.thy ===== *)
theory Prelude
  imports Complex_Main "HOL-Library.AList" "HOL-Library.Multiset"
begin

text \<open>
  The vocabulary the component theories share: the result type that stands for Rust's
  \<^verbatim>\<open>anyhow::Result\<close> and for panics, machine integers as unbounded integers that are wrapped at their
  width, hash maps as association lists with distinct keys, the SQL clauses that the repositories
  use (\<^verbatim>\<open>LIMIT/OFFSET\<close>, \<^verbatim>\<open>ORDER BY\<close>), and the lemmas on them that the component
  proofs rest on.
\<close>

named_theorems res_simps "computing with results"
named_theorems hm_simps "lookups in hash maps"
named_theorems int_simps "machine integers"

section \<open>Results\<close>

text \<open>
  \<^verbatim>\<open>Error m\<close> is an error value that the code returns (the message is kept, because some code
  inspects it); \<^verbatim>\<open>Panic m\<close> is an unwinding panic (\<^verbatim>\<open>unwrap\<close> on \<^verbatim>\<open>None\<close>, an index out
  of bounds, a division by zero).
\<close>

datatype error = Error string | Panic string

type_synonym 'a res = "error + 'a"

primrec and_then :: "('e + 'a) \<Rightarrow> ('a \<Rightarrow> 'e + 'b) \<Rightarrow> 'e + 'b" where
  "and_then (Inl e) f = Inl e"
| "and_then (Inr a) f = f a"

declare and_then.simps [res_simps]

lemma and_then_eq_Inr [res_simps]:
  "and_then r f = Inr b \<longleftrightarrow> (\<exists>a. r = Inr a \<and> f a = Inr b)"
  by (cases r) auto

lemma and_then_assoc: "and_then (and_then r f) g = and_then r (\<lambda>a. and_then (f a) g)"
  by (cases r) auto

lemma res_cases [case_names Error Panic Ok]:
  obtains m where "r = Inl (Error m)" | p where "r = Inl (Panic p)" | a where "r = Inr a"
  by (metis error.exhaust sum.exhaust_sel)

fun ok_or :: "string \<Rightarrow> 'a option \<Rightarrow> 'a res" where
  "ok_or m None = Inl (Error m)"
| "ok_or m (Some a) = Inr a"

declare ok_or.simps [res_simps]

lemma ok_or_eq_Inr [res_simps]: "ok_or m x = Inr a \<longleftrightarrow> x = Some a"
  by (cases x) auto

lemma ok_or_eq_Inl [res_simps]: "ok_or m x = Inl e \<longleftrightarrow> x = None \<and> e = Error m"
  by (cases x) auto

fun unwrap :: "string \<Rightarrow> 'a option \<Rightarrow> 'a res" where
  "unwrap m None = Inl (Panic m)"
| "unwrap m (Some a) = Inr a"

declare unwrap.simps [res_simps]

lemma unwrap_eq_Inr [res_simps]: "unwrap m x = Inr a \<longleftrightarrow> x = Some a"
  by (cases x) auto

text \<open>A \<^verbatim>\<open>?\<close> inside a loop over a vector: the first error ends the loop.\<close>

fun map_res :: "('a \<Rightarrow> 'e + 'b) \<Rightarrow> 'a list \<Rightarrow> 'e + 'b list" where
  "map_res f [] = Inr []"
| "map_res f (x # xs) = and_then (f x) (\<lambda>y. and_then (map_res f xs) (\<lambda>ys. Inr (y # ys)))"

lemma map_res_Inr: "map_res (\<lambda>x. Inr (f x)) xs = Inr (map f xs)"
  by (induction xs) auto

lemma map_res_eq_Inr:
  "map_res f xs = Inr ys \<longleftrightarrow> list_all2 (\<lambda>x y. f x = Inr y) xs ys"
  by (induction xs arbitrary: ys) (auto simp: res_simps list_all2_Cons1)

lemma in_map_filter: "y \<in> set (List.map_filter f xs) \<longleftrightarrow> (\<exists>x\<in>set xs. f x = Some y)"
  by (induction xs) (auto simp: List.map_filter_simps split: option.splits)

lemma list_all2_in:
  assumes "list_all2 R xs ys"
  shows "x \<in> set xs \<Longrightarrow> \<exists>y\<in>set ys. R x y" and "y \<in> set ys \<Longrightarrow> \<exists>x\<in>set xs. R x y"
  using assms by (induction xs ys rule: list_all2_induct) auto

lemma map_res_length: "map_res f xs = Inr ys \<Longrightarrow> length ys = length xs"
  by (auto simp: map_res_eq_Inr dest: list_all2_lengthD)

fun fold_res :: "('a \<Rightarrow> 's \<Rightarrow> 'e + 's) \<Rightarrow> 'a list \<Rightarrow> 's \<Rightarrow> 'e + 's" where
  "fold_res f [] s = Inr s"
| "fold_res f (x # xs) s = and_then (f x s) (fold_res f xs)"

lemma fold_res_append:
  "fold_res f (xs @ ys) s = and_then (fold_res f xs s) (\<lambda>t. fold_res f ys t)"
proof (induction xs arbitrary: s)
  case (Cons x xs)
  then show ?case by (cases "f x s") auto
qed simp

lemma fold_res_Inr: "fold_res (\<lambda>x s. Inr (f x s)) xs s = Inr (fold f xs s)"
  by (induction xs arbitrary: s) auto

lemma fold_res_inv:
  assumes "fold_res f xs s = Inr t" "P s"
    and "\<And>x a b. x \<in> set xs \<Longrightarrow> P a \<Longrightarrow> f x a = Inr b \<Longrightarrow> P b"
  shows "P t"
  using assms by (induction xs arbitrary: s) (auto simp: res_simps)

section \<open>Machine integers\<close>

text \<open>
  A machine integer is an \<^typ>\<open>int\<close> in the range of its type. The deployed binaries are built with
  \<^verbatim>\<open>--release\<close> and no \<^verbatim>\<open>overflow-checks\<close>, so \<^verbatim>\<open>+\<close>, \<^verbatim>\<open>-\<close>, \<^verbatim>\<open>*\<close> and
  \<^verbatim>\<open>pow\<close> wrap; \<^verbatim>\<open>as\<close> between integer types wraps too. Division truncates towards zero.
\<close>

definition wrap_i16 :: "int \<Rightarrow> int" where
  "wrap_i16 x = (x + 32768) mod 65536 - 32768"

definition wrap_i32 :: "int \<Rightarrow> int" where
  "wrap_i32 x = (x + 2147483648) mod 4294967296 - 2147483648"

definition wrap_i64 :: "int \<Rightarrow> int" where
  "wrap_i64 x = (x + 9223372036854775808) mod 18446744073709551616 - 9223372036854775808"

definition wrap_u64 :: "int \<Rightarrow> int" where
  "wrap_u64 x = x mod 18446744073709551616"

definition in_i32 :: "int \<Rightarrow> bool" where
  "in_i32 x \<longleftrightarrow> -2147483648 \<le> x \<and> x \<le> 2147483647"

definition in_i64 :: "int \<Rightarrow> bool" where
  "in_i64 x \<longleftrightarrow> -9223372036854775808 \<le> x \<and> x \<le> 9223372036854775807"

definition in_u64 :: "int \<Rightarrow> bool" where
  "in_u64 x \<longleftrightarrow> 0 \<le> x \<and> x \<le> 18446744073709551615"

lemma wrap_i32_id [int_simps]: "in_i32 x \<Longrightarrow> wrap_i32 x = x"
  by (simp add: wrap_i32_def in_i32_def)

lemma wrap_i64_id [int_simps]: "in_i64 x \<Longrightarrow> wrap_i64 x = x"
  by (simp add: wrap_i64_def in_i64_def)

lemma wrap_u64_id [int_simps]: "in_u64 x \<Longrightarrow> wrap_u64 x = x"
  by (simp add: wrap_u64_def in_u64_def)

lemma wrap_i32_range [simp]: "in_i32 (wrap_i32 x)"
  unfolding wrap_i32_def in_i32_def
  using pos_mod_bound [of 4294967296 "x + 2147483648"] pos_mod_sign [of 4294967296 "x + 2147483648"]
  by linarith

lemma wrap_i16_range: "- 32768 \<le> wrap_i16 x \<and> wrap_i16 x < 32768"
  unfolding wrap_i16_def using pos_mod_bound [of 65536 "x + 32768"] pos_mod_sign [of 65536 "x + 32768"] by linarith

lemma wrap_i64_range [simp]: "in_i64 (wrap_i64 x)"
  unfolding wrap_i64_def in_i64_def
  using pos_mod_bound [of 18446744073709551616 "x + 9223372036854775808"]
    pos_mod_sign [of 18446744073709551616 "x + 9223372036854775808"]
  by linarith

lemma wrap_u64_range [simp]: "in_u64 (wrap_u64 x)"
  unfolding wrap_u64_def in_u64_def
  using pos_mod_bound [of 18446744073709551616 x] pos_mod_sign [of 18446744073709551616 x]
  by linarith

lemma wrap_i32_add_left [int_simps]: "wrap_i32 (wrap_i32 x + y) = wrap_i32 (x + y)"
proof -
  have "wrap_i32 x + y + 2147483648 = (x + 2147483648) mod 4294967296 + y"
    by (simp add: wrap_i32_def)
  moreover have "((x + 2147483648) mod 4294967296 + y) mod 4294967296 = (x + y + 2147483648) mod 4294967296"
    by (simp only: mod_add_left_eq) (simp add: ac_simps)
  ultimately show ?thesis
    by (simp only: wrap_i32_def [of "wrap_i32 x + y"] wrap_i32_def [of "x + y"])
qed

lemma wrap_i32_add_right [int_simps]: "wrap_i32 (x + wrap_i32 y) = wrap_i32 (x + y)"
  using wrap_i32_add_left [of y x] by (simp add: add.commute)

definition rust_div :: "int \<Rightarrow> int \<Rightarrow> int" where
  "rust_div a b = (if 0 \<le> a \<longleftrightarrow> 0 \<le> b then \<bar>a\<bar> div \<bar>b\<bar> else - (\<bar>a\<bar> div \<bar>b\<bar>))"

lemma rust_div_nonneg [int_simps]: "0 \<le> a \<Longrightarrow> 0 \<le> b \<Longrightarrow> rust_div a b = a div b"
  by (simp add: rust_div_def)

section \<open>Hash maps\<close>

text \<open>
  A \<^verbatim>\<open>HashMap\<close> is an association list. The list order plays the role of the (unspecified)
  iteration order of the container; where an order is chosen here, the results proved are stated
  by lookup, so that they do not depend on it.
\<close>

type_synonym ('k, 'v) hmap = "('k \<times> 'v) list"

definition hm_entry :: "'k \<Rightarrow> 'v \<Rightarrow> ('v \<Rightarrow> 'v) \<Rightarrow> ('k, 'v) hmap \<Rightarrow> ('k, 'v) hmap" where
  "hm_entry k d f m = AList.update k (f (case map_of m k of None \<Rightarrow> d | Some v \<Rightarrow> v)) m"

definition hm_insert :: "'k \<Rightarrow> 'v \<Rightarrow> ('k, 'v) hmap \<Rightarrow> ('k, 'v) hmap" where
  "hm_insert k v m = AList.update k v m"

definition hm_values_mut :: "('v \<Rightarrow> 'v) \<Rightarrow> ('k, 'v) hmap \<Rightarrow> ('k, 'v) hmap" where
  "hm_values_mut f m = List.map (\<lambda>(k, v). (k, f v)) m"

definition hm_wf :: "('k, 'v) hmap \<Rightarrow> bool" where
  "hm_wf m \<longleftrightarrow> distinct (List.map fst m)"

lemma hm_wf_Nil [simp]: "hm_wf []"
  by (simp add: hm_wf_def)

lemma hm_wf_entry [simp]: "hm_wf m \<Longrightarrow> hm_wf (hm_entry k d f m)"
  by (simp add: hm_wf_def hm_entry_def distinct_update)

lemma hm_wf_insert [simp]: "hm_wf m \<Longrightarrow> hm_wf (hm_insert k v m)"
  by (simp add: hm_wf_def hm_insert_def distinct_update)

lemma fst_values_mut [simp]: "List.map fst (hm_values_mut f m) = List.map fst m"
  by (induction m) (auto simp: hm_values_mut_def)

lemma hm_wf_values_mut [simp]: "hm_wf (hm_values_mut f m) = hm_wf m"
  by (simp add: hm_wf_def)

lemma hm_get_entry [hm_simps]:
  "map_of (hm_entry k d f m) k' =
    (if k' = k then Some (f (case map_of m k of None \<Rightarrow> d | Some v \<Rightarrow> v)) else map_of m k')"
  by (simp add: hm_entry_def update_conv)

lemma hm_get_insert [hm_simps]:
  "map_of (hm_insert k v m) k' = (if k' = k then Some v else map_of m k')"
  by (simp add: hm_insert_def update_conv)

lemma hm_get_values_mut [hm_simps]:
  "map_of (hm_values_mut f m) k = map_option f (map_of m k)"
  by (induction m) (auto simp: hm_values_mut_def)

lemma set_hm_insert:
  assumes "hm_wf m"
  shows "set (hm_insert k v m) = {p \<in> set m. fst p \<noteq> k} \<union> {(k, v)}"
  using assms unfolding hm_wf_def hm_insert_def
  by (induction m) (auto simp: rev_image_eqI)

text \<open>
  The loop \<^verbatim>\<open>for x in xs { *m.entry(key(x)).or_insert(d) = g(x, ..) }\<close>: every key collects, in
  order, the elements that have it.
\<close>

definition accumulate :: "('x \<Rightarrow> 'k) \<Rightarrow> 'v \<Rightarrow> ('x \<Rightarrow> 'v \<Rightarrow> 'v) \<Rightarrow> 'x list \<Rightarrow> ('k, 'v) hmap \<Rightarrow> ('k, 'v) hmap"
  where "accumulate key d g xs m = fold (\<lambda>x. hm_entry (key x) d (g x)) xs m"

lemma hm_wf_accumulate [simp]: "hm_wf m \<Longrightarrow> hm_wf (accumulate key d g xs m)"
  unfolding accumulate_def by (induction xs arbitrary: m) auto

lemma accumulate_get:
  "map_of (accumulate key d g xs m) k =
    (if \<exists>x\<in>set xs. key x = k
     then Some (fold g (filter (\<lambda>x. key x = k) xs) (case map_of m k of None \<Rightarrow> d | Some v \<Rightarrow> v))
     else map_of m k)"
proof (induction xs arbitrary: m)
  case (Cons x xs)
  have "accumulate key d g (x # xs) m = accumulate key d g xs (hm_entry (key x) d (g x) m)"
    by (simp add: accumulate_def)
  then show ?case
    using Cons.IH [of "hm_entry (key x) d (g x) m"] by (auto simp: hm_simps)
qed (simp add: accumulate_def)

definition group_by :: "('x \<Rightarrow> 'k) \<Rightarrow> 'x list \<Rightarrow> ('k, 'x list) hmap" where
  "group_by key xs = accumulate key [] (\<lambda>x l. l @ [x]) xs []"

lemma fold_snoc: "fold (\<lambda>x l. l @ [x]) xs l = l @ xs"
  by (induction xs arbitrary: l) auto

lemma group_by_get [hm_simps]:
  "map_of (group_by key xs) k =
    (if \<exists>x\<in>set xs. key x = k then Some (filter (\<lambda>x. key x = k) xs) else None)"
  by (simp add: group_by_def accumulate_get fold_snoc)

lemma hm_wf_group_by [simp]: "hm_wf (group_by key xs)"
  by (simp add: group_by_def)

lemma group_by_in:
  assumes "(k, g) \<in> set (group_by key xs)"
  shows "g = filter (\<lambda>x. key x = k) xs" "g \<noteq> []"
proof -
  have "map_of (group_by key xs) k = Some g"
    using assms by (simp add: hm_wf_def [symmetric])
  then show "g = filter (\<lambda>x. key x = k) xs" "g \<noteq> []"
    by (auto simp: hm_simps filter_empty_conv split: if_splits)
qed

text \<open>
  A loop \<^verbatim>\<open>for (k, x) in other_map { *m.entry(k).or_insert(d(k)) = f(k, x, ..) }\<close> touches each key once,
  so its effect is pointwise and the iteration order does not matter.
\<close>

lemma fold_entries_get:
  assumes "hm_wf xs"
  shows "map_of (fold (\<lambda>(k, x). hm_entry k (d k) (f k x)) xs m) a =
    (case map_of xs a of None \<Rightarrow> map_of m a
     | Some x \<Rightarrow> Some (f a x (case map_of m a of None \<Rightarrow> d a | Some v \<Rightarrow> v)))"
  using assms
proof (induction xs arbitrary: m)
  case (Cons p xs)
  obtain k x where p: "p = (k, x)" by (cases p)
  have k: "map_of xs k = None" and wf: "hm_wf xs"
    using Cons.prems by (auto simp: hm_wf_def p map_of_eq_None_iff)
  show ?case
    using Cons.IH [OF wf, of "hm_entry k (d k) (f k x) m"] k
    by (cases "a = k") (simp_all add: p hm_simps split: option.split)
qed simp

lemma hm_wf_fold_entries:
  "hm_wf m \<Longrightarrow> hm_wf (fold (\<lambda>(k, x). hm_entry k (d k) (f k x)) xs m)"
  by (induction xs arbitrary: m) auto

text \<open>A property of all values of a map.\<close>

lemma hm_entry_values:
  assumes "\<forall>v\<in>snd ` set m. P v" "P d" "\<And>v. P v \<Longrightarrow> P (f v)"
  shows "\<forall>v\<in>snd ` set (hm_entry k d f m). P v"
proof -
  have old: "P (f (case map_of m k of None \<Rightarrow> d | Some v \<Rightarrow> v))"
  proof (cases "map_of m k")
    case (Some v)
    then have "v \<in> snd ` set m"
      by (metis map_of_SomeD image_eqI snd_conv)
    then have "P v"
      using assms(1) by blast
    with Some assms(3) show ?thesis by simp
  qed (simp add: assms)
  have "snd ` set (AList.update k v m) \<subseteq> insert v (snd ` set m)" for v
    by (induction m) auto
  then have "x = f (case map_of m k of None \<Rightarrow> d | Some v \<Rightarrow> v) \<or> x \<in> snd ` set m" if "x \<in> snd ` set (hm_entry k d f m)" for x
    using that unfolding hm_entry_def by fast
  with old assms(1) show ?thesis
    by metis
qed

lemma hm_values_mut_values:
  assumes "\<forall>v\<in>snd ` set m. P v" "\<And>v. P v \<Longrightarrow> Q (f v)"
  shows "\<forall>v\<in>snd ` set (hm_values_mut f m). Q v"
  using assms by (auto simp: hm_values_mut_def)

lemma map_of_in_iff: "hm_wf m \<Longrightarrow> map_of m k = Some v \<longleftrightarrow> (k, v) \<in> set m"
  by (simp add: hm_wf_def)

lemma group_by_entry: "(k, g) \<in> set (group_by key xs) \<longleftrightarrow> g = filter (\<lambda>x. key x = k) xs \<and> g \<noteq> []"
proof -
  have "(k, g) \<in> set (group_by key xs) \<longleftrightarrow> map_of (group_by key xs) k = Some g"
    by (simp add: map_of_in_iff)
  then show ?thesis
    by (auto simp: hm_simps filter_empty_conv)
qed

section \<open>SQL clauses\<close>

text \<open>\<^verbatim>\<open>OFFSET o LIMIT n\<close>; PostgreSQL rejects negative values.\<close>

definition sql_page :: "int \<Rightarrow> int \<Rightarrow> 'a list \<Rightarrow> 'a list res" where
  "sql_page off n xs =
    (if n < 0 then Inl (Error ''LIMIT must not be negative'')
     else if off < 0 then Inl (Error ''OFFSET must not be negative'')
     else Inr (take (nat n) (drop (nat off) xs)))"

text \<open>
  \<^verbatim>\<open>ORDER BY k DESC\<close> and \<^verbatim>\<open>ORDER BY k ASC\<close>; rows with the same key stay in table order.
\<close>

definition order_desc :: "('a \<Rightarrow> 'k::linordered_ab_group_add) \<Rightarrow> 'a list \<Rightarrow> 'a list" where
  "order_desc k xs = sort_key (\<lambda>x. - k x) xs"

lemma set_order_desc [simp]: "set (order_desc k xs) = set xs"
  by (simp add: order_desc_def)

lemma mset_order_desc [simp]: "mset (order_desc k xs) = mset xs"
  by (simp add: order_desc_def)

lemma length_order_desc [simp]: "length (order_desc k xs) = length xs"
  by (simp add: order_desc_def)

lemma sorted_order_desc: "sorted_wrt (\<lambda>x y. k y \<le> k x) (order_desc k xs)"
proof -
  have "sorted (List.map (\<lambda>x. - k x) (order_desc k xs))"
    by (simp add: order_desc_def)
  then show ?thesis
    by (simp add: sorted_wrt_map)
qed

lemma order_desc_Nil [simp]: "order_desc k [] = []"
  by (simp add: order_desc_def)

lemma order_desc_eq_Nil [simp]: "order_desc k xs = [] \<longleftrightarrow> xs = []"
  by (metis length_0_conv length_order_desc)

text \<open>\<^verbatim>\<open>.first()\<close> with \<^verbatim>\<open>.optional()\<close>.\<close>

definition first_of :: "'a list \<Rightarrow> 'a option" where
  "first_of xs = (case xs of [] \<Rightarrow> None | x # _ \<Rightarrow> Some x)"

lemma first_of_simps [simp]: "first_of [] = None" "first_of (x # xs) = Some x"
  by (simp_all add: first_of_def)

lemma first_of_None [simp]: "first_of xs = None \<longleftrightarrow> xs = []"
  by (cases xs) auto

lemma first_of_in: "first_of xs = Some x \<Longrightarrow> x \<in> set xs"
  by (cases xs) auto

lemma first_of_order_desc_max:
  assumes "first_of (order_desc k xs) = Some x"
  shows "x \<in> set xs" and "\<And>y. y \<in> set xs \<Longrightarrow> k y \<le> k x"
proof -
  obtain r where r: "order_desc k xs = x # r"
    using assms by (cases "order_desc k xs") auto
  then have s: "set xs = insert x (set r)"
    by (metis set_order_desc list.simps(15))
  then show "x \<in> set xs" by simp
  show "k y \<le> k x" if "y \<in> set xs" for y
    using that s sorted_order_desc [of k xs] r by auto
qed

lemma insort_key_map: "insort_key g (f x) (List.map f xs) = List.map f (insort_key (\<lambda>y. g (f y)) x xs)"
  by (induction xs) auto

lemma sort_key_map: "sort_key g (List.map f xs) = List.map f (sort_key (\<lambda>y. g (f y)) xs)"
  by (induction xs) (simp_all add: insort_key_map)

lemma order_desc_map: "order_desc k (List.map f xs) = List.map f (order_desc (\<lambda>y. k (f y)) xs)"
  by (simp add: order_desc_def sort_key_map)

lemma first_of_map: "first_of (List.map f xs) = map_option f (first_of xs)"
  by (cases xs) auto

text \<open>In a descending list, only earlier elements are strictly greater.\<close>

lemma count_greater_le:
  fixes f :: "'a \<Rightarrow> 'b::linorder"
  assumes "sorted_wrt (\<lambda>x y. f y \<le> f x) xs" "k < length xs"
  shows "length (filter (\<lambda>y. f (xs ! k) < f y) xs) \<le> k"
proof -
  have "filter (\<lambda>y. f (xs ! k) < f y) (drop k xs) = []"
    unfolding filter_empty_conv
  proof
    fix y assume "y \<in> set (drop k xs)"
    then obtain j where "y = xs ! (k + j)" "k + j < length xs"
      by (auto simp: in_set_conv_nth)
    then show "\<not> f (xs ! k) < f y"
      using assms(1) by (cases j) (auto simp: sorted_wrt_iff_nth_less not_less)
  qed
  then have "filter (\<lambda>y. f (xs ! k) < f y) xs = filter (\<lambda>y. f (xs ! k) < f y) (take k xs)"
    by (metis append_take_drop_id filter_append append_Nil2)
  also have "length \<dots> \<le> k"
    using length_filter_le [of "\<lambda>y. f (xs ! k) < f y" "take k xs"] by simp
  finally show ?thesis .
qed

lemma count_greater_eq:
  fixes f :: "'a \<Rightarrow> 'b::linorder"
  assumes "sorted_wrt (\<lambda>x y. f y \<le> f x) xs" "k < length xs" "distinct (List.map f xs)"
  shows "length (filter (\<lambda>y. f (xs ! k) < f y) xs) = k"
proof -
  have "f (xs ! k) < f y" if y: "y \<in> set (take k xs)" for y
  proof -
    obtain i where i: "i < k" "y = xs ! i"
      using y assms(2) by (auto simp: in_set_conv_nth)
    then have "f (xs ! k) \<le> f y" "f y \<noteq> f (xs ! k)"
      using assms by (auto simp: sorted_wrt_iff_nth_less distinct_conv_nth)
    then show ?thesis by simp
  qed
  then have "filter (\<lambda>y. f (xs ! k) < f y) (take k xs) = take k xs"
    by (simp add: filter_id_conv)
  moreover have "length (filter (\<lambda>y. f (xs ! k) < f y) (take k xs)) \<le> length (filter (\<lambda>y. f (xs ! k) < f y) xs)"
    by (metis append_take_drop_id filter_append length_append le_add1)
  ultimately show ?thesis
    using count_greater_le [OF assms(1,2)] assms(2) by simp
qed

lemma length_filter_order_desc: "length (filter P (order_desc k xs)) = length (filter P xs)"
  by (metis mset_filter mset_order_desc size_mset)

lemma find_eq_first_of: "List.find P xs = first_of (filter P xs)"
  by (induction xs) auto

section \<open>Actions on a store\<close>

text \<open>
  A handler or repository call that writes a table is a function from the state to a result and
  the new state. An error keeps the writes that were made before it: the code opens no
  transaction around several statements.
\<close>

type_synonym ('s, 'e, 'a) action = "'s \<Rightarrow> ('e + 'a) \<times> 's"

definition bind_act :: "('s, 'e, 'a) action \<Rightarrow> ('a \<Rightarrow> ('s, 'e, 'b) action) \<Rightarrow> ('s, 'e, 'b) action" where
  "bind_act m f s = (case m s of (Inl e, t) \<Rightarrow> (Inl e, t) | (Inr a, t) \<Rightarrow> f a t)"

definition ret_act :: "'a \<Rightarrow> ('s, 'e, 'a) action" where
  "ret_act a s = (Inr a, s)"

definition fail_act :: "'e \<Rightarrow> ('s, 'e, 'a) action" where
  "fail_act e s = (Inl e, s)"

definition read_act :: "('s \<Rightarrow> 'e + 'a) \<Rightarrow> ('s, 'e, 'a) action" where
  "read_act f s = (f s, s)"

definition map_err_act :: "('e \<Rightarrow> 'f) \<Rightarrow> ('s, 'e, 'a) action \<Rightarrow> ('s, 'f, 'a) action" where
  "map_err_act g m s = (case m s of (Inl e, t) \<Rightarrow> (Inl (g e), t) | (Inr a, t) \<Rightarrow> (Inr a, t))"

lemma bind_act_Inr [res_simps]: "m s = (Inr a, t) \<Longrightarrow> bind_act m f s = f a t"
  by (simp add: bind_act_def)

lemma bind_act_Inl [res_simps]: "m s = (Inl e, t) \<Longrightarrow> bind_act m f s = (Inl e, t)"
  by (simp add: bind_act_def)

lemma bind_act_eq_Inr:
  "bind_act m f s = (Inr b, u) \<longleftrightarrow> (\<exists>a t. m s = (Inr a, t) \<and> f a t = (Inr b, u))"
  by (cases "m s" rule: prod.exhaust) (auto simp: bind_act_def split: sum.splits)

lemma act_simps [res_simps]:
  "ret_act a s = (Inr a, s)" "fail_act e s = (Inl e, s)" "read_act f s = (f s, s)"
  by (simp_all add: ret_act_def fail_act_def read_act_def)

fun map_err :: "('e \<Rightarrow> 'f) \<Rightarrow> 'e + 'a \<Rightarrow> 'f + 'a" where
  "map_err g (Inl e) = Inl (g e)"
| "map_err g (Inr a) = Inr a"

declare map_err.simps [res_simps]

lemma map_err_eq_Inr [res_simps]: "map_err g r = Inr a \<longleftrightarrow> r = Inr a"
  by (cases r) auto

section \<open>Strings\<close>

text \<open>
  A \<^verbatim>\<open>String\<close> is a list of characters. \<^verbatim>\<open>to_lowercase\<close> and \<^verbatim>\<open>to_uppercase\<close> are given on
  ASCII letters, the only cased characters of the strings this code passes to them.
\<close>

definition lower_char :: "char \<Rightarrow> char" where
  "lower_char c = (if 65 \<le> (of_char c :: nat) \<and> (of_char c :: nat) \<le> 90
    then char_of ((of_char c :: nat) + 32) else c)"

definition upper_char :: "char \<Rightarrow> char" where
  "upper_char c = (if 97 \<le> (of_char c :: nat) \<and> (of_char c :: nat) \<le> 122
    then char_of ((of_char c :: nat) - 32) else c)"

definition to_lowercase :: "string \<Rightarrow> string" where
  "to_lowercase s = List.map lower_char s"

definition to_uppercase :: "string \<Rightarrow> string" where
  "to_uppercase s = List.map upper_char s"

fun contains :: "string \<Rightarrow> string \<Rightarrow> bool" where
  "contains n [] = (n = [])"
| "contains n (c # cs) = (take (length n) (c # cs) = n \<or> contains n cs)"

lemma contains_iff: "contains n h \<longleftrightarrow> (\<exists>a b. h = a @ n @ b)"
proof (induction n h rule: contains.induct)
  case (2 n c cs)
  have "take (length n) (c # cs) = n \<longleftrightarrow> (\<exists>b. c # cs = n @ b)"
    by (metis append_eq_conv_conj append_take_drop_id)
  then show ?case
    using 2 by (auto simp: Cons_eq_append_conv)
qed auto

lemma contains_chars: "contains n h \<Longrightarrow> set n \<subseteq> set h"
  by (auto simp: contains_iff)

lemma lower_char_not_upper:
  "\<not> (65 \<le> (of_char (lower_char c) :: nat) \<and> (of_char (lower_char c) :: nat) \<le> 90)"
  by (auto simp: lower_char_def of_char_of)

lemma to_lowercase_no_upper:
  "c \<in> set (to_lowercase s) \<Longrightarrow> \<not> (65 \<le> (of_char c :: nat) \<and> (of_char c :: nat) \<le> 90)"
  using lower_char_not_upper by (auto simp: to_lowercase_def)

definition in_quotes :: "string \<Rightarrow> string" where
  "in_quotes s = [CHR 0x22] @ s @ [CHR 0x22]"

definition starts_with :: "string \<Rightarrow> string \<Rightarrow> bool" where
  "starts_with p s \<longleftrightarrow> take (length p) s = p"

text \<open>\<^verbatim>\<open>to_string\<close> of integers.\<close>

fun digits_of :: "nat \<Rightarrow> string" where
  "digits_of n = (if n < 10 then [char_of (48 + n)] else digits_of (n div 10) @ [char_of (48 + n mod 10)])"

declare digits_of.simps [simp del]

definition string_of_nat :: "nat \<Rightarrow> string" where
  "string_of_nat n = digits_of n"

definition string_of_int :: "int \<Rightarrow> string" where
  "string_of_int i = (if i < 0 then ''-'' @ digits_of (nat (- i)) else digits_of (nat i))"

end
