(* ===== verification/Decimal.thy ===== *)
theory Decimal
  imports Prelude
begin

text \<open>
  \<^verbatim>\<open>BigDecimal\<close> values. The crate \<^verbatim>\<open>bigdecimal\<close> is a dependency: its addition, subtraction,
  multiplication and comparison are documented as exact, so a value is a rational number and these
  operations are those of the rationals. The operations that depend on a precision or a rounding
  mode are the parameters collected in \<^verbatim>\<open>dec_ops\<close>; \<^verbatim>\<open>dec_laws\<close> states what is documented of
  them, and \<^verbatim>\<open>exact_dec\<close> is an instance with exact division.
\<close>

record dec_ops =
  dec_div :: "rat \<Rightarrow> rat \<Rightarrow> rat"
  dec_round0 :: "rat \<Rightarrow> rat"
  dec_ceil0 :: "rat \<Rightarrow> rat"
  dec_trunc0 :: "rat \<Rightarrow> rat"

text \<open>
  \<^verbatim>\<open>a / b\<close> (it panics on a zero divisor), \<^verbatim>\<open>x.round(0)\<close>,
  \<^verbatim>\<open>x.with_scale_round(0, Ceiling)\<close>, \<^verbatim>\<open>x.with_scale(0)\<close>.
\<close>

definition trunc_rat :: "rat \<Rightarrow> int" where
  "trunc_rat x = (if 0 \<le> x then \<lfloor>x\<rfloor> else \<lceil>x\<rceil>)"

definition dec_laws :: "dec_ops \<Rightarrow> bool" where
  "dec_laws D \<longleftrightarrow>
    (\<forall>x. dec_round0 D x \<in> \<int> \<and> \<bar>dec_round0 D x - x\<bar> \<le> 1 / 2) \<and>
    (\<forall>x. dec_ceil0 D x = of_int \<lceil>x\<rceil>) \<and>
    (\<forall>x. dec_trunc0 D x = of_int (trunc_rat x))"

definition exact_div :: "dec_ops \<Rightarrow> bool" where
  "exact_div D \<longleftrightarrow> (\<forall>x y. y \<noteq> 0 \<longrightarrow> dec_div D x y = x / y)"

definition exact_dec :: dec_ops where
  "exact_dec = \<lparr>dec_div = (/), dec_round0 = (\<lambda>x. of_int \<lfloor>x + 1 / 2\<rfloor>),
    dec_ceil0 = (\<lambda>x. of_int \<lceil>x\<rceil>), dec_trunc0 = (\<lambda>x. of_int (trunc_rat x))\<rparr>"

lemma exact_dec_sel [simp]:
  "dec_div exact_dec x y = x / y"
  "dec_round0 exact_dec x = of_int \<lfloor>x + 1 / 2\<rfloor>"
  "dec_ceil0 exact_dec x = of_int \<lceil>x\<rceil>"
  "dec_trunc0 exact_dec x = of_int (trunc_rat x)"
  by (simp_all add: exact_dec_def)

lemma floor_half: "\<bar>of_int \<lfloor>x + 1 / 2\<rfloor> - x\<bar> \<le> (1 / 2 :: rat)"
  using floor_correct [of "x + 1 / 2"] by linarith

lemma exact_dec_laws [simp]: "dec_laws exact_dec"
  unfolding dec_laws_def exact_dec_sel
  by (intro conjI allI Ints_of_int floor_half refl)

lemma exact_dec_div [simp]: "exact_div exact_dec"
  by (simp add: exact_div_def)

lemma dec_ceil0_law: "dec_laws D \<Longrightarrow> dec_ceil0 D x = of_int \<lceil>x\<rceil>"
  by (simp add: dec_laws_def)

lemma dec_trunc0_law: "dec_laws D \<Longrightarrow> dec_trunc0 D x = of_int (trunc_rat x)"
  by (simp add: dec_laws_def)

lemma dec_round0_int: "dec_laws D \<Longrightarrow> \<exists>z. dec_round0 D x = of_int z"
  unfolding dec_laws_def by (meson Ints_cases)

lemma dec_round0_near: "dec_laws D \<Longrightarrow> \<bar>dec_round0 D x - x\<bar> \<le> 1 / 2"
  by (simp add: dec_laws_def)

lemma dec_round0_of_int:
  assumes "dec_laws D"
  shows "dec_round0 D (of_int n) = of_int n"
proof -
  obtain z where z: "dec_round0 D (of_int n) = of_int z"
    using dec_round0_int [OF assms] by blast
  have "\<bar>rat_of_int z - of_int n\<bar> \<le> 1 / 2"
    using dec_round0_near [OF assms, of "of_int n"] z by simp
  then have "rat_of_int z < rat_of_int (n + 1)" "rat_of_int (n - 1) < rat_of_int z"
    unfolding of_int_add of_int_diff of_int_1 by linarith+
  then have "z = n"
    by linarith
  with z show ?thesis by simp
qed

lemma dec_round0_nonneg:
  assumes "dec_laws D" "0 \<le> x"
  shows "0 \<le> dec_round0 D x"
proof -
  obtain z where z: "dec_round0 D x = of_int z"
    using dec_round0_int [OF assms(1)] by blast
  have "- 1 < rat_of_int z"
    using dec_round0_near [OF assms(1), of x] assms(2) z by linarith
  then show ?thesis using z by simp
qed

text \<open>
  \<^verbatim>\<open>x.to_i32()\<close>: the integer part when it fits, \<^verbatim>\<open>None\<close> otherwise.
\<close>

definition to_i32 :: "rat \<Rightarrow> int option" where
  "to_i32 x = (if in_i32 (trunc_rat x) then Some (trunc_rat x) else None)"

definition to_i32_or_zero :: "rat \<Rightarrow> int" where
  "to_i32_or_zero x = (case to_i32 x of None \<Rightarrow> 0 | Some n \<Rightarrow> n)"

lemma trunc_of_int [simp]: "trunc_rat (of_int z) = z"
  by (simp add: trunc_rat_def)

lemma trunc_numeral [simp]: "trunc_rat (numeral n) = numeral n" "trunc_rat 0 = 0" "trunc_rat 1 = 1"
  by (simp_all add: trunc_rat_def)

lemma to_i32_or_zero_of_int [int_simps]:
  "to_i32_or_zero (of_int z) = (if in_i32 z then z else 0)"
  by (simp add: to_i32_or_zero_def to_i32_def)

lemma to_i32_or_zero_range [simp]: "in_i32 (to_i32_or_zero x)"
  by (simp add: to_i32_or_zero_def to_i32_def in_i32_def)

lemma to_i32_or_zero_ceil:
  assumes "dec_laws D"
  shows "to_i32_or_zero (dec_ceil0 D x) = (if in_i32 \<lceil>x\<rceil> then \<lceil>x\<rceil> else 0)"
  by (simp add: dec_ceil0_law [OF assms] int_simps)

lemma to_i32_or_zero_round:
  assumes "dec_laws D" "to_i32_or_zero (dec_round0 D x) \<noteq> 0"
  shows "\<bar>of_int (to_i32_or_zero (dec_round0 D x)) - x\<bar> \<le> 1 / 2"
proof -
  obtain z where z: "dec_round0 D x = of_int z"
    using dec_round0_int [OF assms(1)] by blast
  then show ?thesis
    using dec_round0_near [OF assms(1), of x] assms(2) by (simp add: int_simps split: if_splits)
qed

text \<open>
  \<^verbatim>\<open>a / b\<close> in the source: a zero divisor panics.
\<close>

definition div_res :: "dec_ops \<Rightarrow> rat \<Rightarrow> rat \<Rightarrow> rat res" where
  "div_res D a b = (if b = 0 then Inl (Panic ''Division by zero'') else Inr (dec_div D a b))"

lemma div_res_Inr [res_simps]: "div_res D a b = Inr q \<longleftrightarrow> b \<noteq> 0 \<and> q = dec_div D a b"
  by (auto simp: div_res_def)

end
