(* ===== verification/Calendar.thy ===== *)
theory Calendar
  imports Prelude
begin

text \<open>
  Dates and times. A \<^verbatim>\<open>NaiveDate\<close> is the number of days since 1970-01-01, a
  \<^verbatim>\<open>NaiveDateTime\<close> the number of nanoseconds since that midnight. The first and the last date that
  \<^verbatim>\<open>chrono\<close> represents are a parameter.
\<close>

type_synonym naive_date = int
type_synonym naive_datetime = int

record date_limits =
  date_min :: int
  date_max :: int

definition second_ns :: int where
  "second_ns = 1000000000"

definition day_ns :: int where
  "day_ns = 86400 * second_ns"

definition midnight :: "naive_date \<Rightarrow> naive_datetime" where
  "midnight d = d * day_ns"

definition date_of :: "naive_datetime \<Rightarrow> naive_date" where
  "date_of t = t div day_ns"

definition hour_of :: "naive_datetime \<Rightarrow> int" where
  "hour_of t = t mod day_ns div (3600 * second_ns)"

definition minute_of :: "naive_datetime \<Rightarrow> int" where
  "minute_of t = t mod (3600 * second_ns) div (60 * second_ns)"

definition num_seconds :: "int \<Rightarrow> int" where
  "num_seconds dt = rust_div dt second_ns"

definition succ_opt :: "date_limits \<Rightarrow> naive_date \<Rightarrow> naive_date option" where
  "succ_opt L d = (if d < date_max L then Some (d + 1) else None)"

definition pred_opt :: "date_limits \<Rightarrow> naive_date \<Rightarrow> naive_date option" where
  "pred_opt L d = (if date_min L < d then Some (d - 1) else None)"

lemma date_of_midnight [simp]: "date_of (midnight d) = d"
  by (simp add: date_of_def midnight_def day_ns_def second_ns_def)

lemma midnight_le [simp]: "midnight d \<le> midnight e \<longleftrightarrow> d \<le> e"
  by (simp add: midnight_def day_ns_def second_ns_def)

lemma midnight_less [simp]: "midnight d < midnight e \<longleftrightarrow> d < e"
  by (simp add: midnight_def day_ns_def second_ns_def)

lemma day_ns_pos [simp]: "0 < day_ns"
  by (simp add: day_ns_def second_ns_def)

lemma int_div_eq_iff:
  fixes t :: int
  assumes "0 < n"
  shows "t div n = d \<longleftrightarrow> d * n \<le> t \<and> t < (d + 1) * n"
proof
  assume "t div n = d"
  then show "d * n \<le> t \<and> t < (d + 1) * n"
    using div_mult_mod_eq [of t n] pos_mod_sign [OF assms, of t] pos_mod_bound [OF assms, of t]
    unfolding distrib_right mult_1 by (metis add.commute add_increasing2 add_less_cancel_left order_refl)
next
  assume a: "d * n \<le> t \<and> t < (d + 1) * n"
  have "t = n * d + (t - n * d)" by simp
  moreover have "0 \<le> t - n * d" "t - n * d < n"
    using a by (simp_all add: algebra_simps)
  ultimately show "t div n = d"
    by (rule int_div_pos_eq)
qed

lemma in_day_iff: "midnight d \<le> t \<and> t < midnight (d + 1) \<longleftrightarrow> date_of t = d"
  by (simp add: date_of_def midnight_def int_div_eq_iff)

lemma hour_of_bounds: "0 \<le> hour_of t \<and> hour_of t \<le> 23"
proof -
  have "0 \<le> t mod day_ns" "t mod day_ns < 24 * (3600 * second_ns)"
    using pos_mod_bound [of day_ns t] by (simp_all add: day_ns_def second_ns_def)
  then have "t mod day_ns div (3600 * second_ns) < 24 \<and> 0 \<le> t mod day_ns div (3600 * second_ns)"
    by (simp add: second_ns_def pos_imp_zdiv_nonneg_iff div_less_iff_less_mult)
  then show ?thesis unfolding hour_of_def by linarith
qed

lemma num_seconds_nonneg: "0 \<le> dt \<Longrightarrow> num_seconds dt = dt div second_ns"
  by (simp add: num_seconds_def int_simps second_ns_def)

lemma num_seconds_whole: "num_seconds (n * second_ns) = n"
  by (auto simp: num_seconds_def rust_div_def second_ns_def abs_mult)

end
