(* ===== verification/Api_Errors.thy ===== *)
theory Api_Errors
  imports Prelude
begin

text \<open>
  The error type of the HTTP layer (\<^verbatim>\<open>bento-types/src/errors/api.rs\<close>): the variants of
  \<^verbatim>\<open>AppError\<close>, their status codes, the classification of an \<^verbatim>\<open>anyhow\<close> error by the words of
  its message, and the pagination parameters of \<^verbatim>\<open>bento-server\<close>.
\<close>

datatype app_error =
    Internal string
  | DatabaseError string
  | ValidationError string
  | NotFound string
  | Unauthorized string
  | Forbidden string
  | BadRequest string

text \<open>A handler ends with a response, with an \<^verbatim>\<open>AppError\<close>, or with a panic of its task.\<close>

datatype handler_error = Rejected app_error | Panicked string

definition display :: "app_error \<Rightarrow> string" where
  "display e = (case e of
      Internal _ \<Rightarrow> ''Internal server error''
    | DatabaseError m \<Rightarrow> ''Database error: '' @ m
    | ValidationError m \<Rightarrow> ''Validation error: '' @ m
    | NotFound m \<Rightarrow> ''Not found: '' @ m
    | Unauthorized m \<Rightarrow> ''Unauthorized: '' @ m
    | Forbidden m \<Rightarrow> m
    | BadRequest m \<Rightarrow> m)"

record error_body =
  eb_success :: bool
  eb_message :: string
  eb_code :: nat

definition into_response :: "app_error \<Rightarrow> nat \<times> error_body" where
  "into_response e =
    (let (status, msg) = (case e of
        Internal m \<Rightarrow> (500, m)
      | DatabaseError m \<Rightarrow> (500, ''Database error occurred: '' @ m)
      | ValidationError m \<Rightarrow> (422, ''Validation error: '' @ m)
      | NotFound m \<Rightarrow> (404, ''Not found: '' @ m)
      | Unauthorized m \<Rightarrow> (401, ''Unauthorized: '' @ m)
      | Forbidden m \<Rightarrow> (403, ''Forbidden: '' @ m)
      | BadRequest m \<Rightarrow> (400, ''Bad request: '' @ m))
     in (status, \<lparr>eb_success = False, eb_message = msg, eb_code = status\<rparr>))"

definition app_error_of_anyhow :: "string \<Rightarrow> app_error" where
  "app_error_of_anyhow error =
    (let error_msg = to_lowercase error in
     if contains ''database'' error_msg \<or> contains ''SQL'' error_msg then DatabaseError error
     else if contains ''validation'' error_msg then ValidationError error_msg
     else if contains ''authentication'' error_msg \<or> contains ''unauthorized'' error_msg
       then Unauthorized error_msg
     else if contains ''not found'' error_msg then NotFound error_msg
     else Internal error)"

text \<open>The \<^verbatim>\<open>?\<close> of a handler on a call that returns \<^verbatim>\<open>anyhow::Result\<close>.\<close>

fun handler_err :: "error \<Rightarrow> handler_error" where
  "handler_err (Error m) = Rejected (app_error_of_anyhow m)"
| "handler_err (Panic m) = Panicked m"

definition reject :: "app_error \<Rightarrow> ('s, handler_error, 'a) action" where
  "reject e = fail_act (Rejected e)"

lemma reject_simp [res_simps]: "reject e s = (Inl (Rejected e), s)"
  by (simp add: reject_def act_simps)

text \<open>\<^verbatim>\<open>repo.call().await?\<close> in a handler.\<close>

definition call :: "('s \<Rightarrow> 'a res \<times> 's) \<Rightarrow> ('s, handler_error, 'a) action" where
  "call m = map_err_act handler_err m"

lemma call_simp [res_simps]:
  "m s = (Inr a, t) \<Longrightarrow> call m s = (Inr a, t)"
  "m s = (Inl e, t) \<Longrightarrow> call m s = (Inl (handler_err e), t)"
  by (simp_all add: call_def map_err_act_def)

datatype repository_error = BlockNotFound string | RepoDatabaseError string | RepoOther string

fun app_error_of_repository :: "repository_error \<Rightarrow> app_error" where
  "app_error_of_repository (BlockNotFound h) = NotFound (''Block not found: '' @ h)"
| "app_error_of_repository (RepoDatabaseError m) = DatabaseError m"
| "app_error_of_repository (RepoOther m) = Internal m"

definition app_error_of_rejection :: "string \<Rightarrow> app_error" where
  "app_error_of_rejection body = BadRequest body"

section \<open>Pagination\<close>

record pagination =
  pg_offset :: int
  pg_limit :: int

definition default_offset :: int where
  "default_offset = 0"

definition default_limit :: int where
  "default_limit = 10"

definition get_offset :: "pagination \<Rightarrow> int" where
  "get_offset p = (if pg_offset p < 0 then 0 else pg_offset p)"

definition get_limit :: "pagination \<Rightarrow> int" where
  "get_limit p = (if pg_limit p \<le> 0 \<or> pg_limit p > 100 then 10 else pg_limit p)"

text \<open>
  \<^verbatim>\<open>deserialize_number_from_string\<close>: an empty string is 0; otherwise \<^verbatim>\<open>i64::from_str\<close>, a sign
  followed by at least one decimal digit, in the range of the type.
\<close>

definition digit_of :: "char \<Rightarrow> int option" where
  "digit_of c = (let n = (of_char c :: nat) in
    if 48 \<le> n \<and> n \<le> 57 then Some (int (n - 48)) else None)"

fun parse_digits :: "string \<Rightarrow> int \<Rightarrow> int option" where
  "parse_digits [] acc = Some acc"
| "parse_digits (c # cs) acc =
    (case digit_of c of None \<Rightarrow> None | Some d \<Rightarrow> parse_digits cs (10 * acc + d))"

definition i64_from_str :: "string \<Rightarrow> int option" where
  "i64_from_str s =
    (let (neg, ds) = (case s of [] \<Rightarrow> (False, [])
        | c # cs \<Rightarrow> if c = CHR ''-'' then (True, cs) else if c = CHR ''+'' then (False, cs) else (False, s))
     in if ds = [] then None
        else case parse_digits ds 0 of None \<Rightarrow> None
          | Some n \<Rightarrow> (let v = (if neg then - n else n) in if in_i64 v then Some v else None))"

definition deserialize_number_from_string :: "string \<Rightarrow> int res" where
  "deserialize_number_from_string s =
    (if s = [] then Inr 0 else ok_or ''invalid digit found in string'' (i64_from_str s))"

lemma get_limit_bounds: "1 \<le> get_limit p \<and> get_limit p \<le> 100"
  by (simp add: get_limit_def)

lemma get_offset_nonneg: "0 \<le> get_offset p"
  by (simp add: get_offset_def)

lemma sql_page_pagination:
  "sql_page (get_offset p) (get_limit p) xs
    = Inr (take (nat (get_limit p)) (drop (nat (get_offset p)) xs))"
  using get_limit_bounds [of p] get_offset_nonneg [of p] by (simp add: sql_page_def)

lemma no_upper_SQL: "\<not> contains ''SQL'' (to_lowercase m)"
  using contains_chars [of "''SQL''" "to_lowercase m"] to_lowercase_no_upper [of "CHR ''S''" m]
  by auto

text \<open>
  Classifying an \<^verbatim>\<open>anyhow\<close> error never takes the branch for a message that mentions
  \<^verbatim>\<open>"SQL"\<close>: the message is lowercased before it is searched, so \<^verbatim>\<open>DatabaseError\<close> is chosen exactly
  when the lowercased message contains \<^verbatim>\<open>"database"\<close>.
\<close>
lemma sql_branch_is_dead:
  "app_error_of_anyhow m = DatabaseError n
    \<longleftrightarrow> n = m \<and> contains ''database'' (to_lowercase m)"
  using no_upper_SQL by (auto simp: app_error_of_anyhow_def Let_def)

end
