(* ===== verification/Keyed_Store.thy ===== *)
theory Keyed_Store
  imports Prelude
begin

text \<open>
  Database tables with a unique key. A table is its list of rows and the next value of its id
  sequence. The three ways in which the repositories write are here: a plain insert that fails on
  a duplicate key, \<^verbatim>\<open>ON CONFLICT DO NOTHING\<close>, and \<^verbatim>\<open>ON CONFLICT DO UPDATE\<close>. The locales state what
  a table must promise (a row stored for a value has the key of the value), and prove once what
  all the repositories rely on: keys stay unique, a lookup finds the first or the last write, and
  writing the same batch again changes no row.
\<close>

record 'r table =
  t_rows :: "'r list"
  t_next :: int

definition empty_table :: "'r table" where
  "empty_table = \<lparr>t_rows = [], t_next = 1\<rparr>"

definition append_row :: "(int \<Rightarrow> 'n \<Rightarrow> 'r) \<Rightarrow> 'n \<Rightarrow> 'r table \<Rightarrow> 'r table" where
  "append_row mk n T = T\<lparr>t_rows := t_rows T @ [mk (t_next T) n], t_next := t_next T + 1\<rparr>"

text \<open>A conflicting row has already taken its id from the sequence.\<close>

definition skip_row :: "'r table \<Rightarrow> 'r table" where
  "skip_row T = T\<lparr>t_next := t_next T + 1\<rparr>"

definition has_key :: "('r \<Rightarrow> 'k) \<Rightarrow> 'k \<Rightarrow> 'r table \<Rightarrow> bool" where
  "has_key kr k T \<longleftrightarrow> k \<in> set (List.map kr (t_rows T))"

definition lookup :: "('r \<Rightarrow> 'k) \<Rightarrow> 'k \<Rightarrow> 'r table \<Rightarrow> 'r option" where
  "lookup kr k T = List.find (\<lambda>r. kr r = k) (t_rows T)"

definition insert_ignore1 ::
  "('n \<Rightarrow> 'k) \<Rightarrow> ('r \<Rightarrow> 'k) \<Rightarrow> (int \<Rightarrow> 'n \<Rightarrow> 'r) \<Rightarrow> 'n \<Rightarrow> 'r table \<Rightarrow> 'r table" where
  "insert_ignore1 kn kr mk n T = (if has_key kr (kn n) T then skip_row T else append_row mk n T)"

definition insert_ignore ::
  "('n \<Rightarrow> 'k) \<Rightarrow> ('r \<Rightarrow> 'k) \<Rightarrow> (int \<Rightarrow> 'n \<Rightarrow> 'r) \<Rightarrow> 'n list \<Rightarrow> 'r table \<Rightarrow> 'r table" where
  "insert_ignore kn kr mk ns T = fold (insert_ignore1 kn kr mk) ns T"

definition duplicate_key :: error where
  "duplicate_key = Error ''duplicate key value violates unique constraint''"

definition insert_unique ::
  "('n \<Rightarrow> 'k) \<Rightarrow> ('r \<Rightarrow> 'k) \<Rightarrow> (int \<Rightarrow> 'n \<Rightarrow> 'r) \<Rightarrow> 'n \<Rightarrow> ('r table, error, 'r) action" where
  "insert_unique kn kr mk n T =
    (if has_key kr (kn n) T then (Inl duplicate_key, skip_row T)
     else (Inr (mk (t_next T) n), append_row mk n T))"

definition upsert1 ::
  "('n \<Rightarrow> 'k) \<Rightarrow> ('r \<Rightarrow> 'k) \<Rightarrow> (int \<Rightarrow> 'n \<Rightarrow> 'r) \<Rightarrow> ('n \<Rightarrow> 'r \<Rightarrow> 'r) \<Rightarrow> 'n \<Rightarrow> 'r table \<Rightarrow> 'r table" where
  "upsert1 kn kr mk upd n T =
    (if has_key kr (kn n) T
     then (skip_row T)\<lparr>t_rows := List.map (\<lambda>r. if kr r = kn n then upd n r else r) (t_rows T)\<rparr>
     else append_row mk n T)"

definition upsert ::
  "('n \<Rightarrow> 'k) \<Rightarrow> ('r \<Rightarrow> 'k) \<Rightarrow> (int \<Rightarrow> 'n \<Rightarrow> 'r) \<Rightarrow> ('n \<Rightarrow> 'r \<Rightarrow> 'r) \<Rightarrow> 'n list \<Rightarrow> ('r table, error, unit) action"
  where
  "upsert kn kr mk upd ns T =
    (if \<not> distinct (List.map kn ns)
     then (Inl (Error ''ON CONFLICT DO UPDATE command cannot affect row a second time''), T)
     else (Inr (), fold (upsert1 kn kr mk upd) ns T))"

definition keys_unique :: "('r \<Rightarrow> 'k) \<Rightarrow> 'r table \<Rightarrow> bool" where
  "keys_unique kr T \<longleftrightarrow> distinct (List.map kr (t_rows T))"

text \<open>Every id of the table was taken from its sequence, once.\<close>

definition ids_fresh :: "('r \<Rightarrow> int) \<Rightarrow> 'r table \<Rightarrow> bool" where
  "ids_fresh idr T \<longleftrightarrow> distinct (List.map idr (t_rows T)) \<and> (\<forall>r\<in>set (t_rows T). idr r < t_next T)"

lemma table_simps [simp]:
  "t_rows (append_row mk n T) = t_rows T @ [mk (t_next T) n]"
  "t_next (append_row mk n T) = t_next T + 1"
  "t_rows (skip_row T) = t_rows T"
  "t_next (skip_row T) = t_next T + 1"
  "t_rows empty_table = []"
  by (simp_all add: append_row_def skip_row_def empty_table_def)

lemma keys_unique_empty [simp]: "keys_unique kr empty_table"
  by (simp add: keys_unique_def)

lemma lookup_None_iff: "lookup kr k T = None \<longleftrightarrow> \<not> has_key kr k T"
  by (auto simp: lookup_def has_key_def find_None_iff)

lemma lookup_Some_in: "lookup kr k T = Some r \<Longrightarrow> r \<in> set (t_rows T) \<and> kr r = k"
  by (auto simp: lookup_def find_Some_iff)

lemma distinct_map_unique:
  "distinct (List.map f xs) \<Longrightarrow> x \<in> set xs \<Longrightarrow> y \<in> set xs \<Longrightarrow> f x = f y \<Longrightarrow> x = y"
  by (metis distinct_map inj_onD)

lemma lookup_unique:
  assumes "keys_unique kr T" "r \<in> set (t_rows T)"
  shows "lookup kr (kr r) T = Some r"
proof (cases "lookup kr (kr r) T")
  case None
  with assms(2) show ?thesis
    by (auto simp: lookup_None_iff has_key_def)
next
  case (Some s)
  with lookup_Some_in [OF this] assms show ?thesis
    by (auto simp: keys_unique_def dest: distinct_map_unique)
qed

lemma find_append: "List.find P (xs @ ys) = (case List.find P xs of None \<Rightarrow> List.find P ys | Some x \<Rightarrow> Some x)"
  by (induction xs) auto

lemma find_distinct_mset:
  assumes m: "mset ns = mset ms" and d: "distinct (List.map f ns)"
  shows "List.find (\<lambda>n. f n = k) ns = List.find (\<lambda>n. f n = k) ms"
proof (cases "List.find (\<lambda>n. f n = k) ms")
  case None
  then show ?thesis
    using mset_eq_setD [OF m] find_None_iff [of "\<lambda>n. f n = k" ms]
      find_None_iff [of "\<lambda>n. f n = k" ns] by simp
next
  case (Some x)
  then have x: "x \<in> set ns" "f x = k"
    using mset_eq_setD [OF m] by (auto simp: find_Some_iff)
  then obtain y where y: "List.find (\<lambda>n. f n = k) ns = Some y"
    using find_None_iff [of "\<lambda>n. f n = k" ns] by (cases "List.find (\<lambda>n. f n = k) ns") auto
  then have "y \<in> set ns" "f y = k"
    by (auto simp: find_Some_iff)
  with x d have "y = x"
    by (metis distinct_map_unique)
  with Some y show ?thesis by simp
qed

section \<open>Insertion\<close>

locale keyed_table =
  fixes kn :: "'n \<Rightarrow> 'k" and kr :: "'r \<Rightarrow> 'k" and mk :: "int \<Rightarrow> 'n \<Rightarrow> 'r"
  assumes key_of_row: "kr (mk i n) = kn n"
begin

lemma lookup_append:
  "lookup kr k (append_row mk n T) =
    (case lookup kr k T of None \<Rightarrow> if k = kn n then Some (mk (t_next T) n) else None | Some r \<Rightarrow> Some r)"
  by (auto simp: lookup_def find_append key_of_row split: option.splits)

lemma has_key_append [simp]: "has_key kr k (append_row mk n T) \<longleftrightarrow> has_key kr k T \<or> k = kn n"
  by (auto simp: has_key_def key_of_row)

lemma keys_unique_append:
  "keys_unique kr T \<Longrightarrow> \<not> has_key kr (kn n) T \<Longrightarrow> keys_unique kr (append_row mk n T)"
  by (auto simp: keys_unique_def has_key_def key_of_row)

lemma has_key_ignore1 [simp]: "has_key kr k (insert_ignore1 kn kr mk n T) \<longleftrightarrow> has_key kr k T \<or> k = kn n"
  by (auto simp: insert_ignore1_def has_key_def key_of_row)

lemma has_key_ignore:
  "has_key kr k (insert_ignore kn kr mk ns T) \<longleftrightarrow> has_key kr k T \<or> k \<in> kn ` set ns"
  unfolding insert_ignore_def by (induction ns arbitrary: T) auto

lemma keys_unique_ignore:
  "keys_unique kr T \<Longrightarrow> keys_unique kr (insert_ignore kn kr mk ns T)"
  unfolding insert_ignore_def
  by (induction ns arbitrary: T)
    (auto simp: insert_ignore1_def keys_unique_append, auto simp: keys_unique_def)

lemma ignore_known:
  assumes "\<forall>n\<in>set ns. has_key kr (kn n) T"
  shows "t_rows (insert_ignore kn kr mk ns T) = t_rows T"
  using assms unfolding insert_ignore_def
proof (induction ns arbitrary: T)
  case (Cons n ns)
  then have "\<forall>m\<in>set ns. has_key kr (kn m) (skip_row T)"
    by (simp add: has_key_def)
  from Cons.IH [OF this] Cons.prems show ?case
    by (simp add: insert_ignore1_def)
qed simp

lemma ignore_idem:
  "t_rows (insert_ignore kn kr mk ns (insert_ignore kn kr mk ns T)) = t_rows (insert_ignore kn kr mk ns T)"
  by (rule ignore_known) (auto simp: has_key_ignore)

lemma ignore_keeps: "\<exists>new. t_rows (insert_ignore kn kr mk ns T) = t_rows T @ new"
  unfolding insert_ignore_def
proof (induction ns arbitrary: T)
  case (Cons n ns)
  obtain new where "t_rows (fold (insert_ignore1 kn kr mk) ns (insert_ignore1 kn kr mk n T))
      = t_rows (insert_ignore1 kn kr mk n T) @ new"
    using Cons.IH by blast
  then show ?case
    by (cases "has_key kr (kn n) T") (auto simp: insert_ignore1_def [of kn kr mk n T])
qed simp

lemma ignore_lookup:
  "lookup kr k (insert_ignore kn kr mk ns T) = Some r \<Longrightarrow>
    lookup kr k T = Some r \<or> (\<exists>i n. n \<in> set ns \<and> r = mk i n \<and> kn n = k)"
  unfolding insert_ignore_def
proof (induction ns arbitrary: T)
  case (Cons n ns)
  from Cons.IH [of "insert_ignore1 kn kr mk n T"] Cons.prems
  have "lookup kr k (insert_ignore1 kn kr mk n T) = Some r
      \<or> (\<exists>i m. m \<in> set ns \<and> r = mk i m \<and> kn m = k)"
    by simp
  then show ?case
    by (auto simp: insert_ignore1_def lookup_append lookup_def [of _ _ "skip_row T"]
        lookup_def [of _ _ T] split: if_splits option.splits)
qed simp

lemma ignore_lookup_old:
  "lookup kr k T = Some r \<Longrightarrow> lookup kr k (insert_ignore kn kr mk ns T) = Some r"
  using ignore_keeps [of ns T] by (auto simp: lookup_def find_append)

text \<open>What is stored under a key: the old rows, or else the first of the new ones.\<close>

lemma ignore_filter:
  assumes mk: "\<And>i n. f (mk i n) = g n"
  shows "List.map f (filter (\<lambda>r. kr r = k) (t_rows (insert_ignore kn kr mk ns T))) =
    (if has_key kr k T then List.map f (filter (\<lambda>r. kr r = k) (t_rows T))
     else take 1 (List.map g (filter (\<lambda>n. kn n = k) ns)))"
  unfolding insert_ignore_def
proof (induction ns arbitrary: T)
  case Nil
  then show ?case
    by (auto simp: has_key_def filter_empty_conv)
next
  case (Cons n ns)
  have step: "List.map f (filter (\<lambda>r. kr r = k) (t_rows (insert_ignore1 kn kr mk n T))) =
      List.map f (filter (\<lambda>r. kr r = k) (t_rows T)) @ (if kn n = k \<and> \<not> has_key kr k T then [g n] else [])"
    by (auto simp: insert_ignore1_def key_of_row mk)
  have none: "\<not> has_key kr k T \<Longrightarrow> filter (\<lambda>r. kr r = k) (t_rows T) = []"
    by (auto simp: has_key_def filter_empty_conv)
  show ?case
    using Cons.IH [of "insert_ignore1 kn kr mk n T"] step none by auto
qed

lemma ignore_lookup_exact:
  assumes "\<And>i n. f (mk i n) = g n"
  shows "map_option f (lookup kr k (insert_ignore kn kr mk ns T)) =
    (case lookup kr k T of Some r \<Rightarrow> Some (f r) | None \<Rightarrow> map_option g (List.find (\<lambda>n. kn n = k) ns))"
proof -
  have "map_option f (lookup kr k (insert_ignore kn kr mk ns T))
      = first_of (if has_key kr k T then List.map f (filter (\<lambda>r. kr r = k) (t_rows T))
          else take 1 (List.map g (filter (\<lambda>n. kn n = k) ns)))"
    unfolding lookup_def find_eq_first_of first_of_map [symmetric]
    by (subst ignore_filter [where f = f and g = g]) (rule assms, rule refl)
  moreover have "first_of (take 1 (List.map g xs)) = map_option g (first_of xs)" for xs
    by (cases xs) simp_all
  moreover have "lookup kr k T = first_of (filter (\<lambda>r. kr r = k) (t_rows T))"
    by (simp add: lookup_def find_eq_first_of)
  ultimately show ?thesis
    using lookup_None_iff [of kr k T]
    by (cases "first_of (filter (\<lambda>r. kr r = k) (t_rows T))")
      (simp_all add: first_of_map find_eq_first_of del: first_of_None)
qed

lemma insert_unique_Inr:
  "insert_unique kn kr mk n T = (Inr r, T') \<longleftrightarrow>
    \<not> has_key kr (kn n) T \<and> r = mk (t_next T) n \<and> T' = append_row mk n T"
  by (auto simp: insert_unique_def)

lemma keys_unique_insert:
  "keys_unique kr T \<Longrightarrow> keys_unique kr (snd (insert_unique kn kr mk n T))"
  by (auto simp: insert_unique_def keys_unique_append, auto simp: keys_unique_def)

end

section \<open>Upsert\<close>

locale upsert_table = keyed_table kn kr mk
  for kn :: "'n \<Rightarrow> 'k" and kr :: "'r \<Rightarrow> 'k" and mk :: "int \<Rightarrow> 'n \<Rightarrow> 'r" +
  fixes upd :: "'n \<Rightarrow> 'r \<Rightarrow> 'r" and content :: "'r \<Rightarrow> 'c" and content_n :: "'n \<Rightarrow> 'c"
  assumes key_of_upd: "kr (upd n r) = kr r"
    and content_mk: "content (mk i n) = content_n n"
    and content_upd: "kr r = kn n \<Longrightarrow> content (upd n r) = content_n n"
begin

lemma keys_update [simp]:
  "List.map (\<lambda>r. kr (if kr r = k then upd n r else r)) rs = List.map kr rs"
  by (simp add: key_of_upd)

lemma keys_upsert1:
  "has_key kr k (upsert1 kn kr mk upd n T) \<longleftrightarrow> has_key kr k T \<or> k = kn n"
  by (auto simp: upsert1_def has_key_def key_of_row o_def simp flip: set_map)

lemma keys_unique_upsert1:
  assumes "keys_unique kr T"
  shows "keys_unique kr (upsert1 kn kr mk upd n T)"
proof (cases "has_key kr (kn n) T")
  case True
  with assms show ?thesis by (simp add: upsert1_def keys_unique_def o_def)
next
  case False
  with assms show ?thesis by (simp add: upsert1_def keys_unique_append)
qed

lemma content_upsert1:
  "map_option content (lookup kr k (upsert1 kn kr mk upd n T)) =
    (if k = kn n then Some (content_n n) else map_option content (lookup kr k T))"
proof (cases "has_key kr (kn n) T")
  case True
  have f: "List.find (\<lambda>r. kr r = k) (List.map (\<lambda>r. if kr r = kn n then upd n r else r) rs) =
      map_option (\<lambda>r. if kr r = kn n then upd n r else r) (List.find (\<lambda>r. kr r = k) rs)" for rs
    by (induction rs) (auto simp: key_of_upd)
  have s: "lookup kr k T = Some r \<Longrightarrow> kr r = k" for r
    using lookup_Some_in [of kr k T r] by blast
  show ?thesis
  proof (cases "k = kn n")
    case k: True
    then obtain r where "lookup kr k T = Some r"
      using True lookup_None_iff [of kr k T] by (cases "lookup kr k T") auto
    with s [OF this] k True f [of "t_rows T"] show ?thesis
      by (simp add: upsert1_def lookup_def content_upd)
  next
    case False
    with True f [of "t_rows T"] s show ?thesis
      by (cases "lookup kr k T") (auto simp: upsert1_def lookup_def)
  qed
next
  case False
  then have "lookup kr (kn n) T = None"
    by (simp add: lookup_None_iff)
  with False show ?thesis
    by (auto simp: upsert1_def lookup_append content_mk split: option.splits)
qed

lemma keys_unique_upsert:
  "keys_unique kr T \<Longrightarrow> keys_unique kr (snd (upsert kn kr mk upd ns T))"
proof -
  have "keys_unique kr T \<Longrightarrow> keys_unique kr (fold (upsert1 kn kr mk upd) ns T)"
    by (induction ns arbitrary: T) (simp_all add: keys_unique_upsert1)
  then show "keys_unique kr T \<Longrightarrow> keys_unique kr (snd (upsert kn kr mk upd ns T))"
    by (simp add: upsert_def)
qed

lemma content_fold:
  assumes "distinct (List.map kn ns)"
  shows "map_option content (lookup kr k (fold (upsert1 kn kr mk upd) ns T)) =
    (case List.find (\<lambda>n. kn n = k) ns of Some n \<Rightarrow> Some (content_n n)
     | None \<Rightarrow> map_option content (lookup kr k T))"
  using assms
proof (induction ns arbitrary: T)
  case (Cons n ns)
  have "List.find (\<lambda>m. kn m = k) ns = None" if "k = kn n"
    using Cons.prems that unfolding find_None_iff by (metis distinct.simps(2) image_eqI list.set_map list.simps(9))
  moreover have "distinct (List.map kn ns)"
    using Cons.prems by simp
  note Cons.IH [OF this, of "upsert1 kn kr mk upd n T"]
  ultimately show ?case
    by (cases "k = kn n") (simp_all add: content_upsert1 split: option.split)
qed simp

text \<open>What a reader sees after a batch: the batch's own rows, and every other key untouched.\<close>

lemma content_upsert:
  assumes "upsert kn kr mk upd ns T = (Inr (), T')"
  shows "map_option content (lookup kr k T') =
    (case List.find (\<lambda>n. kn n = k) ns of Some n \<Rightarrow> Some (content_n n)
     | None \<Rightarrow> map_option content (lookup kr k T))"
  using assms content_fold by (auto simp: upsert_def split: if_splits)

lemma upsert_ok_iff: "(\<exists>T'. upsert kn kr mk upd ns T = (Inr (), T')) \<longleftrightarrow> distinct (List.map kn ns)"
  by (auto simp: upsert_def)

lemma upsert_again:
  assumes "upsert kn kr mk upd ns T = (Inr (), T1)" "upsert kn kr mk upd ns T1 = (Inr (), T2)"
  shows "map_option content (lookup kr k T2) = map_option content (lookup kr k T1)"
  using content_upsert [OF assms(1), of k] content_upsert [OF assms(2), of k]
  by (auto split: option.splits)

lemma upsert_perm:
  assumes "mset ns = mset ms" "upsert kn kr mk upd ns T = (Inr (), T1)"
    "upsert kn kr mk upd ms T = (Inr (), T2)"
  shows "map_option content (lookup kr k T1) = map_option content (lookup kr k T2)"
proof -
  have d: "distinct (List.map kn ns)" "distinct (List.map kn ms)"
    using assms(2,3) upsert_ok_iff by blast+
  have "List.find (\<lambda>n. kn n = k) ns = List.find (\<lambda>n. kn n = k) ms"
    by (rule find_distinct_mset [OF assms(1) d(1)])
  then show ?thesis
    using content_upsert [OF assms(2), of k] content_upsert [OF assms(3), of k] by simp
qed

end

section \<open>Id sequences\<close>

locale id_table =
  fixes mk :: "int \<Rightarrow> 'n \<Rightarrow> 'r" and idr :: "'r \<Rightarrow> int"
  assumes id_of_row: "idr (mk i n) = i"
begin

lemma ids_fresh_empty: "ids_fresh idr empty_table"
  by (simp add: ids_fresh_def)

lemma ids_fresh_append: "ids_fresh idr T \<Longrightarrow> ids_fresh idr (append_row mk n T)"
  by (force simp: ids_fresh_def id_of_row)

lemma ids_fresh_skip: "ids_fresh idr T \<Longrightarrow> ids_fresh idr (skip_row T)"
  by (force simp: ids_fresh_def)

lemma ids_fresh_insert_unique: "ids_fresh idr T \<Longrightarrow> ids_fresh idr (snd (insert_unique kn kr mk n T))"
  by (simp add: insert_unique_def ids_fresh_append ids_fresh_skip)

lemma ids_fresh_ignore: "ids_fresh idr T \<Longrightarrow> ids_fresh idr (insert_ignore kn kr mk ns T)"
  unfolding insert_ignore_def
  by (induction ns arbitrary: T) (simp_all add: insert_ignore1_def ids_fresh_append ids_fresh_skip)

lemma ids_fresh_map:
  assumes "ids_fresh idr T" "\<And>r. idr (f r) = idr r"
  shows "ids_fresh idr (T\<lparr>t_rows := List.map f (t_rows T)\<rparr>)"
  using assms by (simp add: ids_fresh_def o_def)

lemma ids_fresh_upsert1:
  assumes "ids_fresh idr T" "\<And>n r. idr (upd n r) = idr r"
  shows "ids_fresh idr (upsert1 kn kr mk upd n T)"
  using ids_fresh_map [OF ids_fresh_skip [OF assms(1)], of "\<lambda>r. if kr r = kn n then upd n r else r"] assms
  by (simp add: upsert1_def ids_fresh_append)

lemma ids_fresh_upsert:
  assumes "ids_fresh idr T" "\<And>n r. idr (upd n r) = idr r"
  shows "ids_fresh idr (snd (upsert kn kr mk upd ns T))"
proof -
  have "ids_fresh idr T \<Longrightarrow> ids_fresh idr (fold (upsert1 kn kr mk upd) ns T)" for T
    by (induction ns arbitrary: T) (simp_all add: ids_fresh_upsert1 assms(2))
  then show ?thesis
    using assms(1) by (simp add: upsert_def)
qed

end

end
