(* ===== verification/Points_Store.thy ===== *)
theory Points_Store
  imports Keyed_Store Calendar Decimal
begin

text \<open>
  The points tables and their repository (\<^verbatim>\<open>models/points.rs\<close>,
  \<^verbatim>\<open>repository/points_repository.rs\<close> of the indexer application): configuration, multipliers,
  seasons, referral codes, referrals and daily snapshots. Each repository method is a function of
  the tables; a method that writes is an action that returns the tables it leaves. Losing the
  database connection is not modelled. \<^verbatim>\<open>now\<close> is the database clock.
\<close>

section \<open>Data\<close>

record new_points_config =
  npc_action_type :: string
  npc_points_per_usd :: "rat option"
  npc_points_per_usd_per_day :: "rat option"
  npc_is_active :: bool

record points_config =
  pc_id :: int
  pc_action_type :: string
  pc_points_per_usd :: "rat option"
  pc_points_per_usd_per_day :: "rat option"
  pc_is_active :: bool
  pc_created_at :: naive_datetime
  pc_updated_at :: naive_datetime

record new_points_multiplier =
  npm_multiplier_type :: string
  npm_threshold_value :: rat
  npm_multiplier :: rat
  npm_is_active :: bool

record points_multiplier =
  pm_id :: int
  pm_multiplier_type :: string
  pm_threshold_value :: rat
  pm_multiplier :: rat
  pm_is_active :: bool
  pm_created_at :: naive_datetime

record new_season =
  nse_season_number :: int
  nse_start_date :: naive_date
  nse_end_date :: naive_date
  nse_max_tokens_distribution :: rat
  nse_is_active :: bool
  nse_tokens_allocation :: rat

record season =
  se_id :: int
  se_season_number :: int
  se_start_date :: naive_date
  se_end_date :: naive_date
  se_max_tokens_distribution :: rat
  se_is_active :: bool
  se_created_at :: naive_datetime
  se_tokens_allocation :: rat

record new_referral_code =
  nrc_code :: string
  nrc_owner_address :: string

record referral_code =
  rc_id :: int
  rc_code :: string
  rc_owner_address :: string
  rc_created_at :: naive_datetime

record new_user_referral =
  nur_user_address :: string
  nur_referred_by_address :: string

record user_referral =
  ur_id :: int
  ur_user_address :: string
  ur_referred_by_address :: string
  ur_created_at :: naive_datetime

record new_points_snapshot =
  nps_address :: string
  nps_snapshot_date :: naive_date
  nps_swap_points :: int
  nps_supply_points :: int
  nps_borrow_points :: int
  nps_base_points_total :: int
  nps_multiplier_type :: "string option"
  nps_multiplier_value :: rat
  nps_multiplier_points :: int
  nps_referral_points :: int
  nps_total_points :: int
  nps_total_volume_usd :: rat
  nps_season_id :: int

text \<open>
  A stored snapshot has the columns of the inserted one, an id and a creation time.
\<close>

record points_snapshot =
  ps_id :: int
  ps_created_at :: naive_datetime
  ps_row :: new_points_snapshot

record referral_detail =
  rd_referred_user_address :: string
  rd_bonus_points_earned :: int
  rd_referred_user_total_points :: int

record referral_summary =
  rs_total_referrals :: int
  rs_total_bonus_points :: int

record points_db =
  pd_configs :: "points_config table"
  pd_multipliers :: "points_multiplier table"
  pd_seasons :: "season table"
  pd_codes :: "referral_code table"
  pd_referrals :: "user_referral table"
  pd_snapshots :: "points_snapshot table"

definition empty_points_db :: points_db where
  "empty_points_db = \<lparr>pd_configs = empty_table, pd_multipliers = empty_table,
    pd_seasons = empty_table, pd_codes = empty_table, pd_referrals = empty_table,
    pd_snapshots = empty_table\<rparr>"

section \<open>Configuration and multipliers\<close>

definition get_points_config :: "points_db \<Rightarrow> points_config list" where
  "get_points_config db = filter pc_is_active (t_rows (pd_configs db))"

definition get_points_config_for_action :: "string \<Rightarrow> points_db \<Rightarrow> points_config option" where
  "get_points_config_for_action a db =
    first_of (filter pc_is_active (filter (\<lambda>c. pc_action_type c = a) (t_rows (pd_configs db))))"

definition mk_points_config :: "naive_datetime \<Rightarrow> int \<Rightarrow> new_points_config \<Rightarrow> points_config" where
  "mk_points_config now i n = \<lparr>pc_id = i, pc_action_type = npc_action_type n,
    pc_points_per_usd = npc_points_per_usd n,
    pc_points_per_usd_per_day = npc_points_per_usd_per_day n, pc_is_active = npc_is_active n,
    pc_created_at = now, pc_updated_at = now\<rparr>"

definition insert_points_config ::
  "naive_datetime \<Rightarrow> new_points_config list \<Rightarrow> (points_db, error, unit) action" where
  "insert_points_config now configs db =
    (if configs = [] then (Inr (), db)
     else (Inr (), db\<lparr>pd_configs :=
       insert_ignore npc_action_type pc_action_type (mk_points_config now) configs (pd_configs db)\<rparr>))"

definition asc_threshold :: "points_multiplier list \<Rightarrow> points_multiplier list" where
  "asc_threshold = sort_key pm_threshold_value"

definition get_active_multipliers :: "points_db \<Rightarrow> points_multiplier list" where
  "get_active_multipliers db = asc_threshold (filter pm_is_active (t_rows (pd_multipliers db)))"

definition get_multipliers_by_type :: "string \<Rightarrow> points_db \<Rightarrow> points_multiplier list" where
  "get_multipliers_by_type ty db =
    asc_threshold (filter pm_is_active (filter (\<lambda>m. pm_multiplier_type m = ty) (t_rows (pd_multipliers db))))"

definition mk_points_multiplier ::
  "naive_datetime \<Rightarrow> int \<Rightarrow> new_points_multiplier \<Rightarrow> points_multiplier" where
  "mk_points_multiplier now i n = \<lparr>pm_id = i, pm_multiplier_type = npm_multiplier_type n,
    pm_threshold_value = npm_threshold_value n, pm_multiplier = npm_multiplier n,
    pm_is_active = npm_is_active n, pm_created_at = now\<rparr>"

definition insert_multipliers ::
  "naive_datetime \<Rightarrow> new_points_multiplier list \<Rightarrow> (points_db, error, unit) action" where
  "insert_multipliers now ms db =
    (if ms = [] then (Inr (), db)
     else (Inr (), db\<lparr>pd_multipliers :=
       fold (append_row (mk_points_multiplier now)) ms (pd_multipliers db)\<rparr>))"

section \<open>Referral codes\<close>

definition get_referral_code :: "string \<Rightarrow> points_db \<Rightarrow> referral_code option" where
  "get_referral_code code db = first_of (filter (\<lambda>c. rc_code c = code) (t_rows (pd_codes db)))"

definition get_referral_code_by_owner :: "string \<Rightarrow> points_db \<Rightarrow> referral_code option" where
  "get_referral_code_by_owner owner db =
    first_of (filter (\<lambda>c. rc_owner_address c = owner) (t_rows (pd_codes db)))"

definition mk_referral_code :: "naive_datetime \<Rightarrow> int \<Rightarrow> new_referral_code \<Rightarrow> referral_code" where
  "mk_referral_code now i n = \<lparr>rc_id = i, rc_code = nrc_code n,
    rc_owner_address = nrc_owner_address n, rc_created_at = now\<rparr>"

definition insert_referral_code ::
  "naive_datetime \<Rightarrow> new_referral_code \<Rightarrow> (points_db, error, referral_code) action" where
  "insert_referral_code now n db =
    (case insert_unique nrc_code rc_code (mk_referral_code now) n (pd_codes db) of
      (r, T) \<Rightarrow> (r, db\<lparr>pd_codes := T\<rparr>))"

definition adjectives :: "string list" where
  "adjectives = [
    ''swift'', ''bright'', ''calm'', ''bold'', ''wise'', ''cool'', ''warm'', ''dark'', ''light'',
    ''quick'', ''slow'', ''soft'', ''hard'', ''fair'', ''wild'', ''tame'', ''grand'', ''small'',
    ''tall'', ''short'', ''long'', ''wide'', ''thin'', ''thick'', ''young'', ''old'', ''new'',
    ''pure'', ''clear'', ''deep'', ''flat'', ''steep'', ''sharp'', ''blunt'', ''rough'',
    ''smooth'', ''clean'', ''dirty'', ''fresh'', ''stale'', ''sweet'', ''sour'', ''spicy'',
    ''mild'', ''hot'', ''cold'', ''wet'', ''dry'', ''loud'', ''quiet'', ''high'', ''low'',
    ''fast'', ''slow'', ''strong'', ''weak'', ''rich'', ''poor'', ''full'', ''empty'', ''heavy'',
    ''light'', ''tight'', ''loose'', ''dense'', ''thin'', ''solid'', ''fluid'', ''stable'',
    ''shaky'', ''firm'', ''soft'', ''rigid'', ''flexible'', ''hard'', ''gentle'', ''harsh'',
    ''kind'', ''mean'', ''nice'', ''good'', ''bad'', ''great'', ''small'', ''huge'', ''tiny'',
    ''giant'', ''mini'', ''super'', ''ultra'', ''mega'', ''micro'', ''prime'', ''royal'',
    ''noble'', ''humble'', ''proud'', ''modest'', ''brave'', ''timid'', ''fierce'', ''meek'',
    ''bold'', ''shy'']"

definition nouns :: "string list" where
  "nouns = [
    ''tiger'', ''moon'', ''wave'', ''peak'', ''star'', ''wind'', ''fire'', ''rain'', ''stone'',
    ''leaf'', ''cloud'', ''river'', ''ocean'', ''mountain'', ''forest'', ''desert'', ''eagle'',
    ''wolf'', ''bear'', ''lion'', ''hawk'', ''fox'', ''deer'', ''horse'', ''dragon'', ''phoenix'',
    ''griffin'', ''falcon'', ''raven'', ''sparrow'', ''owl'', ''swan'', ''thunder'',
    ''lightning'', ''storm'', ''breeze'', ''gust'', ''gale'', ''mist'', ''fog'', ''sun'',
    ''comet'', ''planet'', ''galaxy'', ''cosmos'', ''void'', ''abyss'', ''horizon'', ''crystal'',
    ''diamond'', ''pearl'', ''ruby'', ''sapphire'', ''emerald'', ''jade'', ''opal'', ''shadow'',
    ''spirit'', ''ghost'', ''soul'', ''heart'', ''mind'', ''dream'', ''vision'', ''sword'',
    ''shield'', ''arrow'', ''spear'', ''blade'', ''hammer'', ''axe'', ''bow'', ''crown'',
    ''throne'', ''castle'', ''tower'', ''gate'', ''bridge'', ''path'', ''road'', ''flame'',
    ''ember'', ''spark'', ''blaze'', ''inferno'', ''torch'', ''beacon'', ''light'', ''frost'',
    ''ice'', ''snow'', ''winter'', ''spring'', ''summer'', ''autumn'', ''season'', ''dawn'',
    ''dusk'', ''twilight'', ''midnight'', ''noon'', ''morning'', ''evening'', ''night'']"

text \<open>\<^verbatim>\<open>u32::to_le_bytes\<close> and the bytes of a string.\<close>

definition to_le_bytes :: "nat \<Rightarrow> nat list" where
  "to_le_bytes n = [n mod 256, n div 256 mod 256, n div 65536 mod 256, n div 16777216 mod 256]"

definition str_bytes :: "string \<Rightarrow> nat list" where
  "str_bytes s = List.map of_char s"

definition code_number :: "nat list \<Rightarrow> nat" where
  "code_number hash = (hash ! 2 * 256 + hash ! 3) mod 900 + 100"

definition generate_readable_code :: "(nat list \<Rightarrow> nat list) \<Rightarrow> string \<Rightarrow> nat \<Rightarrow> string" where
  "generate_readable_code sha256 address attempt =
    (let hash = sha256 (str_bytes address @ to_le_bytes attempt);
         adj_index = hash ! 0 mod length adjectives;
         noun_index = hash ! 1 mod length nouns
     in to_uppercase (adjectives ! adj_index @ ''-'' @ nouns ! noun_index @ ''-''
          @ digits_of (code_number hash)))"

definition is_unique_violation :: "string \<Rightarrow> bool" where
  "is_unique_violation msg = (let m = to_lowercase msg in
    contains ''unique constraint'' m \<or> contains ''duplicate key'' m)"

text \<open>
  \<^verbatim>\<open>get_or_create_referral_code\<close>: five readable codes, then random codes until one is free. The
  random source is the stream \<^verbatim>\<open>rnd\<close>; the second loop has no bound in the code, so its result is
  \<^verbatim>\<open>None\<close> when it never ends.
\<close>

fun try_readable ::
  "(nat list \<Rightarrow> nat list) \<Rightarrow> naive_datetime \<Rightarrow> string \<Rightarrow> nat list \<Rightarrow> (points_db, error, string option) action"
  where
  "try_readable sha now owner [] db = (Inr None, db)"
| "try_readable sha now owner (attempt # rest) db =
    (case insert_referral_code now \<lparr>nrc_code = generate_readable_code sha owner attempt,
        nrc_owner_address = owner\<rparr> db of
      (Inr c, db') \<Rightarrow> (Inr (Some (rc_code c)), db')
    | (Inl (Error m), db') \<Rightarrow>
        if is_unique_violation m then try_readable sha now owner rest db' else (Inl (Error m), db')
    | (Inl (Panic m), db') \<Rightarrow> (Inl (Panic m), db'))"

partial_function (option) random_fallback ::
  "(nat \<Rightarrow> string) \<Rightarrow> naive_datetime \<Rightarrow> string \<Rightarrow> nat \<Rightarrow> points_db \<Rightarrow> (string res \<times> points_db) option"
  where
  "random_fallback rnd now owner i db =
    (case insert_referral_code now \<lparr>nrc_code = to_uppercase (rnd i), nrc_owner_address = owner\<rparr> db of
      (r, db') \<Rightarrow> (case r of
          Inr c \<Rightarrow> Some (Inr (rc_code c), db')
        | Inl e \<Rightarrow> (case e of
            Error m \<Rightarrow>
              if is_unique_violation m then random_fallback rnd now owner (i + 1) db'
              else Some (Inl (Error m), db')
          | Panic m \<Rightarrow> Some (Inl (Panic m), db'))))"

definition readable_attempts :: "nat list" where
  "readable_attempts = [0..<5]"

definition get_or_create_referral_code ::
  "(nat list \<Rightarrow> nat list) \<Rightarrow> (nat \<Rightarrow> string) \<Rightarrow> naive_datetime \<Rightarrow> string \<Rightarrow> points_db
    \<Rightarrow> (string res \<times> points_db) option" where
  "get_or_create_referral_code sha rnd now owner db =
    (case get_referral_code_by_owner owner db of
      Some existing_code \<Rightarrow> Some (Inr (rc_code existing_code), db)
    | None \<Rightarrow>
        (case try_readable sha now owner readable_attempts db of
          (Inl e, db') \<Rightarrow> Some (Inl e, db')
        | (Inr (Some code), db') \<Rightarrow> Some (Inr code, db')
        | (Inr None, db') \<Rightarrow> random_fallback rnd now owner 0 db'))"

section \<open>User referrals\<close>

definition get_all_user_referrals :: "points_db \<Rightarrow> user_referral list" where
  "get_all_user_referrals db = t_rows (pd_referrals db)"

definition get_user_referral :: "string \<Rightarrow> points_db \<Rightarrow> user_referral option" where
  "get_user_referral a db = first_of (filter (\<lambda>r. ur_user_address r = a) (t_rows (pd_referrals db)))"

definition mk_user_referral :: "naive_datetime \<Rightarrow> int \<Rightarrow> new_user_referral \<Rightarrow> user_referral" where
  "mk_user_referral now i n = \<lparr>ur_id = i, ur_user_address = nur_user_address n,
    ur_referred_by_address = nur_referred_by_address n, ur_created_at = now\<rparr>"

definition insert_user_referral ::
  "naive_datetime \<Rightarrow> new_user_referral \<Rightarrow> (points_db, error, user_referral) action" where
  "insert_user_referral now n db =
    (case insert_unique nur_user_address ur_user_address (mk_user_referral now) n (pd_referrals db) of
      (r, T) \<Rightarrow> (r, db\<lparr>pd_referrals := T\<rparr>))"

definition count_referrals_by_address :: "string \<Rightarrow> points_db \<Rightarrow> int" where
  "count_referrals_by_address a db =
    int (length (filter (\<lambda>r. ur_referred_by_address r = a) (t_rows (pd_referrals db))))"

text \<open>
  The rows that both referral queries join: a referred user with its latest snapshot of the season,
  kept only when some snapshot of the season has base points.
\<close>

definition latest_of :: "string \<Rightarrow> int \<Rightarrow> points_db \<Rightarrow> points_snapshot option" where
  "latest_of a season db = first_of (order_desc (\<lambda>s. nps_snapshot_date (ps_row s))
    (filter (\<lambda>s. nps_address (ps_row s) = a \<and> nps_season_id (ps_row s) = season)
      (t_rows (pd_snapshots db))))"

definition has_base_points :: "string \<Rightarrow> int \<Rightarrow> points_db \<Rightarrow> bool" where
  "has_base_points a season db = list_ex (\<lambda>s. nps_address (ps_row s) = a \<and>
    nps_season_id (ps_row s) = season \<and> nps_base_points_total (ps_row s) > 0) (t_rows (pd_snapshots db))"

definition referral_rows :: "string \<Rightarrow> int \<Rightarrow> points_db \<Rightarrow> (string \<times> int) list" where
  "referral_rows referrer season db = List.map_filter (\<lambda>r.
      (case latest_of (ur_user_address r) season db of
        None \<Rightarrow> None
      | Some s \<Rightarrow>
          if ur_referred_by_address r = referrer \<and> has_base_points (ur_user_address r) season db
          then Some (ur_user_address r, nps_total_points (ps_row s)) else None))
    (t_rows (pd_referrals db))"

definition get_referral_summary :: "string \<Rightarrow> int \<Rightarrow> points_db \<Rightarrow> referral_summary" where
  "get_referral_summary referrer season db =
    (let rows = referral_rows referrer season db;
         total_bonus_points = sum_list (List.map (\<lambda>(_, total). \<lfloor>of_int total * (5 / 100 :: rat)\<rfloor>) rows)
     in \<lparr>rs_total_referrals = int (length rows),
         rs_total_bonus_points = wrap_i32 total_bonus_points\<rparr>)"

text \<open>\<^verbatim>\<open>pct t\<close> is \<^verbatim>\<open>(t as f64 * 0.05) as i32\<close>, floating-point arithmetic of the platform.\<close>

definition get_referral_details_paginated ::
  "(int \<Rightarrow> int) \<Rightarrow> string \<Rightarrow> int \<Rightarrow> int \<Rightarrow> int \<Rightarrow> points_db \<Rightarrow> referral_detail list res" where
  "get_referral_details_paginated pct referrer season page limit db =
    (let offset = wrap_i64 (page * limit) in
     and_then (sql_page offset limit (order_desc snd (referral_rows referrer season db)))
       (\<lambda>rows. Inr (List.map (\<lambda>(user, total). \<lparr>rd_referred_user_address = user,
          rd_bonus_points_earned = pct total, rd_referred_user_total_points = total\<rparr>) rows)))"

section \<open>Seasons\<close>

definition get_all_seasons :: "points_db \<Rightarrow> season list" where
  "get_all_seasons db = sort_key se_season_number (t_rows (pd_seasons db))"

definition get_active_season :: "points_db \<Rightarrow> season option" where
  "get_active_season db = first_of (filter se_is_active (t_rows (pd_seasons db)))"

definition get_season_by_id :: "int \<Rightarrow> points_db \<Rightarrow> season option" where
  "get_season_by_id i db = first_of (filter (\<lambda>s. se_id s = i) (t_rows (pd_seasons db)))"

definition mk_season :: "naive_datetime \<Rightarrow> int \<Rightarrow> new_season \<Rightarrow> season" where
  "mk_season now i n = \<lparr>se_id = i, se_season_number = nse_season_number n,
    se_start_date = nse_start_date n, se_end_date = nse_end_date n,
    se_max_tokens_distribution = nse_max_tokens_distribution n, se_is_active = nse_is_active n,
    se_created_at = now, se_tokens_allocation = nse_tokens_allocation n\<rparr>"

text \<open>
  The table has two unique indexes: the season number, and one active season at most.
\<close>

definition create_season :: "naive_datetime \<Rightarrow> new_season \<Rightarrow> (points_db, error, season) action" where
  "create_season now n db =
    (if nse_is_active n \<and> get_active_season db \<noteq> None
     then (Inl duplicate_key, db\<lparr>pd_seasons := skip_row (pd_seasons db)\<rparr>)
     else (case insert_unique nse_season_number se_season_number (mk_season now) n (pd_seasons db) of
       (r, T) \<Rightarrow> (r, db\<lparr>pd_seasons := T\<rparr>)))"

definition update_seasons :: "(season \<Rightarrow> season) \<Rightarrow> points_db \<Rightarrow> points_db" where
  "update_seasons f db = db\<lparr>pd_seasons := (pd_seasons db)\<lparr>t_rows := List.map f (t_rows (pd_seasons db))\<rparr>\<rparr>"

definition activate_season :: "int \<Rightarrow> (points_db, error, unit) action" where
  "activate_season i db =
    (let db1 = update_seasons (\<lambda>s. s\<lparr>se_is_active := False\<rparr>) db;
         db2 = update_seasons (\<lambda>s. if se_id s = i then s\<lparr>se_is_active := True\<rparr> else s) db1
     in (Inr (), db2))"

section \<open>Points snapshots\<close>

definition snap_key :: "new_points_snapshot \<Rightarrow> string \<times> naive_date \<times> int" where
  "snap_key n = (nps_address n, nps_snapshot_date n, nps_season_id n)"

definition row_key :: "points_snapshot \<Rightarrow> string \<times> naive_date \<times> int" where
  "row_key s = snap_key (ps_row s)"

definition mk_snapshot :: "naive_datetime \<Rightarrow> int \<Rightarrow> new_points_snapshot \<Rightarrow> points_snapshot" where
  "mk_snapshot now i n = \<lparr>ps_id = i, ps_created_at = now, ps_row = n\<rparr>"

definition get_snapshot :: "string \<Rightarrow> naive_date \<Rightarrow> int \<Rightarrow> points_db \<Rightarrow> points_snapshot option" where
  "get_snapshot a d season db = first_of (filter (\<lambda>s. nps_season_id (ps_row s) = season)
    (filter (\<lambda>s. nps_snapshot_date (ps_row s) = d)
      (filter (\<lambda>s. nps_address (ps_row s) = a) (t_rows (pd_snapshots db)))))"

definition get_user_snapshots ::
  "string \<Rightarrow> int \<Rightarrow> int \<Rightarrow> int \<Rightarrow> points_db \<Rightarrow> points_snapshot list res" where
  "get_user_snapshots a season page limit db =
    sql_page (wrap_i64 ((page - 1) * limit)) limit
      (order_desc (\<lambda>s. nps_snapshot_date (ps_row s))
        (filter (\<lambda>s. nps_address (ps_row s) = a \<and> nps_season_id (ps_row s) = season)
          (t_rows (pd_snapshots db))))"

definition get_latest_snapshot :: "string \<Rightarrow> int \<Rightarrow> points_db \<Rightarrow> points_snapshot option" where
  "get_latest_snapshot a season db = first_of (order_desc (\<lambda>s. nps_snapshot_date (ps_row s))
    (filter (\<lambda>s. nps_address (ps_row s) = a \<and> nps_season_id (ps_row s) = season)
      (t_rows (pd_snapshots db))))"

definition get_snapshots_by_date :: "naive_date \<Rightarrow> int \<Rightarrow> points_db \<Rightarrow> points_snapshot list" where
  "get_snapshots_by_date d season db =
    filter (\<lambda>s. nps_snapshot_date (ps_row s) = d \<and> nps_season_id (ps_row s) = season)
      (t_rows (pd_snapshots db))"

definition get_user_rank :: "points_snapshot \<Rightarrow> points_db \<Rightarrow> int" where
  "get_user_rank snap db =
    int (length (filter (\<lambda>s. nps_snapshot_date (ps_row s) = nps_snapshot_date (ps_row snap)
        \<and> nps_season_id (ps_row s) = nps_season_id (ps_row snap)
        \<and> nps_total_points (ps_row s) > nps_total_points (ps_row snap))
      (t_rows (pd_snapshots db)))) + 1"

definition season_dates :: "int \<Rightarrow> points_db \<Rightarrow> naive_date list" where
  "season_dates season db = List.map (\<lambda>s. nps_snapshot_date (ps_row s))
    (filter (\<lambda>s. nps_season_id (ps_row s) = season) (t_rows (pd_snapshots db)))"

definition get_leaderboard ::
  "int \<Rightarrow> naive_date option \<Rightarrow> int \<Rightarrow> int \<Rightarrow> points_db \<Rightarrow> points_snapshot list res" where
  "get_leaderboard season snapshot_date page limit db =
    (let run = (\<lambda>date_to_query.
        sql_page (wrap_i64 ((page - 1) * limit)) limit
          (order_desc (\<lambda>s. nps_total_points (ps_row s))
            (get_snapshots_by_date date_to_query season db)))
     in case snapshot_date of
        Some date \<Rightarrow> run date
      | None \<Rightarrow>
          (case first_of (order_desc (\<lambda>d. d) (season_dates season db)) of
            Some date \<Rightarrow> run date
          | None \<Rightarrow> Inr []))"

text \<open>The \<^verbatim>\<open>SET\<close> clause of the upsert names every column but the key, the id and \<^verbatim>\<open>created_at\<close>.\<close>

definition excluded :: "new_points_snapshot \<Rightarrow> points_snapshot \<Rightarrow> points_snapshot" where
  "excluded n s = s\<lparr>ps_row := (ps_row s)\<lparr>nps_swap_points := nps_swap_points n,
    nps_supply_points := nps_supply_points n, nps_borrow_points := nps_borrow_points n,
    nps_base_points_total := nps_base_points_total n,
    nps_multiplier_type := nps_multiplier_type n, nps_multiplier_value := nps_multiplier_value n,
    nps_multiplier_points := nps_multiplier_points n, nps_referral_points := nps_referral_points n,
    nps_total_points := nps_total_points n, nps_total_volume_usd := nps_total_volume_usd n\<rparr>\<rparr>"

definition insert_snapshots ::
  "naive_datetime \<Rightarrow> new_points_snapshot list \<Rightarrow> (points_db, error, unit) action" where
  "insert_snapshots now snaps db =
    (if snaps = [] then (Inr (), db)
     else (case upsert snap_key row_key (mk_snapshot now) excluded snaps (pd_snapshots db) of
       (r, T) \<Rightarrow> (r, db\<lparr>pd_snapshots := T\<rparr>)))"

text \<open>
  \<^verbatim>\<open>upsert_snapshot\<close> names the conflict target (address, date). The unique constraints of the table
  are \<^verbatim>\<open>unique_constraints\<close> (migration \<^verbatim>\<open>2025-11-19-091914\<close> dropped the one on address and date);
  PostgreSQL rejects a statement whose target matches none of them.
\<close>

datatype snapshot_column = ColAddress | ColDate | ColSeason | ColId

definition unique_constraints :: "snapshot_column list list" where
  "unique_constraints = [[ColId], [ColAddress, ColDate, ColSeason]]"

definition upsert_snapshot ::
  "naive_datetime \<Rightarrow> new_points_snapshot \<Rightarrow> (points_db, error, points_snapshot) action" where
  "upsert_snapshot now n db =
    (if list_ex (\<lambda>c. set c = {ColAddress, ColDate}) unique_constraints
     then (case upsert (\<lambda>m. (nps_address m, nps_snapshot_date m))
              (\<lambda>s. (nps_address (ps_row s), nps_snapshot_date (ps_row s)))
              (mk_snapshot now) excluded [n] (pd_snapshots db) of
        (Inl e, T) \<Rightarrow> (Inl e, db\<lparr>pd_snapshots := T\<rparr>)
      | (Inr _, T) \<Rightarrow>
          (case List.find (\<lambda>s. nps_address (ps_row s) = nps_address n
              \<and> nps_snapshot_date (ps_row s) = nps_snapshot_date n) (t_rows T) of
            Some s \<Rightarrow> (Inr s, db\<lparr>pd_snapshots := T\<rparr>)
          | None \<Rightarrow> (Inl (Error ''Record not found''), db\<lparr>pd_snapshots := T\<rparr>)))
     else (Inl (Error ''there is no unique or exclusion constraint matching the ON CONFLICT specification''), db))"

definition bonus_snapshot :: "string \<Rightarrow> int \<Rightarrow> int \<Rightarrow> naive_date \<Rightarrow> new_points_snapshot" where
  "bonus_snapshot user bonus season yesterday = \<lparr>nps_address = user, nps_snapshot_date = yesterday,
    nps_swap_points = 0, nps_supply_points = 0, nps_borrow_points = 0, nps_base_points_total = 0,
    nps_multiplier_type = None, nps_multiplier_value = 0, nps_multiplier_points = 0,
    nps_referral_points = bonus, nps_total_points = bonus, nps_total_volume_usd = 0,
    nps_season_id = season\<rparr>"

definition add_bonus :: "int \<Rightarrow> points_snapshot \<Rightarrow> points_snapshot" where
  "add_bonus bonus s = s\<lparr>ps_row := (ps_row s)\<lparr>
    nps_referral_points := wrap_i32 (nps_referral_points (ps_row s) + bonus),
    nps_total_points := wrap_i32 (nps_total_points (ps_row s) + bonus)\<rparr>\<rparr>"

text \<open>\<^verbatim>\<open>now\<close> is also the clock of the server process here.\<close>

definition award_bonus_points ::
  "naive_datetime \<Rightarrow> string \<Rightarrow> int \<Rightarrow> int \<Rightarrow> (points_db, error, unit) action" where
  "award_bonus_points now user bonus season db =
    (case get_latest_snapshot user season db of
      Some snapshot \<Rightarrow>
        (let upd = add_bonus bonus snapshot in
         (Inr (), db\<lparr>pd_snapshots := (pd_snapshots db)\<lparr>t_rows :=
           List.map (\<lambda>s. if ps_id s = ps_id snapshot
              then s\<lparr>ps_row := (ps_row s)\<lparr>nps_referral_points := nps_referral_points (ps_row upd),
                nps_total_points := nps_total_points (ps_row upd)\<rparr>\<rparr> else s)
             (t_rows (pd_snapshots db))\<rparr>\<rparr>))
    | None \<Rightarrow>
        (case insert_unique snap_key row_key (mk_snapshot now)
            (bonus_snapshot user bonus season (date_of now - 1)) (pd_snapshots db) of
          (Inl e, T) \<Rightarrow> (Inl e, db\<lparr>pd_snapshots := T\<rparr>)
        | (Inr _, T) \<Rightarrow> (Inr (), db\<lparr>pd_snapshots := T\<rparr>)))"

definition get_total_points_for_season :: "int \<Rightarrow> points_db \<Rightarrow> int" where
  "get_total_points_for_season season db =
    (case first_of (order_desc (\<lambda>d. d) (season_dates season db)) of
      None \<Rightarrow> 0
    | Some d \<Rightarrow> sum_list (List.map (\<lambda>s. nps_total_points (ps_row s)) (get_snapshots_by_date d season db)))"

definition get_unique_users_count :: "points_db \<Rightarrow> int" where
  "get_unique_users_count db =
    int (length (remdups (List.map (\<lambda>s. nps_address (ps_row s)) (t_rows (pd_snapshots db)))))"

end
