(* ===== verification/Points_Store_Laws.thy ===== *)
theory Points_Store_Laws
  imports Points_Store
begin

text \<open>
  What the points tables guarantee: the invariant of the tables and that every writing method keeps
  it, what a reader sees after a batch of snapshots, seasons, ranks and the leaderboard, and the
  referral codes.
\<close>

section \<open>The tables as keyed tables\<close>

interpretation cfg: keyed_table npc_action_type pc_action_type "mk_points_config now" for now
  by unfold_locales (simp add: mk_points_config_def)

interpretation codes: keyed_table nrc_code rc_code "mk_referral_code now" for now
  by unfold_locales (simp add: mk_referral_code_def)

interpretation refs: keyed_table nur_user_address ur_user_address "mk_user_referral now" for now
  by unfold_locales (simp add: mk_user_referral_def)

interpretation seasons: keyed_table nse_season_number se_season_number "mk_season now" for now
  by unfold_locales (simp add: mk_season_def)

interpretation season_ids: id_table "mk_season now" se_id for now
  by unfold_locales (simp add: mk_season_def)

lemma excluded_row: "row_key s = snap_key n \<Longrightarrow> ps_row (excluded n s) = n"
  by (simp add: excluded_def row_key_def snap_key_def)

interpretation snaps: upsert_table snap_key row_key "mk_snapshot now" excluded ps_row "\<lambda>n. n" for now
  by unfold_locales
    (simp_all add: row_key_def mk_snapshot_def excluded_row, simp_all add: excluded_def snap_key_def)

interpretation snap_ids: id_table "mk_snapshot now" ps_id for now
  by unfold_locales (simp add: mk_snapshot_def)

lemma ps_id_excluded [simp]: "ps_id (excluded n s) = ps_id s"
  by (simp add: excluded_def)

section \<open>The invariant\<close>

definition points_wf :: "points_db \<Rightarrow> bool" where
  "points_wf db \<longleftrightarrow>
    keys_unique pc_action_type (pd_configs db) \<and>
    keys_unique rc_code (pd_codes db) \<and>
    keys_unique ur_user_address (pd_referrals db) \<and>
    keys_unique se_season_number (pd_seasons db) \<and> ids_fresh se_id (pd_seasons db) \<and>
    length (filter se_is_active (t_rows (pd_seasons db))) \<le> 1 \<and>
    keys_unique row_key (pd_snapshots db) \<and> ids_fresh ps_id (pd_snapshots db)"

text \<open>One call of a writing method of the repository, whatever it returns.\<close>

inductive points_step :: "points_db \<Rightarrow> points_db \<Rightarrow> bool" where
  StepConfig: "insert_points_config now cs db = (r, db') \<Longrightarrow> points_step db db'"
| StepMultipliers: "insert_multipliers now ms db = (r, db') \<Longrightarrow> points_step db db'"
| StepCode: "insert_referral_code now c db = (rc, db') \<Longrightarrow> points_step db db'"
| StepReferral: "insert_user_referral now u db = (ru, db') \<Longrightarrow> points_step db db'"
| StepSeason: "create_season now n db = (rse, db') \<Longrightarrow> points_step db db'"
| StepActivate: "activate_season i db = (r, db') \<Longrightarrow> points_step db db'"
| StepSnapshots: "insert_snapshots now snaps db = (r, db') \<Longrightarrow> points_step db db'"
| StepUpsert: "upsert_snapshot now s db = (rs, db') \<Longrightarrow> points_step db db'"
| StepBonus: "award_bonus_points now user bonus season db = (r, db') \<Longrightarrow> points_step db db'"

inductive points_reachable :: "points_db \<Rightarrow> bool" where
  ReachInit: "points_reachable empty_points_db"
| ReachStep: "points_reachable db \<Longrightarrow> points_step db db' \<Longrightarrow> points_reachable db'"

lemma points_wf_empty: "points_wf empty_points_db"
  by (simp add: points_wf_def empty_points_db_def season_ids.ids_fresh_empty snap_ids.ids_fresh_empty)

lemma wf_insert_points_config:
  "points_wf db \<Longrightarrow> insert_points_config now cs db = (r, db') \<Longrightarrow> points_wf db'"
  by (auto simp: points_wf_def insert_points_config_def cfg.keys_unique_ignore split: if_splits)

lemma wf_insert_multipliers:
  "points_wf db \<Longrightarrow> insert_multipliers now ms db = (r, db') \<Longrightarrow> points_wf db'"
  by (auto simp: points_wf_def insert_multipliers_def split: if_splits)

lemma wf_insert_referral_code:
  "points_wf db \<Longrightarrow> insert_referral_code now c db = (r, db') \<Longrightarrow> points_wf db'"
  using codes.keys_unique_insert [of "pd_codes db" now c]
  by (auto simp: points_wf_def insert_referral_code_def split: prod.splits)

lemma wf_insert_user_referral:
  "points_wf db \<Longrightarrow> insert_user_referral now u db = (r, db') \<Longrightarrow> points_wf db'"
  using refs.keys_unique_insert [of "pd_referrals db" now u]
  by (auto simp: points_wf_def insert_user_referral_def split: prod.splits)

lemma active_season_None: "get_active_season db = None \<longleftrightarrow> filter se_is_active (t_rows (pd_seasons db)) = []"
  by (simp add: get_active_season_def)

lemma wf_create_season:
  assumes wf: "points_wf db" and c: "create_season now n db = (r, db')"
  shows "points_wf db'"
proof (cases "nse_is_active n \<and> get_active_season db \<noteq> None")
  case True
  with wf c show ?thesis
    by (auto simp: points_wf_def create_season_def season_ids.ids_fresh_skip, auto simp: keys_unique_def)
next
  case False
  obtain q T where T: "insert_unique nse_season_number se_season_number (mk_season now) n (pd_seasons db) = (q, T)"
    by (rule prod.exhaust)
  have "length (filter se_is_active (t_rows T)) \<le> 1"
  proof (cases "has_key se_season_number (nse_season_number n) (pd_seasons db)")
    case True
    with T wf show ?thesis by (auto simp: insert_unique_def points_wf_def)
  next
    case new: False
    then have "t_rows T = t_rows (pd_seasons db) @ [mk_season now (t_next (pd_seasons db)) n]"
      using T by (auto simp: insert_unique_def)
    with wf False show ?thesis
      by (cases "nse_is_active n") (auto simp: points_wf_def active_season_None mk_season_def)
  qed
  moreover have "keys_unique se_season_number T" "ids_fresh se_id T"
    using seasons.keys_unique_insert [of "pd_seasons db" now n]
      season_ids.ids_fresh_insert_unique [of "pd_seasons db" nse_season_number se_season_number now n]
      wf T by (auto simp: points_wf_def)
  moreover have "db' = db\<lparr>pd_seasons := T\<rparr>"
    using c False T unfolding create_season_def by auto
  ultimately show ?thesis
    using wf by (simp add: points_wf_def)
qed

lemma activate_rows:
  assumes "activate_season i db = (r, db')"
  shows "t_rows (pd_seasons db') = List.map (\<lambda>s. s\<lparr>se_is_active := (se_id s = i)\<rparr>) (t_rows (pd_seasons db))"
    and "t_next (pd_seasons db') = t_next (pd_seasons db)"
    and "db' = db\<lparr>pd_seasons := pd_seasons db'\<rparr>"
  using assms by (auto simp: activate_season_def update_seasons_def Let_def)

lemma filter_id_le_1: "distinct (List.map f xs) \<Longrightarrow> length (filter (\<lambda>x. f x = i) xs) \<le> 1"
proof (induction xs)
  case (Cons x xs)
  have "filter (\<lambda>y. f y = i) xs = []" if "f x = i"
    unfolding filter_empty_conv using Cons.prems that by (metis distinct.simps(2) image_eqI list.set_map list.simps(9))
  with Cons show ?case by (cases "f x = i") simp_all
qed simp

lemma wf_activate_season:
  assumes wf: "points_wf db" and a: "activate_season i db = (r, db')"
  shows "points_wf db'"
proof -
  note rows = activate_rows [OF a]
  have "filter se_is_active (t_rows (pd_seasons db'))
      = List.map (\<lambda>s. s\<lparr>se_is_active := (se_id s = i)\<rparr>) (filter (\<lambda>s. se_id s = i) (t_rows (pd_seasons db)))"
    by (simp add: rows(1) filter_map o_def)
  then have "length (filter se_is_active (t_rows (pd_seasons db'))) \<le> 1"
    using wf filter_id_le_1 [of se_id "t_rows (pd_seasons db)" i]
    by (simp add: points_wf_def ids_fresh_def)
  with wf rows(1,2) show ?thesis
    by (subst rows(3)) (simp add: points_wf_def keys_unique_def ids_fresh_def o_def)
qed

lemma wf_insert_snapshots:
  assumes wf: "points_wf db" and i: "insert_snapshots now ns db = (r, db')"
  shows "points_wf db'"
  using snaps.keys_unique_upsert [of "pd_snapshots db" now ns]
    snap_ids.ids_fresh_upsert [of "pd_snapshots db" excluded snap_key row_key now ns] assms
  by (auto simp: points_wf_def insert_snapshots_def split: if_splits prod.splits)

text \<open>The conflict target of \<^verbatim>\<open>upsert_snapshot\<close> is none of the constraints.\<close>

lemma upsert_snapshot_error:
  "upsert_snapshot now n db =
    (Inl (Error ''there is no unique or exclusion constraint matching the ON CONFLICT specification''), db)"
proof -
  have "\<not> list_ex (\<lambda>c. set c = {ColAddress, ColDate}) unique_constraints"
    by (auto simp: unique_constraints_def)
  then show ?thesis by (simp add: upsert_snapshot_def)
qed

lemma award_existing:
  assumes "get_latest_snapshot user season db = Some snap"
  shows "award_bonus_points now user bonus season db = (Inr (), db\<lparr>pd_snapshots := (pd_snapshots db)\<lparr>t_rows :=
    List.map (\<lambda>s. if ps_id s = ps_id snap
      then s\<lparr>ps_row := (ps_row s)\<lparr>nps_referral_points := nps_referral_points (ps_row (add_bonus bonus snap)),
        nps_total_points := nps_total_points (ps_row (add_bonus bonus snap))\<rparr>\<rparr> else s)
      (t_rows (pd_snapshots db))\<rparr>\<rparr>)"
  by (simp add: award_bonus_points_def assms Let_def)

lemma wf_award_bonus_points:
  assumes wf: "points_wf db" and a: "award_bonus_points now user bonus season db = (r, db')"
  shows "points_wf db'"
proof (cases "get_latest_snapshot user season db")
  case (Some snap)
  let ?f = "\<lambda>s. if ps_id s = ps_id snap
      then s\<lparr>ps_row := (ps_row s)\<lparr>nps_referral_points := nps_referral_points (ps_row (add_bonus bonus snap)),
        nps_total_points := nps_total_points (ps_row (add_bonus bonus snap))\<rparr>\<rparr> else s"
  have "db' = db\<lparr>pd_snapshots := (pd_snapshots db)\<lparr>t_rows := List.map ?f (t_rows (pd_snapshots db))\<rparr>\<rparr>"
    using award_existing [OF Some, of now bonus] a by simp
  moreover have "row_key (?f s) = row_key s" "ps_id (?f s) = ps_id s" for s
    by (auto simp: row_key_def snap_key_def)
  ultimately show ?thesis
    using wf snap_ids.ids_fresh_map [of "pd_snapshots db" ?f]
    by (simp add: points_wf_def keys_unique_def o_def)
next
  case None
  then show ?thesis
    using a wf
      snaps.keys_unique_insert [of "pd_snapshots db" now "bonus_snapshot user bonus season (date_of now - 1)"]
      snap_ids.ids_fresh_insert_unique [of "pd_snapshots db" snap_key row_key now
        "bonus_snapshot user bonus season (date_of now - 1)"]
    by (auto simp: award_bonus_points_def points_wf_def split: prod.splits sum.splits)
qed

lemmas points_wf_writes = wf_insert_points_config wf_insert_multipliers wf_insert_referral_code
  wf_insert_user_referral wf_create_season wf_activate_season wf_insert_snapshots wf_award_bonus_points

lemma points_wf_step: "points_step db db' \<Longrightarrow> points_wf db \<Longrightarrow> points_wf db'"
  by (induction rule: points_step.induct) (auto intro: points_wf_writes simp: upsert_snapshot_error)



section \<open>Snapshots\<close>

lemma get_snapshot_lookup: "get_snapshot a d season db = lookup row_key (a, d, season) (pd_snapshots db)"
  by (simp add: get_snapshot_def lookup_def find_eq_first_of row_key_def snap_key_def filter_filter
      conj_commute conj_left_commute)

lemma insert_snapshots_ok_iff:
  "(\<exists>db'. insert_snapshots now ns db = (Inr (), db')) \<longleftrightarrow> distinct (List.map snap_key ns)"
  using snaps.upsert_ok_iff [of now ns "pd_snapshots db"]
  by (auto simp: insert_snapshots_def split: prod.splits)

lemma insert_snapshots_get:
  assumes "insert_snapshots now ns db = (Inr (), db')"
  shows "map_option ps_row (get_snapshot a d season db') =
    (case List.find (\<lambda>n. snap_key n = (a, d, season)) ns of Some n \<Rightarrow> Some n
     | None \<Rightarrow> map_option ps_row (get_snapshot a d season db))"
proof (cases "ns = []")
  case True
  then show ?thesis using assms by (simp add: insert_snapshots_def)
next
  case False
  then obtain T where "upsert snap_key row_key (mk_snapshot now) excluded ns (pd_snapshots db) = (Inr (), T)"
      "db' = db\<lparr>pd_snapshots := T\<rparr>"
    using assms by (auto simp: insert_snapshots_def split: prod.splits)
  then show ?thesis
    using snaps.content_upsert [of now ns "pd_snapshots db" T "(a, d, season)"]
    by (simp add: get_snapshot_lookup split: option.split)
qed

lemma insert_snapshots_same:
  assumes "insert_snapshots now ns db = (r, db')"
  shows "pd_configs db' = pd_configs db" "pd_multipliers db' = pd_multipliers db"
    "pd_seasons db' = pd_seasons db" "pd_codes db' = pd_codes db" "pd_referrals db' = pd_referrals db"
  using assms by (auto simp: insert_snapshots_def split: if_splits prod.splits)

text \<open>
  The bulk upsert of daily snapshots fails exactly when a batch names one address, date and
  season twice; otherwise every key of the batch reads back as the last value written, every other
  key is unchanged, and writing the batch again, in any order, changes nothing that can be read.
\<close>
theorem insert_snapshots_readback:
  "((\<exists>db'. insert_snapshots now ns db = (Inr (), db')) \<longleftrightarrow> distinct (List.map snap_key ns)) \<and>
   (\<forall>db1. insert_snapshots now ns db = (Inr (), db1) \<longrightarrow>
     map_option ps_row (get_snapshot a d season db1) =
       (case List.find (\<lambda>n. snap_key n = (a, d, season)) ns of Some n \<Rightarrow> Some n
        | None \<Rightarrow> map_option ps_row (get_snapshot a d season db)) \<and>
     (\<forall>ms now' db2. mset ms = mset ns \<and> insert_snapshots now' ms db1 = (Inr (), db2) \<longrightarrow>
       map_option ps_row (get_snapshot a d season db2) = map_option ps_row (get_snapshot a d season db1)))"
proof (intro conjI allI impI)
  show "(\<exists>db'. insert_snapshots now ns db = (Inr (), db')) \<longleftrightarrow> distinct (List.map snap_key ns)"
    by (rule insert_snapshots_ok_iff)
next
  fix db1 assume "insert_snapshots now ns db = (Inr (), db1)"
  then show "map_option ps_row (get_snapshot a d season db1) =
      (case List.find (\<lambda>n. snap_key n = (a, d, season)) ns of Some n \<Rightarrow> Some n
       | None \<Rightarrow> map_option ps_row (get_snapshot a d season db))"
    by (rule insert_snapshots_get)
next
  fix db1 ms now' db2
  assume 1: "insert_snapshots now ns db = (Inr (), db1)"
    and "mset ms = mset ns \<and> insert_snapshots now' ms db1 = (Inr (), db2)"
  then have m: "mset ms = mset ns" and 2: "insert_snapshots now' ms db1 = (Inr (), db2)"
    by simp_all
  have "distinct (List.map snap_key ms)"
    using 2 insert_snapshots_ok_iff by blast
  then have "List.find (\<lambda>n. snap_key n = (a, d, season)) ms = List.find (\<lambda>n. snap_key n = (a, d, season)) ns"
    by (rule find_distinct_mset [OF m])
  then show "map_option ps_row (get_snapshot a d season db2) = map_option ps_row (get_snapshot a d season db1)"
    using insert_snapshots_get [OF 1, of a d season] insert_snapshots_get [OF 2, of a d season]
    by (simp split: option.splits)
qed

theorem insert_snapshots_readback_witness:
  "map_option ps_row (get_snapshot ''u'' 10 1
      (snd (insert_snapshots 0 [bonus_snapshot ''u'' 5 1 10, bonus_snapshot ''v'' 6 1 10] empty_points_db)))
    = Some (bonus_snapshot ''u'' 5 1 10)"
proof -
  have "insert_snapshots 0 [bonus_snapshot ''u'' 5 1 10, bonus_snapshot ''v'' 6 1 10] empty_points_db
    = (Inr (), snd (insert_snapshots 0 [bonus_snapshot ''u'' 5 1 10, bonus_snapshot ''v'' 6 1 10] empty_points_db))"
    by (simp add: insert_snapshots_def upsert_def bonus_snapshot_def snap_key_def split: prod.splits)
  then show ?thesis
    using insert_snapshots_readback [of 0 "[bonus_snapshot ''u'' 5 1 10, bonus_snapshot ''v'' 6 1 10]"
        empty_points_db "''u''" 10 1]
    by (simp add: snap_key_def bonus_snapshot_def)
qed

text \<open>
  \<^verbatim>\<open>upsert_snapshot\<close> never stores anything: its conflict target (address, date) matches no
  unique constraint of the table, so every call is an error and leaves the tables as they are.
\<close>
theorem upsert_snapshot_always_fails:
  "\<exists>m. upsert_snapshot now n db = (Inl (Error m), db)"
  by (simp add: upsert_snapshot_error)

section \<open>Seasons\<close>

text \<open>
  Activating a season deactivates every other one and changes nothing else; the active season is
  then the one with the id, and an id that no season has leaves no season active.
\<close>
theorem activate_season_exclusive:
  assumes "activate_season i db = (r, db')"
  shows "r = Inr () \<and>
    t_rows (pd_seasons db') = List.map (\<lambda>s. s\<lparr>se_is_active := (se_id s = i)\<rparr>) (t_rows (pd_seasons db)) \<and>
    get_active_season db' = map_option (\<lambda>s. s\<lparr>se_is_active := True\<rparr>) (get_season_by_id i db)"
proof (intro conjI)
  show "r = Inr ()"
    using assms by (simp add: activate_season_def Let_def)
  show rows: "t_rows (pd_seasons db') = List.map (\<lambda>s. s\<lparr>se_is_active := (se_id s = i)\<rparr>) (t_rows (pd_seasons db))"
    by (rule activate_rows(1) [OF assms])
  have "first_of (List.map (\<lambda>s. s\<lparr>se_is_active := (se_id s = i)\<rparr>) (filter (\<lambda>s. se_id s = i) xs))
      = map_option (\<lambda>s. s\<lparr>se_is_active := True\<rparr>) (first_of (filter (\<lambda>s. se_id s = i) xs))" for xs
    by (induction xs) auto
  then show "get_active_season db' = map_option (\<lambda>s. s\<lparr>se_is_active := True\<rparr>) (get_season_by_id i db)"
    by (simp add: get_active_season_def get_season_by_id_def rows filter_map o_def)
qed

theorem activate_season_exclusive_witness:
  "get_active_season (snd (activate_season 1 (snd (create_season 0 \<lparr>nse_season_number = 1,
      nse_start_date = 0, nse_end_date = 9, nse_max_tokens_distribution = 1, nse_is_active = False,
      nse_tokens_allocation = 1\<rparr> empty_points_db)))) \<noteq> None"
proof -
  let ?db = "snd (create_season 0 \<lparr>nse_season_number = 1, nse_start_date = 0, nse_end_date = 9,
      nse_max_tokens_distribution = 1, nse_is_active = False, nse_tokens_allocation = 1\<rparr> empty_points_db)"
  have "get_season_by_id 1 ?db \<noteq> None"
    by (simp add: create_season_def empty_points_db_def insert_unique_def has_key_def
        get_season_by_id_def mk_season_def empty_table_def append_row_def)
  then show ?thesis
    using activate_season_exclusive [OF prod.collapse [symmetric], of 1 ?db] by simp
qed

section \<open>Ranks and the leaderboard\<close>

lemma get_user_rank_count:
  "get_user_rank s db = int (length (filter (\<lambda>t. nps_total_points (ps_row s) < nps_total_points (ps_row t))
    (get_snapshots_by_date (nps_snapshot_date (ps_row s)) (nps_season_id (ps_row s)) db))) + 1"
  by (simp add: get_user_rank_def get_snapshots_by_date_def filter_filter conj_ac)

lemma latest_date_max:
  assumes "first_of (order_desc (\<lambda>d. d) ds) = Some (d::int)"
  shows "d \<in> set ds \<and> (\<forall>e\<in>set ds. e \<le> d)"
  using first_of_order_desc_max [OF assms] by auto

text \<open>
  The entry at position \<^verbatim>\<open>i\<close> of a page of the leaderboard is a snapshot of the latest date of the
  season, and its rank, as the user's own page computes it, is never worse than the position shows;
  the two agree when no two users of that date have the same total.
\<close>
theorem leaderboard_position_is_rank:
  assumes lb: "get_leaderboard season None page limit db = Inr rows" and i: "i < length rows"
    and page: "1 \<le> page" "in_i64 ((page - 1) * limit)"
  shows "nps_season_id (ps_row (rows ! i)) = season \<and>
    (\<forall>s\<in>set (t_rows (pd_snapshots db)). nps_season_id (ps_row s) = season
      \<longrightarrow> nps_snapshot_date (ps_row s) \<le> nps_snapshot_date (ps_row (rows ! i))) \<and>
    get_user_rank (rows ! i) db \<le> (page - 1) * limit + int i + 1 \<and>
    (distinct (List.map (\<lambda>s. nps_total_points (ps_row s))
        (get_snapshots_by_date (nps_snapshot_date (ps_row (rows ! i))) season db))
      \<longrightarrow> get_user_rank (rows ! i) db = (page - 1) * limit + int i + 1)"
proof (intro conjI impI)
  have "rows \<noteq> []" using i by auto
  then obtain d where d: "first_of (order_desc (\<lambda>d. d) (season_dates season db)) = Some d"
    using lb by (auto simp: get_leaderboard_def Let_def split: option.splits)
  let ?all = "get_snapshots_by_date d season db"
  let ?xs = "order_desc (\<lambda>s. nps_total_points (ps_row s)) ?all"
  let ?k = "nat ((page - 1) * limit) + i"
  have rows: "rows = take (nat limit) (drop (nat ((page - 1) * limit)) ?xs)" and lim: "0 \<le> limit"
    using lb d page(2) by (auto simp: get_leaderboard_def Let_def sql_page_def int_simps split: if_splits)
  have k: "?k < length ?xs" and x: "rows ! i = ?xs ! ?k"
    using i rows by (auto simp: nth_append)
  have "rows ! i \<in> set ?all"
    using k x by (metis nth_mem set_order_desc)
  then have mem: "nps_season_id (ps_row (rows ! i)) = season" "nps_snapshot_date (ps_row (rows ! i)) = d"
    by (auto simp: get_snapshots_by_date_def)
  show "nps_season_id (ps_row (rows ! i)) = season" by (fact mem)
  show "\<forall>s\<in>set (t_rows (pd_snapshots db)). nps_season_id (ps_row s) = season
      \<longrightarrow> nps_snapshot_date (ps_row s) \<le> nps_snapshot_date (ps_row (rows ! i))"
    using latest_date_max [OF d] mem by (auto simp: season_dates_def)
  have off: "0 \<le> (page - 1) * limit"
    using page(1) lim by simp
  have rank: "get_user_rank (rows ! i) db
      = int (length (filter (\<lambda>t. nps_total_points (ps_row (?xs ! ?k)) < nps_total_points (ps_row t)) ?xs)) + 1"
    by (simp only: get_user_rank_count mem x [symmetric] length_filter_order_desc)
  show "get_user_rank (rows ! i) db \<le> (page - 1) * limit + int i + 1"
    using rank count_greater_le [OF sorted_order_desc k] off by simp
  assume "distinct (List.map (\<lambda>s. nps_total_points (ps_row s))
      (get_snapshots_by_date (nps_snapshot_date (ps_row (rows ! i))) season db))"
  then have "distinct (List.map (\<lambda>s. nps_total_points (ps_row s)) ?xs)"
    using mem mset_eq_imp_distinct_iff [of "List.map (\<lambda>s. nps_total_points (ps_row s)) ?xs"
        "List.map (\<lambda>s. nps_total_points (ps_row s)) ?all"] by simp
  then show "get_user_rank (rows ! i) db = (page - 1) * limit + int i + 1"
    using rank count_greater_eq [OF sorted_order_desc k] off by simp
qed

theorem leaderboard_position_is_rank_witness:
  "get_user_rank \<lparr>ps_id = 1, ps_created_at = 0, ps_row = bonus_snapshot ''u'' 5 1 10\<rparr>
    (snd (insert_snapshots 0 [bonus_snapshot ''u'' 5 1 10] empty_points_db)) \<le> 1"
proof -
  let ?s = "\<lparr>ps_id = 1, ps_created_at = 0, ps_row = bonus_snapshot ''u'' 5 1 10\<rparr>"
  let ?db = "snd (insert_snapshots 0 [bonus_snapshot ''u'' 5 1 10] empty_points_db)"
  have "t_rows (pd_snapshots ?db) = [?s]"
    by (simp add: insert_snapshots_def upsert_def upsert1_def has_key_def empty_points_db_def
        empty_table_def append_row_def mk_snapshot_def)
  then have "get_leaderboard 1 None 1 50 ?db = Inr [?s]"
    by (simp add: get_leaderboard_def season_dates_def get_snapshots_by_date_def bonus_snapshot_def
        sql_page_def order_desc_def wrap_i64_def)
  from leaderboard_position_is_rank [OF this, of 0] show ?thesis
    by (simp add: in_i64_def)
qed

section \<open>Bonus points\<close>

lemma get_latest_map:
  assumes "\<And>s. nps_address (ps_row (f s)) = nps_address (ps_row s)"
    "\<And>s. nps_season_id (ps_row (f s)) = nps_season_id (ps_row s)"
    "\<And>s. nps_snapshot_date (ps_row (f s)) = nps_snapshot_date (ps_row s)"
    and "t_rows (pd_snapshots db') = List.map f (t_rows (pd_snapshots db))"
  shows "get_latest_snapshot a season db' = map_option f (get_latest_snapshot a season db)"
  by (simp add: get_latest_snapshot_def assms filter_map o_def order_desc_map first_of_map)

lemma get_snapshot_map:
  assumes "\<And>s. row_key (f s) = row_key s"
    and "t_rows (pd_snapshots db') = List.map f (t_rows (pd_snapshots db))"
  shows "get_snapshot a d season db' = map_option f (get_snapshot a d season db)"
proof -
  have "List.find (\<lambda>r. row_key r = k) (List.map f rs) = map_option f (List.find (\<lambda>r. row_key r = k) rs)" for rs k
    by (induction rs) (simp_all add: assms(1))
  then show ?thesis
    by (simp add: get_snapshot_lookup lookup_def assms(2))
qed

lemma get_latest_snapshot_props:
  assumes "get_latest_snapshot a season db = Some s"
  shows "s \<in> set (t_rows (pd_snapshots db))" "nps_address (ps_row s) = a" "nps_season_id (ps_row s) = season"
  using first_of_order_desc_max(1) [OF assms [unfolded get_latest_snapshot_def]] by auto

lemma ids_unique:
  "points_wf db \<Longrightarrow> s \<in> set (t_rows (pd_snapshots db)) \<Longrightarrow> t \<in> set (t_rows (pd_snapshots db))
    \<Longrightarrow> ps_id s = ps_id t \<Longrightarrow> s = t"
  by (auto simp: points_wf_def ids_fresh_def dest: distinct_map_unique)

lemma award_bonus_spec:
  assumes wf: "points_wf db" and b: "in_i32 bonus"
  shows "\<exists>db' s. award_bonus_points now user bonus season db = (Inr (), db') \<and>
    get_latest_snapshot user season db' = Some s \<and>
    nps_total_points (ps_row s) = wrap_i32 ((case get_latest_snapshot user season db of
        None \<Rightarrow> 0 | Some t \<Rightarrow> nps_total_points (ps_row t)) + bonus) \<and>
    nps_referral_points (ps_row s) = wrap_i32 ((case get_latest_snapshot user season db of
        None \<Rightarrow> 0 | Some t \<Rightarrow> nps_referral_points (ps_row t)) + bonus) \<and>
    (\<forall>a d se. a \<noteq> user \<longrightarrow> get_snapshot a d se db' = get_snapshot a d se db)"
proof (cases "get_latest_snapshot user season db")
  case (Some snap)
  let ?f = "\<lambda>s. if ps_id s = ps_id snap
      then s\<lparr>ps_row := (ps_row s)\<lparr>nps_referral_points := nps_referral_points (ps_row (add_bonus bonus snap)),
        nps_total_points := nps_total_points (ps_row (add_bonus bonus snap))\<rparr>\<rparr> else s"
  let ?db = "db\<lparr>pd_snapshots := (pd_snapshots db)\<lparr>t_rows := List.map ?f (t_rows (pd_snapshots db))\<rparr>\<rparr>"
  have a: "award_bonus_points now user bonus season db = (Inr (), ?db)"
    by (rule award_existing [OF Some])
  have latest: "get_latest_snapshot user season ?db = Some (?f snap)"
    using get_latest_map [of ?f ?db db] Some by simp
  note snap = get_latest_snapshot_props [OF Some]
  have other: "get_snapshot a d se ?db = get_snapshot a d se db" if ne: "a \<noteq> user" for a d se
  proof (cases "get_snapshot a d se db")
    case (Some s)
    then have s: "s \<in> set (t_rows (pd_snapshots db))" "nps_address (ps_row s) = a"
      unfolding get_snapshot_lookup by (auto dest: lookup_Some_in simp: row_key_def snap_key_def)
    have "ps_id s \<noteq> ps_id snap"
      using ids_unique [OF wf s(1) snap(1)] s(2) snap(2) ne by blast
    with Some show ?thesis
      using get_snapshot_map [of ?f ?db db] by (simp add: row_key_def snap_key_def)
  qed (use get_snapshot_map [of ?f ?db db] in \<open>simp add: row_key_def snap_key_def\<close>)
  show ?thesis
    using a latest other Some by (simp add: add_bonus_def)
next
  case None
  let ?n = "bonus_snapshot user bonus season (date_of now - 1)"
  have nokey: "\<not> has_key row_key (snap_key ?n) (pd_snapshots db)"
    using None by (auto simp: get_latest_snapshot_def filter_empty_conv has_key_def row_key_def
        snap_key_def bonus_snapshot_def)
  let ?s = "mk_snapshot now (t_next (pd_snapshots db)) ?n"
  let ?db = "db\<lparr>pd_snapshots := append_row (mk_snapshot now) ?n (pd_snapshots db)\<rparr>"
  have a: "award_bonus_points now user bonus season db = (Inr (), ?db)"
    using nokey by (simp add: award_bonus_points_def None insert_unique_def)
  have "filter (\<lambda>s. nps_address (ps_row s) = user \<and> nps_season_id (ps_row s) = season)
      (t_rows (pd_snapshots db)) = []"
    using None by (simp add: get_latest_snapshot_def)
  then have latest: "get_latest_snapshot user season ?db = Some ?s"
    by (simp add: get_latest_snapshot_def mk_snapshot_def bonus_snapshot_def order_desc_def)
  have other: "get_snapshot a' d se ?db = get_snapshot a' d se db" if "a' \<noteq> user" for a' d se
    using that by (auto simp: get_snapshot_lookup snaps.lookup_append snap_key_def bonus_snapshot_def
        split: option.splits)
  show ?thesis
    using a latest other None b by (simp add: mk_snapshot_def bonus_snapshot_def int_simps)
qed

text \<open>
  Awarding a bonus never fails: the user's latest snapshot of the season (or a new one for
  yesterday, when there is none) ends with the referral points and the total raised by the bonus,
  and no snapshot of another user changes.
\<close>
theorem award_bonus_effect:
  assumes wf: "points_wf db" and b: "in_i32 bonus"
  shows "\<exists>db' s. award_bonus_points now user bonus season db = (Inr (), db') \<and>
    get_latest_snapshot user season db' = Some s \<and>
    nps_total_points (ps_row s) = wrap_i32 ((case get_latest_snapshot user season db of
        None \<Rightarrow> 0 | Some t \<Rightarrow> nps_total_points (ps_row t)) + bonus) \<and>
    nps_referral_points (ps_row s) = wrap_i32 ((case get_latest_snapshot user season db of
        None \<Rightarrow> 0 | Some t \<Rightarrow> nps_referral_points (ps_row t)) + bonus) \<and>
    (\<forall>a d se. a \<noteq> user \<longrightarrow> get_snapshot a d se db' = get_snapshot a d se db)"
  by (rule award_bonus_spec [OF wf b])

theorem award_bonus_effect_witness:
  "\<exists>db' s. award_bonus_points 0 ''u'' 50 1 empty_points_db = (Inr (), db') \<and>
    get_latest_snapshot ''u'' 1 db' = Some s"
  using award_bonus_effect [OF points_wf_empty, of 50 0 "''u''" 1] by (auto simp: in_i32_def)

section \<open>Referral codes\<close>

lemma duplicate_is_violation: "is_unique_violation ''duplicate key value violates unique constraint''"
  by code_simp

lemma insert_code_dup:
  assumes "c \<in> rc_code ` set (t_rows (pd_codes db))"
  shows "insert_referral_code now \<lparr>nrc_code = c, nrc_owner_address = owner\<rparr> db
    = (Inl duplicate_key, db\<lparr>pd_codes := skip_row (pd_codes db)\<rparr>)"
  using assms by (simp add: insert_referral_code_def insert_unique_def has_key_def)

lemma insert_code_new:
  assumes "c \<notin> rc_code ` set (t_rows (pd_codes db))"
  shows "insert_referral_code now \<lparr>nrc_code = c, nrc_owner_address = owner\<rparr> db
    = (Inr \<lparr>rc_id = t_next (pd_codes db), rc_code = c, rc_owner_address = owner, rc_created_at = now\<rparr>,
       db\<lparr>pd_codes := append_row (mk_referral_code now) \<lparr>nrc_code = c, nrc_owner_address = owner\<rparr> (pd_codes db)\<rparr>)"
  using assms by (simp add: insert_referral_code_def insert_unique_def has_key_def mk_referral_code_def)

text \<open>The outcome of a successful generation: one new row, for the owner, with a fresh code.\<close>

definition code_added :: "naive_datetime \<Rightarrow> string \<Rightarrow> string \<Rightarrow> points_db \<Rightarrow> points_db \<Rightarrow> bool" where
  "code_added now owner c db db' \<longleftrightarrow> c \<notin> rc_code ` set (t_rows (pd_codes db)) \<and>
    (\<exists>i. t_rows (pd_codes db') = t_rows (pd_codes db) @
      [\<lparr>rc_id = i, rc_code = c, rc_owner_address = owner, rc_created_at = now\<rparr>])"

lemma try_readable_result:
  "(\<exists>c db'. try_readable sha now owner as db = (Inr (Some c), db') \<and> code_added now owner c db db') \<or>
   (\<exists>db'. try_readable sha now owner as db = (Inr None, db') \<and> t_rows (pd_codes db') = t_rows (pd_codes db))"
proof (induction as arbitrary: db)
  case (Cons a as)
  let ?c = "generate_readable_code sha owner a"
  show ?case
  proof (cases "?c \<in> rc_code ` set (t_rows (pd_codes db))")
    case True
    from Cons.IH [of "db\<lparr>pd_codes := skip_row (pd_codes db)\<rparr>"] show ?thesis
      using True by (simp add: insert_code_dup duplicate_key_def duplicate_is_violation code_added_def)
  next
    case False
    then show ?thesis
      by (simp add: insert_code_new code_added_def mk_referral_code_def)
  qed
qed simp

lemma random_fallback_result:
  assumes "to_uppercase (rnd n) \<notin> rc_code ` set (t_rows (pd_codes db))" "i \<le> n"
  shows "\<exists>c db'. random_fallback rnd now owner i db = Some (Inr c, db') \<and> code_added now owner c db db'"
  using assms
proof (induction "n - i" arbitrary: i db)
  case (0 i)
  then have "i = n" by simp
  with 0 show ?case
    by (simp add: random_fallback.simps [of _ _ _ n] insert_code_new code_added_def mk_referral_code_def)
next
  case (Suc m i)
  show ?case
  proof (cases "to_uppercase (rnd i) \<in> rc_code ` set (t_rows (pd_codes db))")
    case True
    have "m = n - Suc i" "Suc i \<le> n"
      using Suc.hyps(2) by arith+
    with Suc.hyps(1) [of "Suc i" "db\<lparr>pd_codes := skip_row (pd_codes db)\<rparr>"] Suc.prems True show ?thesis
      by (simp add: random_fallback.simps [of _ _ _ i] insert_code_dup duplicate_key_def
          duplicate_is_violation code_added_def)
  next
    case False
    then show ?thesis
      by (simp add: random_fallback.simps [of _ _ _ i] insert_code_new code_added_def mk_referral_code_def)
  qed
qed

lemma code_added_owner:
  assumes "code_added now owner c db db'" "get_referral_code_by_owner owner db = None"
  shows "\<exists>r. get_referral_code_by_owner owner db' = Some r \<and> rc_code r = c"
  using assms by (auto simp: code_added_def get_referral_code_by_owner_def)

text \<open>
  C32: Asking for a user's referral code ends with a code whenever the random source produces, at some
  point, a code that is not taken; the code is then the user's own, and every later request, with
  any hash function and any randomness, returns the same one and writes nothing.
\<close>
theorem referral_code_eventually_stable:
  assumes free: "to_uppercase (rnd n) \<notin> rc_code ` set (t_rows (pd_codes db))"
  shows "\<exists>c db'. get_or_create_referral_code sha rnd now owner db = Some (Inr c, db') \<and>
    (get_referral_code_by_owner owner db = None \<longrightarrow> c \<notin> rc_code ` set (t_rows (pd_codes db))) \<and>
    (\<forall>sha' rnd' now'. get_or_create_referral_code sha' rnd' now' owner db' = Some (Inr c, db'))"
proof (cases "get_referral_code_by_owner owner db")
  case (Some r)
  then show ?thesis by (simp add: get_or_create_referral_code_def)
next
  case None
  have "\<exists>c db'. get_or_create_referral_code sha rnd now owner db = Some (Inr c, db') \<and> code_added now owner c db db'"
    using try_readable_result [of sha now owner readable_attempts db]
  proof (elim disjE exE conjE)
    fix db1 assume 1: "try_readable sha now owner readable_attempts db = (Inr None, db1)"
      and same: "t_rows (pd_codes db1) = t_rows (pd_codes db)"
    from random_fallback_result [of rnd n db1 0 now owner] free same
    show ?thesis
      by (auto simp: get_or_create_referral_code_def None 1 code_added_def)
  qed (auto simp: get_or_create_referral_code_def None)
  then obtain c db' where c: "get_or_create_referral_code sha rnd now owner db = Some (Inr c, db')"
      "code_added now owner c db db'"
    by blast
  obtain r where "get_referral_code_by_owner owner db' = Some r" "rc_code r = c"
    using code_added_owner [OF c(2) None] by blast
  then have "get_or_create_referral_code sha' rnd' now' owner db' = Some (Inr c, db')" for sha' rnd' now'
    by (simp add: get_or_create_referral_code_def)
  with c show ?thesis
    by (auto simp: code_added_def)
qed

theorem referral_code_eventually_stable_witness:
  "\<exists>c db'. get_or_create_referral_code (\<lambda>_. [1, 2, 3, 4]) (\<lambda>n. ''abc'') 0 ''u'' empty_points_db
    = Some (Inr c, db')"
proof -
  have "to_uppercase ''abc'' \<notin> rc_code ` set (t_rows (pd_codes empty_points_db))"
    by (simp add: empty_points_db_def)
  from referral_code_eventually_stable [OF this, of "\<lambda>_. [1, 2, 3, 4]" 0 "''u''"] show ?thesis
    by blast
qed

text \<open>
  The number of a readable referral code is always one of 100, ..., 999, and its two words come from the
  word lists, whatever the hash function returns.
\<close>
lemma readable_code_format:
  "\<exists>a n. generate_readable_code sha address attempt
      = to_uppercase (a @ ''-'' @ n @ ''-'' @ digits_of (code_number (sha (str_bytes address @ to_le_bytes attempt)))) \<and>
    a \<in> set adjectives \<and> n \<in> set nouns \<and>
    100 \<le> code_number (sha (str_bytes address @ to_le_bytes attempt)) \<and>
    code_number (sha (str_bytes address @ to_le_bytes attempt)) \<le> 999"
proof -
  let ?h = "sha (str_bytes address @ to_le_bytes attempt)"
  have len: "0 < length adjectives" "0 < length nouns"
    by (simp_all add: adjectives_def nouns_def)
  have num: "100 \<le> code_number ?h \<and> code_number ?h \<le> 999"
    by (simp add: code_number_def)
  show ?thesis
    unfolding generate_readable_code_def Let_def
    by (rule exI [of _ "adjectives ! (?h ! 0 mod length adjectives)"],
        rule exI [of _ "nouns ! (?h ! 1 mod length nouns)"])
      (use len num in \<open>simp add: nth_mem\<close>)
qed

end
