(* ===== verification/Account_Txs.thy ===== *)
theory Account_Txs
  imports Keyed_Store Calendar Decimal
begin

text \<open>
  Account transactions, pools and transactions sent through the application
  (\<^verbatim>\<open>models/new_account_transactions.rs\<close>, \<^verbatim>\<open>models/account_transactions.rs\<close>,
  \<^verbatim>\<open>models/pools.rs\<close> and their repositories). The JSONB column \<^verbatim>\<open>details\<close> holds one of the three
  structures that the code serialises into it; reading it back as another structure fails, because
  required fields are missing.
\<close>

record transfer_details =
  td_token_id :: string
  td_from_address :: string
  td_to_address :: string
  td_amount :: rat

record swap_details =
  sd_token_in :: string
  sd_token_out :: string
  sd_amount_in :: rat
  sd_amount_out :: rat
  sd_pool_address :: string
  sd_tx_id :: string
  sd_hop_count :: int

record contract_call_details =
  ccd_contract_address :: string

datatype details = TransferJson transfer_details | SwapJson swap_details | CallJson contract_call_details

record new_account_transaction =
  nat_address :: string
  nat_tx_type :: string
  nat_tx_id :: string
  nat_from_group :: int
  nat_to_group :: int
  nat_block_height :: int
  nat_timestamp :: naive_datetime
  nat_details :: details

text \<open>A stored transaction has an id and the columns of the inserted one.\<close>

record account_transaction =
  at_id :: int
  at_row :: new_account_transaction

record swap_transaction =
  st_address :: string
  st_tx_id :: string
  st_token_in :: string
  st_token_out :: string
  st_amount_in :: rat
  st_amount_out :: rat
  st_pool_address :: string
  st_hop_count :: int

record new_pool_dto =
  npd_token_a :: string
  npd_token_b :: string
  npd_factory_address :: string
  npd_address :: string

record pool =
  pool_id :: int
  pool_address :: string
  pool_token_a :: string
  pool_token_b :: string
  pool_factory_address :: string

definition pool_of_dto :: "new_pool_dto \<Rightarrow> pool" where
  "pool_of_dto dto = \<lparr>pool_id = 0, pool_address = npd_address dto, pool_token_a = npd_token_a dto,
    pool_token_b = npd_token_b dto, pool_factory_address = npd_factory_address dto\<rparr>"

record linx_transaction =
  lt_id :: int
  lt_tx_id :: string
  lt_user_address :: string
  lt_created_at :: naive_datetime

record new_linx_transaction =
  nlt_tx_id :: string
  nlt_user_address :: string

section \<open>The account transactions repository\<close>

text \<open>
  The generated column \<^verbatim>\<open>tx_key\<close> is \<^verbatim>\<open>tx_id:address:tx_type:md5(details)\<close>; rows clash when these
  four agree (two different \<^verbatim>\<open>details\<close> with one MD5 sum are not considered).
\<close>

definition tx_key :: "new_account_transaction \<Rightarrow> string \<times> string \<times> string \<times> details" where
  "tx_key t = (nat_tx_id t, nat_address t, nat_tx_type t, nat_details t)"

definition at_key :: "account_transaction \<Rightarrow> string \<times> string \<times> string \<times> details" where
  "at_key r = tx_key (at_row r)"

definition mk_account_tx :: "int \<Rightarrow> new_account_transaction \<Rightarrow> account_transaction" where
  "mk_account_tx i n = \<lparr>at_id = i, at_row = n\<rparr>"

definition insert_transactions ::
  "new_account_transaction list \<Rightarrow> account_transaction table \<Rightarrow> account_transaction table" where
  "insert_transactions txs T =
    (if txs = [] then T else insert_ignore tx_key at_key mk_account_tx txs T)"

definition get_account_transactions ::
  "string \<Rightarrow> int \<Rightarrow> naive_datetime option \<Rightarrow> account_transaction table \<Rightarrow> account_transaction list res" where
  "get_account_transactions address limit cursor T =
    (let rows = filter (\<lambda>r. nat_address (at_row r) = address) (t_rows T);
         rows2 = (case cursor of None \<Rightarrow> rows
           | Some c \<Rightarrow> filter (\<lambda>r. nat_timestamp (at_row r) < c) rows)
     in sql_page 0 limit (order_desc (\<lambda>r. nat_timestamp (at_row r)) rows2))"

definition get_transactions_by_type_in_period ::
  "string \<Rightarrow> naive_datetime \<Rightarrow> naive_datetime \<Rightarrow> account_transaction table \<Rightarrow> account_transaction list" where
  "get_transactions_by_type_in_period ty start_time end_time T =
    filter (\<lambda>r. nat_tx_type (at_row r) = ty \<and> start_time \<le> nat_timestamp (at_row r)
      \<and> nat_timestamp (at_row r) < end_time) (t_rows T)"

fun swap_details_of :: "details \<Rightarrow> swap_details option" where
  "swap_details_of (SwapJson d) = Some d"
| "swap_details_of _ = None"

definition get_linx_swaps_in_period ::
  "linx_transaction table \<Rightarrow> account_transaction table \<Rightarrow> naive_datetime \<Rightarrow> naive_datetime
    \<Rightarrow> swap_transaction list" where
  "get_linx_swaps_in_period LT T start_time end_time =
    (let joined = concat (List.map (\<lambda>r. List.map (\<lambda>_. r)
            (filter (\<lambda>l. lt_tx_id l = nat_tx_id (at_row r)) (t_rows LT))) (t_rows T));
         account_txs = filter (\<lambda>r. nat_tx_type (at_row r) = ''swap'' \<and> start_time \<le> nat_timestamp (at_row r)
            \<and> nat_timestamp (at_row r) < end_time) joined
     in List.map_filter (\<lambda>r. case swap_details_of (nat_details (at_row r)) of
            None \<Rightarrow> None
          | Some d \<Rightarrow> Some \<lparr>st_address = nat_address (at_row r), st_tx_id = nat_tx_id (at_row r),
              st_token_in = sd_token_in d, st_token_out = sd_token_out d,
              st_amount_in = sd_amount_in d, st_amount_out = sd_amount_out d,
              st_pool_address = sd_pool_address d, st_hop_count = sd_hop_count d\<rparr>) account_txs)"

section \<open>Pools and application transactions\<close>

definition mk_pool :: "int \<Rightarrow> new_pool_dto \<Rightarrow> pool" where
  "mk_pool i n = (pool_of_dto n)\<lparr>pool_id := i\<rparr>"

definition insert_pools :: "new_pool_dto list \<Rightarrow> pool table \<Rightarrow> pool table" where
  "insert_pools pools T =
    (if pools = [] then T else insert_ignore npd_address pool_address mk_pool pools T)"

definition get_pools :: "pool table \<Rightarrow> (string, pool) hmap" where
  "get_pools T = fold (\<lambda>p. hm_insert (pool_address p) p) (t_rows T) []"

definition mk_linx_tx :: "naive_datetime \<Rightarrow> int \<Rightarrow> new_linx_transaction \<Rightarrow> linx_transaction" where
  "mk_linx_tx now i n = \<lparr>lt_id = i, lt_tx_id = nlt_tx_id n, lt_user_address = nlt_user_address n,
    lt_created_at = now\<rparr>"

definition insert_linx_transaction ::
  "naive_datetime \<Rightarrow> new_linx_transaction \<Rightarrow> (linx_transaction table, error, linx_transaction) action"
  where
  "insert_linx_transaction now n T = insert_unique nlt_tx_id lt_tx_id (mk_linx_tx now) n T"

definition is_linx_transaction :: "string \<Rightarrow> linx_transaction table \<Rightarrow> bool" where
  "is_linx_transaction tx T \<longleftrightarrow> length (filter (\<lambda>l. lt_tx_id l = tx) (t_rows T)) > 0"

interpretation acct: keyed_table tx_key at_key mk_account_tx
  by unfold_locales (simp add: at_key_def mk_account_tx_def)

interpretation pools: keyed_table npd_address pool_address mk_pool
  by unfold_locales (simp add: mk_pool_def pool_of_dto_def)

interpretation linx: keyed_table nlt_tx_id lt_tx_id "mk_linx_tx now" for now
  by unfold_locales (simp add: mk_linx_tx_def)

lemma get_pools_aux:
  "keys_unique pool_address T \<Longrightarrow> map_of (get_pools T) a = lookup pool_address a T"
proof -
  have "distinct (List.map pool_address ps) \<Longrightarrow>
      map_of (fold (\<lambda>p. hm_insert (pool_address p) p) ps m) a =
      (case List.find (\<lambda>p. pool_address p = a) ps of Some p \<Rightarrow> Some p | None \<Rightarrow> map_of m a)" for ps m
  proof (induction ps arbitrary: m)
    case (Cons p ps)
    have "List.find (\<lambda>q. pool_address q = a) ps = None" if "pool_address p = a"
      unfolding find_None_iff using Cons.prems that
      by (metis distinct.simps(2) image_eqI list.set_map list.simps(9))
    with Cons show ?case
      by (auto simp: hm_simps split: option.split)
  qed simp
  from this [of "t_rows T" "[]"] show "keys_unique pool_address T \<Longrightarrow> map_of (get_pools T) a = lookup pool_address a T"
    by (simp add: get_pools_def keys_unique_def lookup_def split: option.split)
qed

end
