(* ===== verification/Chain_Types.thy ===== *)
theory Chain_Types
  imports Calendar
begin

text \<open>
  The node's data (\<^verbatim>\<open>bento-types/src/lib.rs\<close>), JSON values, the networks
  (\<^verbatim>\<open>network.rs\<close>) and the conversion of millisecond timestamps (\<^verbatim>\<open>utils/time.rs\<close>).
\<close>

section \<open>JSON values\<close>

datatype json =
    JNull
  | JBool bool
  | JNumber int
  | JString string
  | JArray "json list"
  | JObject "(string \<times> json) list"

fun json_as_object :: "json \<Rightarrow> (string \<times> json) list option" where
  "json_as_object (JObject kvs) = Some kvs"
| "json_as_object _ = None"

fun json_as_str :: "json \<Rightarrow> string option" where
  "json_as_str (JString s) = Some s"
| "json_as_str _ = None"

definition json_get :: "string \<Rightarrow> json \<Rightarrow> json option" where
  "json_get k j = (case json_as_object j of None \<Rightarrow> None | Some kvs \<Rightarrow> map_of kvs k)"

section \<open>Blocks, transactions, events\<close>

type_synonym block_hash = string

datatype event_field_type = FBool | FI256 | FU256 | FByteVec | FAddress

record event_field =
  ef_type :: event_field_type
  ef_value :: json

record contract_event =
  ce_tx_id :: string
  ce_contract_address :: string
  ce_event_index :: int
  ce_fields :: "event_field list"

record token =
  tk_id :: string
  tk_amount :: string

record rich_asset_input =
  rai_hint :: int
  rai_key :: string
  rai_unlock_script :: string
  rai_atto_alph_amount :: string
  rai_address :: string
  rai_tokens :: "token list"

record contract_input =
  cin_hint :: int
  cin_key :: string
  cin_atto_alph_amount :: string
  cin_address :: string
  cin_tokens :: "token list"

record fixed_asset_output =
  fao_hint :: int
  fao_key :: string
  fao_atto_alph_amount :: string
  fao_address :: string
  fao_tokens :: "token list"
  fao_lock_time :: int
  fao_message :: string

datatype output_type = AssetOutput | ContractOutput

record tx_output =
  out_type :: output_type
  out_hint :: int
  out_key :: string
  out_atto_alph_amount :: string
  out_address :: string
  out_tokens :: "token list"

record unsigned_tx =
  utx_tx_id :: string
  utx_version :: int
  utx_network_id :: int
  utx_script_opt :: "string option"
  utx_gas_amount :: int
  utx_gas_price :: string
  utx_inputs :: "rich_asset_input list"
  utx_fixed_outputs :: "fixed_asset_output list"

record chain_tx =
  tx_unsigned :: unsigned_tx
  tx_script_execution_ok :: bool
  tx_contract_inputs :: "contract_input list"
  tx_generated_outputs :: "tx_output list"
  tx_input_signatures :: "string list"
  tx_script_signatures :: "string list"

record ghost_uncle =
  gu_block_hash :: string
  gu_miner :: string

record rich_block =
  rb_hash :: block_hash
  rb_timestamp :: int
  rb_chain_from :: int
  rb_chain_to :: int
  rb_height :: int
  rb_deps :: "string list"
  rb_transactions :: "chain_tx list"
  rb_nonce :: string
  rb_version :: int
  rb_dep_state_hash :: string
  rb_txs_hash :: string
  rb_target :: string
  rb_ghost_uncles :: "ghost_uncle list"
  rb_parent :: "block_hash option"
  rb_main_chain :: "bool option"

record block_entry =
  be_hash :: block_hash
  be_timestamp :: int
  be_chain_from :: int
  be_chain_to :: int
  be_height :: int
  be_deps :: "string list"
  be_nonce :: string
  be_version :: int
  be_dep_state_hash :: string
  be_txs_hash :: string
  be_target :: string
  be_parent :: "block_hash option"
  be_main_chain :: "bool option"

record block_header_entry =
  bhe_hash :: block_hash
  bhe_timestamp :: int
  bhe_chain_from :: int
  bhe_chain_to :: int
  bhe_height :: int
  bhe_deps :: "string list"

record block_and_events =
  bae_block :: rich_block
  bae_events :: "contract_event list"

record block_range =
  range_from_ts :: int
  range_to_ts :: int

record block_batch =
  batch_blocks :: "block_and_events list"
  batch_range :: block_range

record chain_info =
  ci_current_height :: int

section \<open>Contract calls\<close>

datatype call_contract_result_type = CallContractSucceeded | CallContractFailed

record call_contract_params =
  ccp_group :: int
  ccp_world_state_block_hash :: "string option"
  ccp_tx_id :: "string option"
  ccp_address :: string
  ccp_method_index :: int
  ccp_args :: "json list option"
  ccp_interested_contracts :: "string list option"
  ccp_input_assets :: "json list option"

record call_contract_result =
  ccr_result_type :: call_contract_result_type
  ccr_error :: "string option"
  ccr_returns :: "json list option"

record contract_token =
  ct_id :: string
  ct_amount :: string

record contract_asset =
  ca_atto_alph_amount :: string
  ca_tokens :: "contract_token list"

record contract_state =
  cs_address :: string
  cs_asset :: contract_asset

section \<open>Constants\<close>

definition default_group_num :: int where
  "default_group_num = 4"

definition reorg_timeout :: int where
  "reorg_timeout = 210 * 16 * 1000"

definition max_timestamp_range :: int where
  "max_timestamp_range = 1800000"

section \<open>Networks\<close>

datatype network_type = DevnetType | TestnetType | MainnetType

datatype network = Devnet | Testnet | Mainnet | CustomNetwork string network_type

fun network_type_string :: "network_type \<Rightarrow> string" where
  "network_type_string DevnetType = ''devnet''"
| "network_type_string TestnetType = ''testnet''"
| "network_type_string MainnetType = ''mainnet''"

text \<open>\<^verbatim>\<open>env\<close> is the process environment.\<close>

fun base_url :: "(string \<Rightarrow> string option) \<Rightarrow> network \<Rightarrow> string" where
  "base_url env Devnet = (case env ''DEV_NODE_URL'' of Some u \<Rightarrow> u | None \<Rightarrow> ''http://127.0.0.1:12973'')"
| "base_url env Testnet = (case env ''TESTNET_NODE_URL'' of Some u \<Rightarrow> u
    | None \<Rightarrow> ''https://node.testnet.alephium.org'')"
| "base_url env Mainnet = (case env ''MAINNET_NODE_URL'' of Some u \<Rightarrow> u
    | None \<Rightarrow> ''https://node.mainnet.alephium.org'')"
| "base_url env (CustomNetwork url _) = url"

fun network_identifier :: "network \<Rightarrow> string" where
  "network_identifier Devnet = ''devnet''"
| "network_identifier Testnet = ''testnet''"
| "network_identifier Mainnet = ''mainnet''"
| "network_identifier (CustomNetwork _ t) = network_type_string t"

definition network_default :: "(string \<Rightarrow> string option) \<Rightarrow> network" where
  "network_default env = (case env ''NETWORK'' of
      Some v \<Rightarrow> if v = ''devnet'' then Devnet else if v = ''testnet'' then Testnet
        else if v = ''mainnet'' then Mainnet else Mainnet
    | None \<Rightarrow> Mainnet)"

definition network_to_string :: "network \<Rightarrow> string" where
  "network_to_string n = (case n of Devnet \<Rightarrow> ''devnet'' | Testnet \<Rightarrow> ''testnet'' | Mainnet \<Rightarrow> ''mainnet''
    | CustomNetwork _ t \<Rightarrow> network_type_string t)"

definition network_of_string :: "string \<Rightarrow> network res" where
  "network_of_string s = (if s = ''devnet'' then Inr Devnet else if s = ''testnet'' then Inr Testnet
    else if s = ''mainnet'' then Inr Mainnet else Inl (Panic ''Invalid network type''))"

definition network_type_of_string :: "string \<Rightarrow> network_type res" where
  "network_type_of_string s = (if s = ''devnet'' then Inr DevnetType
    else if s = ''testnet'' then Inr TestnetType
    else if s = ''mainnet'' then Inr MainnetType else Inl (Panic ''Invalid network type''))"

section \<open>Timestamps\<close>

text \<open>
  \<^verbatim>\<open>DateTime::from_timestamp\<close> fails outside the range of dates, and for a nanosecond part of two
  seconds or more (a leap second is allowed only in a second that ends a minute).
\<close>

definition from_timestamp :: "date_limits \<Rightarrow> int \<Rightarrow> int \<Rightarrow> naive_datetime option" where
  "from_timestamp L secs nsecs =
    (let d = secs div 86400 in
     if d < date_min L \<or> date_max L < d then None
     else if nsecs \<ge> 2000000000 \<or> (nsecs \<ge> 1000000000 \<and> secs mod 60 \<noteq> 59) then None
     else Some (secs * second_ns + nsecs))"

definition rust_rem :: "int \<Rightarrow> int \<Rightarrow> int" where
  "rust_rem a b = a - b * rust_div a b"

definition timestamp_millis_to_naive_datetime :: "date_limits \<Rightarrow> int \<Rightarrow> naive_datetime" where
  "timestamp_millis_to_naive_datetime L ms =
    (let seconds = rust_div ms 1000;
         nanoseconds = rust_rem ms 1000 * 1000000
     in case from_timestamp L seconds (nanoseconds mod 4294967296) of
       None \<Rightarrow> 0 | Some t \<Rightarrow> t)"

lemma from_timestamp_ok:
  "date_min L \<le> secs div 86400 \<Longrightarrow> secs div 86400 \<le> date_max L \<Longrightarrow> nsecs < 1000000000 \<Longrightarrow>
    from_timestamp L secs nsecs = Some (secs * second_ns + nsecs)"
  by (simp add: from_timestamp_def)

lemma timestamp_nonneg:
  assumes "0 \<le> ms" "ms div 86400000 \<le> date_max L" "date_min L \<le> 0"
  shows "timestamp_millis_to_naive_datetime L ms = ms * 1000000"
proof -
  have d: "rust_div ms 1000 = ms div 1000"
    using assms(1) by (simp add: int_simps)
  then have r: "rust_rem ms 1000 = ms mod 1000"
    by (simp add: rust_rem_def minus_mult_div_eq_mod)
  have b: "0 \<le> (ms mod 1000) * 1000000" "(ms mod 1000) * 1000000 < 1000000000"
    using pos_mod_bound [of 1000 ms] by simp_all
  then have n: "(ms mod 1000) * 1000000 mod 4294967296 = (ms mod 1000) * 1000000"
    by (intro mod_pos_pos_trivial) linarith+
  have e: "ms div 1000 div 86400 = ms div 86400000"
    using zdiv_zmult2_eq [of 86400 ms 1000] by simp
  have nn: "0 \<le> ms div 86400000"
    using assms(1) by (simp add: pos_imp_zdiv_nonneg_iff)
  have "from_timestamp L (ms div 1000) ((ms mod 1000) * 1000000)
      = Some (ms div 1000 * second_ns + (ms mod 1000) * 1000000)"
    by (rule from_timestamp_ok; use assms(2,3) b(2) e nn in linarith)
  moreover have "ms div 1000 * second_ns + (ms mod 1000) * 1000000 = ms * 1000000"
    using div_mult_mod_eq [of ms 1000] unfolding second_ns_def by linarith
  ultimately show ?thesis
    unfolding timestamp_millis_to_naive_datetime_def Let_def d r n by simp
qed

text \<open>
  A block timestamp in milliseconds becomes exactly that instant; but a time before 1970 that is
  not a whole number of seconds becomes the epoch itself, since its nanoseconds are negative and
  wrap to a value that \<^verbatim>\<open>chrono\<close> rejects.
\<close>
theorem timestamp_conversion:
  assumes "0 \<le> ms" "ms div 86400000 \<le> date_max L" "date_min L \<le> 0"
    and "0 \<le> n" "0 < k" "k < 1000"
  shows "timestamp_millis_to_naive_datetime L ms = ms * 1000000 \<and>
    timestamp_millis_to_naive_datetime L (- (1000 * n + k)) = 0"
proof -
  have "(1000 * n + k) div 1000 = n"
    using assms by simp
  then have d: "rust_div (- (1000 * n + k)) 1000 = - n"
    using assms unfolding rust_div_def by simp
  then have r: "rust_rem (- (1000 * n + k)) 1000 = - k"
    by (simp add: rust_rem_def)
  have "(- k * 1000000) mod 4294967296 = 4294967296 - k * 1000000"
  proof -
    have "(- k * 1000000) mod 4294967296 = (4294967296 - k * 1000000) mod 4294967296"
      using mod_add_self1 [of 4294967296 "- k * 1000000"] by simp
    also have "\<dots> = 4294967296 - k * 1000000"
      using assms(5,6) by (intro mod_pos_pos_trivial) linarith+
    finally show ?thesis .
  qed
  then have "from_timestamp L (- n) ((- k * 1000000) mod 4294967296) = None"
    using assms(5,6) by (simp add: from_timestamp_def)
  then have "timestamp_millis_to_naive_datetime L (- (1000 * n + k)) = 0"
    unfolding timestamp_millis_to_naive_datetime_def Let_def d r by simp
  then show ?thesis
    using timestamp_nonneg [OF assms(1-3)] by simp
qed

theorem timestamp_conversion_witness:
  "timestamp_millis_to_naive_datetime \<lparr>date_min = -100, date_max = 100000\<rparr> 1700000000123
      = 1700000000123 * 1000000 \<and>
    timestamp_millis_to_naive_datetime \<lparr>date_min = -100, date_max = 100000\<rparr> (- (1000 * 5 + 1)) = 0"
  by (rule timestamp_conversion) simp_all

end
