(* ===== verification/Lending_Models.thy ===== *)
theory Lending_Models
  imports Keyed_Store Calendar Decimal Chain_Types
begin

text \<open>
  The lending data (\<^verbatim>\<open>models/lending.rs\<close>): markets, events, positions and snapshots. Where the code
  has a structure for insertion and one for the stored row, the stored row is the inserted one with
  its id.
\<close>

record market =
  mkt_id :: string
  mkt_market_contract_id :: string
  mkt_collateral_token :: string
  mkt_loan_token :: string
  mkt_oracle :: string
  mkt_irm :: string
  mkt_ltv :: rat
  mkt_created_at :: naive_datetime

record new_lending_event =
  le_market_id :: string
  le_event_type :: string
  le_token_id :: string
  le_on_behalf :: string
  le_amount :: rat
  le_shares :: rat
  le_transaction_id :: string
  le_event_index :: int
  le_block_time :: naive_datetime
  le_created_at :: naive_datetime
  le_fields :: "event_field list"

record lending_event =
  lev_id :: int
  lev_row :: new_lending_event

record new_position_snapshot =
  pos_address :: string
  pos_market_id :: string
  pos_supply_amount :: rat
  pos_supply_amount_usd :: rat
  pos_timestamp :: naive_datetime
  pos_borrow_amount :: rat
  pos_borrow_amount_usd :: rat
  pos_collateral_amount :: rat
  pos_collateral_amount_usd :: rat

record position_snapshot =
  psn_id :: int
  psn_row :: new_position_snapshot

record position =
  po_market_id :: string
  po_address :: string
  po_supply_shares :: rat
  po_borrow_shares :: rat
  po_collateral :: rat
  po_supplied_amount :: rat
  po_borrowed_amount :: rat
  po_updated_at :: naive_datetime

record market_state =
  ms_total_supply_assets :: rat
  ms_total_supply_shares :: rat
  ms_total_borrow_assets :: rat
  ms_total_borrow_shares :: rat
  ms_last_update :: naive_datetime
  ms_fee :: rat

record new_market_state_snapshot =
  mss_market_id :: string
  mss_total_supply_assets :: rat
  mss_total_supply_shares :: rat
  mss_total_borrow_assets :: rat
  mss_total_borrow_shares :: rat
  mss_snapshot_timestamp :: naive_datetime
  mss_total_collateral_assets :: rat
  mss_total_supply_usd :: rat
  mss_total_borrow_usd :: rat
  mss_total_collateral_usd :: rat
  mss_borrow_apy :: rat
  mss_fee :: rat
  mss_cumulative_supply_volume_usd :: rat
  mss_cumulative_borrow_volume_usd :: rat
  mss_bad_debt_usd :: rat

record market_state_snapshot =
  mst_id :: int
  mst_row :: new_market_state_snapshot

datatype timeframe = OneMonth | ThreeMonths | OneYear | AllTime

definition timeframe_start :: "naive_datetime \<Rightarrow> timeframe \<Rightarrow> naive_datetime" where
  "timeframe_start now tf = (case tf of
      OneMonth \<Rightarrow> now - 30 * day_ns
    | ThreeMonths \<Rightarrow> now - 90 * day_ns
    | OneYear \<Rightarrow> now - 365 * day_ns
    | AllTime \<Rightarrow> 0)"

definition bucket_interval :: "timeframe \<Rightarrow> string" where
  "bucket_interval tf = (case tf of OneMonth \<Rightarrow> ''hour'' | ThreeMonths \<Rightarrow> ''day'' | OneYear \<Rightarrow> ''day''
    | AllTime \<Rightarrow> ''day'')"

record new_lending_stats_snapshot =
  lss_total_supply_usd :: rat
  lss_total_borrow_usd :: rat
  lss_total_collateral_usd :: rat
  lss_tvl_usd :: rat
  lss_apy_30d_avg :: rat
  lss_snapshot_timestamp :: naive_datetime

record lending_stats_snapshot =
  lst_id :: int
  lst_created_at :: naive_datetime
  lst_row :: new_lending_stats_snapshot

record position_totals =
  pt_total_supply_usd :: rat
  pt_total_borrow_usd :: rat
  pt_total_collateral_usd :: rat

datatype series_bucket = HourBucket | DayBucket

definition date_trunc_kind :: "series_bucket \<Rightarrow> string" where
  "date_trunc_kind b = (case b of HourBucket \<Rightarrow> ''hour'' | DayBucket \<Rightarrow> ''day'')"

record market_state_point =
  msp_market_id :: string
  msp_bucket_ts :: naive_datetime
  msp_total_supply_usd :: rat
  msp_total_borrow_usd :: rat
  msp_total_collateral_usd :: rat
  msp_total_supply_assets :: rat
  msp_total_borrow_assets :: rat
  msp_borrow_apy :: rat
  msp_fee :: rat
  msp_cumulative_supply_volume_usd :: rat
  msp_cumulative_borrow_volume_usd :: rat
  msp_bad_debt_usd :: rat

text \<open>\<^verbatim>\<open>date_trunc(kind, timestamp)\<close> of PostgreSQL for the two kinds in use.\<close>

definition bucket_ns :: "string \<Rightarrow> int" where
  "bucket_ns kind = (if kind = ''hour'' then 3600 * second_ns else day_ns)"

definition date_trunc :: "string \<Rightarrow> naive_datetime \<Rightarrow> naive_datetime" where
  "date_trunc kind t = t div bucket_ns kind * bucket_ns kind"

lemma bucket_ns_pos [simp]: "0 < bucket_ns kind"
  by (simp add: bucket_ns_def second_ns_def)

lemma date_trunc_le: "date_trunc kind t \<le> t \<and> t < date_trunc kind t + bucket_ns kind"
proof -
  have "t = t div bucket_ns kind * bucket_ns kind + t mod bucket_ns kind"
    by simp
  then show ?thesis
    unfolding date_trunc_def
    using pos_mod_sign [OF bucket_ns_pos, of t kind] pos_mod_bound [OF bucket_ns_pos, of t kind]
    by linarith
qed

end
