(* ===== verification/Hex_Crypto.thy ===== *)
theory Hex_Crypto
  imports Chain_Types Decimal
begin

text \<open>
  Hexadecimal text, contract addresses (\<^verbatim>\<open>lib.rs\<close> of the indexer application) and the checks of
  keys and signatures (\<^verbatim>\<open>crypto.rs\<close>). The algorithms of the crates \<^verbatim>\<open>hex\<close>, \<^verbatim>\<open>bs58\<close>,
  \<^verbatim>\<open>blake2\<close>, \<^verbatim>\<open>sha2\<close> and \<^verbatim>\<open>secp256k1\<close> are the fields of \<^verbatim>\<open>crypto_ops\<close>; a byte is a
  \<^typ>\<open>nat\<close> below 256.
\<close>

section \<open>Hexadecimal text\<close>

definition hex_digit :: "nat \<Rightarrow> char" where
  "hex_digit n = (if n < 10 then char_of (48 + n) else char_of (87 + n))"

definition hex_value :: "char \<Rightarrow> nat option" where
  "hex_value c = (let n = (of_char c :: nat) in
    if 48 \<le> n \<and> n \<le> 57 then Some (n - 48)
    else if 97 \<le> n \<and> n \<le> 102 then Some (n - 87)
    else if 65 \<le> n \<and> n \<le> 70 then Some (n - 55) else None)"

text \<open>\<^verbatim>\<open>u8::from_str_radix(pair, 16)\<close> on two characters: a leading plus sign is accepted.\<close>

definition byte_of_pair :: "char \<Rightarrow> char \<Rightarrow> nat option" where
  "byte_of_pair a b =
    (if a = CHR ''+'' then hex_value b
     else case (hex_value a, hex_value b) of (Some x, Some y) \<Rightarrow> Some (16 * x + y) | _ \<Rightarrow> None)"

text \<open>\<^verbatim>\<open>&hex[i..i + 2]\<close> panics on the last character of a text of odd length.\<close>

fun hex_to_bin_unsafe :: "string \<Rightarrow> nat list res" where
  "hex_to_bin_unsafe [] = Inr []"
| "hex_to_bin_unsafe [c] = Inl (Panic ''byte index out of bounds'')"
| "hex_to_bin_unsafe (a # b # rest) =
    and_then (unwrap ''invalid digit found in string'' (byte_of_pair a b))
      (\<lambda>byte. and_then (hex_to_bin_unsafe rest) (\<lambda>bytes. Inr (byte # bytes)))"

definition hex_byte :: "nat \<Rightarrow> string" where
  "hex_byte n = [hex_digit (n div 16), hex_digit (n mod 16)]"

definition bin_to_hex :: "nat list \<Rightarrow> string" where
  "bin_to_hex bin = concat (List.map hex_byte bin)"

definition string_to_hex :: "string \<Rightarrow> string" where
  "string_to_hex s = concat (List.map (\<lambda>c. hex_byte (of_char c)) s)"

lemma hex_value_digit: "n < 16 \<Longrightarrow> hex_value (hex_digit n) = Some n"
  by (auto simp: hex_digit_def hex_value_def Let_def of_char_of)

lemma hex_digit_not_plus: "n < 16 \<Longrightarrow> hex_digit n \<noteq> CHR ''+''"
proof
  assume n: "n < 16" and e: "hex_digit n = CHR ''+''"
  have "of_char (hex_digit n) = (43 :: nat)"
    by (simp add: e)
  with n show False
    by (auto simp: hex_digit_def of_char_of split: if_splits)
qed

lemma byte_of_hex: "n < 256 \<Longrightarrow> byte_of_pair (hex_digit (n div 16)) (hex_digit (n mod 16)) = Some n"
  by (simp add: byte_of_pair_def hex_digit_not_plus hex_value_digit)

lemma hex_bin_aux:
  "\<forall>b\<in>set bytes. b < 256 \<Longrightarrow> hex_to_bin_unsafe (bin_to_hex bytes) = Inr bytes"
  by (induction bytes) (simp_all add: bin_to_hex_def hex_byte_def byte_of_hex)

lemma hex_to_bin_bytes: "hex_to_bin_unsafe s = Inr bytes \<Longrightarrow> length s = 2 * length bytes \<and> (\<forall>b\<in>set bytes. b < 256)"
proof (induction s arbitrary: bytes rule: hex_to_bin_unsafe.induct)
  case (3 a b rest)
  have v: "hex_value c = Some x \<Longrightarrow> x < 16" for c x
    by (auto simp: hex_value_def Let_def split: if_splits)
  from "3.prems" obtain byte bs where *: "byte_of_pair a b = Some byte"
      "hex_to_bin_unsafe rest = Inr bs" "bytes = byte # bs"
    by (auto simp: res_simps)
  then have "byte < 256"
    using v [of a] v [of b] by (auto simp: byte_of_pair_def split: if_splits option.splits)
  with "3.IH" [OF *(2)] * show ?case
    by simp
qed auto



section \<open>Addresses\<close>

record crypto_ops =
  co_hex_decode :: "string \<Rightarrow> string + nat list"
  co_hex_encode :: "nat list \<Rightarrow> string"
  co_bs58_encode :: "nat list \<Rightarrow> string"
  co_bs58_decode :: "string \<Rightarrow> string + nat list"
  co_blake2b :: "nat list \<Rightarrow> nat list"
  co_sha256 :: "nat list \<Rightarrow> nat list"
  co_digest_check :: "nat list \<Rightarrow> string + nat list"
  co_secret_key :: "nat list \<Rightarrow> string + nat list"
  co_public_key :: "nat list \<Rightarrow> nat list"
  co_sign :: "nat list \<Rightarrow> nat list \<Rightarrow> nat list"
  co_parse_signature :: "nat list \<Rightarrow> string + nat list"
  co_parse_public_key :: "nat list \<Rightarrow> string + nat list"
  co_verify :: "nat list \<Rightarrow> nat list \<Rightarrow> nat list \<Rightarrow> bool"

datatype address_type = P2PKH | P2MPKH | P2SH | P2C | P2PK | P2HMPK

fun type_byte :: "address_type \<Rightarrow> nat" where
  "type_byte P2PKH = 0"
| "type_byte P2MPKH = 1"
| "type_byte P2SH = 2"
| "type_byte P2C = 3"
| "type_byte P2PK = 4"
| "type_byte P2HMPK = 5"

definition address_from_contract_id :: "crypto_ops \<Rightarrow> string \<Rightarrow> string res" where
  "address_from_contract_id C contract_id =
    and_then (hex_to_bin_unsafe contract_id) (\<lambda>hash.
      Inr (co_bs58_encode C (type_byte P2C # hash)))"

text \<open>\<^verbatim>\<open>map_err(|e| anyhow!("prefix: {}", e))\<close>\<close>

definition with_prefix :: "string \<Rightarrow> string + 'a \<Rightarrow> 'a res" where
  "with_prefix p r = map_err (\<lambda>e. Error (p @ e)) r"

definition address_from_private_key :: "crypto_ops \<Rightarrow> nat list \<Rightarrow> address_type \<Rightarrow> string res" where
  "address_from_private_key C private_key_bytes address_type =
    (if length private_key_bytes \<noteq> 32 then Inl (Error ''Private key must be 32 bytes'')
     else and_then (with_prefix ''Invalid private key: '' (co_secret_key C private_key_bytes)) (\<lambda>secret_key.
       let pubkey_bytes = co_public_key C secret_key;
           hash = co_blake2b C pubkey_bytes
       in Inr (co_bs58_encode C (type_byte address_type # hash))))"

definition bytes_of_string :: "string \<Rightarrow> nat list" where
  "bytes_of_string s = List.map of_char s"

definition sign_message :: "crypto_ops \<Rightarrow> string \<Rightarrow> nat list \<Rightarrow> string res" where
  "sign_message C message private_key_bytes =
    (if length private_key_bytes \<noteq> 32 then Inl (Error ''Private key must be 32 bytes'')
     else and_then (with_prefix ''Invalid message hash: ''
         (co_digest_check C (co_sha256 C (bytes_of_string message)))) (\<lambda>secp_message.
       and_then (with_prefix ''Invalid private key: '' (co_secret_key C private_key_bytes)) (\<lambda>secret_key.
         Inr (co_hex_encode C (co_sign C secp_message secret_key)))))"

definition verify_signature :: "crypto_ops \<Rightarrow> string \<Rightarrow> string \<Rightarrow> string \<Rightarrow> bool res" where
  "verify_signature C public_key_hex message signature_hex =
    and_then (with_prefix ''Invalid message hash: ''
        (co_digest_check C (co_sha256 C (bytes_of_string message)))) (\<lambda>secp_message.
    and_then (with_prefix ''Invalid signature hex: '' (co_hex_decode C signature_hex)) (\<lambda>signature_bytes.
    and_then (with_prefix ''Invalid signature format: '' (co_parse_signature C signature_bytes)) (\<lambda>signature.
    and_then (with_prefix ''Invalid public key hex: '' (co_hex_decode C public_key_hex)) (\<lambda>pubkey_bytes.
    and_then (with_prefix ''Invalid public key: '' (co_parse_public_key C pubkey_bytes)) (\<lambda>public_key.
      Inr (co_verify C secp_message signature public_key))))))"

definition verify_public_key_for_address :: "crypto_ops \<Rightarrow> string \<Rightarrow> string \<Rightarrow> bool res" where
  "verify_public_key_for_address C public_key_hex address =
    and_then (with_prefix ''Invalid public key hex: '' (co_hex_decode C public_key_hex)) (\<lambda>pubkey_bytes.
    and_then (with_prefix ''Invalid address format: '' (co_bs58_decode C address)) (\<lambda>decoded_address.
      if decoded_address = [] then Inl (Error ''Empty address'')
      else
        let address_type = hd decoded_address in
        if address_type \<le> 3 then
          (if length decoded_address \<noteq> 33 then Inl (Error ''Invalid address length for type'')
           else Inr (co_blake2b C pubkey_bytes = tl decoded_address))
        else if address_type = 4 then
          (if length decoded_address < 39 then Inl (Error ''Invalid P2PK address length'')
           else Inr (pubkey_bytes = take (length decoded_address - 4 - 2) (drop 2 decoded_address)))
        else if address_type = 5 then
          Inl (Error ''Cannot verify single public key for P2HMPK multisig address'')
        else Inl (Error ''Unsupported address type'')))"

text \<open>
  Documented behaviour of the dependencies: decoding inverts encoding, and a BLAKE2b-256 digest has
  32 bytes; all of them work on bytes. \<^verbatim>\<open>toy_crypto\<close> shows that these can hold together.
\<close>

definition crypto_laws :: "crypto_ops \<Rightarrow> bool" where
  "crypto_laws C \<longleftrightarrow>
    (\<forall>bs. (\<forall>b\<in>set bs. b < 256) \<longrightarrow> co_bs58_decode C (co_bs58_encode C bs) = Inr bs) \<and>
    (\<forall>bs. (\<forall>b\<in>set bs. b < 256) \<longrightarrow> co_hex_decode C (co_hex_encode C bs) = Inr bs) \<and>
    (\<forall>bs. length (co_blake2b C bs) = 32 \<and> (\<forall>b\<in>set (co_blake2b C bs). b < 256)) \<and>
    (\<forall>k. \<forall>b\<in>set (co_public_key C k). b < 256)"

definition unary :: "nat list \<Rightarrow> string" where
  "unary bs = concat (List.map (\<lambda>n. replicate n CHR ''1'' @ ''0'') bs)"

fun unary_decode :: "string \<Rightarrow> nat \<Rightarrow> nat list" where
  "unary_decode [] n = []"
| "unary_decode (c # cs) n = (if c = CHR ''0'' then n # unary_decode cs 0 else unary_decode cs (Suc n))"

lemma unary_run: "unary_decode (replicate k CHR ''1'' @ CHR ''0'' # s) n = (n + k) # unary_decode s 0"
  by (induction k arbitrary: n) auto

lemma unary_decode_unary: "unary_decode (unary bs) 0 = bs"
  by (induction bs) (simp_all add: unary_def unary_run)

definition toy_crypto :: crypto_ops where
  "toy_crypto = \<lparr>co_hex_decode = (\<lambda>s. Inr (unary_decode s 0)), co_hex_encode = unary,
    co_bs58_encode = unary, co_bs58_decode = (\<lambda>s. Inr (unary_decode s 0)),
    co_blake2b = (\<lambda>_. replicate 32 7), co_sha256 = (\<lambda>_. replicate 32 1), co_digest_check = Inr,
    co_secret_key = Inr, co_public_key = List.map (\<lambda>b. b mod 256), co_sign = (\<lambda>m k. m), co_parse_signature = Inr,
    co_parse_public_key = Inr, co_verify = (\<lambda>m s k. m = s)\<rparr>"

lemma toy_crypto_laws: "crypto_laws toy_crypto"
  by (simp add: crypto_laws_def toy_crypto_def unary_decode_unary)

text \<open>
  A public key is accepted for an address only when the address decodes to a hash address of
  33 bytes that ends with the BLAKE2b hash of the key, or to a P2PK address of at least 39 bytes whose
  middle is the key itself; multi-signature and unknown types are always errors.
\<close>
theorem verify_public_key_accepts:
  "verify_public_key_for_address C pk address = Inr True \<longleftrightarrow>
    (\<exists>key addr. co_hex_decode C pk = Inr key \<and> co_bs58_decode C address = Inr addr \<and> addr \<noteq> [] \<and>
      (hd addr \<le> 3 \<and> length addr = 33 \<and> tl addr = co_blake2b C key \<or>
       hd addr = 4 \<and> 39 \<le> length addr \<and> key = take (length addr - 6) (drop 2 addr)))"
proof (cases "co_hex_decode C pk")
  case (Inr key)
  show ?thesis
  proof (cases "co_bs58_decode C address")
    case inner: (Inr addr)
    show ?thesis
      by (auto simp: verify_public_key_for_address_def Inr inner with_prefix_def Let_def)
  qed (simp add: verify_public_key_for_address_def Inr with_prefix_def)
qed (simp add: verify_public_key_for_address_def with_prefix_def)

text \<open>
  The address derived from a private key, of any hash type, accepts the hexadecimal form of its
  public key.
\<close>
theorem address_accepts_own_key:
  assumes "crypto_laws C" "address_from_private_key C key ty = Inr address"
    and "co_secret_key C key = Inr sk" "type_byte ty \<le> 3"
  shows "verify_public_key_for_address C (co_hex_encode C (co_public_key C sk)) address = Inr True"
proof -
  have "co_bs58_decode C address = Inr (type_byte ty # co_blake2b C (co_public_key C sk))"
    using assms by (auto simp: address_from_private_key_def with_prefix_def crypto_laws_def Let_def
        split: if_splits)
  then show ?thesis
    using assms by (simp add: verify_public_key_for_address_def with_prefix_def crypto_laws_def)
qed

theorem address_accepts_own_key_witness:
  "verify_public_key_for_address toy_crypto (co_hex_encode toy_crypto (co_public_key toy_crypto (replicate 32 5)))
    (co_bs58_encode toy_crypto (type_byte P2SH # replicate 32 7)) = Inr True"
proof (rule address_accepts_own_key [OF toy_crypto_laws, of "replicate 32 5" P2SH])
  show "address_from_private_key toy_crypto (replicate 32 5) P2SH
      = Inr (co_bs58_encode toy_crypto (type_byte P2SH # replicate 32 7))"
    by (simp add: address_from_private_key_def toy_crypto_def with_prefix_def)
  show "co_secret_key toy_crypto (replicate 32 5) = Inr (replicate 32 5)"
    by (simp add: toy_crypto_def)
qed simp

section \<open>JSON fields\<close>

text \<open>\<^verbatim>\<open>parse\<close> is \<^verbatim>\<open>str::parse::<BigDecimal>\<close>.\<close>

definition extract_bigdecimal_from_object ::
  "(string \<Rightarrow> string + rat) \<Rightarrow> json \<Rightarrow> string \<Rightarrow> rat res" where
  "extract_bigdecimal_from_object parse j key =
    and_then (ok_or ''Invalid object structure''
        (case json_get key j of None \<Rightarrow> None | Some v \<Rightarrow> json_as_str v))
      (\<lambda>s. with_prefix ''Failed to parse BigDecimal: '' (parse s))"

end
