(* ===== verification/Token_Prices.thy ===== *)
theory Token_Prices
  imports Hex_Crypto
begin

text \<open>
  Token metadata and prices (\<^verbatim>\<open>services/price\<close>): the DIA oracle, the Linx token list, and the
  service that asks the cache, the oracle and the token list in this order. The node's contract
  calls, the HTTP request for the token list, and the text form of a floating-point price are
  parameters. \<^verbatim>\<open>Instant\<close> is a number of nanoseconds.
\<close>

record token_info =
  ti_id :: string
  ti_name :: string
  ti_symbol :: string
  ti_decimals :: nat
  ti_description :: string
  ti_logo_uri :: string
  ti_price_usd :: rat

definition alph_token_id :: string where
  "alph_token_id = replicate 64 CHR ''0''"

text \<open>\<^verbatim>\<open>10u64.pow(decimals)\<close> wraps from \<^verbatim>\<open>decimals = 20\<close> on, and is 0 from 64 on.\<close>

definition convert_to_decimal :: "dec_ops \<Rightarrow> token_info \<Rightarrow> rat \<Rightarrow> rat res" where
  "convert_to_decimal D info raw_amount =
    div_res D raw_amount (of_int (wrap_u64 (10 ^ ti_decimals info)))"

section \<open>The Linx token list\<close>

definition test_btc :: string where
  "test_btc = ''0712ee40be418ed0105b1b9c1f255a5e3fa0ef40004f400f216df05eb014c600''"

definition test_usdt :: string where
  "test_usdt = ''79804da1cd63c4575675b6391d956f4745591c65a30aa058ae6bd0a07ce64b00''"

definition test_eth :: string where
  "test_eth = ''c52beb16cc053af22524d010dee4a4946340cb568c6c1cfc48201894b3cf7000''"

definition test_usdc :: string where
  "test_usdc = ''26b3ade43c606f03ca3a171f3b5b61d6ccd89d4ea25393f8e34dde10ea922e00''"

definition testnet_token_info :: "(string, token_info) hmap" where
  "testnet_token_info = fold (\<lambda>t. hm_insert (ti_id t) t)
    [\<lparr>ti_id = alph_token_id, ti_name = ''Alephium'', ti_symbol = ''ALPH'', ti_decimals = 18,
       ti_description = ''Native Alephium token'', ti_logo_uri = '''', ti_price_usd = 0\<rparr>,
     \<lparr>ti_id = test_btc, ti_name = ''tBTC'', ti_symbol = ''tBTC'', ti_decimals = 18, ti_description = '''',
       ti_logo_uri = ''https://raw.githubusercontent.com/alephium/token-list/master/logos/TBTC.png'',
       ti_price_usd = 0\<rparr>,
     \<lparr>ti_id = test_usdt, ti_name = ''tUSDT'', ti_symbol = ''tUSDT'', ti_decimals = 6, ti_description = '''',
       ti_logo_uri = ''https://raw.githubusercontent.com/alephium/token-list/master/logos/TUSDT.png'',
       ti_price_usd = 0\<rparr>,
     \<lparr>ti_id = test_eth, ti_name = ''tETH'', ti_symbol = ''tETH'', ti_decimals = 18, ti_description = '''',
       ti_logo_uri = ''https://raw.githubusercontent.com/alephium/token-list/master/logos/TETH.png'',
       ti_price_usd = 0\<rparr>,
     \<lparr>ti_id = test_usdc, ti_name = ''tUSDC'', ti_symbol = ''tUSDC'', ti_decimals = 6, ti_description = '''',
       ti_logo_uri = ''https://raw.githubusercontent.com/alephium/token-list/master/logos/TUSDC.png'',
       ti_price_usd = 0\<rparr>] []"

record linx_api =
  la_tokens :: "token_info list res"
  la_price :: "rat \<Rightarrow> string + rat"

definition fetch_all_tokens :: "linx_api \<Rightarrow> network \<Rightarrow> (string, token_info) hmap res" where
  "fetch_all_tokens A net =
    (case net of
      Testnet \<Rightarrow> Inr testnet_token_info
    | _ \<Rightarrow> and_then (la_tokens A) (\<lambda>tokens. Inr (fold (\<lambda>t. hm_insert (ti_id t) t) tokens [])))"

definition linx_get_token_info :: "linx_api \<Rightarrow> network \<Rightarrow> string \<Rightarrow> token_info res" where
  "linx_get_token_info A net token_id =
    and_then (fetch_all_tokens A net) (\<lambda>tokens.
      ok_or (''Token '' @ token_id @ '' not found in Linx API'') (map_of tokens token_id))"

definition linx_get_token_price :: "linx_api \<Rightarrow> network \<Rightarrow> string \<Rightarrow> rat res" where
  "linx_get_token_price A net token_id =
    and_then (linx_get_token_info A net token_id) (\<lambda>info.
      map_err (\<lambda>_. Error (''Failed to parse price for token '' @ token_id)) (la_price A (ti_price_usd info)))"

definition linx_get_token_decimals :: "linx_api \<Rightarrow> network \<Rightarrow> string \<Rightarrow> nat res" where
  "linx_get_token_decimals A net token_id =
    and_then (linx_get_token_info A net token_id) (\<lambda>info. Inr (ti_decimals info))"

definition get_multiple_prices ::
  "linx_api \<Rightarrow> network \<Rightarrow> string list \<Rightarrow> (string, rat) hmap res" where
  "get_multiple_prices A net token_ids =
    and_then (fetch_all_tokens A net) (\<lambda>all_tokens.
      fold_res (\<lambda>token_id result.
          case map_of all_tokens token_id of
            None \<Rightarrow> Inr result
          | Some info \<Rightarrow>
              and_then (map_err (\<lambda>_. Error (''Failed to parse price for token '' @ token_id))
                  (la_price A (ti_price_usd info)))
                (\<lambda>price. Inr (hm_insert token_id price result)))
        token_ids [])"

section \<open>The DIA oracle\<close>

definition dia_precision :: int where
  "dia_precision = 10 ^ 8"

definition mainnet_dia_token_pairs :: "(string, string) hmap" where
  "mainnet_dia_token_pairs = fold (\<lambda>(t, k). hm_insert t k)
    [(alph_token_id, ''ALPHUSD''),
     (''383bc735a4de6722af80546ec9eeb3cff508f2f68e97da19489ce69f3e703200'', ''BTC/USD''),
     (''556d9582463fe44fbd108aedc9f409f69086dc78d994b88ea6c9e65f8bf98e00'', ''USDT/USD''),
     (''7ff5e72636f640eb2c28056df3b6879e4c86933505abebf566518ad396335700'', ''USDT/USD''),
     (''722954d9067c5a5ad532746a024f2a9d7a18ed9b90e27d0a3a504962160b5600'', ''USDC/USD''),
     (''75e1e9f91468616a371fe416430819bf5386a3e6a258864c574271a404ec8900'', ''USDC/USD''),
     (''19246e8c2899bc258a1156e08466e3cdd3323da756d8a543c7fc911847b96f00'', ''ETH/USD'')] []"

definition testnet_dia_token_pairs :: "(string, string) hmap" where
  "testnet_dia_token_pairs = fold (\<lambda>(t, k). hm_insert t k)
    [(alph_token_id, ''ALPH/USD''), (test_btc, ''BTC/USD''), (test_usdt, ''USDT/USD'')] []"

definition dia_token_pairs :: "network \<Rightarrow> (string, string) hmap" where
  "dia_token_pairs net = (case net of Mainnet \<Rightarrow> mainnet_dia_token_pairs
    | Testnet \<Rightarrow> testnet_dia_token_pairs | _ \<Rightarrow> [])"

record oracle_service =
  os_call_contract :: "call_contract_params \<Rightarrow> string + call_contract_result"
  os_address :: string
  os_group :: int
  os_network :: network
  os_parse :: "string \<Rightarrow> string + rat"

definition get_dia_value :: "oracle_service \<Rightarrow> string \<Rightarrow> string \<Rightarrow> (rat \<times> rat) res" where
  "get_dia_value S tx_id key =
    (case os_call_contract S \<lparr>ccp_group = os_group S, ccp_world_state_block_hash = None,
        ccp_tx_id = Some tx_id, ccp_address = os_address S, ccp_method_index = 0,
        ccp_args = Some [JObject [(''type'', JString ''ByteVec''), (''value'', JString (string_to_hex key))]],
        ccp_interested_contracts = None, ccp_input_assets = None\<rparr> of
      Inl e \<Rightarrow> Inl (Error (''Failed to fetch dia price: '' @ e))
    | Inr result \<Rightarrow>
        (case ccr_result_type result of
          CallContractFailed \<Rightarrow> Inl (Error (''Contract call failed for key '' @ key))
        | CallContractSucceeded \<Rightarrow>
            and_then (ok_or (''No returns in contract call for key '' @ key) (ccr_returns result)) (\<lambda>returns.
              if length returns \<noteq> 2 then Inl (Error (''Expected 2 return values for key '' @ key))
              else
                and_then (map_err (\<lambda>_. Error (''Failed to extract price for key '' @ key))
                    (extract_bigdecimal_from_object (os_parse S) (returns ! 0) ''value'')) (\<lambda>price.
                and_then (map_err (\<lambda>_. Error (''Failed to extract timestamp for key '' @ key))
                    (extract_bigdecimal_from_object (os_parse S) (returns ! 1) ''value'')) (\<lambda>ts.
                  Inr (price, ts))))))"

definition oracle_get_token_price :: "dec_ops \<Rightarrow> oracle_service \<Rightarrow> string \<Rightarrow> string \<Rightarrow> rat res" where
  "oracle_get_token_price D S tx_id token_id =
    and_then (ok_or (''Token '' @ token_id @ '' not supported by DIA oracle'')
        (map_of (dia_token_pairs (os_network S)) token_id)) (\<lambda>key.
    and_then (get_dia_value S tx_id key) (\<lambda>data.
      div_res D (fst data) (of_int dia_precision)))"

section \<open>The price cache\<close>

record cached_price =
  cp_price :: rat
  cp_cached_at :: int

type_synonym price_cache = "(string, cached_price) hmap"

definition cache_ttl :: int where
  "cache_ttl = 30 * 1000000000"

definition get_from_cache :: "int \<Rightarrow> string \<Rightarrow> price_cache \<Rightarrow> rat option" where
  "get_from_cache now token_id cache =
    (case map_of cache token_id of
      None \<Rightarrow> None
    | Some cached \<Rightarrow> if now - cp_cached_at cached < cache_ttl then Some (cp_price cached) else None)"

definition set_cache :: "int \<Rightarrow> string \<Rightarrow> rat \<Rightarrow> price_cache \<Rightarrow> price_cache" where
  "set_cache now token_id price cache = hm_insert token_id \<lparr>cp_price = price, cp_cached_at = now\<rparr> cache"

definition clear_cache :: "price_cache \<Rightarrow> price_cache" where
  "clear_cache cache = []"

text \<open>
  \<^verbatim>\<open>TokenService::get_token_price\<close>; \<^verbatim>\<open>oracle\<close> and \<^verbatim>\<open>linx\<close> are the two services at the time of the
  call, \<^verbatim>\<open>now\<close> the instant of the lookup and \<^verbatim>\<open>stored\<close> the instant at which the price is cached.
\<close>

definition get_token_price ::
  "(string \<Rightarrow> rat res) \<Rightarrow> (string \<Rightarrow> rat res) \<Rightarrow> int \<Rightarrow> int \<Rightarrow> string \<Rightarrow> (price_cache, error, rat) action"
  where
  "get_token_price oracle linx now stored token_id cache =
    (case get_from_cache now token_id cache of
      Some cached_price \<Rightarrow> (Inr cached_price, cache)
    | None \<Rightarrow>
        (let fetched = (case oracle token_id of
            Inr price \<Rightarrow> Inr price
          | Inl (Panic m) \<Rightarrow> Inl (Panic m)
          | Inl (Error oracle_err) \<Rightarrow>
              (case linx token_id of
                Inr price \<Rightarrow> Inr price
              | Inl (Panic m) \<Rightarrow> Inl (Panic m)
              | Inl (Error _) \<Rightarrow> Inl (Error (''Both oracle and Linx API failed for token '' @ token_id
                  @ ''. Oracle error: '' @ oracle_err))))
         in case fetched of
            Inl e \<Rightarrow> (Inl e, cache)
          | Inr price \<Rightarrow> (Inr price, set_cache stored token_id price cache)))"

text \<open>What the service needs of its cache.\<close>

locale ttl_cache =
  fixes get :: "int \<Rightarrow> 'k \<Rightarrow> 'c \<Rightarrow> 'v option" and put :: "int \<Rightarrow> 'k \<Rightarrow> 'v \<Rightarrow> 'c \<Rightarrow> 'c" and ttl :: int
  assumes get_put: "get now k (put since k' v c) =
      (if k = k' then (if now - since < ttl then Some v else None) else get now k c)"
    and get_mono: "get now k c = Some v \<Longrightarrow> now' \<le> now \<Longrightarrow> get now' k c = Some v"
begin

lemma hit: "now - since < ttl \<Longrightarrow> get now k (put since k v c) = Some v"
  by (simp add: get_put)

lemma expired: "ttl \<le> now - since \<Longrightarrow> get now k (put since k v c) = None"
  by (simp add: get_put)

lemma put_other: "k \<noteq> k' \<Longrightarrow> get now k (put since k' v c) = get now k c"
  by (simp add: get_put)

lemma stays_expired: "get now k c = None \<Longrightarrow> now \<le> now' \<Longrightarrow> get now' k c = None"
  using get_mono [of now' k c _ now] by (cases "get now' k c") auto

end

interpretation prices: ttl_cache get_from_cache set_cache cache_ttl
  by unfold_locales (auto simp: get_from_cache_def set_cache_def hm_simps split: option.splits if_splits)

text \<open>
  A fetched price is served from the cache for less than 30 seconds, whatever the oracle and the
  token list say meanwhile and without changing the cache; from 30 seconds on the sources are asked
  again, the oracle first.
\<close>
theorem price_cached_for_ttl:
  assumes "get_token_price oracle linx now stored t c = (Inr p, c')"
    and "get_from_cache now t c = None"
  shows "(later - stored < cache_ttl \<longrightarrow> get_token_price oracle' linx' later stored' t c' = (Inr p, c')) \<and>
    (cache_ttl \<le> later - stored \<longrightarrow> oracle' t = Inr q \<longrightarrow>
      get_token_price oracle' linx' later stored' t c' = (Inr q, set_cache stored' t q c')) \<and>
    (t' \<noteq> t \<longrightarrow> get_from_cache later t' c' = get_from_cache later t' c)"
proof -
  have c': "c' = set_cache stored t p c"
    using assms by (auto simp: get_token_price_def Let_def split: sum.splits error.splits)
  show ?thesis
    by (simp add: get_token_price_def c' prices.hit prices.expired prices.put_other)
qed

theorem price_cached_for_ttl_witness:
  "get_token_price (\<lambda>_. Inl (Error ''down'')) (\<lambda>_. Inr 9) 20000000000 20000000000 ''t''
      (snd (get_token_price (\<lambda>_. Inr 2) (\<lambda>_. Inr 3) 0 0 ''t'' []))
    = (Inr 2, snd (get_token_price (\<lambda>_. Inr 2) (\<lambda>_. Inr 3) 0 0 ''t'' []))"
proof -
  have "get_token_price (\<lambda>_. Inr 2) (\<lambda>_. Inr 3) 0 0 ''t'' []
      = (Inr 2, snd (get_token_price (\<lambda>_. Inr 2) (\<lambda>_. Inr 3) 0 0 ''t'' []))"
    by (simp add: get_token_price_def get_from_cache_def)
  from price_cached_for_ttl [OF this, of 20000000000 "\<lambda>_. Inl (Error ''down'')" "\<lambda>_. Inr 9"]
  show ?thesis
    by (simp add: get_from_cache_def cache_ttl_def)
qed

section \<open>Decimals\<close>

lemma pow10_mod: "64 \<le> n \<Longrightarrow> (10::int) ^ n mod 18446744073709551616 = 0"
proof -
  assume "64 \<le> n"
  then obtain k where n: "n = 64 + k"
    using le_Suc_ex by blast
  have "(10::int) ^ n = 18446744073709551616 * (5 ^ 64 * 10 ^ k)"
    by (simp add: n power_add)
  then show ?thesis by simp
qed

text \<open>
  A raw amount is divided by ten to the number of decimals as long as that power fits in 64 bits
  (19 decimals or fewer); with 20 decimals the divisor has wrapped to another number, and with 64 or
  more the conversion panics.
\<close>
theorem convert_to_decimal_range:
  "(ti_decimals t \<le> 19 \<longrightarrow> convert_to_decimal D t x = Inr (dec_div D x (10 ^ ti_decimals t))) \<and>
   (ti_decimals t = 20 \<longrightarrow> convert_to_decimal D t x = Inr (dec_div D x 7766279631452241920)) \<and>
   (64 \<le> ti_decimals t \<longrightarrow> convert_to_decimal D t x = Inl (Panic ''Division by zero''))"
proof (intro conjI impI)
  assume "ti_decimals t \<le> 19"
  then have "(10::int) ^ ti_decimals t \<le> 10 ^ 19"
    by (intro power_increasing) simp_all
  then have "in_u64 (10 ^ ti_decimals t)"
    by (simp add: in_u64_def)
  then show "convert_to_decimal D t x = Inr (dec_div D x (10 ^ ti_decimals t))"
    by (simp add: convert_to_decimal_def int_simps div_res_def)
next
  assume "ti_decimals t = 20"
  then show "convert_to_decimal D t x = Inr (dec_div D x 7766279631452241920)"
    by (simp add: convert_to_decimal_def wrap_u64_def div_res_def)
next
  assume "64 \<le> ti_decimals t"
  then show "convert_to_decimal D t x = Inl (Panic ''Division by zero'')"
    by (simp add: convert_to_decimal_def wrap_u64_def pow10_mod div_res_def)
qed

theorem convert_to_decimal_range_witness:
  "convert_to_decimal exact_dec \<lparr>ti_id = ''t'', ti_name = '''', ti_symbol = '''', ti_decimals = 20,
      ti_description = '''', ti_logo_uri = '''', ti_price_usd = 0\<rparr> 5
    = Inr (5 / 7766279631452241920)"
  using convert_to_decimal_range [of "\<lparr>ti_id = ''t'', ti_name = '''', ti_symbol = '''',
      ti_decimals = 20, ti_description = '''', ti_logo_uri = '''', ti_price_usd = 0\<rparr>" exact_dec 5]
  by simp

end
