(* ===== verification/Points_Calculator.thy ===== *)
theory Points_Calculator
  imports Points_Store_Laws Account_Txs Lending_Models Token_Prices Api_Errors
begin

text \<open>
  The daily points calculation (\<^verbatim>\<open>services/points_calculator_service.rs\<close>): swap points, time-weighted
  lending points, volume multipliers, referral points, the snapshots of the day, and the scheduler
  that runs it. The repositories and the token service behind the service's traits are the fields
  of \<^verbatim>\<open>calc_deps\<close>; the points tables are those of \<^verbatim>\<open>Points_Store\<close>. A token price is the same
  throughout one calculation.
\<close>

record calc_deps =
  cd_dec :: dec_ops
  cd_limits :: date_limits
  cd_token_info :: "string \<Rightarrow> token_info res"
  cd_token_price :: "string \<Rightarrow> rat res"
  cd_swaps :: "naive_datetime \<Rightarrow> naive_datetime \<Rightarrow> swap_transaction list res"
  cd_positions :: "naive_datetime \<Rightarrow> naive_datetime \<Rightarrow> position_snapshot list res"
  cd_referral_percentage :: "rat res"
  cd_calculation_time :: string

record user_daily_activity =
  uda_address :: string
  uda_swap_points :: int
  uda_swap_volume_usd :: rat
  uda_supply_points :: int
  uda_supply_volume_usd :: rat
  uda_borrow_points :: int
  uda_borrow_volume_usd :: rat
  uda_base_points_total :: int
  uda_referral_points :: int
  uda_total_volume_usd :: rat

type_synonym activities = "(string, user_daily_activity) hmap"

definition new_activity :: "string \<Rightarrow> user_daily_activity" where
  "new_activity a = \<lparr>uda_address = a, uda_swap_points = 0, uda_swap_volume_usd = 0,
    uda_supply_points = 0, uda_supply_volume_usd = 0, uda_borrow_points = 0,
    uda_borrow_volume_usd = 0, uda_base_points_total = 0, uda_referral_points = 0,
    uda_total_volume_usd = 0\<rparr>"

definition finalize :: "user_daily_activity \<Rightarrow> user_daily_activity" where
  "finalize u = u\<lparr>uda_base_points_total :=
      wrap_i32 (wrap_i32 (uda_swap_points u + uda_supply_points u) + uda_borrow_points u),
    uda_total_volume_usd :=
      uda_swap_volume_usd u + uda_supply_volume_usd u + uda_borrow_volume_usd u\<rparr>"

definition load_points_config :: "points_db \<Rightarrow> (string, points_config) hmap" where
  "load_points_config db = fold (\<lambda>c. hm_insert (pc_action_type c) c) (get_points_config db) []"

section \<open>Swap points\<close>

text \<open>
  The USD value of one swap; a token the service does not know, or has no price for, is skipped
  (\<^verbatim>\<open>None\<close>).
\<close>

definition swap_usd :: "calc_deps \<Rightarrow> swap_transaction \<Rightarrow> rat option res" where
  "swap_usd E sw =
    (case cd_token_info E (st_token_in sw) of
      Inl (Panic m) \<Rightarrow> Inl (Panic m)
    | Inl (Error _) \<Rightarrow> Inr None
    | Inr info \<Rightarrow>
        and_then (convert_to_decimal (cd_dec E) info (st_amount_in sw)) (\<lambda>decimal_amount.
          case cd_token_price E (st_token_in sw) of
            Inl (Panic m) \<Rightarrow> Inl (Panic m)
          | Inl (Error _) \<Rightarrow> Inr None
          | Inr token_price \<Rightarrow> Inr (Some (decimal_amount * token_price))))"

definition add_swap_volume ::
  "calc_deps \<Rightarrow> swap_transaction \<Rightarrow> (string, rat) hmap \<Rightarrow> (string, rat) hmap res" where
  "add_swap_volume E sw volumes =
    and_then (swap_usd E sw) (\<lambda>usd. case usd of
      None \<Rightarrow> Inr volumes
    | Some amount_usd \<Rightarrow> Inr (hm_entry (st_address sw) 0 (\<lambda>v. v + amount_usd) volumes))"

definition set_swap_points :: "dec_ops \<Rightarrow> rat \<Rightarrow> string \<times> rat \<Rightarrow> activities \<Rightarrow> activities" where
  "set_swap_points D points_per_usd av acts =
    (case av of (address, total_volume_usd) \<Rightarrow>
      hm_entry address (new_activity address) (\<lambda>activity. activity\<lparr>
          uda_swap_points := to_i32_or_zero (dec_ceil0 D (total_volume_usd * points_per_usd)),
          uda_swap_volume_usd := total_volume_usd\<rparr>) acts)"

definition calculate_swap_points ::
  "calc_deps \<Rightarrow> naive_date \<Rightarrow> (string, points_config) hmap \<Rightarrow> activities \<Rightarrow> activities res" where
  "calculate_swap_points E date config acts =
    (case map_of config ''swap'' of
      None \<Rightarrow> Inr acts
    | Some swap_config \<Rightarrow>
        (case pc_points_per_usd swap_config of
          None \<Rightarrow> Inr acts
        | Some points_per_usd \<Rightarrow>
            and_then (ok_or ''Failed to get next date'' (succ_opt (cd_limits E) date)) (\<lambda>next_date.
            and_then (cd_swaps E (midnight date) (midnight next_date)) (\<lambda>swaps.
            and_then (fold_res (add_swap_volume E) swaps []) (\<lambda>volumes.
              Inr (fold (set_swap_points (cd_dec E) points_per_usd) volumes acts))))))"

section \<open>Lending points\<close>

text \<open>
  The state of the loop over the periods of one user: the balances of each market (supply,
  borrow), the dollar-seconds, and the volumes of the activity. The unread suffix of the sorted
  snapshots stands for \<^verbatim>\<open>snapshot_idx\<close>.
\<close>

record lending_acc =
  lacc_states :: "(string, rat \<times> rat) hmap"
  lacc_supply_secs :: rat
  lacc_borrow_secs :: rat
  lacc_supply_volume :: rat
  lacc_borrow_volume :: rat

definition snap_ts :: "position_snapshot \<Rightarrow> naive_datetime" where
  "snap_ts s = pos_timestamp (psn_row s)"

definition put_state :: "position_snapshot \<Rightarrow> (string, rat \<times> rat) hmap \<Rightarrow> (string, rat \<times> rat) hmap" where
  "put_state s = hm_insert (pos_market_id (psn_row s))
    (pos_supply_amount_usd (psn_row s), pos_borrow_amount_usd (psn_row s))"

definition total_supply :: "(string, rat \<times> rat) hmap \<Rightarrow> rat" where
  "total_supply ms = sum_list (List.map (\<lambda>(_, supply, _). supply) ms)"

definition total_borrow :: "(string, rat \<times> rat) hmap \<Rightarrow> rat" where
  "total_borrow ms = sum_list (List.map (\<lambda>(_, _, borrow). borrow) ms)"

definition period_step ::
  "naive_datetime \<Rightarrow> naive_datetime \<Rightarrow> position_snapshot list \<Rightarrow> lending_acc \<Rightarrow> lending_acc" where
  "period_step period_start period_end here acc =
    (let states = fold put_state here (lacc_states acc);
         supply = total_supply states;
         borrow = total_borrow states;
         duration_seconds = num_seconds (period_end - period_start)
     in if duration_seconds \<le> 0 then acc\<lparr>lacc_states := states\<rparr>
        else \<lparr>lacc_states = states,
          lacc_supply_secs = lacc_supply_secs acc + supply * of_int duration_seconds,
          lacc_borrow_secs = lacc_borrow_secs acc + borrow * of_int duration_seconds,
          lacc_supply_volume = lacc_supply_volume acc + supply,
          lacc_borrow_volume = lacc_borrow_volume acc + borrow\<rparr>)"

fun period_loop :: "naive_datetime list \<Rightarrow> position_snapshot list \<Rightarrow> lending_acc \<Rightarrow> lending_acc" where
  "period_loop (period_start # period_end # later) snaps acc =
    period_loop (period_end # later) (dropWhile (\<lambda>s. snap_ts s = period_start) snaps)
      (period_step period_start period_end (takeWhile (\<lambda>s. snap_ts s = period_start) snaps) acc)"
| "period_loop _ snaps acc = acc"

definition boundaries :: "naive_datetime \<Rightarrow> position_snapshot list \<Rightarrow> naive_datetime list" where
  "boundaries day_end snaps = remdups_adj (sort (List.map snap_ts snaps)) @ [day_end]"

definition user_lending ::
  "dec_ops \<Rightarrow> naive_datetime \<Rightarrow> rat \<Rightarrow> rat \<Rightarrow> position_snapshot list \<Rightarrow> user_daily_activity \<Rightarrow> user_daily_activity"
  where
  "user_lending D day_end supply_rate borrow_rate snaps activity =
    (let acc = period_loop (boundaries day_end snaps) snaps
        \<lparr>lacc_states = [], lacc_supply_secs = 0, lacc_borrow_secs = 0,
          lacc_supply_volume = uda_supply_volume_usd activity,
          lacc_borrow_volume = uda_borrow_volume_usd activity\<rparr>;
         a1 = activity\<lparr>uda_supply_volume_usd := lacc_supply_volume acc,
                uda_borrow_volume_usd := lacc_borrow_volume acc\<rparr>;
         a2 = (if lacc_supply_secs acc = 0 then a1
               else a1\<lparr>uda_supply_points :=
                 to_i32_or_zero (dec_round0 D (lacc_supply_secs acc * supply_rate))\<rparr>)
     in if lacc_borrow_secs acc = 0 then a2
        else a2\<lparr>uda_borrow_points :=
          to_i32_or_zero (dec_round0 D (lacc_borrow_secs acc * borrow_rate))\<rparr>)"

definition add_user_lending ::
  "dec_ops \<Rightarrow> naive_datetime \<Rightarrow> rat \<Rightarrow> rat \<Rightarrow> string \<times> position_snapshot list \<Rightarrow> activities \<Rightarrow> activities" where
  "add_user_lending D day_end supply_rate borrow_rate us acts =
    (case us of (address, snapshots) \<Rightarrow>
      let snaps = sort_key snap_ts snapshots in
      if snaps = [] then acts
      else hm_entry address (new_activity address) (user_lending D day_end supply_rate borrow_rate snaps) acts)"

definition calculate_lending_points ::
  "calc_deps \<Rightarrow> naive_date \<Rightarrow> (string, points_config) hmap \<Rightarrow> activities \<Rightarrow> activities res" where
  "calculate_lending_points E date config acts =
    (case (map_of config ''supply'', map_of config ''borrow'') of
      (Some supply_config, Some borrow_config) \<Rightarrow>
        (case (pc_points_per_usd_per_day supply_config, pc_points_per_usd_per_day borrow_config) of
          (Some supply_per_day, Some borrow_per_day) \<Rightarrow>
            (let supply_rate = dec_div (cd_dec E) supply_per_day 86400;
                 borrow_rate = dec_div (cd_dec E) borrow_per_day 86400
             in and_then (ok_or ''Failed to get next date'' (succ_opt (cd_limits E) date)) (\<lambda>next_date.
                and_then (cd_positions E (midnight date) (midnight next_date)) (\<lambda>snapshots.
                  Inr (fold (add_user_lending (cd_dec E) (midnight next_date) supply_rate borrow_rate)
                    (group_by (\<lambda>s. pos_address (psn_row s)) snapshots) acts))))
        | _ \<Rightarrow> Inr acts)
    | _ \<Rightarrow> Inr acts)"

section \<open>Multipliers\<close>

fun best_multiplier ::
  "rat \<Rightarrow> points_multiplier list \<Rightarrow> points_multiplier option \<Rightarrow> points_multiplier option" where
  "best_multiplier volume [] best = best"
| "best_multiplier volume (m # ms) best =
    best_multiplier volume ms
      (if volume \<ge> pm_threshold_value m
       then (case best of
          None \<Rightarrow> Some m
        | Some current_best \<Rightarrow>
            if pm_threshold_value m > pm_threshold_value current_best then Some m else Some current_best)
       else best)"

definition multiply_points :: "dec_ops \<Rightarrow> points_multiplier list \<Rightarrow> user_daily_activity \<Rightarrow> user_daily_activity" where
  "multiply_points D multipliers activity =
    (case best_multiplier (uda_total_volume_usd activity) multipliers None of
      None \<Rightarrow> activity
    | Some m \<Rightarrow>
        (let multiplier_points =
            to_i32_or_zero (dec_round0 D (of_int (uda_base_points_total activity) * pm_multiplier m))
         in activity\<lparr>uda_base_points_total :=
              wrap_i32 (uda_base_points_total activity + multiplier_points)\<rparr>))"

definition apply_multipliers :: "dec_ops \<Rightarrow> points_multiplier list \<Rightarrow> activities \<Rightarrow> activities" where
  "apply_multipliers D multipliers acts = hm_values_mut (multiply_points D multipliers) acts"

section \<open>Referral points\<close>

definition has_activity :: "user_daily_activity \<Rightarrow> bool" where
  "has_activity u \<longleftrightarrow> uda_swap_points u > 0 \<or> uda_supply_points u > 0 \<or> uda_borrow_points u > 0"

definition add_referred :: "activities \<Rightarrow> string \<Rightarrow> int \<Rightarrow> int" where
  "add_referred acts referred_user acc =
    (case map_of acts referred_user of
      None \<Rightarrow> acc
    | Some u \<Rightarrow> if has_activity u then wrap_i32 (acc + uda_base_points_total u) else acc)"

definition add_referrer ::
  "dec_ops \<Rightarrow> rat \<Rightarrow> string \<times> user_referral list \<Rightarrow> activities \<Rightarrow> activities" where
  "add_referrer D referral_percentage rs acts =
    (case rs of (referrer, referred) \<Rightarrow>
      let total_referred_points = fold (add_referred acts) (List.map ur_user_address referred) 0;
          referral_points = to_i32_or_zero (dec_round0 D (of_int total_referred_points * referral_percentage))
      in hm_entry referrer (new_activity referrer)
        (\<lambda>u. u\<lparr>uda_referral_points := wrap_i32 (uda_referral_points u + referral_points)\<rparr>) acts)"

definition calculate_referral_points :: "calc_deps \<Rightarrow> points_db \<Rightarrow> activities \<Rightarrow> activities res" where
  "calculate_referral_points E db acts =
    and_then (cd_referral_percentage E) (\<lambda>referral_percentage.
      Inr (fold (add_referrer (cd_dec E) referral_percentage)
        (group_by ur_referred_by_address (get_all_user_referrals db)) acts))"

section \<open>Snapshots\<close>

definition activity_snapshot :: "points_db \<Rightarrow> naive_date \<Rightarrow> naive_date \<Rightarrow> int \<Rightarrow> user_daily_activity \<Rightarrow> new_points_snapshot" where
  "activity_snapshot db previous_date date season u =
    (let previous_total = (case get_snapshot (uda_address u) previous_date season db of
          Some prev \<Rightarrow> nps_total_points (ps_row prev) | None \<Rightarrow> 0);
         cumulative_total = wrap_i32 (wrap_i32 (previous_total + uda_base_points_total u) + uda_referral_points u)
     in \<lparr>nps_address = uda_address u, nps_snapshot_date = date, nps_swap_points = uda_swap_points u,
       nps_supply_points = uda_supply_points u, nps_borrow_points = uda_borrow_points u,
       nps_base_points_total = uda_base_points_total u, nps_multiplier_type = None,
       nps_multiplier_value = 0, nps_multiplier_points = 0, nps_referral_points = uda_referral_points u,
       nps_total_points = cumulative_total, nps_total_volume_usd = uda_total_volume_usd u,
       nps_season_id = season\<rparr>)"

definition carried_snapshot :: "naive_date \<Rightarrow> int \<Rightarrow> points_snapshot \<Rightarrow> new_points_snapshot" where
  "carried_snapshot date season prev = \<lparr>nps_address = nps_address (ps_row prev),
    nps_snapshot_date = date, nps_swap_points = 0, nps_supply_points = 0, nps_borrow_points = 0,
    nps_base_points_total = 0, nps_multiplier_type = nps_multiplier_type (ps_row prev),
    nps_multiplier_value = nps_multiplier_value (ps_row prev), nps_multiplier_points = 0,
    nps_referral_points = 0, nps_total_points = nps_total_points (ps_row prev),
    nps_total_volume_usd = 0, nps_season_id = season\<rparr>"

definition day_snapshots :: "points_db \<Rightarrow> naive_date \<Rightarrow> naive_date \<Rightarrow> int \<Rightarrow> activities \<Rightarrow> new_points_snapshot list" where
  "day_snapshots db previous_date date season acts =
    List.map (\<lambda>(_, u). activity_snapshot db previous_date date season u) acts @
    List.map (carried_snapshot date season)
      (filter (\<lambda>prev. nps_address (ps_row prev) \<notin> set (List.map fst acts))
        (get_snapshots_by_date previous_date season db))"

definition store_snapshots ::
  "calc_deps \<Rightarrow> naive_datetime \<Rightarrow> naive_date \<Rightarrow> int \<Rightarrow> activities \<Rightarrow> (points_db, error, unit) action" where
  "store_snapshots E now date season acts db =
    (case pred_opt (cd_limits E) date of
      None \<Rightarrow> (Inl (Error ''Failed to get previous date''), db)
    | Some previous_date \<Rightarrow> insert_snapshots now (day_snapshots db previous_date date season acts) db)"

section \<open>The calculation\<close>

definition day_activities :: "calc_deps \<Rightarrow> naive_date \<Rightarrow> points_db \<Rightarrow> activities res" where
  "day_activities E date db =
    (let points_config = load_points_config db in
     and_then (calculate_swap_points E date points_config []) (\<lambda>acts1.
     and_then (calculate_lending_points E date points_config acts1) (\<lambda>acts2.
       let acts3 = hm_values_mut finalize acts2;
           multipliers = get_multipliers_by_type ''volume'' db;
           acts4 = apply_multipliers (cd_dec E) multipliers acts3
       in calculate_referral_points E db acts4)))"

definition calculate_points_for_date ::
  "calc_deps \<Rightarrow> naive_datetime \<Rightarrow> naive_date \<Rightarrow> (points_db, error, unit) action" where
  "calculate_points_for_date E now date db =
    (case get_active_season db of
      None \<Rightarrow> (Inl (Error ''No active season found. Cannot calculate points.''), db)
    | Some active_season \<Rightarrow>
        (case day_activities E date db of
          Inl e \<Rightarrow> (Inl e, db)
        | Inr acts \<Rightarrow> store_snapshots E now date (se_id active_season) acts db))"

function calculate_points_for_range ::
  "calc_deps \<Rightarrow> naive_datetime \<Rightarrow> naive_date \<Rightarrow> naive_date \<Rightarrow> (points_db, error, unit) action" where
  "calculate_points_for_range E now current_date end_date db =
    (if current_date \<le> end_date
     then (case calculate_points_for_date E now current_date db of
        (Inl e, db') \<Rightarrow> (Inl e, db')
      | (Inr _, db') \<Rightarrow>
          (case succ_opt (cd_limits E) current_date of
            None \<Rightarrow> (Inl (Error ''Failed to get next date''), db')
          | Some d \<Rightarrow> calculate_points_for_range E now d end_date db'))
     else (Inr (), db))"
  by pat_completeness auto
termination
  by (relation "measure (\<lambda>(E, now, d, e, db). nat (e - d + 1))") (auto simp: succ_opt_def split: if_splits)

declare calculate_points_for_range.simps [simp del]

section \<open>The scheduler\<close>

fun split_on :: "char \<Rightarrow> string \<Rightarrow> string list" where
  "split_on c [] = [[]]"
| "split_on c (x # xs) =
    (if x = c then [] # split_on c xs
     else (case split_on c xs of [] \<Rightarrow> [[x]] | w # ws \<Rightarrow> (x # w) # ws))"

definition parse_u32 :: "string \<Rightarrow> int option" where
  "parse_u32 s =
    (let ds = (case s of [] \<Rightarrow> [] | c # cs \<Rightarrow> if c = CHR ''+'' then cs else s)
     in if ds = [] then None
        else case parse_digits ds 0 of None \<Rightarrow> None | Some n \<Rightarrow> if n < 4294967296 then Some n else None)"

definition scheduler_time :: "string \<Rightarrow> (int \<times> int) res" where
  "scheduler_time calculation_time =
    (let time_parts = split_on CHR '':'' calculation_time in
     and_then (ok_or ''Invalid calculation_time hour''
         (case time_parts of [] \<Rightarrow> None | h # _ \<Rightarrow> parse_u32 h)) (\<lambda>target_hour.
     and_then (ok_or ''Invalid calculation_time minute''
         (case time_parts of _ # m # _ \<Rightarrow> parse_u32 m | _ \<Rightarrow> None)) (\<lambda>target_minute.
       Inr (target_hour, target_minute))))"

definition should_run :: "int \<times> int \<Rightarrow> naive_datetime \<Rightarrow> naive_date option \<Rightarrow> bool" where
  "should_run target now last_run_date \<longleftrightarrow>
    (hour_of now > fst target \<or> hour_of now = fst target \<and> minute_of now \<ge> snd target) \<and>
    last_run_date \<noteq> Some (date_of now)"

text \<open>
  One tick of the timer at the instant \<^verbatim>\<open>now\<close>. The state is the date of the last run and the tables;
  \<^verbatim>\<open>runs\<close> collects the dates for which a calculation was started. An error of the calculation is
  logged; a missing previous date ends the daemon.
\<close>

record scheduler =
  sc_last_run :: "naive_date option"
  sc_db :: points_db
  sc_runs :: "naive_date list"

definition scheduler_tick :: "calc_deps \<Rightarrow> int \<times> int \<Rightarrow> naive_datetime \<Rightarrow> scheduler \<Rightarrow> scheduler res" where
  "scheduler_tick E target now S =
    (if should_run target now (sc_last_run S)
     then and_then (ok_or ''Failed to get yesterday's date'' (pred_opt (cd_limits E) (date_of now))) (\<lambda>yesterday.
        case calculate_points_for_date E now yesterday (sc_db S) of
          (Inl (Panic m), db') \<Rightarrow> Inl (Panic m)
        | (_, db') \<Rightarrow> Inr \<lparr>sc_last_run = Some (date_of now), sc_db = db', sc_runs = sc_runs S @ [yesterday]\<rparr>)
     else Inr S)"

definition run_scheduler :: "calc_deps \<Rightarrow> naive_datetime list \<Rightarrow> points_db \<Rightarrow> scheduler res" where
  "run_scheduler E ticks db =
    and_then (scheduler_time (cd_calculation_time E)) (\<lambda>target.
      fold_res (scheduler_tick E target) ticks \<lparr>sc_last_run = None, sc_db = db, sc_runs = []\<rparr>)"

end
