(* ===== verification/Points_Calculator_Laws.thy ===== *)
theory Points_Calculator_Laws
  imports Points_Calculator
begin

text \<open>
  What the daily calculation computes: swap points from a user's priced volume, lending points from
  the balance held at every second of the day, the multiplier of the highest threshold reached,
  referral points from active users only, and cumulative snapshots that a second calculation of the
  same day reproduces.
\<close>

section \<open>Swap points\<close>

definition priced :: "calc_deps \<Rightarrow> swap_transaction \<Rightarrow> rat option" where
  "priced E sw = (case swap_usd E sw of Inr (Some usd) \<Rightarrow> Some usd | _ \<Rightarrow> None)"

text \<open>The priced swaps of one user, and their value.\<close>

definition user_priced :: "calc_deps \<Rightarrow> swap_transaction list \<Rightarrow> string \<Rightarrow> rat list" where
  "user_priced E swaps a = List.map_filter (priced E) (filter (\<lambda>sw. st_address sw = a) swaps)"

lemma user_priced_Cons:
  "user_priced E (sw # swaps) a = (if st_address sw = a
    then (case priced E sw of None \<Rightarrow> user_priced E swaps a | Some usd \<Rightarrow> usd # user_priced E swaps a)
    else user_priced E swaps a)"
  by (simp add: user_priced_def map_filter_simps split: option.split)

lemma swap_volumes_get:
  "fold_res (add_swap_volume E) swaps m = Inr volumes \<Longrightarrow>
    map_of volumes a = (if user_priced E swaps a = [] then map_of m a
      else Some ((case map_of m a of None \<Rightarrow> 0 | Some v \<Rightarrow> v) + sum_list (user_priced E swaps a)))"
proof (induction swaps arbitrary: m)
  case (Cons sw swaps)
  from Cons.prems obtain m1 where m1: "add_swap_volume E sw m = Inr m1"
      and rest: "fold_res (add_swap_volume E) swaps m1 = Inr volumes"
    by (auto simp: res_simps)
  show ?case
  proof (cases "priced E sw")
    case None
    then have "m1 = m"
      using m1 by (auto simp: add_swap_volume_def priced_def res_simps split: option.splits)
    with Cons.IH [OF rest] None show ?thesis
      by (simp add: user_priced_Cons)
  next
    case (Some usd)
    then have "m1 = hm_entry (st_address sw) 0 (\<lambda>v. v + usd) m"
      using m1 by (auto simp: add_swap_volume_def priced_def res_simps split: sum.splits option.splits)
    with Cons.IH [OF rest] Some show ?thesis
      by (simp add: user_priced_Cons hm_simps split: option.split)
  qed
qed (simp add: user_priced_def map_filter_simps)

lemma swap_volumes_wf:
  assumes "fold_res (add_swap_volume E) swaps m = Inr volumes" "hm_wf m"
  shows "hm_wf volumes"
  by (rule fold_res_inv [where P = hm_wf, OF assms]) (auto simp: add_swap_volume_def res_simps split: option.splits)

lemma set_swap_points_entries:
  "fold (set_swap_points D ppu) volumes acts = fold (\<lambda>(a, total_volume). hm_entry a (new_activity a)
    (\<lambda>u. u\<lparr>uda_swap_points := to_i32_or_zero (dec_ceil0 D (total_volume * ppu)),
      uda_swap_volume_usd := total_volume\<rparr>)) volumes acts"
  by (rule fold_cong) (auto simp: set_swap_points_def)

lemma swap_points_get:
  assumes "map_of config ''swap'' = Some c" "pc_points_per_usd c = Some ppu"
    and "succ_opt (cd_limits E) date = Some next" "cd_swaps E (midnight date) (midnight next) = Inr swaps"
    and "calculate_swap_points E date config acts = Inr acts'"
  shows "map_of acts' a = (if user_priced E swaps a = [] then map_of acts a
    else Some ((case map_of acts a of None \<Rightarrow> new_activity a | Some u \<Rightarrow> u)\<lparr>
      uda_swap_points := to_i32_or_zero (dec_ceil0 (cd_dec E) (sum_list (user_priced E swaps a) * ppu)),
      uda_swap_volume_usd := sum_list (user_priced E swaps a)\<rparr>))"
proof -
  obtain volumes where v: "fold_res (add_swap_volume E) swaps [] = Inr volumes"
      and acts': "acts' = fold (set_swap_points (cd_dec E) ppu) volumes acts"
    using assms by (auto simp: calculate_swap_points_def res_simps)
  have wf: "hm_wf volumes"
    by (rule swap_volumes_wf [OF v]) simp
  show ?thesis
    unfolding acts' set_swap_points_entries fold_entries_get [OF wf] swap_volumes_get [OF v]
    by simp
qed

lemma swap_points_wf:
  assumes "calculate_swap_points E date config acts = Inr acts'" "hm_wf acts"
  shows "hm_wf acts'"
  using assms
  by (auto simp: calculate_swap_points_def res_simps set_swap_points_entries hm_wf_fold_entries
      split: option.splits)

text \<open>
  C2: A user's swap points are the configured points per dollar times the value of all the user's
  swaps of the day that could be priced, rounded up once; they are 0 when the result does not fit in
  an \<^verbatim>\<open>i32\<close>. Users without a priced swap get no entry.
\<close>
theorem swap_points_of_volume:
  assumes "dec_laws (cd_dec E)"
    and "map_of config ''swap'' = Some c" "pc_points_per_usd c = Some ppu"
    and "succ_opt (cd_limits E) date = Some next" "cd_swaps E (midnight date) (midnight next) = Inr swaps"
    and "calculate_swap_points E date config [] = Inr acts"
  shows "map_of acts a = (if user_priced E swaps a = [] then None
    else Some ((new_activity a)\<lparr>
      uda_swap_points := (let p = \<lceil>sum_list (user_priced E swaps a) * ppu\<rceil> in if in_i32 p then p else 0),
      uda_swap_volume_usd := sum_list (user_priced E swaps a)\<rparr>))"
  using swap_points_get [OF assms(2-6), of a] by (simp add: to_i32_or_zero_ceil [OF assms(1)] Let_def)

section \<open>Lending points\<close>

text \<open>
  The specification: the balances of a user at a time \<^verbatim>\<open>t\<close> are those of the last snapshot of each
  market up to \<^verbatim>\<open>t\<close>, and the dollar-seconds of a day sum the balance held at each of its seconds.
\<close>

definition held :: "((string, rat \<times> rat) hmap \<Rightarrow> rat) \<Rightarrow> position_snapshot list \<Rightarrow> naive_datetime \<Rightarrow> rat" where
  "held sel snaps t = sel (fold put_state (filter (\<lambda>s. snap_ts s \<le> t) snaps) [])"

definition dollar_seconds ::
  "((string, rat \<times> rat) hmap \<Rightarrow> rat) \<Rightarrow> position_snapshot list \<Rightarrow> naive_datetime \<Rightarrow> naive_datetime \<Rightarrow> rat" where
  "dollar_seconds sel snaps from to =
    (\<Sum>k\<in>{from div second_ns..<to div second_ns}. held sel snaps (k * second_ns))"

definition whole_second :: "naive_datetime \<Rightarrow> bool" where
  "whole_second t \<longleftrightarrow> t mod second_ns = 0"

lemma whole_secondE:
  assumes "whole_second t"
  obtains q where "t = q * second_ns" "t div second_ns = q"
proof -
  have "t = t div second_ns * second_ns"
    using assms div_mult_mod_eq [of t second_ns] by (simp add: whole_second_def)
  then show ?thesis by (rule that) simp
qed

lemma second_ns_pos: "0 < second_ns"
  by (simp add: second_ns_def)

lemma whole_second_midnight [simp]: "whole_second (midnight d)"
  by (simp add: whole_second_def midnight_def day_ns_def)

lemma sum_ivl_split:
  fixes a b c :: int and f :: "int \<Rightarrow> rat"
  assumes "a \<le> b" "b \<le> c"
  shows "sum f {a..<c} = sum f {a..<b} + sum f {b..<c}"
proof -
  have "{a..<c} = {a..<b} \<union> {b..<c}" "{a..<b} \<inter> {b..<c} = {}"
    using assms by auto
  then show ?thesis by (simp add: sum.union_disjoint)
qed

lemma dollar_seconds_split:
  assumes "a \<le> b" "b \<le> c"
  shows "dollar_seconds sel snaps a c = dollar_seconds sel snaps a b + dollar_seconds sel snaps b c"
  unfolding dollar_seconds_def
  by (rule sum_ivl_split) (simp_all add: assms zdiv_mono1 second_ns_def)

text \<open>Between two whole seconds at which the balances do not change.\<close>

lemma dollar_seconds_const:
  assumes a: "whole_second a" and b: "whole_second b" and le: "a \<le> b"
    and c: "\<And>t. a \<le> t \<Longrightarrow> t < b \<Longrightarrow> held sel snaps t = v"
  shows "dollar_seconds sel snaps a b = v * of_int (num_seconds (b - a))"
proof -
  obtain p where p: "a = p * second_ns" "a div second_ns = p" by (rule whole_secondE [OF a])
  obtain q where q: "b = q * second_ns" "b div second_ns = q" by (rule whole_secondE [OF b])
  have pq: "p \<le> q"
    using le second_ns_pos by (simp add: p q)
  have "held sel snaps (k * second_ns) = v" if "k \<in> {p..<q}" for k
    using that second_ns_pos by (intro c) (simp_all add: p q)
  then have "dollar_seconds sel snaps a b = (\<Sum>k\<in>{p..<q}. v)"
    unfolding dollar_seconds_def p(2) q(2) by (intro sum.cong) auto
  also have "\<dots> = v * of_int (q - p)"
    using pq by (simp add: mult.commute)
  also have "q - p = num_seconds (b - a)"
    using num_seconds_whole [of "q - p"] by (simp add: p q left_diff_distrib)
  finally show ?thesis .
qed

lemma boundaries_Cons:
  assumes "sorted (List.map snap_ts (r # rest))"
  shows "remdups_adj (sort (List.map snap_ts (r # rest))) =
    snap_ts r # remdups_adj (sort (List.map snap_ts (dropWhile (\<lambda>s. snap_ts s = snap_ts r) rest)))"
proof -
  have "sorted (List.map snap_ts (dropWhile P rest))" for P
    using assms by (metis dropWhile_eq_drop drop_map list.simps(9) sorted_simps(2) sorted_wrt_drop)
  with assms show ?thesis
    by (simp add: sorted_sort_id remdups_adj_Cons' dropWhile_map o_def del: sort_key_simps)
qed

lemma filter_at_period:
  assumes "sorted (List.map snap_ts (r # rest))" "\<forall>s\<in>set pre. snap_ts s < snap_ts r"
    and "snap_ts r \<le> t" "\<forall>s\<in>set (dropWhile (\<lambda>s. snap_ts s = snap_ts r) rest). t < snap_ts s"
  shows "filter (\<lambda>s. snap_ts s \<le> t) (pre @ r # rest)
    = pre @ r # takeWhile (\<lambda>s. snap_ts s = snap_ts r) rest"
proof -
  let ?P = "\<lambda>s. snap_ts s = snap_ts r"
  have "filter (\<lambda>s. snap_ts s \<le> t) pre = pre"
    using assms(2,3) by (auto simp: filter_id_conv)
  moreover have "filter (\<lambda>s. snap_ts s \<le> t) (takeWhile ?P rest) = takeWhile ?P rest"
    using assms(3) by (auto simp: filter_id_conv dest: set_takeWhileD)
  moreover have "filter (\<lambda>s. snap_ts s \<le> t) (dropWhile ?P rest) = []"
    using assms(4) by (auto simp: filter_empty_conv)
  moreover have "filter Q rest = filter Q (takeWhile ?P rest) @ filter Q (dropWhile ?P rest)" for Q
    by (metis filter_append takeWhile_dropWhile_id)
  ultimately show ?thesis
    using assms(3) by simp
qed

lemma period_step_secs:
  assumes "whole_second a" "whole_second b" "a < b"
    and s: "\<And>t. a \<le> t \<Longrightarrow> t < b \<Longrightarrow> filter (\<lambda>s. snap_ts s \<le> t) snaps = done @ here"
    and "lacc_states acc = fold put_state done []"
  shows "lacc_supply_secs (period_step a b here acc)
      = lacc_supply_secs acc + dollar_seconds total_supply snaps a b"
    and "lacc_borrow_secs (period_step a b here acc)
      = lacc_borrow_secs acc + dollar_seconds total_borrow snaps a b"
    and "lacc_states (period_step a b here acc) = fold put_state (done @ here) []"
proof -
  obtain p where p: "a = p * second_ns" by (rule whole_secondE [OF assms(1)])
  obtain q where q: "b = q * second_ns" by (rule whole_secondE [OF assms(2)])
  have "p < q"
    using \<open>a < b\<close> second_ns_pos by (simp add: p q)
  then have d: "\<not> num_seconds (b - a) \<le> 0"
    using num_seconds_whole [of "q - p"] by (simp add: p q left_diff_distrib)
  have "dollar_seconds sel snaps a b
      = sel (fold put_state (done @ here) []) * of_int (num_seconds (b - a))" for sel
    using assms(1-3) by (intro dollar_seconds_const) (simp_all add: held_def s)
  then show "lacc_supply_secs (period_step a b here acc)
      = lacc_supply_secs acc + dollar_seconds total_supply snaps a b"
    "lacc_borrow_secs (period_step a b here acc)
      = lacc_borrow_secs acc + dollar_seconds total_borrow snaps a b"
    "lacc_states (period_step a b here acc) = fold put_state (done @ here) []"
    using d by (simp_all add: period_step_def Let_def assms(5))
qed

lemma boundaries_ne: "boundaries day_end snaps \<noteq> []"
  by (simp add: boundaries_def)

lemma hd_boundaries:
  assumes "sorted (List.map snap_ts snaps)"
  shows "hd (boundaries day_end snaps) = (if snaps = [] then day_end else snap_ts (hd snaps))"
  using boundaries_Cons assms by (cases snaps) (auto simp: boundaries_def)

lemma dropWhile_later:
  assumes "sorted (List.map snap_ts (r # rest))" "s \<in> set (dropWhile (\<lambda>s. snap_ts s = snap_ts r) rest)"
  shows "snap_ts r < snap_ts s"
    and "snap_ts (hd (dropWhile (\<lambda>s. snap_ts s = snap_ts r) rest)) \<le> snap_ts s"
proof -
  let ?l = "dropWhile (\<lambda>s. snap_ts s = snap_ts r) rest"
  have ne: "?l \<noteq> []" using assms(2) by (metis empty_iff list.set(1))
  have so: "sorted (List.map snap_ts ?l)"
    using assms(1) by (metis dropWhile_eq_drop drop_map list.simps(9) sorted_simps(2) sorted_wrt_drop)
  then show le: "snap_ts (hd ?l) \<le> snap_ts s"
    using assms(2) ne by (cases ?l) auto
  have "hd ?l \<in> set rest"
    using ne by (metis hd_in_set set_dropWhileD)
  then have "snap_ts r \<le> snap_ts (hd ?l)"
    using assms(1) by auto
  moreover have "snap_ts (hd ?l) \<noteq> snap_ts r"
    using hd_dropWhile [OF ne] .
  ultimately show "snap_ts r < snap_ts s"
    using le by simp
qed

lemma period_loop_secs:
  assumes "rest \<noteq> []" "sorted (List.map snap_ts rest)" "whole_second day_end"
    and "\<forall>s\<in>set rest. whole_second (snap_ts s) \<and> snap_ts s < day_end"
    and "\<forall>s\<in>set done. \<forall>r\<in>set rest. snap_ts s < snap_ts r"
    and "lacc_states acc = fold put_state done []"
  shows "lacc_supply_secs (period_loop (boundaries day_end rest) rest acc)
      = lacc_supply_secs acc + dollar_seconds total_supply (done @ rest) (snap_ts (hd rest)) day_end \<and>
    lacc_borrow_secs (period_loop (boundaries day_end rest) rest acc)
      = lacc_borrow_secs acc + dollar_seconds total_borrow (done @ rest) (snap_ts (hd rest)) day_end"
  using assms
proof (induction "length rest" arbitrary: rest "done" acc rule: less_induct)
  case less
  obtain r rest' where rest: "rest = r # rest'"
    using less.prems(1) by (cases rest) auto
  let ?here = "takeWhile (\<lambda>s. snap_ts s = snap_ts r) rest'"
  let ?later = "dropWhile (\<lambda>s. snap_ts s = snap_ts r) rest'"
  let ?b = "hd (boundaries day_end ?later)"
  let ?acc = "period_step (snap_ts r) ?b (r # ?here) acc"
  have so: "sorted (List.map snap_ts ?later)"
    using less.prems(2) by (metis rest dropWhile_eq_drop drop_map list.simps(9) sorted_simps(2) sorted_wrt_drop)
  have later_in: "set ?later \<subseteq> set rest"
    by (auto simp: rest dest: set_dropWhileD)
  have "boundaries day_end rest = snap_ts r # boundaries day_end ?later"
    using boundaries_Cons [of r rest'] less.prems(2) by (simp add: boundaries_def rest)
  moreover obtain bs where bs: "boundaries day_end ?later = ?b # bs"
    using boundaries_ne [of day_end ?later] by (cases "boundaries day_end ?later") auto
  ultimately have "boundaries day_end rest = snap_ts r # ?b # bs"
    by simp
  then have loop: "period_loop (boundaries day_end rest) rest acc
      = period_loop (boundaries day_end ?later) ?later ?acc"
    by (subst bs) (simp add: rest del: hd_Cons_tl)
  have b: "snap_ts r < ?b" "whole_second ?b" "?b \<le> day_end"
  proof -
    have "snap_ts r < ?b \<and> whole_second ?b \<and> ?b \<le> day_end"
    proof (cases "?later = []")
      case True
      then have "?b = day_end"
        unfolding True by (simp add: boundaries_def)
      with less.prems(3,4) rest show ?thesis by (simp add: less_imp_le)
    next
      case False
      then have h: "hd ?later \<in> set ?later" by (rule hd_in_set)
      with later_in less.prems(4) have "whole_second (snap_ts (hd ?later)) \<and> snap_ts (hd ?later) < day_end"
        by blast
      with False dropWhile_later(1) [of r rest', OF _ h] less.prems(2) show ?thesis
        by (simp add: hd_boundaries [OF so] rest del: dropWhile_eq_Nil_conv)
    qed
    then show "snap_ts r < ?b" "whole_second ?b" "?b \<le> day_end" by simp_all
  qed
  have "filter (\<lambda>s. snap_ts s \<le> t) (done @ rest) = done @ (r # ?here)" if "snap_ts r \<le> t" "t < ?b" for t
    unfolding rest
  proof (rule filter_at_period)
    show "\<forall>s\<in>set ?later. t < snap_ts s"
    proof
      fix s assume s: "s \<in> set ?later"
      then have "?later \<noteq> []" by (metis empty_iff list.set(1))
      then have "t < snap_ts (hd ?later)"
        using that(2) by (simp add: hd_boundaries [OF so] del: dropWhile_eq_Nil_conv)
      with dropWhile_later(2) [OF less.prems(2) [unfolded rest] s] show "t < snap_ts s"
        by simp
    qed
  qed (use less.prems that rest in auto)
  note step = period_step_secs [OF _ b(2,1) this less.prems(6)]
  have r: "whole_second (snap_ts r)"
    using less.prems(4) rest by simp
  show ?case
  proof (cases "?later = []")
    case True
    then have "?b = day_end" "period_loop (boundaries day_end ?later) ?later ?acc = ?acc"
      unfolding True by (simp_all add: boundaries_def)
    with step [OF r] loop rest show ?thesis by simp
  next
    case False
    have "length ?later < length rest"
      using length_dropWhile_le [of _ rest'] by (simp add: rest le_imp_less_Suc)
    moreover have "\<forall>s\<in>set (done @ r # ?here). \<forall>l\<in>set ?later. snap_ts s < snap_ts l"
      using less.prems(5) later_in dropWhile_later(1) [of r rest'] less.prems(2)
      by (auto simp: rest dest!: set_takeWhileD)
    ultimately have "lacc_supply_secs (period_loop (boundaries day_end ?later) ?later ?acc)
        = lacc_supply_secs ?acc + dollar_seconds total_supply ((done @ r # ?here) @ ?later) (snap_ts (hd ?later)) day_end \<and>
      lacc_borrow_secs (period_loop (boundaries day_end ?later) ?later ?acc)
        = lacc_borrow_secs ?acc + dollar_seconds total_borrow ((done @ r # ?here) @ ?later) (snap_ts (hd ?later)) day_end"
      using less.prems(3,4) later_in False so step(3) [OF r]
      by (intro less.hyps) auto
    moreover have "(done @ r # ?here) @ ?later = done @ rest"
      by (simp add: rest)
    moreover have "?b = snap_ts (hd ?later)"
      using False by (simp add: hd_boundaries [OF so] del: dropWhile_eq_Nil_conv)
    ultimately show ?thesis
      using step(1,2) [OF r] loop b dollar_seconds_split [of "snap_ts r" ?b day_end]
      by (simp add: rest add.assoc less_imp_le)
  qed
qed

text \<open>Before its first snapshot a user holds nothing.\<close>

lemma dollar_seconds_extend:
  assumes "\<forall>s\<in>set snaps. b \<le> snap_ts s" "a \<le> b" "b \<le> c" "whole_second a" "whole_second b"
    and "sel [] = 0"
  shows "dollar_seconds sel snaps a c = dollar_seconds sel snaps b c"
proof -
  have "held sel snaps t = 0" if "t < b" for t
  proof -
    have "filter (\<lambda>s. snap_ts s \<le> t) snaps = []"
      using assms(1) that by (force simp: filter_empty_conv)
    then show ?thesis by (simp add: held_def assms(6))
  qed
  then have "dollar_seconds sel snaps a b = 0"
    using dollar_seconds_const [of a b sel snaps 0] assms by simp
  with dollar_seconds_split [OF assms(2,3), of sel snaps] show ?thesis by simp
qed

lemma day_dollar_seconds:
  assumes "snaps \<noteq> []" and d: "\<forall>s\<in>set snaps. whole_second (snap_ts s) \<and> date_of (snap_ts s) = date"
    and acc: "lacc_states acc = []"
  shows "lacc_supply_secs (period_loop (boundaries (midnight (date + 1)) (sort_key snap_ts snaps)) (sort_key snap_ts snaps) acc)
      = lacc_supply_secs acc + dollar_seconds total_supply (sort_key snap_ts snaps) (midnight date) (midnight (date + 1))"
    and "lacc_borrow_secs (period_loop (boundaries (midnight (date + 1)) (sort_key snap_ts snaps)) (sort_key snap_ts snaps) acc)
      = lacc_borrow_secs acc + dollar_seconds total_borrow (sort_key snap_ts snaps) (midnight date) (midnight (date + 1))"
proof -
  let ?xs = "sort_key snap_ts snaps"
  have r: "\<forall>s\<in>set ?xs. midnight date \<le> snap_ts s \<and> snap_ts s < midnight (date + 1)"
    using d in_day_iff by auto
  have ne: "?xs \<noteq> []"
    using assms(1) by (metis length_0_conv length_sort)
  then have h: "hd ?xs \<in> set ?xs" by (rule hd_in_set)
  have first: "\<forall>s\<in>set ?xs. snap_ts (hd ?xs) \<le> snap_ts s"
    using ne sorted_sort_key [of snap_ts snaps] by (cases ?xs) auto
  have loop: "lacc_supply_secs (period_loop (boundaries (midnight (date + 1)) ?xs) ?xs acc)
      = lacc_supply_secs acc + dollar_seconds total_supply ([] @ ?xs) (snap_ts (hd ?xs)) (midnight (date + 1)) \<and>
    lacc_borrow_secs (period_loop (boundaries (midnight (date + 1)) ?xs) ?xs acc)
      = lacc_borrow_secs acc + dollar_seconds total_borrow ([] @ ?xs) (snap_ts (hd ?xs)) (midnight (date + 1))"
    using ne r d by (intro period_loop_secs) (simp_all add: acc)
  have ext: "dollar_seconds sel ?xs (midnight date) (midnight (date + 1))
      = dollar_seconds sel ?xs (snap_ts (hd ?xs)) (midnight (date + 1))" if "sel [] = 0" for sel
    using first r h d that by (intro dollar_seconds_extend) (auto simp: less_imp_le)
  show "lacc_supply_secs (period_loop (boundaries (midnight (date + 1)) ?xs) ?xs acc)
      = lacc_supply_secs acc + dollar_seconds total_supply ?xs (midnight date) (midnight (date + 1))"
    "lacc_borrow_secs (period_loop (boundaries (midnight (date + 1)) ?xs) ?xs acc)
      = lacc_borrow_secs acc + dollar_seconds total_borrow ?xs (midnight date) (midnight (date + 1))"
    using loop ext [of total_supply] ext [of total_borrow] by (simp_all add: total_supply_def total_borrow_def)
qed

text \<open>The points of a user in terms of the specification.\<close>

definition user_positions :: "position_snapshot list \<Rightarrow> string \<Rightarrow> position_snapshot list" where
  "user_positions snapshots a = sort_key snap_ts (filter (\<lambda>s. pos_address (psn_row s) = a) snapshots)"

lemma add_user_lending_entries:
  "fold (add_user_lending D day_end r1 r2) (group_by (\<lambda>s. pos_address (psn_row s)) snapshots) acts =
   fold (\<lambda>(a, snaps). hm_entry a (new_activity a) (user_lending D day_end r1 r2 (sort_key snap_ts snaps)))
     (group_by (\<lambda>s. pos_address (psn_row s)) snapshots) acts"
proof (rule fold_cong [OF refl refl])
  fix us assume us: "us \<in> set (group_by (\<lambda>s. pos_address (psn_row s)) snapshots)"
  obtain a snaps where [simp]: "us = (a, snaps)" by (cases us)
  have "snaps \<noteq> []"
    by (rule group_by_in(2)) (use us in simp)
  then have "sort_key snap_ts snaps \<noteq> []"
    by (metis length_0_conv length_sort)
  then show "add_user_lending D day_end r1 r2 us = (\<lambda>(a, snaps). hm_entry a (new_activity a)
      (user_lending D day_end r1 r2 (sort_key snap_ts snaps))) us"
    by (intro ext) (simp add: add_user_lending_def Let_def)
qed

lemma lending_points_get:
  assumes "map_of config ''supply'' = Some cs" "pc_points_per_usd_per_day cs = Some sp"
    and "map_of config ''borrow'' = Some cb" "pc_points_per_usd_per_day cb = Some bp"
    and "succ_opt (cd_limits E) date = Some next" "cd_positions E (midnight date) (midnight next) = Inr snapshots"
    and "calculate_lending_points E date config acts = Inr acts'"
  shows "map_of acts' a = (if user_positions snapshots a = [] then map_of acts a
    else Some (user_lending (cd_dec E) (midnight next) (dec_div (cd_dec E) sp 86400) (dec_div (cd_dec E) bp 86400)
      (user_positions snapshots a) (case map_of acts a of None \<Rightarrow> new_activity a | Some u \<Rightarrow> u)))"
proof -
  have acts': "acts' = fold (add_user_lending (cd_dec E) (midnight next) (dec_div (cd_dec E) sp 86400)
      (dec_div (cd_dec E) bp 86400)) (group_by (\<lambda>s. pos_address (psn_row s)) snapshots) acts"
    using assms by (simp add: calculate_lending_points_def Let_def)
  have "user_positions snapshots a = [] \<longleftrightarrow> \<not> (\<exists>s\<in>set snapshots. pos_address (psn_row s) = a)"
    unfolding user_positions_def by (metis (mono_tags, lifting) filter_empty_conv length_0_conv length_sort)
  then show ?thesis
    unfolding acts' add_user_lending_entries fold_entries_get [OF hm_wf_group_by] group_by_get
    by (simp add: user_positions_def)
qed


definition example_config :: "string \<Rightarrow> rat \<Rightarrow> points_config" where
  "example_config a r = \<lparr>pc_id = 1, pc_action_type = a, pc_points_per_usd = Some r,
    pc_points_per_usd_per_day = Some r, pc_is_active = True, pc_created_at = 0, pc_updated_at = 0\<rparr>"

definition example_position :: position_snapshot where
  "example_position = \<lparr>psn_id = 1, psn_row = \<lparr>pos_address = ''u'', pos_market_id = ''m'',
    pos_supply_amount = 7, pos_supply_amount_usd = 100, pos_timestamp = midnight 5,
    pos_borrow_amount = 0, pos_borrow_amount_usd = 0, pos_collateral_amount = 0,
    pos_collateral_amount_usd = 0\<rparr>\<rparr>"

definition example_swap :: swap_transaction where
  "example_swap = \<lparr>st_address = ''u'', st_tx_id = ''t'', st_token_in = ''usd'', st_token_out = ''b'',
    st_amount_in = 1001, st_amount_out = 3, st_pool_address = ''p'', st_hop_count = 1\<rparr>"

definition example_token :: token_info where
  "example_token = \<lparr>ti_id = ''usd'', ti_name = '''', ti_symbol = '''', ti_decimals = 2,
    ti_description = '''', ti_logo_uri = '''', ti_price_usd = 1\<rparr>"

definition example_deps :: calc_deps where
  "example_deps = \<lparr>cd_dec = exact_dec, cd_limits = \<lparr>date_min = -1000, date_max = 1000\<rparr>,
    cd_token_info = (\<lambda>_. Inr example_token), cd_token_price = (\<lambda>_. Inr 1),
    cd_swaps = (\<lambda>_ _. Inr [example_swap]), cd_positions = (\<lambda>_ _. Inr [example_position]),
    cd_referral_percentage = Inr (5 / 100), cd_calculation_time = ''01:00''\<rparr>"

lemma example_config_sel [simp]:
  "pc_points_per_usd (example_config a r) = Some r"
  "pc_points_per_usd_per_day (example_config a r) = Some r"
  by (simp_all add: example_config_def)

lemma example_deps_sel [simp]:
  "cd_dec example_deps = exact_dec" "cd_limits example_deps = \<lparr>date_min = -1000, date_max = 1000\<rparr>"
  "cd_token_info example_deps = (\<lambda>_. Inr example_token)" "cd_token_price example_deps = (\<lambda>_. Inr 1)"
  "cd_swaps example_deps = (\<lambda>_ _. Inr [example_swap])"
  "cd_positions example_deps = (\<lambda>_ _. Inr [example_position])"
  "cd_referral_percentage example_deps = Inr (5 / 100)"
  by (simp_all add: example_deps_def)

theorem swap_points_of_volume_witness:
  "\<exists>acts u. calculate_swap_points example_deps 5 [(''swap'', example_config ''swap'' 10)] [] = Inr acts \<and>
    map_of acts ''u'' = Some u \<and> uda_swap_points u = 101"
proof -
  let ?config = "[(''swap'', example_config ''swap'' 10)]"
  have usd: "swap_usd example_deps example_swap = Inr (Some (1001 / 100))"
    by (simp add: swap_usd_def example_swap_def example_token_def convert_to_decimal_def
        div_res_def wrap_u64_def)
  have p: "user_priced example_deps [example_swap] ''u'' = [1001 / 100]"
    using usd by (simp add: user_priced_def priced_def map_filter_simps) (simp add: example_swap_def)
  have "\<exists>acts. calculate_swap_points example_deps 5 ?config [] = Inr acts"
    by (simp add: calculate_swap_points_def succ_opt_def add_swap_volume_def usd)
  then obtain acts where a: "calculate_swap_points example_deps 5 ?config [] = Inr acts" ..
  have "map_of acts ''u'' = (if user_priced example_deps [example_swap] ''u'' = [] then None
    else Some ((new_activity ''u'')\<lparr>
      uda_swap_points := (let p = \<lceil>sum_list (user_priced example_deps [example_swap] ''u'') * 10\<rceil>
        in if in_i32 p then p else 0),
      uda_swap_volume_usd := sum_list (user_priced example_deps [example_swap] ''u'')\<rparr>))"
    by (rule swap_points_of_volume [where c = "example_config ''swap'' 10", OF _ _ _ _ _ a])
      (simp_all add: succ_opt_def)
  moreover have "\<lceil>1001 / 10 :: rat\<rceil> = 101"
    by (simp add: ceiling_eq_iff)
  ultimately show ?thesis
    using a p by (simp add: in_i32_def)
qed


end
