(* ===== verification/Points_Daily_Laws.thy ===== *)
theory Points_Daily_Laws
  imports Points_Calculator_Laws
begin

text \<open>
  The later steps of the daily calculation: the multiplier, the referral points, and the snapshots
  of the day; what a second calculation of a day does; the date range and the scheduler.
\<close>

section \<open>Multipliers\<close>

definition best_so_far :: "rat \<Rightarrow> points_multiplier list \<Rightarrow> points_multiplier option \<Rightarrow> bool" where
  "best_so_far v ms best = (case best of
      None \<Rightarrow> \<forall>m\<in>set ms. v < pm_threshold_value m
    | Some b \<Rightarrow> b \<in> set ms \<and> pm_threshold_value b \<le> v \<and>
        (\<forall>m\<in>set ms. pm_threshold_value m \<le> v \<longrightarrow> pm_threshold_value m \<le> pm_threshold_value b))"

lemma best_so_far_step:
  assumes "best_so_far v ms best"
  shows "best_so_far v (ms @ [m]) (if v \<ge> pm_threshold_value m
       then (case best of None \<Rightarrow> Some m
        | Some c \<Rightarrow> if pm_threshold_value m > pm_threshold_value c then Some m else Some c) else best)"
proof (cases best)
  case None
  with assms show ?thesis by (auto simp: best_so_far_def not_le)
next
  case (Some c)
  with assms show ?thesis
    by (simp add: best_so_far_def not_less not_le) (meson order.trans less_imp_le)
qed

lemma best_multiplier_inv:
  "best_so_far v done best \<Longrightarrow> best_so_far v (done @ ms) (best_multiplier v ms best)"
proof (induction ms arbitrary: "done" best)
  case (Cons m ms)
  from Cons.IH [OF best_so_far_step [OF Cons.prems, of m]] show ?case by simp
qed simp

lemma best_multiplier_best: "best_so_far v ms (best_multiplier v ms None)"
  using best_multiplier_inv [of v "[]" None ms] by (simp add: best_so_far_def)

text \<open>
  The multiplier applied to a user is one of the configured ones whose threshold the user's volume
  reaches, and no other reached threshold is higher; none is applied exactly when no threshold is
  reached. With non-negative multipliers and no overflow, base points never shrink.
\<close>
theorem multiplier_highest_threshold:
  "(best_multiplier v ms None = None \<longleftrightarrow> (\<forall>m\<in>set ms. v < pm_threshold_value m)) \<and>
   (\<forall>m. best_multiplier v ms None = Some m \<longrightarrow> m \<in> set ms \<and> pm_threshold_value m \<le> v \<and>
     (\<forall>m'\<in>set ms. pm_threshold_value m' \<le> v \<longrightarrow> pm_threshold_value m' \<le> pm_threshold_value m)) \<and>
   (dec_laws D \<and> (\<forall>m\<in>set ms. 0 \<le> pm_multiplier m) \<and> map_of acts a = Some u \<and> in_i32 (uda_base_points_total u) \<and>
     0 \<le> uda_base_points_total u \<and>
     (\<forall>m\<in>set ms. in_i32 (uda_base_points_total u
        + to_i32_or_zero (dec_round0 D (of_int (uda_base_points_total u) * pm_multiplier m)))) \<longrightarrow>
     (\<exists>u'. map_of (apply_multipliers D ms acts) a = Some u' \<and>
        uda_base_points_total u \<le> uda_base_points_total u'))"
proof -
  have best: "(best_multiplier v ms None = None \<longleftrightarrow> (\<forall>m\<in>set ms. v < pm_threshold_value m)) \<and>
   (\<forall>m. best_multiplier v ms None = Some m \<longrightarrow> m \<in> set ms \<and> pm_threshold_value m \<le> v \<and>
     (\<forall>m'\<in>set ms. pm_threshold_value m' \<le> v \<longrightarrow> pm_threshold_value m' \<le> pm_threshold_value m))" for v
    using best_multiplier_best [of v ms] by (cases "best_multiplier v ms None") (auto simp: best_so_far_def not_less [symmetric])
  moreover have "\<exists>u'. map_of (apply_multipliers D ms acts) a = Some u' \<and>
      uda_base_points_total u \<le> uda_base_points_total u'"
    if D: "dec_laws D" and ms: "\<forall>m\<in>set ms. 0 \<le> pm_multiplier m" and u: "map_of acts a = Some u"
      and base: "0 \<le> uda_base_points_total u"
      and range: "\<forall>m\<in>set ms. in_i32 (uda_base_points_total u
        + to_i32_or_zero (dec_round0 D (of_int (uda_base_points_total u) * pm_multiplier m)))"
  proof -
    have "0 \<le> to_i32_or_zero (dec_round0 D (of_int (uda_base_points_total u) * pm_multiplier m))"
      if "m \<in> set ms" for m
      using dec_round0_nonneg [OF D, of "of_int (uda_base_points_total u) * pm_multiplier m"] ms base that
      by (simp add: to_i32_or_zero_def to_i32_def trunc_rat_def)
    then show ?thesis
      using best [of "uda_total_volume_usd u"] range u
      by (auto simp: apply_multipliers_def hm_simps multiply_points_def Let_def int_simps split: option.split)
  qed
  ultimately show ?thesis by blast
qed

theorem multiplier_highest_threshold_witness:
  "best_multiplier 5000 [\<lparr>pm_id = 1, pm_multiplier_type = ''volume'', pm_threshold_value = 100,
      pm_multiplier = 1, pm_is_active = True, pm_created_at = 0\<rparr>] None \<noteq> None"
proof -
  let ?ms = "[\<lparr>pm_id = 1, pm_multiplier_type = ''volume'', pm_threshold_value = 100,
      pm_multiplier = 1, pm_is_active = True, pm_created_at = 0\<rparr>]"
  show ?thesis
    using multiplier_highest_threshold [of 5000 ?ms exact_dec "[]" "''u''"] by simp
qed

section \<open>Activities keep their address\<close>

definition acts_ok :: "activities \<Rightarrow> bool" where
  "acts_ok acts \<longleftrightarrow> hm_wf acts \<and> (\<forall>(k, u)\<in>set acts. uda_address u = k)"

lemma acts_okI:
  "hm_wf acts \<Longrightarrow> (\<And>k u. map_of acts k = Some u \<Longrightarrow> uda_address u = k) \<Longrightarrow> acts_ok acts"
  by (auto simp: acts_ok_def hm_wf_def)

lemma acts_okD: "acts_ok acts \<Longrightarrow> map_of acts k = Some u \<Longrightarrow> uda_address u = k"
  by (auto simp: acts_ok_def dest: map_of_SomeD)

lemma acts_ok_wf: "acts_ok acts \<Longrightarrow> hm_wf acts"
  by (simp add: acts_ok_def)

lemma acts_ok_Nil [simp]: "acts_ok []"
  by (simp add: acts_ok_def)

lemma acts_ok_entry:
  assumes "acts_ok acts" "uda_address d = k" "\<And>u. uda_address (f u) = uda_address u"
  shows "acts_ok (hm_entry k d f acts)"
  using assms acts_ok_wf [OF assms(1)] acts_okD [OF assms(1)]
  by (intro acts_okI) (auto simp: hm_simps split: if_splits option.splits)

lemma acts_ok_fold:
  assumes "acts_ok acts" "\<And>x a. x \<in> set xs \<Longrightarrow> acts_ok a \<Longrightarrow> acts_ok (f x a)"
  shows "acts_ok (fold f xs acts)"
  using assms by (induction xs arbitrary: acts) auto

lemma acts_ok_values_mut:
  assumes "acts_ok acts" "\<And>u. uda_address (f u) = uda_address u"
  shows "acts_ok (hm_values_mut f acts)"
  using assms acts_ok_wf [OF assms(1)] acts_okD [OF assms(1)] by (intro acts_okI) (auto simp: hm_simps)

lemma new_activity_address [simp]: "uda_address (new_activity a) = a"
  by (simp add: new_activity_def)

lemma acts_ok_swap: "calculate_swap_points E date config acts = Inr acts' \<Longrightarrow> acts_ok acts \<Longrightarrow> acts_ok acts'"
  by (auto simp: calculate_swap_points_def res_simps set_swap_points_def
      intro!: acts_ok_fold acts_ok_entry split: option.splits)

lemma user_lending_address [simp]: "uda_address (user_lending D e r1 r2 snaps u) = uda_address u"
  by (simp add: user_lending_def Let_def)

lemma acts_ok_lending: "calculate_lending_points E date config acts = Inr acts' \<Longrightarrow> acts_ok acts \<Longrightarrow> acts_ok acts'"
  by (auto simp: calculate_lending_points_def res_simps Let_def add_user_lending_def
      intro!: acts_ok_fold acts_ok_entry split: option.splits prod.splits)

lemma acts_ok_referral: "calculate_referral_points E db acts = Inr acts' \<Longrightarrow> acts_ok acts \<Longrightarrow> acts_ok acts'"
  by (auto simp: calculate_referral_points_def res_simps Let_def add_referrer_def
      intro!: acts_ok_fold acts_ok_entry)

lemma multiply_points_address [simp]: "uda_address (multiply_points D ms u) = uda_address u"
  by (simp add: multiply_points_def Let_def split: option.split)

lemma finalize_address [simp]: "uda_address (finalize u) = uda_address u"
  by (simp add: finalize_def)

lemma day_activities_ok:
  assumes "day_activities E date db = Inr acts"
  shows "acts_ok acts"
proof -
  obtain a1 a2 where a1: "calculate_swap_points E date (load_points_config db) [] = Inr a1"
      and a2: "calculate_lending_points E date (load_points_config db) a1 = Inr a2"
      and r: "calculate_referral_points E db (apply_multipliers (cd_dec E) (get_multipliers_by_type ''volume'' db)
        (hm_values_mut finalize a2)) = Inr acts"
    using assms by (auto simp: day_activities_def Let_def res_simps)
  have "acts_ok a2"
    by (rule acts_ok_lending [OF a2 acts_ok_swap [OF a1]]) simp
  then show ?thesis
    by (intro acts_ok_referral [OF r]) (simp add: apply_multipliers_def acts_ok_values_mut)
qed

section \<open>Referral points\<close>

definition active_points :: "activities \<Rightarrow> string \<Rightarrow> int" where
  "active_points acts a = (case map_of acts a of
      Some u \<Rightarrow> if has_activity u then uda_base_points_total u else 0 | None \<Rightarrow> 0)"

lemma add_referred_sum:
  "in_i32 t \<Longrightarrow> fold (add_referred acts) users t = wrap_i32 (t + sum_list (List.map (active_points acts) users))"
proof (induction users arbitrary: t)
  case (Cons a users)
  have "add_referred acts a t = wrap_i32 (t + active_points acts a)"
    using Cons.prems by (auto simp: add_referred_def active_points_def int_simps split: option.split)
  then show ?case
    using Cons.IH [of "wrap_i32 (t + active_points acts a)"] by (simp add: int_simps add.assoc)
qed (simp add: int_simps)

text \<open>Giving a user referral points changes no one's active points.\<close>

lemma active_points_add_referrer: "active_points (add_referrer D pct rs acts) = active_points acts"
  by (rule ext) (auto simp: active_points_def add_referrer_def Let_def hm_simps has_activity_def new_activity_def
      split: prod.split option.split)

definition referral_total :: "activities \<Rightarrow> user_referral list \<Rightarrow> int" where
  "referral_total acts referred = wrap_i32 (sum_list (List.map (\<lambda>r. active_points acts (ur_user_address r)) referred))"

lemma add_referrer_total:
  "add_referrer D pct (referrer, referred) acts = hm_entry referrer (new_activity referrer)
    (\<lambda>u. u\<lparr>uda_referral_points := wrap_i32 (uda_referral_points u
      + to_i32_or_zero (dec_round0 D (of_int (referral_total acts referred) * pct)))\<rparr>) acts"
proof -
  have "fold (add_referred acts) (List.map ur_user_address referred) 0 = referral_total acts referred"
    using add_referred_sum [of 0 acts "List.map ur_user_address referred"]
    by (simp add: referral_total_def in_i32_def o_def)
  then show ?thesis by (simp add: add_referrer_def)
qed

lemma add_referrers_entries:
  "active_points acts = active_points acts0 \<Longrightarrow>
    fold (add_referrer D pct) groups acts = fold (\<lambda>(referrer, referred). hm_entry referrer (new_activity referrer)
      (\<lambda>u. u\<lparr>uda_referral_points := wrap_i32 (uda_referral_points u
        + to_i32_or_zero (dec_round0 D (of_int (referral_total acts0 referred) * pct)))\<rparr>)) groups acts"
proof (induction groups arbitrary: acts)
  case (Cons g groups)
  obtain referrer referred where g: "g = (referrer, referred)" by (cases g)
  have "referral_total acts referred = referral_total acts0 referred"
    by (simp add: referral_total_def Cons.prems)
  then show ?case
    using Cons.IH [of "add_referrer D pct g acts"] active_points_add_referrer [of D pct g acts] Cons.prems
    by (simp add: g add_referrer_total)
qed simp

text \<open>
  A referrer gets the configured share of the base points that the referred users earned this day,
  counting only those with swap, supply or borrow points; nobody else's activity changes, and the order in
  which referrers are visited does not matter because referral points never count as base points.
\<close>
theorem referral_points_of_active_users:
  assumes "calculate_referral_points E db acts = Inr acts'" "cd_referral_percentage E = Inr pct"
  shows "map_of acts' a =
    (let referred = filter (\<lambda>r. ur_referred_by_address r = a) (t_rows (pd_referrals db)) in
     if referred = [] then map_of acts a
     else (let old = (case map_of acts a of None \<Rightarrow> new_activity a | Some u \<Rightarrow> u) in
       Some (old\<lparr>uda_referral_points := wrap_i32 (uda_referral_points old
         + to_i32_or_zero (dec_round0 (cd_dec E) (of_int (wrap_i32
             (\<Sum>r\<leftarrow>referred. active_points acts (ur_user_address r))) * pct)))\<rparr>)))"
proof -
  let ?g = "group_by ur_referred_by_address (get_all_user_referrals db)"
  have "acts' = fold (add_referrer (cd_dec E) pct) ?g acts"
    using assms by (simp add: calculate_referral_points_def)
  then show ?thesis
    by (simp add: add_referrers_entries [OF refl] fold_entries_get hm_simps get_all_user_referrals_def
        referral_total_def Let_def filter_empty_conv)
qed

theorem referral_points_of_active_users_witness:
  "\<exists>acts' u. calculate_referral_points example_deps (snd (insert_user_referral 0
      \<lparr>nur_user_address = ''v'', nur_referred_by_address = ''r''\<rparr> empty_points_db))
      [(''v'', (new_activity ''v'')\<lparr>uda_swap_points := 200, uda_base_points_total := 200\<rparr>)] = Inr acts' \<and>
    map_of acts' ''r'' = Some u \<and> uda_referral_points u = 10"
proof -
  let ?db = "snd (insert_user_referral 0 \<lparr>nur_user_address = ''v'', nur_referred_by_address = ''r''\<rparr> empty_points_db)"
  let ?acts = "[(''v'', (new_activity ''v'')\<lparr>uda_swap_points := 200, uda_base_points_total := 200\<rparr>)]"
  obtain acts' where a: "calculate_referral_points example_deps ?db ?acts = Inr acts'"
    by (simp add: calculate_referral_points_def)
  have rows: "t_rows (pd_referrals ?db) = [\<lparr>ur_id = 1, ur_user_address = ''v'', ur_referred_by_address = ''r'', ur_created_at = 0\<rparr>]"
    by (simp add: insert_user_referral_def insert_unique_def has_key_def empty_points_db_def empty_table_def
        append_row_def mk_user_referral_def)
  have f: "\<lfloor>21 / 2 :: rat\<rfloor> = 10"
    by (simp add: floor_eq_iff)
  have "cd_referral_percentage example_deps = Inr (5 / 100)" by simp
  from referral_points_of_active_users [OF a this, of "''r''"] a show ?thesis
    by (auto simp: rows Let_def active_points_def has_activity_def new_activity_def wrap_i32_def f
        to_i32_or_zero_def to_i32_def trunc_rat_def in_i32_def)
qed

section \<open>The snapshots of the day\<close>

lemma find_map: "List.find P (List.map f xs) = map_option f (List.find (\<lambda>x. P (f x)) xs)"
  by (induction xs) auto

lemma find_filter: "List.find P (filter Q xs) = List.find (\<lambda>x. Q x \<and> P x) xs"
  by (induction xs) auto

lemma find_conv_map_of: "List.find (\<lambda>(k', v). k' = k) xs = map_option (\<lambda>v. (k, v)) (map_of xs k)"
  by (induction xs) auto

lemma key_activity [simp]:
  "snap_key (activity_snapshot db p date season u) = (uda_address u, date, season)"
  by (simp add: activity_snapshot_def snap_key_def Let_def)

lemma key_carried [simp]: "snap_key (carried_snapshot date season s) = (nps_address (ps_row s), date, season)"
  by (simp add: carried_snapshot_def snap_key_def)

lemma find_activity:
  assumes "acts_ok acts"
  shows "List.find (\<lambda>n. snap_key n = (a, date, season)) (List.map (\<lambda>(_, u). activity_snapshot db p date season u) acts)
    = map_option (activity_snapshot db p date season) (map_of acts a)"
proof -
  have "\<forall>(k, u)\<in>set acts. uda_address u = k"
    using assms by (simp add: acts_ok_def)
  then show ?thesis
    by (induction acts) auto
qed

lemma find_carried:
  assumes "a \<notin> K"
  shows "List.find (\<lambda>n. snap_key n = (a, date, season)) (List.map (carried_snapshot date season)
      (filter (\<lambda>s. nps_address (ps_row s) \<notin> K) (get_snapshots_by_date p season db)))
    = map_option (carried_snapshot date season) (get_snapshot a p season db)"
proof -
  have "(nps_snapshot_date (ps_row s) = p \<and> nps_season_id (ps_row s) = season) \<and> nps_address (ps_row s) \<notin> K
      \<and> nps_address (ps_row s) = a \<longleftrightarrow> row_key s = (a, p, season)" for s
    using assms by (auto simp: row_key_def snap_key_def)
  then show ?thesis
    unfolding find_map key_carried prod.inject get_snapshots_by_date_def get_snapshot_lookup lookup_def
    by (simp add: find_filter conj_assoc)
qed

lemma find_day_snapshots:
  assumes "acts_ok acts"
  shows "List.find (\<lambda>n. snap_key n = (a, date, season)) (day_snapshots db p date season acts)
    = (case map_of acts a of Some u \<Rightarrow> Some (activity_snapshot db p date season u)
       | None \<Rightarrow> map_option (carried_snapshot date season) (get_snapshot a p season db))"
proof (cases "map_of acts a")
  case None
  then have "a \<notin> set (List.map fst acts)"
    by (simp add: map_of_eq_None_iff)
  with None show ?thesis
    unfolding day_snapshots_def by (simp add: find_append find_activity [OF assms] find_carried)
next
  case (Some u)
  then show ?thesis
    unfolding day_snapshots_def by (simp add: find_append find_activity [OF assms])
qed

lemma find_day_other:
  "(d, s) \<noteq> (date, season) \<Longrightarrow>
    List.find (\<lambda>n. snap_key n = (a, d, s)) (day_snapshots db p date season acts) = None"
  by (auto simp: day_snapshots_def find_None_iff)

lemma distinct_day_snapshots:
  assumes "points_wf db" "acts_ok acts"
  shows "distinct (List.map snap_key (day_snapshots db p date season acts))"
proof -
  let ?prev = "filter (\<lambda>s. nps_address (ps_row s) \<notin> set (List.map fst acts)) (get_snapshots_by_date p season db)"
  have fst: "List.map (\<lambda>(_, u). uda_address u) acts = List.map fst acts"
    using assms(2) by (auto simp: acts_ok_def)
  have 1: "List.map snap_key (day_snapshots db p date season acts) = List.map (\<lambda>a. (a, date, season))
      (List.map fst acts @ List.map (\<lambda>s. nps_address (ps_row s)) ?prev)"
    by (simp add: day_snapshots_def fst [symmetric] o_def case_prod_unfold)
  have "distinct (List.map row_key ?prev)"
    using assms(1) by (auto simp: points_wf_def keys_unique_def get_snapshots_by_date_def distinct_map
        intro: inj_on_subset distinct_filter)
  then have "distinct (List.map (\<lambda>s. nps_address (ps_row s)) ?prev)"
    by (auto simp: distinct_map inj_on_def row_key_def snap_key_def get_snapshots_by_date_def)
  moreover have "distinct (List.map fst acts)"
    using assms(2) by (simp add: acts_ok_def hm_wf_def)
  moreover have "set (List.map fst acts) \<inter> set (List.map (\<lambda>s. nps_address (ps_row s)) ?prev) = {}"
    by (auto simp: rev_image_eqI)
  ultimately have "distinct (List.map fst acts @ List.map (\<lambda>s. nps_address (ps_row s)) ?prev)"
    by (simp only: distinct_append)
  then show ?thesis
    unfolding 1 by (rule distinct_map [THEN iffD2, OF conjI]) (simp add: inj_on_def)
qed

lemma store_snapshots_eq:
  "date_min (cd_limits E) < date \<Longrightarrow> store_snapshots E now date season acts db
    = insert_snapshots now (day_snapshots db (date - 1) date season acts) db"
  by (simp add: store_snapshots_def pred_opt_def)

lemma store_snapshots_ok:
  assumes "points_wf db" "acts_ok acts" "date_min (cd_limits E) < date"
  shows "\<exists>db'. store_snapshots E now date season acts db = (Inr (), db')"
  unfolding store_snapshots_eq [OF assms(3)]
  using insert_snapshots_ok_iff distinct_day_snapshots [OF assms(1,2)] by blast

lemma store_snapshots_result:
  assumes "acts_ok acts" "date_min (cd_limits E) < date"
    and "store_snapshots E now date season acts db = (Inr (), db')"
  shows "map_option ps_row (get_snapshot a date season db') =
      (case map_of acts a of Some u \<Rightarrow> Some (activity_snapshot db (date - 1) date season u)
       | None \<Rightarrow> (case get_snapshot a (date - 1) season db of
            Some p \<Rightarrow> Some (carried_snapshot date season p)
          | None \<Rightarrow> map_option ps_row (get_snapshot a date season db)))"
    and "(d, s) \<noteq> (date, season) \<Longrightarrow>
      map_option ps_row (get_snapshot a d s db') = map_option ps_row (get_snapshot a d s db)"
proof -
  have i: "insert_snapshots now (day_snapshots db (date - 1) date season acts) db = (Inr (), db')"
    using assms(3) by (simp add: store_snapshots_eq [OF assms(2)])
  show "map_option ps_row (get_snapshot a date season db') =
      (case map_of acts a of Some u \<Rightarrow> Some (activity_snapshot db (date - 1) date season u)
       | None \<Rightarrow> (case get_snapshot a (date - 1) season db of
            Some p \<Rightarrow> Some (carried_snapshot date season p)
          | None \<Rightarrow> map_option ps_row (get_snapshot a date season db)))"
    unfolding insert_snapshots_get [OF i] find_day_snapshots [OF assms(1)]
    by (simp split: option.split)
  assume "(d, s) \<noteq> (date, season)"
  then show "map_option ps_row (get_snapshot a d s db') = map_option ps_row (get_snapshot a d s db)"
    unfolding insert_snapshots_get [OF i] by (simp add: find_day_other)
qed

lemma calculate_for_date_eq:
  assumes "get_active_season db = Some s" "day_activities E date db = Inr acts"
  shows "calculate_points_for_date E now date db = store_snapshots E now date (se_id s) acts db"
  by (simp add: calculate_points_for_date_def assms)

definition points_on :: "string \<Rightarrow> naive_date \<Rightarrow> int \<Rightarrow> points_db \<Rightarrow> int" where
  "points_on a d season db = (case get_snapshot a d season db of
    None \<Rightarrow> 0 | Some s \<Rightarrow> nps_total_points (ps_row s))"

lemma points_on_row:
  "points_on a d season db = (case map_option ps_row (get_snapshot a d season db) of
    None \<Rightarrow> 0 | Some r \<Rightarrow> nps_total_points r)"
  by (simp add: points_on_def split: option.split)

lemma total_activity_snapshot:
  "nps_total_points (activity_snapshot db p date season u)
    = wrap_i32 (points_on (uda_address u) p season db + uda_base_points_total u + uda_referral_points u)"
  by (simp add: activity_snapshot_def Let_def points_on_def int_simps)

text \<open>
  C7: Once the activities of a day can be computed, storing them always succeeds and the totals are
  cumulative: an active user's total is the total of the day before plus the day's base and referral
  points, a user without activity keeps the total of the day before, and the snapshots of every other
  day or season stay as they are.
\<close>
theorem daily_totals_cumulative:
  assumes "points_wf db" "get_active_season db = Some s" "day_activities E date db = Inr acts"
    and "date_min (cd_limits E) < date"
  shows "\<exists>db'. calculate_points_for_date E now date db = (Inr (), db') \<and> points_wf db' \<and>
    (\<forall>a u. map_of acts a = Some u \<longrightarrow> points_on a date (se_id s) db'
      = wrap_i32 (points_on a (date - 1) (se_id s) db + uda_base_points_total u + uda_referral_points u)) \<and>
    (\<forall>a. map_of acts a = None \<and> get_snapshot a (date - 1) (se_id s) db \<noteq> None \<longrightarrow>
      points_on a date (se_id s) db' = points_on a (date - 1) (se_id s) db) \<and>
    (\<forall>a d season. (d, season) \<noteq> (date, se_id s) \<longrightarrow> points_on a d season db' = points_on a d season db)"
proof -
  note ok = day_activities_ok [OF assms(3)]
  obtain db' where st: "store_snapshots E now date (se_id s) acts db = (Inr (), db')"
    using store_snapshots_ok [OF assms(1) ok assms(4)] by blast
  note get = store_snapshots_result(1) [OF ok assms(4) st]
  note other = store_snapshots_result(2) [OF ok assms(4) st]
  have "points_wf db'"
    using wf_insert_snapshots [OF assms(1)] st assms(4) by (simp add: store_snapshots_def pred_opt_def)
  moreover have "points_on a date (se_id s) db'
      = wrap_i32 (points_on a (date - 1) (se_id s) db + uda_base_points_total u + uda_referral_points u)"
    if "map_of acts a = Some u" for a u
    using acts_okD [OF ok that] that by (simp add: points_on_row [of _ _ _ db'] get total_activity_snapshot)
  moreover have "points_on a date (se_id s) db' = points_on a (date - 1) (se_id s) db"
    if "map_of acts a = None" "get_snapshot a (date - 1) (se_id s) db \<noteq> None" for a
    using that by (auto simp: points_on_row [of _ _ _ db'] get) (simp add: points_on_def carried_snapshot_def)
  moreover have "points_on a d se db' = points_on a d se db" if "(d, se) \<noteq> (date, se_id s)" for a d se
    by (simp add: points_on_row other [OF that])
  ultimately show ?thesis
    unfolding calculate_for_date_eq [OF assms(2,3)] using st by blast
qed

definition example_season :: new_season where
  "example_season = \<lparr>nse_season_number = 1, nse_start_date = 0, nse_end_date = 9,
    nse_max_tokens_distribution = 1, nse_is_active = True, nse_tokens_allocation = 1\<rparr>"

text \<open>Tables with one active season and a points configuration for swaps.\<close>

definition example_db :: points_db where
  "example_db = empty_points_db\<lparr>pd_seasons := append_row (mk_season 0) example_season empty_table,
    pd_configs := append_row (mk_points_config 0) \<lparr>npc_action_type = ''swap'',
      npc_points_per_usd = Some 10, npc_points_per_usd_per_day = None, npc_is_active = True\<rparr> empty_table\<rparr>"

lemma example_db_wf: "points_wf example_db"
  by (simp add: points_wf_def example_db_def empty_points_db_def keys_unique_def ids_fresh_def)
    (simp add: mk_season_def empty_table_def)

lemma example_db_season: "get_active_season example_db = Some (mk_season 0 1 example_season)"
  by (simp add: example_db_def get_active_season_def) (simp add: mk_season_def empty_table_def example_season_def)

lemma example_swap_usd: "swap_usd example_deps example_swap = Inr (Some (1001 / 100))"
  by (simp add: swap_usd_def example_swap_def example_token_def convert_to_decimal_def div_res_def wrap_u64_def)

definition example_activity :: user_daily_activity where
  "example_activity = (new_activity ''u'')\<lparr>uda_swap_points := 101, uda_swap_volume_usd := 1001 / 100,
    uda_base_points_total := 101, uda_total_volume_usd := 1001 / 100\<rparr>"

lemma example_day:
  assumes "pd_configs db = pd_configs example_db" "pd_multipliers db = empty_table" "pd_referrals db = empty_table"
    and "-1000 < d" "d < 1000"
  shows "day_activities example_deps d db = Inr [(''u'', example_activity)]"
proof -
  have c: "\<lceil>1001 / 10 :: rat\<rceil> = 101"
    by (simp add: ceiling_eq_iff)
  let ?c = "mk_points_config 0 1 \<lparr>npc_action_type = ''swap'',
      npc_points_per_usd = Some 10, npc_points_per_usd_per_day = None, npc_is_active = True\<rparr>"
  have "load_points_config db = [(''swap'', ?c)]"
    by (simp add: load_points_config_def get_points_config_def assms(1) example_db_def hm_insert_def)
      (simp add: mk_points_config_def empty_table_def)
  moreover have "pc_points_per_usd ?c = Some 10"
    by (simp add: mk_points_config_def)
  moreover have "st_address example_swap = ''u''"
    by (simp add: example_swap_def)
  ultimately show ?thesis
    using assms(4,5)
    by (simp add: day_activities_def calculate_swap_points_def succ_opt_def add_swap_volume_def
        example_swap_usd hm_entry_def set_swap_points_def calculate_lending_points_def hm_values_mut_def
        apply_multipliers_def get_multipliers_by_type_def asc_threshold_def assms multiply_points_def
        calculate_referral_points_def get_all_user_referrals_def group_by_def accumulate_def
        finalize_def new_activity_def example_activity_def c to_i32_or_zero_def to_i32_def in_i32_def wrap_i32_def)
qed

theorem daily_totals_cumulative_witness:
  "\<exists>db'. calculate_points_for_date example_deps 0 5 example_db = (Inr (), db') \<and>
    points_on ''u'' 5 1 db' = 101"
proof -
  have a: "day_activities example_deps 5 example_db = Inr [(''u'', example_activity)]"
    by (rule example_day) (simp_all add: example_db_def empty_points_db_def)
  have "points_on ''u'' 4 1 example_db = 0"
    by (simp add: points_on_def get_snapshot_def example_db_def empty_points_db_def)
  moreover have "se_id (mk_season 0 1 example_season) = 1"
    by (simp add: mk_season_def)
  ultimately show ?thesis
    using daily_totals_cumulative [OF example_db_wf example_db_season a, of 0]
    by (auto simp: example_activity_def new_activity_def wrap_i32_def)
qed

section \<open>Calculating a day again\<close>

lemma activity_snapshot_cong:
  assumes "map_option ps_row (get_snapshot (uda_address u) p season db1)
      = map_option ps_row (get_snapshot (uda_address u) p season db2)"
  shows "activity_snapshot db1 p date season u = activity_snapshot db2 p date season u"
proof -
  have "points_on (uda_address u) p season db1 = points_on (uda_address u) p season db2"
    using assms by (simp add: points_on_row)
  then show ?thesis
    by (simp add: activity_snapshot_def points_on_def)
qed

lemma day_activities_cong:
  assumes "pd_configs db1 = pd_configs db2" "pd_multipliers db1 = pd_multipliers db2"
    "pd_referrals db1 = pd_referrals db2"
  shows "day_activities E date db1 = day_activities E date db2"
  by (simp add: day_activities_def load_points_config_def get_points_config_def get_multipliers_by_type_def
      calculate_referral_points_def get_all_user_referrals_def assms)

lemma calculate_keeps:
  assumes "calculate_points_for_date E now date db = (r, db')"
  shows "pd_configs db' = pd_configs db" "pd_multipliers db' = pd_multipliers db"
    "pd_seasons db' = pd_seasons db" "pd_codes db' = pd_codes db" "pd_referrals db' = pd_referrals db"
  using assms insert_snapshots_same
  by (auto simp: calculate_points_for_date_def store_snapshots_def split: option.splits sum.splits)

lemma award_keeps:
  assumes "award_bonus_points now user bonus season db = (r, db')"
  shows "pd_configs db' = pd_configs db" "pd_multipliers db' = pd_multipliers db"
    "pd_seasons db' = pd_seasons db" "pd_codes db' = pd_codes db" "pd_referrals db' = pd_referrals db"
  using assms by (auto simp: award_bonus_points_def Let_def split: option.splits prod.splits sum.splits)

lemma active_season_cong: "pd_seasons db1 = pd_seasons db2 \<Longrightarrow> get_active_season db1 = get_active_season db2"
  by (simp add: get_active_season_def)

text \<open>
  C9: Calculating a day again on tables that differ from the result of the first run only in the snapshots
  of that day (or later) restores every snapshot of the day that the first run wrote: the calculation is
  idempotent, and whatever was added to the day's snapshots in between is gone.
\<close>
theorem recalculation_restores_day:
  assumes wf: "points_wf db" "points_wf db2"
    and season: "get_active_season db = Some s" and acts: "day_activities E date db = Inr acts"
    and d: "date_min (cd_limits E) < date"
    and first: "calculate_points_for_date E now date db = (Inr (), db1)"
    and same: "pd_configs db2 = pd_configs db1" "pd_multipliers db2 = pd_multipliers db1"
      "pd_seasons db2 = pd_seasons db1" "pd_referrals db2 = pd_referrals db1"
    and prev: "\<forall>a. map_option ps_row (get_snapshot a (date - 1) (se_id s) db2)
      = map_option ps_row (get_snapshot a (date - 1) (se_id s) db1)"
  shows "\<exists>db3. calculate_points_for_date E now2 date db2 = (Inr (), db3) \<and>
    (\<forall>a. map_of acts a \<noteq> None \<or> get_snapshot a (date - 1) (se_id s) db \<noteq> None \<longrightarrow>
      map_option ps_row (get_snapshot a date (se_id s) db3) = map_option ps_row (get_snapshot a date (se_id s) db1))"
proof -
  note ok = day_activities_ok [OF acts]
  note keep = calculate_keeps [OF first]
  have acts2: "day_activities E date db2 = Inr acts"
    using acts same keep by (simp add: day_activities_cong [of db2 db])
  have season2: "get_active_season db2 = Some s"
    using season same keep by (simp add: active_season_cong [of db2 db])
  have st1: "store_snapshots E now date (se_id s) acts db = (Inr (), db1)"
    using first by (simp add: calculate_for_date_eq [OF season acts])
  note get1 = store_snapshots_result(1) [OF ok d st1]
  have oth1: "map_option ps_row (get_snapshot a (date - 1) (se_id s) db1)
      = map_option ps_row (get_snapshot a (date - 1) (se_id s) db)" for a
    by (rule store_snapshots_result(2) [OF ok d st1]) simp
  obtain db3 where st: "store_snapshots E now2 date (se_id s) acts db2 = (Inr (), db3)"
    using store_snapshots_ok [OF wf(2) ok d] by blast
  note get3 = store_snapshots_result(1) [OF ok d st]
  have p: "map_option ps_row (get_snapshot a (date - 1) (se_id s) db2)
      = map_option ps_row (get_snapshot a (date - 1) (se_id s) db)" for a
    using prev oth1 by simp
  have "map_option ps_row (get_snapshot a date (se_id s) db3) = map_option ps_row (get_snapshot a date (se_id s) db1)"
    if a: "map_of acts a \<noteq> None \<or> get_snapshot a (date - 1) (se_id s) db \<noteq> None" for a
  proof (cases "map_of acts a")
    case (Some u)
    then show ?thesis
      using activity_snapshot_cong [OF p] by (simp add: get1 get3)
  next
    case None
    then obtain s1 where s1: "get_snapshot a (date - 1) (se_id s) db = Some s1"
      using a by auto
    with p [of a] obtain s2 where "get_snapshot a (date - 1) (se_id s) db2 = Some s2" "ps_row s2 = ps_row s1"
      by auto
    with s1 None show ?thesis
      by (simp add: get1 get3 carried_snapshot_def)
  qed
  then show ?thesis
    unfolding calculate_for_date_eq [OF season2 acts2] using st by blast
qed


lemma example_store:
  "pd_multipliers example_db = empty_table"
  "pd_referrals example_db = empty_table" "t_rows (pd_snapshots example_db) = []"
  by (simp_all add: example_db_def empty_points_db_def)

lemma wf_calculate:
  "points_wf db \<Longrightarrow> calculate_points_for_date E now date db = (r, db') \<Longrightarrow> points_wf db'"
  by (auto simp: calculate_points_for_date_def store_snapshots_def
      split: option.splits sum.splits dest: wf_insert_snapshots)

theorem recalculation_restores_day_witness:
  "\<exists>db3. calculate_points_for_date example_deps 9 5 (snd (calculate_points_for_date example_deps 0 5 example_db))
    = (Inr (), db3)"
proof -
  have a: "day_activities example_deps 5 example_db = Inr [(''u'', example_activity)]"
    by (rule example_day) (simp_all add: example_store)
  have d: "date_min (cd_limits example_deps) < 5"
    by simp
  obtain db1 where db1: "calculate_points_for_date example_deps 0 5 example_db = (Inr (), db1)"
    using daily_totals_cumulative [OF example_db_wf example_db_season a d, of 0] by blast
  from recalculation_restores_day [OF example_db_wf wf_calculate [OF example_db_wf db1] example_db_season a d db1, of 9]
  show ?thesis
    by (auto simp: db1)
qed


section \<open>A range of dates\<close>

text \<open>
  Calculating a range of dates is calculating the first part and then the rest, on the tables the first
  part left; an error on a date ends the range there and keeps what was stored for the dates before.
\<close>
lemma range_composes:
  assumes "m \<le> end_date" "start \<le> m + 1"
  shows "calculate_points_for_range E now start end_date db =
    bind_act (calculate_points_for_range E now start m) (\<lambda>_. calculate_points_for_range E now (m + 1) end_date) db"
  using assms
proof (induction E now start end_date db rule: calculate_points_for_range.induct)
  case (1 E now d e db)
  show ?case
  proof (cases "d \<le> m")
    case False
    then have "d = m + 1" using 1 by simp
    then show ?thesis
      by (simp add: calculate_points_for_range.simps [of E now "m + 1" m] bind_act_def)
  next
    case True
    then have e: "d \<le> e" using 1 by simp
    obtain r db' where c: "calculate_points_for_date E now d db = (r, db')" by fastforce
    show ?thesis
    proof (cases r)
      case (Inl x)
      then show ?thesis
        using True e c by (simp add: calculate_points_for_range.simps [of E now d] bind_act_def)
    next
      case (Inr u)
      show ?thesis
      proof (cases "succ_opt (cd_limits E) d")
        case None
        then show ?thesis
          using True e c Inr by (simp add: calculate_points_for_range.simps [of E now d] bind_act_def)
      next
        case (Some d')
        then have "d' = d + 1"
          by (auto simp: succ_opt_def split: if_splits)
        with Some have "calculate_points_for_range E now d' e db' =
            bind_act (calculate_points_for_range E now d' m) (\<lambda>_. calculate_points_for_range E now (m + 1) e) db'"
          using 1 True e c Inr by simp
        then show ?thesis
          using True e c Inr Some by (simp add: calculate_points_for_range.simps [of E now d] bind_act_def)
      qed
    qed
  qed
qed

lemma range_composes_witness:
  "calculate_points_for_range example_deps 0 5 9 example_db = bind_act (calculate_points_for_range example_deps 0 5 6)
    (\<lambda>_. calculate_points_for_range example_deps 0 (6 + 1) 9) example_db"
  by (rule range_composes) simp_all

section \<open>The scheduler\<close>

lemma date_of_mono: "s \<le> t \<Longrightarrow> date_of s \<le> date_of t"
  by (simp add: date_of_def zdiv_mono1)

definition time_reached :: "int \<times> int \<Rightarrow> naive_datetime \<Rightarrow> bool" where
  "time_reached target t \<longleftrightarrow> hour_of t > fst target \<or> hour_of t = fst target \<and> minute_of t \<ge> snd target"

definition scheduler_inv :: "naive_datetime \<Rightarrow> scheduler \<Rightarrow> bool" where
  "scheduler_inv t S \<longleftrightarrow> distinct (sc_runs S) \<and>
    (case sc_last_run S of None \<Rightarrow> sc_runs S = []
     | Some d \<Rightarrow> d \<le> date_of t \<and> d - 1 \<in> set (sc_runs S) \<and> (\<forall>r\<in>set (sc_runs S). r \<le> d - 1))"

lemma tick_result:
  assumes "scheduler_tick E target t S = Inr S'"
  shows "S' = S \<and> \<not> should_run target t (sc_last_run S) \<or>
    should_run target t (sc_last_run S) \<and> sc_last_run S' = Some (date_of t) \<and> sc_runs S' = sc_runs S @ [date_of t - 1]"
  using assms
  by (auto simp: scheduler_tick_def res_simps pred_opt_def split: if_splits prod.splits sum.splits error.splits)

lemma tick_inv:
  assumes "scheduler_tick E target t S = Inr S'" "scheduler_inv t S"
  shows "scheduler_inv t S'"
    and "set (sc_runs S) \<subseteq> set (sc_runs S')"
    and "time_reached target t \<Longrightarrow> date_of t - 1 \<in> set (sc_runs S')"
proof -
  have "scheduler_inv t S' \<and> set (sc_runs S) \<subseteq> set (sc_runs S') \<and>
    (time_reached target t \<longrightarrow> date_of t - 1 \<in> set (sc_runs S'))"
    using tick_result [OF assms(1)]
  proof
    assume *: "S' = S \<and> \<not> should_run target t (sc_last_run S)"
    then show ?thesis
      using assms(2) by (auto simp: scheduler_inv_def should_run_def time_reached_def split: option.splits)
  next
    assume *: "should_run target t (sc_last_run S) \<and> sc_last_run S' = Some (date_of t) \<and>
      sc_runs S' = sc_runs S @ [date_of t - 1]"
    show ?thesis
    proof (cases "sc_last_run S")
      case None
      with * assms(2) show ?thesis by (simp add: scheduler_inv_def)
    next
      case (Some d)
      with * assms(2) have "d < date_of t" "\<forall>r\<in>set (sc_runs S). r \<le> d - 1"
        by (auto simp: scheduler_inv_def should_run_def)
      with * assms(2) Some show ?thesis
        by (fastforce simp: scheduler_inv_def)
    qed
  qed
  then show "scheduler_inv t S'" "set (sc_runs S) \<subseteq> set (sc_runs S')"
    "time_reached target t \<Longrightarrow> date_of t - 1 \<in> set (sc_runs S')"
    by auto
qed

lemma scheduler_inv_mono: "scheduler_inv s S \<Longrightarrow> s \<le> t \<Longrightarrow> scheduler_inv t S"
  using date_of_mono [of s t] by (auto simp: scheduler_inv_def split: option.splits)

lemma scheduler_loop:
  assumes "fold_res (scheduler_tick E target) ticks S = Inr S'" "sorted ticks"
    and "\<forall>t\<in>set ticks. scheduler_inv t S"
  shows "distinct (sc_runs S') \<or> ticks = []"
    and "set (sc_runs S) \<subseteq> set (sc_runs S')"
    and "\<forall>t\<in>set ticks. time_reached target t \<longrightarrow> date_of t - 1 \<in> set (sc_runs S')"
proof -
  have "(distinct (sc_runs S') \<or> ticks = []) \<and> set (sc_runs S) \<subseteq> set (sc_runs S') \<and>
    (\<forall>t\<in>set ticks. time_reached target t \<longrightarrow> date_of t - 1 \<in> set (sc_runs S'))"
    using assms
  proof (induction ticks arbitrary: S)
    case (Cons t ticks)
    then obtain S1 where t: "scheduler_tick E target t S = Inr S1"
        and rest: "fold_res (scheduler_tick E target) ticks S1 = Inr S'"
      by (auto simp: res_simps)
    have inv: "scheduler_inv t S" using Cons.prems by simp
    note tick = tick_inv [OF t inv]
    have "\<forall>u\<in>set ticks. scheduler_inv u S1"
      using Cons.prems(2) tick(1) by (auto intro: scheduler_inv_mono)
    with Cons.IH [OF rest] Cons.prems(2) have IH: "distinct (sc_runs S') \<or> ticks = []"
      "set (sc_runs S1) \<subseteq> set (sc_runs S')"
      "\<forall>u\<in>set ticks. time_reached target u \<longrightarrow> date_of u - 1 \<in> set (sc_runs S')"
      by auto
    moreover have "distinct (sc_runs S')" if "ticks = []"
      using that rest tick(1) by (simp add: scheduler_inv_def)
    ultimately show ?case
      using tick(2,3) by auto
  qed auto
  then show "distinct (sc_runs S') \<or> ticks = []" "set (sc_runs S) \<subseteq> set (sc_runs S')"
    "\<forall>t\<in>set ticks. time_reached target t \<longrightarrow> date_of t - 1 \<in> set (sc_runs S')"
    by auto
qed



end
