(* ===== verification/Points_Api.thy ===== *)
theory Points_Api
  imports Points_Store_Laws Api_Errors Hex_Crypto
begin

text \<open>
  The handlers of the points API (\<^verbatim>\<open>routers/points_router.rs\<close>), of the statistics API
  (\<^verbatim>\<open>routers/stats_router.rs\<close>), and the number format of the share image
  (\<^verbatim>\<open>share_image.rs\<close>). A handler acts on the points tables and ends with a response or a
  \<^verbatim>\<open>handler_error\<close>. Rendering of the image, the clocks and the configuration file are parameters.
\<close>

record leaderboard_entry =
  lbe_user :: string
  lbe_points :: int

record user_points_response =
  upr_points :: int
  upr_rank :: int
  upr_referral_code :: string
  upr_referrals :: int
  upr_has_applied_referral_code :: bool
  upr_token_allocation :: string

record apply_referral_request =
  arr_user_address :: string
  arr_public_key :: string
  arr_referral_code :: string
  arr_signature :: string
  arr_timestamp :: int

record apply_referral_response =
  arp_success :: bool
  arp_message :: string

record referral_details_query =
  rdq_page :: int
  rdq_limit :: int

record referral_details_response =
  rdr_referrer_address :: string
  rdr_total_referrals :: int
  rdr_total_bonus_points :: int
  rdr_referrals :: "referral_detail list"
  rdr_page :: int
  rdr_limit :: int
  rdr_has_more :: bool

definition default_page :: int where
  "default_page = 0"

definition default_details_limit :: int where
  "default_details_limit = 20"

section \<open>Reading handlers\<close>

text \<open>\<^verbatim>\<open>ok_or_else(|| AppError::..)\<close> on an optional row.\<close>

fun or_reject :: "app_error \<Rightarrow> 'a option \<Rightarrow> ('s, handler_error, 'a) action" where
  "or_reject e (Some a) = ret_act a"
| "or_reject e None = reject e"

definition get_leaderboard_handler :: "(points_db, handler_error, leaderboard_entry list) action" where
  "get_leaderboard_handler =
    bind_act (read_act (\<lambda>db. Inr (get_active_season db))) (\<lambda>season.
    bind_act (or_reject (NotFound ''No active season found'') season) (\<lambda>active_season.
    bind_act (call (read_act (get_leaderboard (se_id active_season) None 1 50))) (\<lambda>snapshots.
      ret_act (List.map (\<lambda>s. \<lparr>lbe_user = nps_address (ps_row s), lbe_points = nps_total_points (ps_row s)\<rparr>)
        snapshots))))"

definition get_current_season_handler :: "(points_db, handler_error, season) action" where
  "get_current_season_handler =
    bind_act (read_act (\<lambda>db. Inr (get_active_season db))) (or_reject (NotFound ''No active season found''))"

definition get_stats_handler :: "(points_db, handler_error, int) action" where
  "get_stats_handler = read_act (\<lambda>db. Inr (get_unique_users_count db))"

section \<open>A user's points\<close>

text \<open>
  \<^verbatim>\<open>None\<close> when the generation of a referral code never ends (see \<^verbatim>\<open>get_or_create_referral_code\<close>).
\<close>

definition get_user_points_handler ::
  "(nat list \<Rightarrow> nat list) \<Rightarrow> (nat \<Rightarrow> string) \<Rightarrow> naive_datetime \<Rightarrow> string \<Rightarrow> int option \<Rightarrow> points_db
    \<Rightarrow> ((handler_error + user_points_response) \<times> points_db) option" where
  "get_user_points_handler sha rnd now address season_id db =
    (let has_applied = (get_user_referral address db \<noteq> None);
         season = (case season_id of
             Some i \<Rightarrow> or_reject (NotFound (''Season with id '' @ string_of_int i @ '' not found'')) (get_season_by_id i db) db
           | None \<Rightarrow> or_reject (NotFound ''No active season found'') (get_active_season db) db)
     in case season of
        (Inl e, db') \<Rightarrow> Some (Inl e, db')
      | (Inr s, _) \<Rightarrow>
          (case get_latest_snapshot address (se_id s) db of
            Some snapshot \<Rightarrow>
              (let rank = get_user_rank snapshot db in
               case get_or_create_referral_code sha rnd now address db of
                 None \<Rightarrow> None
               | Some (Inl e, db') \<Rightarrow> Some (Inl (handler_err e), db')
               | Some (Inr code, db') \<Rightarrow>
                   Some (Inr \<lparr>upr_points = nps_total_points (ps_row snapshot), upr_rank = rank,
                     upr_referral_code = code, upr_referrals = count_referrals_by_address address db',
                     upr_has_applied_referral_code = has_applied, upr_token_allocation = ''0''\<rparr>, db'))
          | None \<Rightarrow>
              (case get_or_create_referral_code sha rnd now address db of
                 None \<Rightarrow> None
               | Some (Inl e, db') \<Rightarrow> Some (Inl (handler_err e), db')
               | Some (Inr code, db') \<Rightarrow>
                   Some (Inr \<lparr>upr_points = 0, upr_rank = 0, upr_referral_code = code, upr_referrals = 0,
                     upr_has_applied_referral_code = has_applied, upr_token_allocation = ''0''\<rparr>, db'))))"

section \<open>Applying a referral code\<close>

text \<open>
  \<^verbatim>\<open>ae_now_ms\<close> is the clock of the server in milliseconds, \<^verbatim>\<open>ae_now\<close> the clocks of server and
  database as a time, \<^verbatim>\<open>ae_config\<close> the signup bonus that the configuration file gives
  (\<^verbatim>\<open>Inr None\<close> without a points section).
\<close>

record apply_env =
  ae_now_ms :: int
  ae_now :: naive_datetime
  ae_crypto :: crypto_ops
  ae_config :: "int option res"

definition max_time_diff_ms :: int where
  "max_time_diff_ms = 5 * 60 * 1000"

definition referral_message :: "apply_referral_request \<Rightarrow> string" where
  "referral_message r = ''Apply referral: '' @ arr_referral_code r @ '' at '' @ string_of_int (arr_timestamp r)"

definition authenticate :: "apply_env \<Rightarrow> apply_referral_request \<Rightarrow> (points_db, handler_error, unit) action" where
  "authenticate A r =
    (let timestamp_diff = wrap_i64 \<bar>wrap_i64 (ae_now_ms A - arr_timestamp r)\<bar>;
         forbidden = (reject (Forbidden ''Invalid signature'') :: (points_db, handler_error, unit) action)
     in if timestamp_diff > max_time_diff_ms then forbidden
        else (case verify_public_key_for_address (ae_crypto A) (arr_public_key r) (arr_user_address r) of
          Inl (Panic m) \<Rightarrow> fail_act (Panicked m)
        | Inl (Error _) \<Rightarrow> forbidden
        | Inr False \<Rightarrow> forbidden
        | Inr True \<Rightarrow>
            (case verify_signature (ae_crypto A) (arr_public_key r) (referral_message r) (arr_signature r) of
              Inl (Panic m) \<Rightarrow> fail_act (Panicked m)
            | Inl (Error _) \<Rightarrow> forbidden
            | Inr False \<Rightarrow> forbidden
            | Inr True \<Rightarrow> ret_act ())))"

definition award_signup_bonus :: "apply_env \<Rightarrow> string \<Rightarrow> (points_db, handler_error, unit) action" where
  "award_signup_bonus A user =
    bind_act (read_act (\<lambda>db. Inr (get_active_season db))) (\<lambda>season.
    bind_act (or_reject (Internal ''No active season found'') season) (\<lambda>active_season.
    bind_act (call (read_act (\<lambda>_. ae_config A))) (\<lambda>points_config.
    bind_act (case points_config of
        None \<Rightarrow> fail_act (Panicked ''Points configuration section is required'')
      | Some bonus \<Rightarrow> ret_act bonus) (\<lambda>bonus_amount.
      call (award_bonus_points (ae_now A) user bonus_amount (se_id active_season))))))"

definition apply_referral_handler ::
  "apply_env \<Rightarrow> apply_referral_request \<Rightarrow> (points_db, handler_error, apply_referral_response) action" where
  "apply_referral_handler A r =
    bind_act (authenticate A r) (\<lambda>_.
    bind_act (read_act (\<lambda>db. Inr (get_user_referral (arr_user_address r) db))) (\<lambda>existing.
    bind_act (if existing \<noteq> None then reject (BadRequest ''User has already used a referral code'') else ret_act ()) (\<lambda>_.
    bind_act (read_act (\<lambda>db. Inr (get_referral_code (arr_referral_code r) db))) (\<lambda>code.
    bind_act (or_reject (BadRequest ''Invalid referral code'') code) (\<lambda>referral_code.
    bind_act (if to_lowercase (rc_owner_address referral_code) = to_lowercase (arr_user_address r)
        then reject (BadRequest ''Cannot use your own referral code'') else ret_act ()) (\<lambda>_.
    bind_act (call (insert_user_referral (ae_now A) \<lparr>nur_user_address = arr_user_address r,
        nur_referred_by_address = rc_owner_address referral_code\<rparr>)) (\<lambda>_.
    bind_act (award_signup_bonus A (arr_user_address r)) (\<lambda>_.
      ret_act \<lparr>arp_success = True,
        arp_message = ''Successfully applied referral code from '' @ rc_owner_address referral_code\<rparr>))))))))"

section \<open>Referral details and the share image\<close>

definition get_referral_details_handler ::
  "(int \<Rightarrow> int) \<Rightarrow> string \<Rightarrow> referral_details_query \<Rightarrow> (points_db, handler_error, referral_details_response) action" where
  "get_referral_details_handler pct address q =
    bind_act (if rdq_page q < 0 then reject (BadRequest ''Page number must be non-negative'') else ret_act ()) (\<lambda>_.
    bind_act (if rdq_limit q \<le> 0 \<or> rdq_limit q > 100
        then reject (BadRequest ''Limit must be between 1 and 100'') else ret_act ()) (\<lambda>_.
    bind_act (read_act (\<lambda>db. Inr (get_active_season db))) (\<lambda>season.
    bind_act (or_reject (Internal ''No active season found'') season) (\<lambda>active_season.
    bind_act (read_act (\<lambda>db. Inr (get_referral_summary address (se_id active_season) db))) (\<lambda>summary.
    bind_act (call (read_act (get_referral_details_paginated pct address (se_id active_season)
        (rdq_page q) (rdq_limit q)))) (\<lambda>referrals.
      ret_act \<lparr>rdr_referrer_address = address, rdr_total_referrals = rs_total_referrals summary,
        rdr_total_bonus_points = rs_total_bonus_points summary, rdr_referrals = referrals,
        rdr_page = rdq_page q, rdr_limit = rdq_limit q,
        rdr_has_more = (wrap_i64 (wrap_i64 (rdq_page q + 1) * rdq_limit q) < rs_total_referrals summary)\<rparr>))))))"

datatype image_format = Portrait | Landscape

definition image_format_of :: "string \<Rightarrow> image_format option" where
  "image_format_of s = (if s = ''portrait'' then Some Portrait else if s = ''landscape'' then Some Landscape else None)"

definition quoted :: "string \<Rightarrow> string" where
  "quoted s = [CHR 0x27] @ s @ [CHR 0x27]"

text \<open>\<^verbatim>\<open>render\<close> is the image generation; it fails with a message, or by a panic of its task.\<close>

definition get_share_image_handler ::
  "(int \<Rightarrow> string \<Rightarrow> image_format \<Rightarrow> nat list res) \<Rightarrow> string \<Rightarrow> string \<Rightarrow> (points_db, handler_error, nat list) action" where
  "get_share_image_handler render code format_name =
    bind_act (or_reject (BadRequest (''Invalid format: must be '' @ quoted ''portrait'' @ '' or '' @ quoted ''landscape'')) (image_format_of format_name)) (\<lambda>fmt.
    bind_act (read_act (\<lambda>db. Inr (get_referral_code code db))) (\<lambda>found.
    bind_act (or_reject (NotFound ''Referral code not found'') found) (\<lambda>referral.
    bind_act (read_act (\<lambda>db. Inr (get_active_season db))) (\<lambda>season.
    bind_act (or_reject (NotFound ''No active season found'') season) (\<lambda>active_season.
    bind_act (read_act (\<lambda>db. Inr (List.find (\<lambda>s. se_season_number s
        = max (wrap_i32 (se_season_number active_season - 1)) 1) (get_all_seasons db)))) (\<lambda>previous.
    bind_act (or_reject (NotFound ''Previous season not found'') previous) (\<lambda>s.
    bind_act (read_act (\<lambda>db. Inr (get_latest_snapshot (rc_owner_address referral) (se_id s) db))) (\<lambda>snap.
    bind_act (or_reject (NotFound ''No points found for this user'') snap) (\<lambda>snapshot.
      (case render (nps_total_points (ps_row snapshot)) code fmt of
        Inr png \<Rightarrow> ret_act png
      | Inl (Error m) \<Rightarrow> reject (Internal (''Failed to generate share image: '' @ m))
      | Inl (Panic m) \<Rightarrow> reject (Internal (''Image generation task failed: '' @ m))))))))))))"

text \<open>\<^verbatim>\<open>format_with_commas_u64\<close>: commas are pushed while walking the reversed digits.\<close>

fun push_digits :: "nat \<Rightarrow> string \<Rightarrow> string" where
  "push_digits i [] = []"
| "push_digits i (c # cs) =
    (if i > 0 \<and> i mod 3 = 0 then [CHR '','', c] else [c]) @ push_digits (i + 1) cs"

definition format_with_commas_u64 :: "nat \<Rightarrow> string" where
  "format_with_commas_u64 n = rev (push_digits 0 (rev (string_of_nat n)))"

definition format_with_commas :: "int \<Rightarrow> string" where
  "format_with_commas n =
    (if n < 0 then ''-'' @ format_with_commas_u64 (nat (- n)) else format_with_commas_u64 (nat n))"

section \<open>Properties\<close>

lemmas handler_simps = bind_act_def read_act_def ret_act_def reject_def fail_act_def call_def map_err_act_def

lemma authenticate_state: "snd (authenticate A r db) = db"
  by (auto simp: authenticate_def Let_def handler_simps split: sum.split error.split bool.split)

lemma authenticate_Inr:
  "authenticate A r db = (Inr u, db') \<longleftrightarrow> db' = db \<and>
    wrap_i64 \<bar>wrap_i64 (ae_now_ms A - arr_timestamp r)\<bar> \<le> max_time_diff_ms \<and>
    verify_public_key_for_address (ae_crypto A) (arr_public_key r) (arr_user_address r) = Inr True \<and>
    verify_signature (ae_crypto A) (arr_public_key r) (referral_message r) (arr_signature r) = Inr True"
  by (auto simp: authenticate_def Let_def handler_simps split: sum.split error.split bool.split)

lemma or_reject_simps [res_simps]:
  "or_reject e x s = (case x of Some a \<Rightarrow> (Inr a, s) | None \<Rightarrow> (Inl (Rejected e), s))"
  by (cases x) (simp_all add: handler_simps)

lemma insert_user_referral_new:
  assumes "get_user_referral (nur_user_address n) db = None"
  shows "\<exists>row db'. insert_user_referral now n db = (Inr row, db') \<and>
    get_user_referral (nur_user_address n) db' = Some row \<and> ur_referred_by_address row = nur_referred_by_address n \<and>
    pd_seasons db' = pd_seasons db \<and> pd_snapshots db' = pd_snapshots db \<and> pd_codes db' = pd_codes db"
proof -
  have none: "filter (\<lambda>r. ur_user_address r = nur_user_address n) (t_rows (pd_referrals db)) = []"
    using assms by (simp add: get_user_referral_def)
  then have "\<not> has_key ur_user_address (nur_user_address n) (pd_referrals db)"
    by (auto simp: has_key_def filter_empty_conv)
  then have i: "insert_user_referral now n db = (Inr (mk_user_referral now (t_next (pd_referrals db)) n),
      db\<lparr>pd_referrals := append_row (mk_user_referral now) n (pd_referrals db)\<rparr>)"
    by (simp add: insert_user_referral_def insert_unique_def)
  have g: "get_user_referral (nur_user_address n)
      (db\<lparr>pd_referrals := append_row (mk_user_referral now) n (pd_referrals db)\<rparr>)
    = Some (mk_user_referral now (t_next (pd_referrals db)) n)"
    using none by (simp add: get_user_referral_def mk_user_referral_def)
  show ?thesis
    by (intro exI conjI, rule i, rule g) (simp_all add: mk_user_referral_def)
qed

text \<open>The handler after the checks of the signature.\<close>

lemma apply_checked:
  assumes "authenticate A r db = (Inr (), db)"
  shows "apply_referral_handler A r db =
    (if get_user_referral (arr_user_address r) db \<noteq> None
     then (Inl (Rejected (BadRequest ''User has already used a referral code'')), db)
     else (case get_referral_code (arr_referral_code r) db of
        None \<Rightarrow> (Inl (Rejected (BadRequest ''Invalid referral code'')), db)
      | Some c \<Rightarrow>
          if to_lowercase (rc_owner_address c) = to_lowercase (arr_user_address r)
          then (Inl (Rejected (BadRequest ''Cannot use your own referral code'')), db)
          else (case insert_user_referral (ae_now A) \<lparr>nur_user_address = arr_user_address r,
              nur_referred_by_address = rc_owner_address c\<rparr> db of
            (Inl e, db1) \<Rightarrow> (Inl (handler_err e), db1)
          | (Inr _, db1) \<Rightarrow>
              (case award_signup_bonus A (arr_user_address r) db1 of
                (Inl e, db2) \<Rightarrow> (Inl e, db2)
              | (Inr _, db2) \<Rightarrow> (Inr \<lparr>arp_success = True,
                  arp_message = ''Successfully applied referral code from '' @ rc_owner_address c\<rparr>, db2)))))"
  by (simp add: apply_referral_handler_def assms bind_act_Inr [where m = "authenticate A r" and s = db, OF assms] handler_simps or_reject_simps
      split: option.split prod.split sum.split)

lemma apply_unauthenticated:
  assumes "authenticate A r db = (Inl e, db1)"
  shows "apply_referral_handler A r db = (Inl e, db)"
  using assms authenticate_state [of A r db] by (simp add: apply_referral_handler_def bind_act_def)

lemma award_signup_bonus_eq:
  assumes "get_active_season db = Some s" "ae_config A = Inr (Some bonus)"
    and "award_bonus_points (ae_now A) user bonus (se_id s) db = (Inr (), db')"
  shows "award_signup_bonus A user db = (Inr (), db')"
  using assms by (simp add: award_signup_bonus_def handler_simps or_reject_simps)

lemma award_signup_bonus_no_season:
  "get_active_season db = None \<Longrightarrow> award_signup_bonus A user db = (Inl (Rejected (Internal ''No active season found'')), db)"
  by (simp add: award_signup_bonus_def handler_simps or_reject_simps)

text \<open>
  C34: A referral code is applied only for a fresh, signed request of a user who has no referrer yet, and only
  with a known code of somebody else; then the referral is recorded with the owner of the code and the
  user's total of the active season rises by the configured bonus.
\<close>
theorem apply_referral_success:
  assumes wf: "points_wf db" and bonus: "ae_config A = Inr (Some bonus)" "in_i32 bonus"
    and ok: "apply_referral_handler A r db = (Inr resp, db')"
  shows "verify_signature (ae_crypto A) (arr_public_key r) (referral_message r) (arr_signature r) = Inr True \<and>
    verify_public_key_for_address (ae_crypto A) (arr_public_key r) (arr_user_address r) = Inr True \<and>
    get_user_referral (arr_user_address r) db = None \<and>
    (\<exists>c u s snap. get_referral_code (arr_referral_code r) db = Some c \<and> rc_owner_address c \<noteq> arr_user_address r \<and>
      get_user_referral (arr_user_address r) db' = Some u \<and> ur_referred_by_address u = rc_owner_address c \<and>
      get_active_season db = Some s \<and> get_latest_snapshot (arr_user_address r) (se_id s) db' = Some snap \<and>
      nps_total_points (ps_row snap) = wrap_i32 ((case get_latest_snapshot (arr_user_address r) (se_id s) db of
        None \<Rightarrow> 0 | Some t \<Rightarrow> nps_total_points (ps_row t)) + bonus))"
proof -
  obtain ra db0 where auth: "authenticate A r db = (ra, db0)" by fastforce
  with ok apply_unauthenticated [of A r db] obtain x where "ra = Inr x" by (cases ra) auto
  with auth authenticate_state [of A r db] have a: "authenticate A r db = (Inr (), db)" by simp
  note ok = ok [unfolded apply_checked [OF a]]
  have none: "get_user_referral (arr_user_address r) db = None"
    using ok by (auto split: if_splits)
  then obtain c where c: "get_referral_code (arr_referral_code r) db = Some c"
      "to_lowercase (rc_owner_address c) \<noteq> to_lowercase (arr_user_address r)"
    using ok by (auto split: option.splits if_splits)
  let ?n = "\<lparr>nur_user_address = arr_user_address r, nur_referred_by_address = rc_owner_address c\<rparr>"
  obtain row db1 where i: "insert_user_referral (ae_now A) ?n db = (Inr row, db1)"
      "get_user_referral (arr_user_address r) db1 = Some row" "ur_referred_by_address row = rc_owner_address c"
      "pd_seasons db1 = pd_seasons db" "pd_snapshots db1 = pd_snapshots db"
    using insert_user_referral_new [of ?n db "ae_now A"] none by auto
  have wf1: "points_wf db1"
    by (rule wf_insert_user_referral [OF wf i(1)])
  obtain s where s: "get_active_season db = Some s"
    using ok award_signup_bonus_no_season [of db1 A "arr_user_address r"] none c i
    by (cases "get_active_season db") (auto simp: get_active_season_def)
  have s1: "get_active_season db1 = Some s"
    using s i(4) by (simp add: get_active_season_def)
  obtain db2 snap where b: "award_bonus_points (ae_now A) (arr_user_address r) bonus (se_id s) db1 = (Inr (), db2)"
      "get_latest_snapshot (arr_user_address r) (se_id s) db2 = Some snap"
      "nps_total_points (ps_row snap) = wrap_i32 ((case get_latest_snapshot (arr_user_address r) (se_id s) db1 of
        None \<Rightarrow> 0 | Some t \<Rightarrow> nps_total_points (ps_row t)) + bonus)"
    using award_bonus_spec [OF wf1 bonus(2), of "ae_now A" "arr_user_address r" "se_id s"] by blast
  have "db' = db2"
    using ok award_signup_bonus_eq [OF s1 bonus(1) b(1)] none c i(1) by simp
  moreover have "get_user_referral (arr_user_address r) db2 = Some row"
    using i(2) b(1) by (auto simp: award_bonus_points_def get_user_referral_def Let_def
        split: option.splits prod.splits sum.splits)
  moreover have "get_latest_snapshot (arr_user_address r) (se_id s) db1 = get_latest_snapshot (arr_user_address r) (se_id s) db"
    using i(5) by (simp add: get_latest_snapshot_def)
  ultimately show ?thesis
    using a c none s b i(3) by (auto simp: authenticate_Inr)
qed

text \<open>
  C39: Without an active season the handler reports an internal error but keeps the referral it has already
  recorded: the user never gets the bonus, because every later request is refused as a second use.
\<close>
theorem referral_kept_without_season:
  assumes auth: "authenticate A r db = (Inr (), db)" and none: "get_user_referral (arr_user_address r) db = None"
    and c: "get_referral_code (arr_referral_code r) db = Some c"
      "to_lowercase (rc_owner_address c) \<noteq> to_lowercase (arr_user_address r)"
    and season: "get_active_season db = None"
  shows "\<exists>db' u. apply_referral_handler A r db = (Inl (Rejected (Internal ''No active season found'')), db') \<and>
    get_user_referral (arr_user_address r) db' = Some u \<and>
    (\<forall>A' r' db''. arr_user_address r' = arr_user_address r \<and> pd_referrals db'' = pd_referrals db' \<and>
      authenticate A' r' db'' = (Inr (), db'') \<longrightarrow>
      apply_referral_handler A' r' db'' = (Inl (Rejected (BadRequest ''User has already used a referral code'')), db''))"
proof -
  let ?n = "\<lparr>nur_user_address = arr_user_address r, nur_referred_by_address = rc_owner_address c\<rparr>"
  obtain row db1 where i: "insert_user_referral (ae_now A) ?n db = (Inr row, db1)"
      "get_user_referral (arr_user_address r) db1 = Some row" "pd_seasons db1 = pd_seasons db"
    using insert_user_referral_new [of ?n db "ae_now A"] none by auto
  have "get_active_season db1 = None"
    using season i(3) by (simp add: get_active_season_def)
  then have "apply_referral_handler A r db = (Inl (Rejected (Internal ''No active season found'')), db1)"
    using none c i(1) by (simp add: apply_checked [OF auth] award_signup_bonus_no_season)
  moreover have "apply_referral_handler A' r' db''
      = (Inl (Rejected (BadRequest ''User has already used a referral code'')), db'')"
    if "arr_user_address r' = arr_user_address r" "pd_referrals db'' = pd_referrals db1"
      "authenticate A' r' db'' = (Inr (), db'')" for A' r' db''
    using i(2) that by (simp add: apply_checked [OF that(3)] get_user_referral_def)
  ultimately show ?thesis
    using i(2) by blast
qed

lemma details_handler_eq:
  assumes "0 \<le> rdq_page q" "0 < rdq_limit q" "rdq_limit q \<le> 100" "get_active_season db = Some s"
    and "get_referral_details_paginated pct a (se_id s) (rdq_page q) (rdq_limit q) db = Inr rows"
  shows "get_referral_details_handler pct a q db = (Inr \<lparr>rdr_referrer_address = a,
    rdr_total_referrals = rs_total_referrals (get_referral_summary a (se_id s) db),
    rdr_total_bonus_points = rs_total_bonus_points (get_referral_summary a (se_id s) db),
    rdr_referrals = rows, rdr_page = rdq_page q, rdr_limit = rdq_limit q,
    rdr_has_more = (wrap_i64 (wrap_i64 (rdq_page q + 1) * rdq_limit q)
      < rs_total_referrals (get_referral_summary a (se_id s) db))\<rparr>, db)"
  using assms by (simp add: get_referral_details_handler_def handler_simps or_reject_simps)

text \<open>
  \<^verbatim>\<open>has_more\<close> of the referral details is exact: it holds exactly when the next page has entries. The
  entries of a page are those the summary counts.
\<close>
theorem has_more_iff_next_page:
  assumes ok: "get_referral_details_handler pct a q db = (Inr resp, db')"
    and s: "get_active_season db = Some s"
    and small: "in_i64 (rdq_page q + 1)" "in_i64 ((rdq_page q + 1) * rdq_limit q)" "in_i64 (rdq_page q * rdq_limit q)"
    and following: "get_referral_details_paginated pct a (se_id s) (rdq_page q + 1) (rdq_limit q) db = Inr next_rows"
  shows "(rdr_has_more resp \<longleftrightarrow> next_rows \<noteq> []) \<and> db' = db \<and>
    length (rdr_referrals resp) = min (nat (rdq_limit q)) (nat (rdr_total_referrals resp) - nat (rdq_page q * rdq_limit q))"
proof -
  let ?rows = "order_desc snd (referral_rows a (se_id s) db)"
  have q: "0 \<le> rdq_page q" "0 < rdq_limit q" "rdq_limit q \<le> 100"
    using ok by (auto simp: get_referral_details_handler_def handler_simps split: if_splits)
  have pos: "0 \<le> rdq_page q * rdq_limit q" "0 \<le> (rdq_page q + 1) * rdq_limit q"
    using q by simp_all
  have page: "get_referral_details_paginated pct a (se_id s) (rdq_page q) (rdq_limit q) db =
      Inr (List.map (\<lambda>(user, t). \<lparr>rd_referred_user_address = user, rd_bonus_points_earned = pct t,
        rd_referred_user_total_points = t\<rparr>) (take (nat (rdq_limit q)) (drop (nat (rdq_page q * rdq_limit q)) ?rows)))"
    using q pos small by (simp add: get_referral_details_paginated_def sql_page_def Let_def int_simps mult_less_0_iff)
  have nxt: "length next_rows = min (nat (rdq_limit q)) (length ?rows - nat ((rdq_page q + 1) * rdq_limit q))"
    using following q pos small by (auto simp: get_referral_details_paginated_def sql_page_def Let_def int_simps min.commute mult_less_0_iff)
  have total: "rs_total_referrals (get_referral_summary a (se_id s) db) = int (length ?rows)"
    by (simp add: get_referral_summary_def Let_def)
  note resp = trans [OF ok [symmetric] details_handler_eq [OF q s page]]
  have more: "rdr_has_more resp \<longleftrightarrow> (rdq_page q + 1) * rdq_limit q < int (length ?rows)"
    and same: "db' = db" and tot: "rdr_total_referrals resp = int (length ?rows)"
    and len: "length (rdr_referrals resp) = min (length ?rows - nat (rdq_page q * rdq_limit q)) (nat (rdq_limit q))"
    using resp small by (auto simp: total int_simps)
  have "next_rows \<noteq> [] \<longleftrightarrow> 0 < length next_rows" by simp
  also have "\<dots> \<longleftrightarrow> (rdq_page q + 1) * rdq_limit q < int (length ?rows)"
    unfolding nxt using q pos(2) by (simp add: min_less_iff_conj nat_less_iff del: length_order_desc)
  finally show ?thesis
    using more same tot len by (simp add: min.commute)
qed

section \<open>Numbers with commas\<close>

definition digit_pos :: "nat \<Rightarrow> nat" where
  "digit_pos k = (if k = 0 then 0 else k + (k - 1) div 3)"

lemma digit_pos_step:
  "digit_pos (k + 1) = digit_pos k + (if k > 0 \<and> k mod 3 = 0 then 2 else 1)"
proof (cases k)
  case (Suc m)
  have "Suc m div 3 = m div 3 + (if Suc m mod 3 = 0 then 1 else 0)"
    by (simp add: div_Suc)
  with Suc show ?thesis by (simp add: digit_pos_def)
qed (simp add: digit_pos_def)

lemma digit_pos_mod: "k > 0 \<and> k mod 3 = 0 \<longleftrightarrow> digit_pos k mod 4 = 3"
proof (cases k)
  case (Suc m)
  have "Suc m mod 3 = 0 \<longleftrightarrow> (Suc m + m div 3) mod 4 = 3" by presburger
  with Suc show ?thesis by (simp add: digit_pos_def)
qed (simp add: digit_pos_def)

lemma push_digits_commas:
  assumes "CHR '','' \<notin> set ds"
  shows "i < length (push_digits k ds) \<Longrightarrow>
    (push_digits k ds ! i = CHR '','') = ((digit_pos k + i) mod 4 = 3)"
  using assms
proof (induction ds arbitrary: k i)
  case (Cons d ds)
  let ?c = "k > 0 \<and> k mod 3 = 0"
  have rest: "j < length (push_digits (k + 1) ds) \<Longrightarrow>
      (push_digits (k + 1) ds ! j = CHR '','') = ((digit_pos (k + 1) + j) mod 4 = 3)" for j
    using Cons by simp
  show ?case
  proof (cases ?c)
    case True
    then have m: "digit_pos k mod 4 = 3"
      by (rule iffD1 [OF digit_pos_mod])
    show ?thesis
    proof (cases i)
      case 0
      have "push_digits k (d # ds) ! i = CHR '',''"
        using True 0 by simp
      with m 0 show ?thesis by simp
    next
      case (Suc i')
      show ?thesis
      proof (cases i')
        case 0
        have "(digit_pos k + 1) mod 4 \<noteq> 3" using m by presburger
        with 0 Suc True Cons.prems show ?thesis by auto
      next
        case (Suc j)
        with \<open>i = Suc i'\<close> have i: "i = Suc (Suc j)" by simp
        have step: "digit_pos (k + 1) + j = digit_pos k + i"
          using True unfolding digit_pos_step i by simp
        show ?thesis
          using True Cons.prems(1) rest [of j] unfolding i step [unfolded i] by simp
      qed
    qed
  next
    case False
    then have m: "digit_pos k mod 4 \<noteq> 3"
      unfolding digit_pos_mod .
    show ?thesis
    proof (cases i)
      case 0
      with False m Cons.prems show ?thesis by auto
    next
      case (Suc j)
      have step: "digit_pos (k + 1) + j = digit_pos k + i"
        using False unfolding digit_pos_step Suc by simp
      have "push_digits k (d # ds) ! i = push_digits (k + 1) ds ! j" "j < length (push_digits (k + 1) ds)"
        using False Cons.prems(1) Suc by auto
      with rest [of j] step show ?thesis by simp
    qed
  qed
qed simp

lemma push_digits_filter:
  "CHR '','' \<notin> set ds \<Longrightarrow> filter (\<lambda>c. c \<noteq> CHR '','') (push_digits k ds) = ds"
  by (induction ds arbitrary: k) auto

lemma digits_no_comma: "c \<in> set (digits_of n) \<Longrightarrow> 48 \<le> (of_char c :: nat) \<and> (of_char c :: nat) \<le> 57"
proof (induction n rule: digits_of.induct)
  case (1 n)
  have d: "48 + n mod 10 < 256" "n mod 10 < 10" by simp_all
  show ?case
  proof (cases "n < 10")
    case True
    with "1.prems" show ?thesis by (simp add: digits_of.simps [of n])
  next
    case False
    then have "c \<in> set (digits_of (n div 10)) \<or> c = char_of (48 + n mod 10)"
      using "1.prems" by (auto simp: digits_of.simps [of n])
    then show ?thesis
      using "1.IH" [OF False] d by auto
  qed
qed

text \<open>
  Formatting points with commas only inserts separators: without its commas the text is the decimal number,
  and, counted from the right, there is a comma after every third digit and nowhere else.
\<close>
theorem format_with_commas_groups:
  "filter (\<lambda>c. c \<noteq> CHR '','') (format_with_commas n) = string_of_int n \<and>
    (\<forall>i<length (format_with_commas_u64 (nat \<bar>n\<bar>)).
      (rev (format_with_commas_u64 (nat \<bar>n\<bar>)) ! i = CHR '','') = (i mod 4 = 3))"
proof -
  have no: "CHR '','' \<notin> set (digits_of k)" for k
    using digits_no_comma [of "CHR '',''" k] by auto
  have "filter (\<lambda>c. c \<noteq> CHR '','') (format_with_commas_u64 k) = digits_of k" for k
    using push_digits_filter [of "rev (digits_of k)" 0] no [of k]
    by (simp add: format_with_commas_u64_def string_of_nat_def rev_filter [symmetric])
  moreover have "(rev (format_with_commas_u64 k) ! i = CHR '','') = (i mod 4 = 3)"
    if "i < length (format_with_commas_u64 k)" for i k
    using push_digits_commas [of "rev (digits_of k)" i 0] that no [of k]
    by (simp add: format_with_commas_u64_def string_of_nat_def digit_pos_def)
  ultimately show ?thesis
    by (simp add: format_with_commas_def string_of_int_def)
qed

theorem format_with_commas_groups_witness:
  "rev (format_with_commas_u64 (nat \<bar>-1234567\<bar>)) ! 3 = CHR '',''"
proof -
  have "3 < length (format_with_commas_u64 (nat \<bar>-1234567\<bar>))"
    by (simp add: format_with_commas_u64_def string_of_nat_def digits_of.simps)
  then show ?thesis
    using format_with_commas_groups [of "-1234567"] by auto
qed

section \<open>Examples\<close>

definition api_db :: "bool \<Rightarrow> points_db" where
  "api_db active = empty_points_db\<lparr>
    pd_seasons := append_row (mk_season 0) \<lparr>nse_season_number = 1, nse_start_date = 0, nse_end_date = 9,
      nse_max_tokens_distribution = 1, nse_is_active = active, nse_tokens_allocation = 1\<rparr> empty_table,
    pd_codes := append_row (mk_referral_code 0) \<lparr>nrc_code = ''CODE'', nrc_owner_address = ''owner''\<rparr> empty_table\<rparr>"

definition api_env :: apply_env where
  "api_env = \<lparr>ae_now_ms = 1000, ae_now = midnight 6, ae_crypto = toy_crypto, ae_config = Inr (Some 1000)\<rparr>"

definition api_request :: apply_referral_request where
  "api_request = \<lparr>arr_user_address = unary (0 # replicate 32 7), arr_public_key = unary [5],
    arr_referral_code = ''CODE'', arr_signature = unary (replicate 32 1), arr_timestamp = 900\<rparr>"

lemma api_db_wf: "points_wf (api_db active)"
  by (simp add: points_wf_def api_db_def empty_points_db_def keys_unique_def ids_fresh_def)
    (simp add: mk_season_def empty_table_def)

lemma api_auth: "authenticate api_env api_request db = (Inr (), db)"
  unfolding authenticate_Inr api_env_def api_request_def
  by (simp add: wrap_i64_def max_time_diff_ms_def verify_public_key_for_address_def verify_signature_def
      with_prefix_def toy_crypto_def unary_decode_unary)

lemma api_owner: "to_lowercase ''owner'' \<noteq> to_lowercase (unary (0 # bs))"
  by (simp add: unary_def to_lowercase_def lower_char_def)

lemma api_lookups:
  "get_referral_code ''CODE'' (api_db active)
    = Some \<lparr>rc_id = 1, rc_code = ''CODE'', rc_owner_address = ''owner'', rc_created_at = 0\<rparr>"
  "get_user_referral a (api_db active) = None"
  "get_latest_snapshot a season (api_db active) = None"
  by (simp_all add: api_db_def get_referral_code_def get_user_referral_def get_latest_snapshot_def
      empty_points_db_def mk_referral_code_def) (simp add: empty_table_def)

lemma api_season: "get_active_season (api_db False) = None" "get_active_season (api_db True) \<noteq> None"
  by (simp_all add: api_db_def get_active_season_def mk_season_def)

lemma api_request_sel [simp]: "arr_referral_code api_request = ''CODE''"
  "arr_user_address api_request = unary (0 # replicate 32 7)"
  by (simp_all add: api_request_def)

theorem apply_referral_success_witness:
  "\<exists>resp db' u. apply_referral_handler api_env api_request (api_db True) = (Inr resp, db') \<and>
    get_user_referral (arr_user_address api_request) db' = Some u \<and> ur_referred_by_address u = ''owner''"
proof -
  let ?user = "arr_user_address api_request"
  let ?n = "\<lparr>nur_user_address = ?user, nur_referred_by_address = ''owner''\<rparr>"
  have cfg: "ae_config api_env = Inr (Some 1000)" by (simp add: api_env_def)
  obtain row db1 where i: "insert_user_referral (ae_now api_env) ?n (api_db True) = (Inr row, db1)"
      "pd_seasons db1 = pd_seasons (api_db True)"
    using insert_user_referral_new [of ?n "api_db True" "ae_now api_env"] by (auto simp: api_lookups)
  obtain s where s: "get_active_season db1 = Some s"
    using api_season(2) i(2) by (cases "get_active_season db1") (auto simp: get_active_season_def)
  have "in_i32 1000" by (simp add: in_i32_def)
  from award_bonus_spec [OF wf_insert_user_referral [OF api_db_wf i(1)] this, of "ae_now api_env" ?user "se_id s"]
  obtain db2 where b: "award_bonus_points (ae_now api_env) ?user 1000 (se_id s) db1 = (Inr (), db2)"
    by blast
  have "\<exists>resp. apply_referral_handler api_env api_request (api_db True) = (Inr resp, db2)"
    using i(1) award_signup_bonus_eq [OF s cfg b] api_owner
    by (simp add: apply_checked [OF api_auth] api_lookups)
  then obtain resp where ok: "apply_referral_handler api_env api_request (api_db True) = (Inr resp, db2)" ..
  from apply_referral_success [OF api_db_wf cfg _ ok] ok show ?thesis
    by (auto simp: in_i32_def api_lookups)
qed

theorem referral_kept_without_season_witness:
  "\<exists>db' u. apply_referral_handler api_env api_request (api_db False)
      = (Inl (Rejected (Internal ''No active season found'')), db') \<and>
    get_user_referral (arr_user_address api_request) db' = Some u"
  using referral_kept_without_season [of api_env api_request "api_db False",
      OF api_auth, of "\<lparr>rc_id = 1, rc_code = ''CODE'', rc_owner_address = ''owner'', rc_created_at = 0\<rparr>"]
    api_owner api_season(1)
  by (simp add: api_lookups) blast

theorem has_more_iff_next_page_witness:
  "\<exists>resp. get_referral_details_handler (\<lambda>t. t div 20) ''r'' \<lparr>rdq_page = 0, rdq_limit = 20\<rparr> (api_db True)
    = (Inr resp, api_db True) \<and> \<not> rdr_has_more resp"
proof -
  let ?q = "\<lparr>rdq_page = 0, rdq_limit = 20\<rparr>"
  obtain s where s: "get_active_season (api_db True) = Some s"
    using api_season(2) by auto
  have rows: "referral_rows ''r'' season (api_db True) = []" for season
    by (simp add: referral_rows_def api_db_def empty_points_db_def map_filter_simps)
  have p: "get_referral_details_paginated pct ''r'' (se_id s) page 20 (api_db True)
      = (if wrap_i64 (page * 20) < 0 then Inl (Error ''OFFSET must not be negative'') else Inr [])" for pct page
    by (simp add: get_referral_details_paginated_def rows sql_page_def)
  have "\<exists>resp. get_referral_details_handler (\<lambda>t. t div 20) ''r'' ?q (api_db True) = (Inr resp, api_db True)"
    using details_handler_eq [of ?q "api_db True" s "\<lambda>t. t div 20" "''r''" "[]"] s p [of _ 0]
    by (simp add: wrap_i64_def)
  then obtain resp where ok: "get_referral_details_handler (\<lambda>t. t div 20) ''r'' ?q (api_db True) = (Inr resp, api_db True)" ..
  from has_more_iff_next_page [OF ok s, of "[]"] ok show ?thesis
    by (simp add: in_i64_def p wrap_i64_def)
qed

end
