(* ===== verification/Transitions.thy ===== *)
theory Transitions
  imports Prelude
begin

text \<open>
  Step relations with an invariant and a measure, stated once: what holds of the initial state and is kept by
  every step holds of every reachable state; when every step lowers the measure, no run is
  infinite and some reachable state has no further step. A simulation relates the operations of a concrete state
  with those of an abstract one, event by event, and so over every sequence of events.
\<close>

locale invariant_system =
  fixes step :: "'s \<Rightarrow> 's \<Rightarrow> bool" and inv :: "'s \<Rightarrow> bool"
  assumes inv_step: "inv s \<Longrightarrow> step s t \<Longrightarrow> inv t"
begin

lemma inv_reachable: "step\<^sup>*\<^sup>* s t \<Longrightarrow> inv s \<Longrightarrow> inv t"
  by (induction rule: rtranclp_induct) (auto intro: inv_step)

end

locale measured_system = invariant_system step inv
  for step :: "'s \<Rightarrow> 's \<Rightarrow> bool" and inv :: "'s \<Rightarrow> bool" +
  fixes weight :: "'s \<Rightarrow> nat"
  assumes weight_step: "inv s \<Longrightarrow> step s t \<Longrightarrow> weight t < weight s"
begin

lemma no_infinite_run:
  assumes "inv (f 0)"
  shows "\<not> (\<forall>i. step (f i) (f (Suc i)))"
proof
  assume run: "\<forall>i. step (f i) (f (Suc i))"
  have "inv (f i)" for i
    using assms run inv_step by (induction i) auto
  then have "weight (f i) + i \<le> weight (f 0)" for i
    using run weight_step by (induction i) (simp, metis Suc_leI add_Suc_right add_Suc order_trans add_le_mono1)
  from this [of "Suc (weight (f 0))"] show False by simp
qed

lemma reaches_end: "inv s \<Longrightarrow> \<exists>t. step\<^sup>*\<^sup>* s t \<and> \<not> (\<exists>u. step t u)"
proof (induction "weight s" arbitrary: s rule: less_induct)
  case less
  show ?case
  proof (cases "\<exists>t. step s t")
    case True
    then obtain t where t: "step s t" by blast
    from less.hyps [OF weight_step [OF less.prems t] inv_step [OF less.prems t]] t show ?thesis
      by (meson converse_rtranclp_into_rtranclp)
  qed blast
qed

end

text \<open>The operations that a sequence of events performs, each read off the state it starts in.\<close>

fun trace :: "('e \<Rightarrow> 's \<Rightarrow> 's) \<Rightarrow> ('e \<Rightarrow> 's \<Rightarrow> 'op) \<Rightarrow> 'e list \<Rightarrow> 's \<Rightarrow> 'op list" where
  "trace run label [] s = []"
| "trace run label (e # es) s = label e s # trace run label es (run e s)"

locale simulation =
  fixes inv :: "'s \<Rightarrow> bool" and run :: "'e \<Rightarrow> 's \<Rightarrow> 's" and abs_of :: "'s \<Rightarrow> 'a"
    and label :: "'e \<Rightarrow> 's \<Rightarrow> 'op" and perform :: "'op \<Rightarrow> 'a \<Rightarrow> 'a"
  assumes inv_run: "inv s \<Longrightarrow> inv (run e s)"
    and simulates: "inv s \<Longrightarrow> abs_of (run e s) = perform (label e s) (abs_of s)"
begin

lemma inv_runs: "inv s \<Longrightarrow> inv (fold run es s)"
  by (induction es arbitrary: s) (auto intro: inv_run)

lemma simulates_all: "inv s \<Longrightarrow> abs_of (fold run es s) = fold perform (trace run label es s) (abs_of s)"
  by (induction es arbitrary: s) (simp_all add: inv_run simulates)

end

end
