(* ===== verification/Points_Ledger.thy ===== *)
theory Points_Ledger
  imports Points_Daily_Laws Points_Api Transitions
begin

text \<open>
  The points tables as a ledger: what the daily calculation and an accepted referral do to the balances of
  the users, and that over an orderly history every point earned and every bonus is counted exactly once.
\<close>

section \<open>The ledger\<close>

text \<open>
  The ledger forgets identifiers, times of creation and the order of rows: it is what the snapshots of a
  season say about a user on a day.
\<close>

type_synonym ledger = "string \<times> naive_date \<times> int \<Rightarrow> new_points_snapshot option"

definition ledger_of :: "points_db \<Rightarrow> ledger" where
  "ledger_of db = (\<lambda>(a, d, season). map_option ps_row (get_snapshot a d season db))"

lemma ledger_at: "ledger_of db (a, d, season) = map_option ps_row (get_snapshot a d season db)"
  by (simp add: ledger_of_def)

definition balance :: "string \<Rightarrow> naive_date \<Rightarrow> int \<Rightarrow> ledger \<Rightarrow> int" where
  "balance a d season L = (case L (a, d, season) of None \<Rightarrow> 0 | Some r \<Rightarrow> nps_total_points r)"

lemma points_on_balance: "points_on a d season db = balance a d season (ledger_of db)"
  by (simp add: points_on_row balance_def ledger_at)

text \<open>A day is posted with one entry for every active user; the others are carried over.\<close>

definition booked :: "naive_date \<Rightarrow> int \<Rightarrow> ledger \<Rightarrow> user_daily_activity \<Rightarrow> new_points_snapshot" where
  "booked date season L u = \<lparr>nps_address = uda_address u, nps_snapshot_date = date,
    nps_swap_points = uda_swap_points u, nps_supply_points = uda_supply_points u,
    nps_borrow_points = uda_borrow_points u, nps_base_points_total = uda_base_points_total u,
    nps_multiplier_type = None, nps_multiplier_value = 0, nps_multiplier_points = 0,
    nps_referral_points = uda_referral_points u,
    nps_total_points = wrap_i32 (balance (uda_address u) (date - 1) season L
      + uda_base_points_total u + uda_referral_points u),
    nps_total_volume_usd = uda_total_volume_usd u, nps_season_id = season\<rparr>"

definition carried :: "naive_date \<Rightarrow> new_points_snapshot \<Rightarrow> new_points_snapshot" where
  "carried date r = r\<lparr>nps_snapshot_date := date, nps_swap_points := 0, nps_supply_points := 0,
    nps_borrow_points := 0, nps_base_points_total := 0, nps_multiplier_points := 0,
    nps_referral_points := 0, nps_total_volume_usd := 0\<rparr>"

definition post_day :: "naive_date \<Rightarrow> int \<Rightarrow> activities \<Rightarrow> ledger \<Rightarrow> ledger" where
  "post_day date season acts L = (\<lambda>(a, d, s).
    if (d, s) = (date, season)
    then (case map_of acts a of Some u \<Rightarrow> Some (booked date season L u)
      | None \<Rightarrow> (case L (a, date - 1, season) of Some r \<Rightarrow> Some (carried date r) | None \<Rightarrow> L (a, d, s)))
    else L (a, d, s))"

text \<open>A credit goes to the user's latest entry, or opens an account on the day before.\<close>

definition latest_day :: "string \<Rightarrow> int \<Rightarrow> ledger \<Rightarrow> naive_date option" where
  "latest_day a season L = (if \<forall>d. L (a, d, season) = None then None
    else Some (GREATEST d. L (a, d, season) \<noteq> None))"

lemma latest_dayI:
  assumes "L (a, d, season) \<noteq> None" "\<And>d'. L (a, d', season) \<noteq> None \<Longrightarrow> d' \<le> d"
  shows "latest_day a season L = Some d"
  unfolding latest_day_def using assms Greatest_equality [of "\<lambda>d. L (a, d, season) \<noteq> None" d] by auto

lemma latest_day_None: "latest_day a season L = None \<longleftrightarrow> (\<forall>d. L (a, d, season) = None)"
  by (simp add: latest_day_def)

definition credited_row :: "int \<Rightarrow> new_points_snapshot \<Rightarrow> new_points_snapshot" where
  "credited_row amount r = r\<lparr>nps_referral_points := wrap_i32 (nps_referral_points r + amount),
    nps_total_points := wrap_i32 (nps_total_points r + amount)\<rparr>"

definition credit :: "naive_datetime \<Rightarrow> string \<Rightarrow> int \<Rightarrow> int \<Rightarrow> ledger \<Rightarrow> ledger" where
  "credit now a amount season L = (case latest_day a season L of
      Some d \<Rightarrow> L((a, d, season) := map_option (credited_row amount) (L (a, d, season)))
    | None \<Rightarrow> L((a, date_of now - 1, season) \<mapsto> bonus_snapshot a amount season (date_of now - 1)))"

section \<open>The calculation posts a day\<close>

lemma snapshot_row_key:
  "get_snapshot a d season db = Some s \<Longrightarrow>
    nps_address (ps_row s) = a \<and> nps_snapshot_date (ps_row s) = d \<and> nps_season_id (ps_row s) = season"
  unfolding get_snapshot_lookup by (drule lookup_Some_in) (simp add: row_key_def snap_key_def)

lemma carried_snapshot_row:
  "get_snapshot a d season db = Some s \<Longrightarrow> carried_snapshot date season s = carried date (ps_row s)"
  using snapshot_row_key [of a d season db s] by (simp add: carried_snapshot_def carried_def)

lemma activity_snapshot_booked: "activity_snapshot db (date - 1) date season u = booked date season (ledger_of db) u"
  by (simp add: activity_snapshot_def booked_def Let_def int_simps points_on_balance [symmetric] points_on_def)

lemma store_snapshots_posts:
  assumes "acts_ok acts" "date_min (cd_limits E) < date"
    and "store_snapshots E now date season acts db = (Inr (), db')"
  shows "ledger_of db' = post_day date season acts (ledger_of db)"
proof -
  have "ledger_of db' (a, d, s) = post_day date season acts (ledger_of db) (a, d, s)" for a d s
  proof (cases "(d, s) = (date, season)")
    case True
    then show ?thesis
      using store_snapshots_result(1) [OF assms, of a] carried_snapshot_row [of a "date - 1" season db]
      by (auto simp: ledger_at post_day_def activity_snapshot_booked split: option.split)
  next
    case False
    then show ?thesis
      using store_snapshots_result(2) [OF assms False] by (auto simp: ledger_at post_day_def)
  qed
  then show ?thesis by auto
qed

lemma calculate_posts:
  assumes "points_wf db" "get_active_season db = Some s" "day_activities E date db = Inr acts"
    "date_min (cd_limits E) < date"
  shows "\<exists>db'. calculate_points_for_date E now date db = (Inr (), db') \<and>
    ledger_of db' = post_day date (se_id s) acts (ledger_of db)"
proof -
  note ok = day_activities_ok [OF assms(3)]
  obtain db' where st: "store_snapshots E now date (se_id s) acts db = (Inr (), db')"
    using store_snapshots_ok [OF assms(1) ok assms(4)] by blast
  then show ?thesis
    using store_snapshots_posts [OF ok assms(4) st] calculate_for_date_eq [OF assms(2,3)] by auto
qed

section \<open>A bonus is a credit\<close>

lemma snapshot_of_row:
  assumes "points_wf db" "s \<in> set (t_rows (pd_snapshots db))"
  shows "get_snapshot (nps_address (ps_row s)) (nps_snapshot_date (ps_row s)) (nps_season_id (ps_row s)) db = Some s"
  using assms lookup_unique [of row_key "pd_snapshots db" s]
  by (simp add: get_snapshot_lookup points_wf_def row_key_def snap_key_def)

lemma latest_day_snapshot:
  assumes "points_wf db"
  shows "latest_day a season (ledger_of db)
    = map_option (\<lambda>s. nps_snapshot_date (ps_row s)) (get_latest_snapshot a season db)"
proof (cases "get_latest_snapshot a season db")
  case None
  have "get_snapshot a d season db = None" for d
  proof (cases "get_snapshot a d season db")
    case (Some s)
    then have "s \<in> set (t_rows (pd_snapshots db))"
      unfolding get_snapshot_lookup by (auto dest: lookup_Some_in)
    with None snapshot_row_key [OF Some] show ?thesis
      by (auto simp: get_latest_snapshot_def filter_empty_conv)
  qed
  then have "latest_day a season (ledger_of db) = None"
    by (simp add: latest_day_None ledger_at)
  with None show ?thesis by simp
next
  case (Some s)
  note mx = first_of_order_desc_max [OF Some [unfolded get_latest_snapshot_def]]
  have "get_snapshot a (nps_snapshot_date (ps_row s)) season db = Some s"
    using snapshot_of_row [OF assms, of s] mx(1) by auto
  moreover have "d \<le> nps_snapshot_date (ps_row s)" if "get_snapshot a d season db = Some t" for d t
    using mx(2) [of t] that snapshot_row_key [OF that] unfolding get_snapshot_lookup
    by (auto dest: lookup_Some_in)
  ultimately have "latest_day a season (ledger_of db) = Some (nps_snapshot_date (ps_row s))"
    by (intro latest_dayI) (auto simp: ledger_at)
  with Some show ?thesis by simp
qed

lemma award_credits:
  assumes wf: "points_wf db"
  shows "\<exists>db'. award_bonus_points now user bonus season db = (Inr (), db') \<and>
    ledger_of db' = credit now user bonus season (ledger_of db)"
proof (cases "get_latest_snapshot user season db")
  case (Some snap)
  let ?f = "\<lambda>s. if ps_id s = ps_id snap
      then s\<lparr>ps_row := (ps_row s)\<lparr>nps_referral_points := nps_referral_points (ps_row (add_bonus bonus snap)),
        nps_total_points := nps_total_points (ps_row (add_bonus bonus snap))\<rparr>\<rparr> else s"
  let ?db = "db\<lparr>pd_snapshots := (pd_snapshots db)\<lparr>t_rows := List.map ?f (t_rows (pd_snapshots db))\<rparr>\<rparr>"
  let ?d = "nps_snapshot_date (ps_row snap)"
  note snap = get_latest_snapshot_props [OF Some]
  have here: "get_snapshot user ?d season db = Some snap"
    using snapshot_of_row [OF wf snap(1)] snap by simp
  have get: "get_snapshot a d se ?db = map_option ?f (get_snapshot a d se db)" for a d se
    by (rule get_snapshot_map) (simp_all add: row_key_def snap_key_def)
  have other: "?f s = s" if s: "get_snapshot a d se db = Some s" and ne: "(a, d, se) \<noteq> (user, ?d, season)" for a d se s
  proof -
    have "s \<in> set (t_rows (pd_snapshots db))"
      using s unfolding get_snapshot_lookup by (auto dest: lookup_Some_in)
    then have "ps_id s \<noteq> ps_id snap"
      using ids_unique [OF wf _ snap(1)] snapshot_row_key [OF s] ne snap by blast
    then show ?thesis by simp
  qed
  have "ledger_of ?db (a, d, se) = credit now user bonus season (ledger_of db) (a, d, se)" for a d se
  proof (cases "(a, d, se) = (user, ?d, season)")
    case True
    then show ?thesis
      by (simp add: ledger_at get credit_def latest_day_snapshot [OF wf] Some here credited_row_def add_bonus_def)
  next
    case False
    then show ?thesis
      using other [of a d se]
      by (cases "get_snapshot a d se db") (auto simp: ledger_at get credit_def latest_day_snapshot [OF wf] Some)
  qed
  then have "ledger_of ?db = credit now user bonus season (ledger_of db)" by auto
  then show ?thesis
    using award_existing [OF Some, of now bonus] by blast
next
  case None
  let ?n = "bonus_snapshot user bonus season (date_of now - 1)"
  let ?db = "db\<lparr>pd_snapshots := append_row (mk_snapshot now) ?n (pd_snapshots db)\<rparr>"
  have key: "snap_key ?n = (user, date_of now - 1, season)"
    by (simp add: snap_key_def bonus_snapshot_def)
  have none: "latest_day user season (ledger_of db) = None"
    by (simp add: latest_day_snapshot [OF wf] None)
  then have nokey: "get_snapshot user d season db = None" for d
    by (auto simp: latest_day_def ledger_at Let_def split: if_splits)
  have "\<not> has_key row_key (snap_key ?n) (pd_snapshots db)"
    using nokey by (simp add: get_snapshot_lookup lookup_None_iff key)
  then have a: "award_bonus_points now user bonus season db = (Inr (), ?db)"
    by (simp add: award_bonus_points_def None insert_unique_def)
  have "ledger_of ?db (a, d, se) = credit now user bonus season (ledger_of db) (a, d, se)" for a d se
    using nokey [of "date_of now - 1"]
    by (auto simp: ledger_at credit_def none get_snapshot_lookup snaps.lookup_append key mk_snapshot_def
        split: option.splits)
  then have "ledger_of ?db = credit now user bonus season (ledger_of db)" by auto
  with a show ?thesis by blast
qed

section \<open>Histories\<close>

text \<open>What happens to the points tables while the system runs: a day is calculated, or a user applies a code.\<close>

datatype points_event =
    CalculateDay naive_datetime naive_date
  | ApplyReferral apply_env apply_referral_request

fun run_event :: "calc_deps \<Rightarrow> points_event \<Rightarrow> points_db \<Rightarrow> points_db" where
  "run_event E (CalculateDay now date) db = snd (calculate_points_for_date E now date db)"
| "run_event E (ApplyReferral A r) db = snd (apply_referral_handler A r db)"

datatype ledger_op = Unchanged | PostDay naive_date int activities | Credit naive_datetime string int int

fun perform_op :: "ledger_op \<Rightarrow> ledger \<Rightarrow> ledger" where
  "perform_op Unchanged L = L"
| "perform_op (PostDay date season acts) L = post_day date season acts L"
| "perform_op (Credit now a amount season) L = credit now a amount season L"

text \<open>The bonus that a request is granted, if it is accepted.\<close>

definition granted :: "apply_env \<Rightarrow> apply_referral_request \<Rightarrow> points_db \<Rightarrow> int option" where
  "granted A r db = (case (fst (apply_referral_handler A r db), ae_config A) of
     (Inr _, Inr (Some bonus)) \<Rightarrow> Some bonus | _ \<Rightarrow> None)"

fun op_of :: "calc_deps \<Rightarrow> points_event \<Rightarrow> points_db \<Rightarrow> ledger_op" where
  "op_of E (CalculateDay now date) db =
    (case (get_active_season db, day_activities E date db) of
       (Some s, Inr acts) \<Rightarrow> if date_min (cd_limits E) < date then PostDay date (se_id s) acts else Unchanged
     | _ \<Rightarrow> Unchanged)"
| "op_of E (ApplyReferral A r) db =
    (case (get_active_season db, granted A r db) of
       (Some s, Some bonus) \<Rightarrow> Credit (ae_now A) (arr_user_address r) bonus (se_id s)
     | _ \<Rightarrow> Unchanged)"

lemma ledger_cong: "pd_snapshots db1 = pd_snapshots db2 \<Longrightarrow> ledger_of db1 = ledger_of db2"
  by (simp add: ledger_of_def get_snapshot_def)

lemma calculate_fails:
  assumes "op_of E (CalculateDay now date) db = Unchanged"
  shows "\<exists>e. calculate_points_for_date E now date db = (Inl e, db)"
  using assms by (auto simp: calculate_points_for_date_def store_snapshots_def pred_opt_def
      split: option.splits sum.splits if_splits)

lemma award_signup_bonus_cases:
  assumes "points_wf db"
  shows "(\<exists>s bonus db'. get_active_season db = Some s \<and> ae_config A = Inr (Some bonus) \<and>
      award_bonus_points (ae_now A) user bonus (se_id s) db = (Inr (), db') \<and>
      ledger_of db' = credit (ae_now A) user bonus (se_id s) (ledger_of db) \<and>
      award_signup_bonus A user db = (Inr (), db')) \<or>
    (\<exists>e. award_signup_bonus A user db = (Inl e, db))"
proof (cases "get_active_season db")
  case None
  then show ?thesis by (simp add: award_signup_bonus_no_season)
next
  case (Some s)
  show ?thesis
  proof (cases "\<exists>bonus. ae_config A = Inr (Some bonus)")
    case True
    then obtain bonus where b: "ae_config A = Inr (Some bonus)" ..
    from award_credits [OF assms] award_signup_bonus_eq [OF Some b] Some b show ?thesis
      by metis
  next
    case False
    with Some show ?thesis
      by (cases "ae_config A") (auto simp: award_signup_bonus_def handler_simps or_reject_simps split: option.splits)
  qed
qed

lemma apply_referral_cases:
  assumes wf: "points_wf db"
  obtains (refused) e db' where "apply_referral_handler A r db = (Inl e, db')" "points_wf db'"
      "ledger_of db' = ledger_of db" "pd_seasons db' = pd_seasons db"
  | (accepted) resp db' s bonus where "apply_referral_handler A r db = (Inr resp, db')" "points_wf db'"
      "get_active_season db = Some s" "ae_config A = Inr (Some bonus)" "pd_seasons db' = pd_seasons db"
      "ledger_of db' = credit (ae_now A) (arr_user_address r) bonus (se_id s) (ledger_of db)"
proof (cases "authenticate A r db = (Inr (), db)")
  case False
  obtain ra db0 where auth: "authenticate A r db = (ra, db0)" by fastforce
  moreover have "db0 = db"
    using authenticate_state [of A r db] auth by simp
  ultimately obtain e where "ra = Inl e"
    using False by (cases ra) auto
  with auth show thesis
    using apply_unauthenticated [of A r db e db0] refused wf by blast
next
  case True
  note handler = apply_checked [OF True]
  show thesis
  proof (cases "get_user_referral (arr_user_address r) db = None \<and>
      (\<exists>c. get_referral_code (arr_referral_code r) db = Some c \<and>
        to_lowercase (rc_owner_address c) \<noteq> to_lowercase (arr_user_address r))")
    case False
    then have "\<exists>e. apply_referral_handler A r db = (Inl e, db)"
      unfolding handler by (auto split: option.split)
    with wf refused show thesis by blast
  next
    case checks: True
    then obtain c where c: "get_referral_code (arr_referral_code r) db = Some c"
        "to_lowercase (rc_owner_address c) \<noteq> to_lowercase (arr_user_address r)" by blast
    let ?n = "\<lparr>nur_user_address = arr_user_address r, nur_referred_by_address = rc_owner_address c\<rparr>"
    obtain row db1 where i: "insert_user_referral (ae_now A) ?n db = (Inr row, db1)"
        "pd_seasons db1 = pd_seasons db" "pd_snapshots db1 = pd_snapshots db"
      using insert_user_referral_new [of ?n db "ae_now A"] checks by auto
    have wf1: "points_wf db1"
      by (rule wf_insert_user_referral [OF wf i(1)])
    have same: "ledger_of db1 = ledger_of db" "get_active_season db1 = get_active_season db"
      using ledger_cong [OF i(3)] active_season_cong [OF i(2)] by simp_all
    from award_signup_bonus_cases [OF wf1, of A "arr_user_address r"] show thesis
    proof
      assume "\<exists>e. award_signup_bonus A (arr_user_address r) db1 = (Inl e, db1)"
      then have "\<exists>e. apply_referral_handler A r db = (Inl e, db1)"
        using checks c i(1) by (auto simp: handler)
      with refused wf1 same i(2) show thesis by blast
    next
      assume "\<exists>s bonus db'. get_active_season db1 = Some s \<and> ae_config A = Inr (Some bonus) \<and>
        award_bonus_points (ae_now A) (arr_user_address r) bonus (se_id s) db1 = (Inr (), db') \<and>
        ledger_of db' = credit (ae_now A) (arr_user_address r) bonus (se_id s) (ledger_of db1) \<and>
        award_signup_bonus A (arr_user_address r) db1 = (Inr (), db')"
      then obtain s bonus db' where s: "get_active_season db1 = Some s" "ae_config A = Inr (Some bonus)"
          "award_bonus_points (ae_now A) (arr_user_address r) bonus (se_id s) db1 = (Inr (), db')"
          "ledger_of db' = credit (ae_now A) (arr_user_address r) bonus (se_id s) (ledger_of db1)"
          "award_signup_bonus A (arr_user_address r) db1 = (Inr (), db')" by blast
      have "\<exists>resp. apply_referral_handler A r db = (Inr resp, db')"
        using checks c i(1) s(5) by (auto simp: handler)
      moreover have "pd_seasons db' = pd_seasons db"
        using award_keeps(3) [OF s(3)] i(2) by simp
      ultimately show thesis
        using accepted wf_award_bonus_points [OF wf1 s(3)] s same by metis
    qed
  qed
qed

lemma run_event_wf: "points_wf db \<Longrightarrow> points_wf (run_event E ev db)"
proof (cases ev)
  case (CalculateDay now date)
  then show "points_wf db \<Longrightarrow> ?thesis"
    using wf_calculate by (metis prod.collapse run_event.simps(1))
next
  case (ApplyReferral A r)
  assume "points_wf db"
  then show ?thesis
    by (cases rule: apply_referral_cases [of db A r]) (simp_all add: ApplyReferral)
qed

lemma run_event_seasons: "points_wf db \<Longrightarrow> pd_seasons (run_event E ev db) = pd_seasons db"
proof (cases ev)
  case (CalculateDay now date)
  then show ?thesis
    using calculate_keeps(3) [of E now date db] by (metis prod.collapse run_event.simps(1))
next
  case (ApplyReferral A r)
  assume "points_wf db"
  then show ?thesis
    by (cases rule: apply_referral_cases [of db A r]) (simp_all add: ApplyReferral)
qed

lemma run_event_ledger:
  assumes wf: "points_wf db"
  shows "ledger_of (run_event E ev db) = perform_op (op_of E ev db) (ledger_of db)"
proof (cases ev)
  case (CalculateDay now date)
  show ?thesis
  proof (cases "op_of E ev db = Unchanged")
    case True
    then show ?thesis
      using calculate_fails [of E now date db] CalculateDay by auto
  next
    case False
    then obtain s acts where "get_active_season db = Some s" "day_activities E date db = Inr acts"
        "date_min (cd_limits E) < date"
      by (auto simp: CalculateDay split: option.splits sum.splits if_splits)
    then show ?thesis
      using calculate_posts [OF wf, of s E date acts now] by (auto simp: CalculateDay)
  qed
next
  case (ApplyReferral A r)
  from wf show ?thesis
    by (cases rule: apply_referral_cases [of db A r])
      (auto simp: ApplyReferral granted_def split: option.splits)
qed

interpretation points: simulation points_wf "run_event E" ledger_of "op_of E" perform_op for E
  by unfold_locales (simp_all add: run_event_wf run_event_ledger)

text \<open>
  C6: The points tables are a ledger: over every history of calculated days and referral requests, whatever fails
  in between, the stored snapshots are exactly what posting the calculated days and crediting the accepted
  requests makes of the ledger; nothing else of the tables ever shows in it.
\<close>
theorem points_refine_ledger:
  assumes "points_wf db"
  shows "ledger_of (fold (run_event E) evs db)
    = fold perform_op (trace (run_event E) (op_of E) evs db) (ledger_of db)"
  by (rule points.simulates_all [OF assms])

section \<open>Orderly histories\<close>

text \<open>
  A season is caught up with a day when nobody has a later entry and everybody with an entry has one on the day.
\<close>

definition caught_up :: "naive_date \<Rightarrow> int \<Rightarrow> ledger \<Rightarrow> bool" where
  "caught_up d season L \<longleftrightarrow> (\<forall>a d'. L (a, d', season) \<noteq> None \<longrightarrow> d' \<le> d \<and> L (a, d, season) \<noteq> None)"

lemma caught_up_latest:
  assumes "caught_up d season L"
  shows "latest_day a season L = (if L (a, d, season) = None then None else Some d)"
proof (cases "L (a, d, season)")
  case None
  then have "latest_day a season L = None"
    using assms unfolding latest_day_None caught_up_def by metis
  with None show ?thesis by simp
next
  case (Some r)
  then have "latest_day a season L = Some d"
    using assms by (intro latest_dayI) (auto simp: caught_up_def)
  with Some show ?thesis by simp
qed

lemma caught_upD: "caught_up d season L \<Longrightarrow> L (a, d', season) \<noteq> None \<Longrightarrow> d' \<le> d"
  by (simp add: caught_up_def)

lemma post_day_next:
  assumes "caught_up d season L" "acts_ok acts"
  shows "caught_up (d + 1) season (post_day (d + 1) season acts L)"
    and "balance a (d + 1) season (post_day (d + 1) season acts L) = (case map_of acts a of
      None \<Rightarrow> balance a d season L
    | Some u \<Rightarrow> wrap_i32 (balance a d season L + uda_base_points_total u + uda_referral_points u))"
proof -
  have next_day: "L (a, d + 1, season) = None" for a
    using caught_upD [OF assms(1), of a "d + 1"] by (cases "L (a, d + 1, season)") auto
  show "caught_up (d + 1) season (post_day (d + 1) season acts L)"
    using assms(1) unfolding caught_up_def post_day_def
    by (auto simp: next_day split: option.splits) (fastforce+)?
  show "balance a (d + 1) season (post_day (d + 1) season acts L) = (case map_of acts a of
      None \<Rightarrow> balance a d season L
    | Some u \<Rightarrow> wrap_i32 (balance a d season L + uda_base_points_total u + uda_referral_points u))"
    using acts_okD [OF assms(2)]
    by (auto simp: balance_def post_day_def next_day booked_def carried_def split: option.split)
qed

lemma credit_latest:
  assumes "caught_up d season L" "date_of now = d + 1 \<or> L (user, d, season) \<noteq> None" "in_i32 amount"
  shows "caught_up d season (credit now user amount season L)"
    and "balance a d season (credit now user amount season L)
      = (if a = user then wrap_i32 (balance a d season L + amount) else balance a d season L)"
proof -
  have "caught_up d season (credit now user amount season L) \<and>
    balance a d season (credit now user amount season L)
      = (if a = user then wrap_i32 (balance a d season L + amount) else balance a d season L)"
  proof (cases "L (user, d, season)")
    case None
    then have "credit now user amount season L = L((user, d, season) \<mapsto> bonus_snapshot user amount season d)"
      using assms(2) by (simp add: credit_def caught_up_latest [OF assms(1)])
    then show ?thesis
      using assms(1,3) None by (auto simp: caught_up_def balance_def bonus_snapshot_def int_simps)
  next
    case (Some r)
    then have "credit now user amount season L = L((user, d, season) \<mapsto> credited_row amount r)"
      by (simp add: credit_def caught_up_latest [OF assms(1)])
    then show ?thesis
      using assms(1) Some by (auto simp: caught_up_def balance_def credited_row_def)
  qed
  then show "caught_up d season (credit now user amount season L)"
    "balance a d season (credit now user amount season L)
      = (if a = user then wrap_i32 (balance a d season L + amount) else balance a d season L)"
    by blast+
qed

text \<open>The total that the API shows: the one of the latest snapshot.\<close>

definition total_shown :: "string \<Rightarrow> int \<Rightarrow> points_db \<Rightarrow> int" where
  "total_shown a season db = (case get_latest_snapshot a season db of
     None \<Rightarrow> 0 | Some s \<Rightarrow> nps_total_points (ps_row s))"

lemma total_shown_balance:
  assumes "points_wf db" "caught_up d season (ledger_of db)"
  shows "total_shown a season db = balance a d season (ledger_of db)"
proof (cases "get_latest_snapshot a season db")
  case None
  then have "ledger_of db (a, d, season) = None"
    using latest_day_snapshot [OF assms(1), of a season] by (simp add: latest_day_None)
  with None show ?thesis
    by (simp add: total_shown_def balance_def)
next
  case (Some s)
  note props = get_latest_snapshot_props [OF Some]
  have "nps_snapshot_date (ps_row s) = d"
    using latest_day_snapshot [OF assms(1), of a season] caught_up_latest [OF assms(2), of a] Some
    by (simp split: if_splits)
  then have "get_snapshot a d season db = Some s"
    using snapshot_of_row [OF assms(1) props(1)] props by simp
  with Some show ?thesis
    by (simp add: total_shown_def balance_def ledger_at)
qed

section \<open>Every point is counted once\<close>

text \<open>What an event is worth to a user: the points of the day, or the bonus of an accepted request.\<close>

fun earned :: "calc_deps \<Rightarrow> string \<Rightarrow> points_event \<Rightarrow> points_db \<Rightarrow> int" where
  "earned E a (CalculateDay now date) db = (case day_activities E date db of
      Inl e \<Rightarrow> 0
    | Inr acts \<Rightarrow> (case map_of acts a of None \<Rightarrow> 0 | Some u \<Rightarrow> uda_base_points_total u + uda_referral_points u))"
| "earned E a (ApplyReferral A r) db = (if arr_user_address r = a
    then (case granted A r db of None \<Rightarrow> 0 | Some bonus \<Rightarrow> bonus) else 0)"

definition bonus_fits :: "apply_env \<Rightarrow> bool" where
  "bonus_fits A = (case ae_config A of Inr (Some bonus) \<Rightarrow> in_i32 bonus | _ \<Rightarrow> True)"

text \<open>
  A history is orderly after the day \<^verbatim>\<open>d\<close> when the days are calculated one after the other without errors, and a
  request of a user who has no snapshot yet comes when the day before it is the last calculated one.
\<close>

fun orderly :: "calc_deps \<Rightarrow> int \<Rightarrow> naive_date \<Rightarrow> points_event list \<Rightarrow> points_db \<Rightarrow> bool" where
  "orderly E season d [] db \<longleftrightarrow> True"
| "orderly E season d (CalculateDay now date # evs) db \<longleftrightarrow>
    date = d + 1 \<and> fst (calculate_points_for_date E now date db) = Inr () \<and>
    orderly E season date evs (run_event E (CalculateDay now date) db)"
| "orderly E season d (ApplyReferral A r # evs) db \<longleftrightarrow>
    bonus_fits A \<and> (date_of (ae_now A) = d + 1 \<or> get_latest_snapshot (arr_user_address r) season db \<noteq> None) \<and>
    orderly E season d evs (run_event E (ApplyReferral A r) db)"

lemma calculate_event:
  assumes wf: "points_wf db" and season: "get_active_season db = Some s" and up: "caught_up d (se_id s) (ledger_of db)"
    and ok: "fst (calculate_points_for_date E now (d + 1) db) = Inr ()"
  shows "caught_up (d + 1) (se_id s) (ledger_of (run_event E (CalculateDay now (d + 1)) db))"
    and "in_i32 (total_shown a (se_id s) db) \<Longrightarrow> total_shown a (se_id s) (run_event E (CalculateDay now (d + 1)) db)
      = wrap_i32 (total_shown a (se_id s) db + earned E a (CalculateDay now (d + 1)) db)"
proof -
  let ?db = "run_event E (CalculateDay now (d + 1)) db"
  have "op_of E (CalculateDay now (d + 1)) db \<noteq> Unchanged"
    using calculate_fails [of E now "d + 1" db] ok by auto
  then obtain acts where acts: "day_activities E (d + 1) db = Inr acts" and
      op: "op_of E (CalculateDay now (d + 1)) db = PostDay (d + 1) (se_id s) acts"
    using season by (auto split: sum.splits if_splits)
  note aok = day_activities_ok [OF acts]
  have L: "ledger_of ?db = post_day (d + 1) (se_id s) acts (ledger_of db)"
    using run_event_ledger [OF wf, of E "CalculateDay now (d + 1)"] op by (simp del: op_of.simps run_event.simps)
  show up': "caught_up (d + 1) (se_id s) (ledger_of ?db)"
    unfolding L by (rule post_day_next(1) [OF up aok])
  assume "in_i32 (total_shown a (se_id s) db)"
  then show "total_shown a (se_id s) ?db = wrap_i32 (total_shown a (se_id s) db + earned E a (CalculateDay now (d + 1)) db)"
    unfolding total_shown_balance [OF run_event_wf [OF wf] up'] total_shown_balance [OF wf up]
    unfolding L post_day_next(2) [OF up aok] by (simp add: acts int_simps add.assoc split: option.split)
qed

lemma referral_event:
  assumes wf: "points_wf db" and season: "get_active_season db = Some s" and up: "caught_up d (se_id s) (ledger_of db)"
    and fits: "bonus_fits A"
    and timely: "date_of (ae_now A) = d + 1 \<or> get_latest_snapshot (arr_user_address r) (se_id s) db \<noteq> None"
  shows "caught_up d (se_id s) (ledger_of (run_event E (ApplyReferral A r) db))"
    and "in_i32 (total_shown a (se_id s) db) \<Longrightarrow> total_shown a (se_id s) (run_event E (ApplyReferral A r) db)
      = wrap_i32 (total_shown a (se_id s) db + earned E a (ApplyReferral A r) db)"
proof -
  let ?db = "run_event E (ApplyReferral A r) db" and ?user = "arr_user_address r"
  have L: "ledger_of ?db = (case granted A r db of
      Some bonus \<Rightarrow> credit (ae_now A) ?user bonus (se_id s) (ledger_of db) | None \<Rightarrow> ledger_of db)"
    using run_event_ledger [OF wf, of E "ApplyReferral A r"]
    by (simp add: season del: run_event.simps split: option.splits)
  have w: "date_of (ae_now A) = d + 1 \<or> ledger_of db (?user, d, se_id s) \<noteq> None"
    using timely latest_day_snapshot [OF wf, of ?user "se_id s"] caught_up_latest [OF up, of ?user]
    by (auto split: if_splits)
  have b: "in_i32 bonus" if "granted A r db = Some bonus" for bonus
    using that fits by (auto simp: granted_def bonus_fits_def split: sum.splits option.splits)
  note cr = credit_latest [OF up w b]
  show up': "caught_up d (se_id s) (ledger_of ?db)"
    unfolding L using up cr(1) by (auto split: option.split)
  assume "in_i32 (total_shown a (se_id s) db)"
  then show "total_shown a (se_id s) ?db = wrap_i32 (total_shown a (se_id s) db + earned E a (ApplyReferral A r) db)"
    unfolding total_shown_balance [OF run_event_wf [OF wf] up'] total_shown_balance [OF wf up]
    unfolding L using cr(2) by (auto simp: int_simps split: option.split)
qed

lemma orderly_step:
  assumes wf: "points_wf db" and season: "get_active_season db = Some s" and up: "caught_up d (se_id s) (ledger_of db)"
    and ord: "orderly E (se_id s) d (ev # evs) db" and t: "in_i32 (total_shown a (se_id s) db)"
  shows "\<exists>d'. caught_up d' (se_id s) (ledger_of (run_event E ev db)) \<and> orderly E (se_id s) d' evs (run_event E ev db) \<and>
    total_shown a (se_id s) (run_event E ev db) = wrap_i32 (total_shown a (se_id s) db + earned E a ev db)"
proof (cases ev)
  case (CalculateDay now date)
  then have "date = d + 1" and ok: "fst (calculate_points_for_date E now (d + 1) db) = Inr ()"
      and rest: "orderly E (se_id s) (d + 1) evs (run_event E ev db)"
    using ord by auto
  with calculate_event(1) [OF wf season up ok] calculate_event(2) [OF wf season up ok t] CalculateDay show ?thesis
    by blast
next
  case (ApplyReferral A r)
  then have f: "bonus_fits A"
      and w: "date_of (ae_now A) = d + 1 \<or> get_latest_snapshot (arr_user_address r) (se_id s) db \<noteq> None"
      and rest: "orderly E (se_id s) d evs (run_event E ev db)"
    using ord by auto
  with referral_event(1) [OF wf season up f w] referral_event(2) [OF wf season up f w t] ApplyReferral show ?thesis
    by blast
qed

lemma orderly_run:
  assumes "points_wf db" "get_active_season db = Some s" "caught_up d (se_id s) (ledger_of db)"
    and "orderly E (se_id s) d evs db" "in_i32 (total_shown a (se_id s) db)"
  shows "(\<exists>d'. caught_up d' (se_id s) (ledger_of (fold (run_event E) evs db))) \<and>
    total_shown a (se_id s) (fold (run_event E) evs db)
      = wrap_i32 (total_shown a (se_id s) db + sum_list (trace (run_event E) (earned E a) evs db))"
  using assms
proof (induction evs arbitrary: d db)
  case Nil
  then show ?case by (auto simp: int_simps)
next
  case (Cons ev evs)
  obtain d' where d': "caught_up d' (se_id s) (ledger_of (run_event E ev db))" "orderly E (se_id s) d' evs (run_event E ev db)"
      "total_shown a (se_id s) (run_event E ev db) = wrap_i32 (total_shown a (se_id s) db + earned E a ev db)"
    using orderly_step [OF Cons.prems] by blast
  have season: "get_active_season (run_event E ev db) = Some s"
    using Cons.prems(2) active_season_cong [OF run_event_seasons [OF Cons.prems(1)]] by simp
  from Cons.IH [OF run_event_wf [OF Cons.prems(1)] season d'(1,2)] show ?case
    by (simp add: d'(3) int_simps add.assoc)
qed

text \<open>
  C5: No point is lost or counted twice in an orderly history: when the days of a season are calculated one after
  the other, and new users redeem a code only while the day before is the last calculated one, the total the API
  shows for a user is the earlier total plus the points of the days plus the granted bonuses, in 32 bits.
\<close>
theorem orderly_history_balances:
  assumes "points_wf db" "get_active_season db = Some s" "caught_up d (se_id s) (ledger_of db)"
    and "orderly E (se_id s) d evs db" "in_i32 (total_shown a (se_id s) db)"
  shows "total_shown a (se_id s) (fold (run_event E) evs db)
    = wrap_i32 (total_shown a (se_id s) db + sum_list (trace (run_event E) (earned E a) evs db))"
  using orderly_run [OF assms] by blast

section \<open>The daemon and the range command make histories\<close>

lemma scheduler_tick_event:
  assumes "scheduler_tick E target t S = Inr S'"
  shows "S' = S \<or> sc_db S' = run_event E (CalculateDay t (date_of t - 1)) (sc_db S) \<and>
    sc_runs S' = sc_runs S @ [date_of t - 1]"
  using assms
  by (auto simp: scheduler_tick_def res_simps pred_opt_def split: if_splits prod.splits sum.splits error.splits)

fun event_date :: "points_event \<Rightarrow> naive_date option" where
  "event_date (CalculateDay now date) = Some date"
| "event_date (ApplyReferral A r) = None"

lemma scheduler_loop_history:
  "fold_res (scheduler_tick E target) ticks S = Inr S' \<Longrightarrow>
    \<exists>evs. sc_db S' = fold (run_event E) evs (sc_db S) \<and> List.map Some (sc_runs S') = List.map Some (sc_runs S) @ List.map event_date evs"
proof (induction ticks arbitrary: S)
  case Nil
  then show ?case by (auto intro: exI [of _ "[]"])
next
  case (Cons t ticks)
  then obtain S1 where t: "scheduler_tick E target t S = Inr S1" and rest: "fold_res (scheduler_tick E target) ticks S1 = Inr S'"
    by (auto simp: res_simps)
  obtain evs where evs: "sc_db S' = fold (run_event E) evs (sc_db S1)"
      "List.map Some (sc_runs S') = List.map Some (sc_runs S1) @ List.map event_date evs"
    using Cons.IH [OF rest] by blast
  from scheduler_tick_event [OF t] show ?case
  proof
    assume "S1 = S"
    with evs show ?thesis by auto
  next
    assume "sc_db S1 = run_event E (CalculateDay t (date_of t - 1)) (sc_db S) \<and> sc_runs S1 = sc_runs S @ [date_of t - 1]"
    with evs show ?thesis
      by (intro exI [of _ "CalculateDay t (date_of t - 1) # evs"]) (simp del: run_event.simps)
  qed
qed

text \<open>The tables the daemon leaves are those of the history of its runs, so they are a ledger as well.\<close>

theorem scheduler_is_history:
  assumes "run_scheduler E ticks db = Inr S"
  shows "\<exists>evs. sc_db S = fold (run_event E) evs db \<and> List.map event_date evs = List.map Some (sc_runs S)"
  using assms scheduler_loop_history [of E _ ticks "\<lparr>sc_last_run = None, sc_db = db, sc_runs = []\<rparr>" S]
  by (force simp: run_scheduler_def res_simps)

lemma scheduler_is_history_witness:
  "\<exists>S evs. run_scheduler example_deps [] example_db = Inr S \<and> sc_db S = fold (run_event example_deps) evs example_db"
proof -
  have "scheduler_time (cd_calculation_time example_deps) = Inr (1, 0)"
    by (simp add: example_deps_def scheduler_time_def parse_u32_def Let_def digit_of_def)
  then obtain S where S: "run_scheduler example_deps [] example_db = Inr S"
    by (simp add: run_scheduler_def)
  from scheduler_is_history [OF S] S show ?thesis by blast
qed

lemma range_is_history:
  assumes "calculate_points_for_range E now start end_date db = (Inr (), db')"
  shows "db' = fold (run_event E) (List.map (CalculateDay now) [start..end_date]) db"
    and "orderly E season (start - 1) (List.map (CalculateDay now) [start..end_date]) db"
proof -
  have "db' = fold (run_event E) (List.map (CalculateDay now) [start..end_date]) db \<and>
    orderly E season (start - 1) (List.map (CalculateDay now) [start..end_date]) db"
    using assms
  proof (induction E now start end_date db rule: calculate_points_for_range.induct)
    case (1 E now d e db)
    show ?case
    proof (cases "d \<le> e")
      case True
      then obtain db1 where c: "calculate_points_for_date E now d db = (Inr (), db1)"
          and rest: "calculate_points_for_range E now (d + 1) e db1 = (Inr (), db')" "succ_opt (cd_limits E) d = Some (d + 1)"
        using 1(2) by (auto simp: calculate_points_for_range.simps [of E now d] succ_opt_def
            split: prod.splits sum.splits if_splits)
      from 1(1) [OF True c [symmetric] refl rest(2) rest(1)] show ?thesis
        by (simp add: upto.simps [of d e] True c)
    next
      case False
      then show ?thesis
        using 1(2) by (simp add: calculate_points_for_range.simps [of E now d])
    qed
  qed
  then show "db' = fold (run_event E) (List.map (CalculateDay now) [start..end_date]) db"
    "orderly E season (start - 1) (List.map (CalculateDay now) [start..end_date]) db" by blast+
qed

lemma earned_same_rules:
  assumes "pd_configs db1 = pd_configs db2" "pd_multipliers db1 = pd_multipliers db2" "pd_referrals db1 = pd_referrals db2"
  shows "earned E a (CalculateDay now date) db1 = earned E a (CalculateDay now date) db2"
  by (simp add: day_activities_cong [OF assms])

lemma trace_days:
  assumes "pd_configs db1 = pd_configs db" "pd_multipliers db1 = pd_multipliers db" "pd_referrals db1 = pd_referrals db"
  shows "trace (run_event E) (earned E a) (List.map (CalculateDay now) days) db1
    = List.map (\<lambda>date. earned E a (CalculateDay now date) db) days"
  using assms
proof (induction days arbitrary: db1)
  case (Cons date days)
  obtain r db2 where c: "calculate_points_for_date E now date db1 = (r, db2)" by fastforce
  show ?case
    using Cons.IH [of db2] calculate_keeps [OF c] Cons.prems earned_same_rules [OF Cons.prems, of E a now date]
    by (simp add: c del: earned.simps)
qed simp


section \<open>Examples\<close>

lemma example_ledger: "ledger_of example_db = (\<lambda>_. None)" "caught_up d season (ledger_of example_db)"
  by (auto simp: caught_up_def ledger_of_def get_snapshot_def example_store)

lemma example_total: "total_shown a season example_db = 0"
  by (simp add: total_shown_def get_latest_snapshot_def example_store)

lemma example_season_id: "se_id (mk_season 0 1 example_season) = 1"
  by (simp add: mk_season_def)

lemma example_day_of:
  "-1000 < d \<Longrightarrow> d < 1000 \<Longrightarrow> day_activities example_deps d example_db = Inr [(''u'', example_activity)]"
  by (rule example_day) (simp_all add: example_store)

lemma example_earned:
  "-1000 < d \<Longrightarrow> d < 1000 \<Longrightarrow> earned example_deps ''u'' (CalculateDay now d) example_db = 101"
  by (simp add: example_day_of) (simp add: example_activity_def new_activity_def)

theorem points_refine_ledger_witness:
  "ledger_of (run_event example_deps (CalculateDay 0 5) example_db)
    = post_day 5 1 [(''u'', example_activity)] (\<lambda>_. None)"
  using points_refine_ledger [OF example_db_wf, of example_deps "[CalculateDay 0 5]"]
  by (simp add: example_day_of example_db_season example_season_id example_ledger del: run_event.simps)

lemma example_day_runs:
  assumes db: "points_wf db" "get_active_season db = get_active_season example_db" "pd_configs db = pd_configs example_db"
      "pd_multipliers db = empty_table" "pd_referrals db = empty_table" "d = 5 \<or> d = 6"
  shows "\<exists>db'. calculate_points_for_date example_deps 0 d db = (Inr (), db') \<and> points_wf db' \<and>
      get_active_season db' = get_active_season db \<and> pd_configs db' = pd_configs db \<and>
      pd_multipliers db' = pd_multipliers db \<and> pd_referrals db' = pd_referrals db"
proof -
  have acts: "day_activities example_deps d db = Inr [(''u'', example_activity)]"
    by (rule example_day) (use db in auto)
  have "date_min (cd_limits example_deps) < d"
    using db(6) by auto
  then obtain db' where db': "calculate_points_for_date example_deps 0 d db = (Inr (), db')"
    using calculate_posts [OF db(1) db(2) [unfolded example_db_season] acts, of 0] by blast
  note keep = calculate_keeps [OF db']
  show ?thesis
    using db' wf_calculate [OF db(1) db'] keep active_season_cong [OF keep(3)] by auto
qed


lemma referral_granted:
  assumes wf: "points_wf db" and auth: "authenticate A r db = (Inr (), db)"
    and none: "get_user_referral (arr_user_address r) db = None"
    and c: "get_referral_code (arr_referral_code r) db = Some c"
      "to_lowercase (rc_owner_address c) \<noteq> to_lowercase (arr_user_address r)"
    and season: "get_active_season db = Some s" and b: "ae_config A = Inr (Some bonus)"
  shows "granted A r db = Some bonus"
proof -
  let ?n = "\<lparr>nur_user_address = arr_user_address r, nur_referred_by_address = rc_owner_address c\<rparr>"
  obtain row db1 where i: "insert_user_referral (ae_now A) ?n db = (Inr row, db1)" "pd_seasons db1 = pd_seasons db"
    using insert_user_referral_new [of ?n db "ae_now A"] none by auto
  have season1: "get_active_season db1 = Some s"
    using season active_season_cong [OF i(2)] by simp
  obtain db2 where aw: "award_bonus_points (ae_now A) (arr_user_address r) bonus (se_id s) db1 = (Inr (), db2)"
    using award_credits [OF wf_insert_user_referral [OF wf i(1)]] by blast
  show ?thesis
    using none c i(1) award_signup_bonus_eq [OF season1 b aw] by (simp add: granted_def apply_checked [OF auth] b)
qed

theorem orderly_history_balances_witness:
  "total_shown (arr_user_address api_request) 1 (fold (run_event example_deps)
      [CalculateDay 0 5, ApplyReferral api_env api_request] (example_db\<lparr>pd_codes := pd_codes (api_db True)\<rparr>)) = 1000"
proof -
  let ?db = "example_db\<lparr>pd_codes := pd_codes (api_db True)\<rparr>" and ?user = "arr_user_address api_request"
  have wf: "points_wf ?db"
    using example_db_wf api_db_wf [of True] by (simp add: points_wf_def)
  have season: "get_active_season ?db = Some (mk_season 0 1 example_season)"
    using example_db_season active_season_cong [of ?db example_db] by simp
  have L: "ledger_of ?db = ledger_of example_db" and T: "total_shown ?user 1 ?db = 0"
    using ledger_cong [of ?db example_db] example_total [of ?user 1]
    by (simp_all add: total_shown_def get_latest_snapshot_def)
  obtain db1 where db1: "calculate_points_for_date example_deps 0 5 ?db = (Inr (), db1)" "points_wf db1"
      "get_active_season db1 = get_active_season ?db"
    using example_day_runs [of ?db 5] wf season by (auto simp: example_store example_db_season)
  note keep = calculate_keeps [OF db1(1)]
  have acts: "day_activities example_deps 5 ?db = Inr [(''u'', example_activity)]"
    by (rule example_day) (simp_all add: example_store)
  have u: "?user \<noteq> ''u''"
    by (simp add: unary_def)
  have now: "ae_now api_env = midnight 6" "ae_config api_env = Inr (Some 1000)"
    by (simp_all add: api_env_def)
  have "get_user_referral ?user db1 = None"
    using keep(5) by (simp add: get_user_referral_def example_store empty_table_def)
  moreover have "get_referral_code (arr_referral_code api_request) db1
      = Some \<lparr>rc_id = 1, rc_code = ''CODE'', rc_owner_address = ''owner'', rc_created_at = 0\<rparr>"
    using api_lookups(1) keep(4) by (simp add: get_referral_code_def)
  ultimately have g: "granted api_env api_request db1 = Some 1000"
    using api_owner referral_granted [OF db1(2) api_auth _ _ _ _ now(2)] db1(3) season by simp
  have "date_of (midnight 6) = 6"
    by (simp add: date_of_def midnight_def day_ns_def second_ns_def)
  then have ord: "orderly example_deps (se_id (mk_season 0 1 example_season)) 4
      [CalculateDay 0 5, ApplyReferral api_env api_request] ?db"
    by (simp add: db1(1) now bonus_fits_def in_i32_def)
  have up: "caught_up 4 (se_id (mk_season 0 1 example_season)) (ledger_of ?db)"
    unfolding L by (rule example_ledger(2))
  have t: "in_i32 (total_shown ?user (se_id (mk_season 0 1 example_season)) ?db)"
    unfolding example_season_id T by (simp add: in_i32_def)
  have e: "sum_list (trace (run_event example_deps) (earned example_deps ?user)
      [CalculateDay 0 5, ApplyReferral api_env api_request] ?db) = 1000"
    using u by (simp add: acts db1(1) g)
  show ?thesis
    using orderly_history_balances [OF wf season up ord t] unfolding e example_season_id T
    by (simp only: wrap_i32_def) simp
qed

end
