(* ===== verification/Block_Store.thy ===== *)
theory Block_Store
  imports Chain_Types Keyed_Store
begin

text \<open>
  The generic store of the indexer: the models of blocks, events and transactions with their
  conversions (\<^verbatim>\<open>bento-types/src/models\<close>) and the repositories (\<^verbatim>\<open>bento-types/src/repository\<close>).
  Rows have text keys, so the id sequence of a table plays no part here.
\<close>

section \<open>Serialisation of the node's structures\<close>

definition jstr :: "string \<times> string \<Rightarrow> string \<times> json" where
  "jstr kv = (fst kv, JString (snd kv))"

definition json_of_token :: "token \<Rightarrow> json" where
  "json_of_token t = JObject [jstr (''id'', tk_id t), jstr (''amount'', tk_amount t)]"

definition json_of_tokens :: "token list \<Rightarrow> json" where
  "json_of_tokens ts = JArray (List.map json_of_token ts)"

definition json_of_asset_input :: "rich_asset_input \<Rightarrow> json" where
  "json_of_asset_input i = JObject [(''hint'', JNumber (rai_hint i)), jstr (''key'', rai_key i),
    jstr (''unlockScript'', rai_unlock_script i), jstr (''attoAlphAmount'', rai_atto_alph_amount i),
    jstr (''address'', rai_address i), (''tokens'', json_of_tokens (rai_tokens i))]"

definition json_of_contract_input :: "contract_input \<Rightarrow> json" where
  "json_of_contract_input i = JObject [(''hint'', JNumber (cin_hint i)), jstr (''key'', cin_key i),
    jstr (''attoAlphAmount'', cin_atto_alph_amount i), jstr (''address'', cin_address i),
    (''tokens'', json_of_tokens (cin_tokens i))]"

definition json_of_fixed_output :: "fixed_asset_output \<Rightarrow> json" where
  "json_of_fixed_output f = JObject [(''hint'', JNumber (fao_hint f)), jstr (''key'', fao_key f),
    jstr (''attoAlphAmount'', fao_atto_alph_amount f), jstr (''address'', fao_address f),
    (''tokens'', json_of_tokens (fao_tokens f)), (''lockTime'', JNumber (fao_lock_time f)),
    jstr (''message'', fao_message f)]"

definition json_of_output :: "tx_output \<Rightarrow> json" where
  "json_of_output f = JObject [
    jstr (''type'', case out_type f of AssetOutput \<Rightarrow> ''AssetOutput'' | ContractOutput \<Rightarrow> ''ContractOutput''),
    (''hint'', JNumber (out_hint f)), jstr (''key'', out_key f),
    jstr (''attoAlphAmount'', out_atto_alph_amount f), jstr (''address'', out_address f),
    (''tokens'', json_of_tokens (out_tokens f))]"

definition json_of_unsigned :: "unsigned_tx \<Rightarrow> json" where
  "json_of_unsigned u = JObject [jstr (''txId'', utx_tx_id u), (''version'', JNumber (utx_version u)),
    (''networkId'', JNumber (utx_network_id u)),
    (''scriptOpt'', case utx_script_opt u of None \<Rightarrow> JNull | Some s \<Rightarrow> JString s),
    (''gasAmount'', JNumber (utx_gas_amount u)), jstr (''gasPrice'', utx_gas_price u),
    (''inputs'', JArray (List.map json_of_asset_input (utx_inputs u))),
    (''fixedOutputs'', JArray (List.map json_of_fixed_output (utx_fixed_outputs u)))]"

definition json_of_ghost_uncle :: "ghost_uncle \<Rightarrow> json" where
  "json_of_ghost_uncle g = JObject [jstr (''blockHash'', gu_block_hash g), jstr (''miner'', gu_miner g)]"

definition event_field_type_name :: "event_field_type \<Rightarrow> string" where
  "event_field_type_name t = (case t of FBool \<Rightarrow> ''Bool'' | FI256 \<Rightarrow> ''I256'' | FU256 \<Rightarrow> ''U256''
    | FByteVec \<Rightarrow> ''ByteVec'' | FAddress \<Rightarrow> ''Address'')"

definition json_of_event_field :: "event_field \<Rightarrow> json" where
  "json_of_event_field f = JObject [jstr (''type'', event_field_type_name (ef_type f)), (''value'', ef_value f)]"

section \<open>Models\<close>

record block_model =
  bm_hash :: block_hash
  bm_timestamp :: naive_datetime
  bm_chain_from :: int
  bm_chain_to :: int
  bm_height :: int
  bm_deps :: "string option list"
  bm_nonce :: string
  bm_version :: string
  bm_dep_state_hash :: string
  bm_txs_hash :: string
  bm_tx_number :: int
  bm_target :: string
  bm_main_chain :: bool
  bm_ghost_uncles :: json

definition get_deps :: "block_model \<Rightarrow> block_hash list res" where
  "get_deps b = map_res (unwrap ''called Option::unwrap() on a None value'') (bm_deps b)"

definition block_parent :: "int option \<Rightarrow> block_model \<Rightarrow> block_hash option res" where
  "block_parent group_num b =
    (if bm_height b = 0 then Inr None
     else and_then (get_deps b) (\<lambda>deps.
       let i = wrap_u64 (case group_num of None \<Rightarrow> default_group_num | Some g \<Rightarrow> g) in
       if nat i < length deps then Inr (Some (deps ! nat i)) else Inl (Panic ''index out of bounds'')))"

record event_model =
  evm_id :: string
  evm_tx_id :: string
  evm_contract_address :: string
  evm_event_index :: int
  evm_fields :: json

record transaction_model =
  tm_tx_hash :: string
  tm_unsigned :: json
  tm_script_execution_ok :: bool
  tm_contract_inputs :: json
  tm_generated_outputs :: json
  tm_input_signatures :: "string option list"
  tm_script_signatures :: "string option list"
  tm_block_hash :: "block_hash option"

definition block_model_of :: "date_limits \<Rightarrow> rich_block \<Rightarrow> block_model" where
  "block_model_of L b = \<lparr>bm_hash = rb_hash b,
    bm_timestamp = timestamp_millis_to_naive_datetime L (rb_timestamp b),
    bm_chain_from = rb_chain_from b, bm_chain_to = rb_chain_to b, bm_height = rb_height b,
    bm_deps = List.map Some (rb_deps b), bm_nonce = rb_nonce b, bm_version = string_of_int (rb_version b),
    bm_dep_state_hash = rb_dep_state_hash b, bm_txs_hash = rb_txs_hash b,
    bm_tx_number = int (length (rb_transactions b)), bm_target = rb_target b,
    bm_main_chain = (case rb_main_chain b of None \<Rightarrow> False | Some m \<Rightarrow> m),
    bm_ghost_uncles = JArray (List.map json_of_ghost_uncle (rb_ghost_uncles b))\<rparr>"

definition convert_bwe_to_block_models :: "date_limits \<Rightarrow> block_and_events list \<Rightarrow> block_model list" where
  "convert_bwe_to_block_models L blocks = List.map (\<lambda>be. block_model_of L (bae_block be)) blocks"

definition event_model_of :: "string \<Rightarrow> contract_event \<Rightarrow> event_model" where
  "event_model_of uuid e = \<lparr>evm_id = uuid, evm_tx_id = ce_tx_id e, evm_contract_address = ce_contract_address e,
    evm_event_index = ce_event_index e, evm_fields = JArray (List.map json_of_event_field (ce_fields e))\<rparr>"

text \<open>\<^verbatim>\<open>uuid\<close> is the source of the random identifiers.\<close>

definition convert_bwe_to_event_models :: "(nat \<Rightarrow> string) \<Rightarrow> block_and_events list \<Rightarrow> event_model list" where
  "convert_bwe_to_event_models uuid blocks =
    (let es = concat (List.map bae_events blocks) in
     List.map (\<lambda>(i, e). event_model_of (uuid i) e) (zip [0..<length es] es))"

text \<open>\<^verbatim>\<open>Vec::dedup_by\<close> removes an element whose key is that of the last element kept.\<close>

fun dedup_by :: "('a \<Rightarrow> 'k) \<Rightarrow> 'a list \<Rightarrow> 'a list" where
  "dedup_by key (x # y # xs) = (if key y = key x then dedup_by key (x # xs) else x # dedup_by key (y # xs))"
| "dedup_by key xs = xs"

definition transaction_model_of :: "block_hash \<Rightarrow> chain_tx \<Rightarrow> transaction_model" where
  "transaction_model_of block t = \<lparr>tm_tx_hash = utx_tx_id (tx_unsigned t),
    tm_unsigned = json_of_unsigned (tx_unsigned t), tm_script_execution_ok = tx_script_execution_ok t,
    tm_contract_inputs = JArray (List.map json_of_contract_input (tx_contract_inputs t)),
    tm_generated_outputs = JArray (List.map json_of_output (tx_generated_outputs t)),
    tm_input_signatures = List.map Some (tx_input_signatures t),
    tm_script_signatures = List.map Some (tx_script_signatures t), tm_block_hash = Some block\<rparr>"

definition convert_bwe_to_tx_models :: "block_and_events list \<Rightarrow> transaction_model list" where
  "convert_bwe_to_tx_models blocks =
    concat (List.map (\<lambda>bwe. List.map (transaction_model_of (rb_hash (bae_block bwe)))
      (dedup_by (\<lambda>t. utx_tx_id (tx_unsigned t)) (rb_transactions (bae_block bwe)))) blocks)"

section \<open>Tables\<close>

text \<open>The column \<^verbatim>\<open>main_chain\<close> of a transaction is not part of its model; it starts as \<^verbatim>\<open>FALSE\<close>.\<close>

record tx_row =
  txr_model :: transaction_model
  txr_main_chain :: bool

record chain_db =
  db_blocks :: "block_model table"
  db_events :: "event_model table"
  db_txs :: "tx_row table"

definition empty_chain_db :: chain_db where
  "empty_chain_db = \<lparr>db_blocks = empty_table, db_events = empty_table, db_txs = empty_table\<rparr>"

definition event_key :: "event_model \<Rightarrow> string \<times> int" where
  "event_key e = (evm_tx_id e, evm_event_index e)"

definition tx_row_hash :: "tx_row \<Rightarrow> string" where
  "tx_row_hash r = tm_tx_hash (txr_model r)"

definition row_as_is :: "int \<Rightarrow> 'r \<Rightarrow> 'r" where
  "row_as_is i r = r"

definition mk_tx_row :: "int \<Rightarrow> transaction_model \<Rightarrow> tx_row" where
  "mk_tx_row i m = \<lparr>txr_model = m, txr_main_chain = False\<rparr>"

section \<open>The block repository\<close>

text \<open>A row with a negative height violates \<^verbatim>\<open>height_positive\<close>, and the whole statement fails.\<close>

definition insert_blocks_to_db :: "block_model list \<Rightarrow> ('z chain_db_scheme, error, unit) action" where
  "insert_blocks_to_db block_models db =
    (if block_models = [] then (Inr (), db)
     else if \<exists>b\<in>set block_models. bm_height b < 0 then (Inl (Error ''violates check constraint height_positive''), db)
     else (Inr (), db\<lparr>db_blocks := insert_ignore bm_hash bm_hash row_as_is block_models (db_blocks db)\<rparr>))"

definition get_block_by_hash :: "block_hash \<Rightarrow> 'z chain_db_scheme \<Rightarrow> block_model option" where
  "get_block_by_hash h db = first_of (filter (\<lambda>b. bm_hash b = h) (t_rows (db_blocks db)))"

definition fetch_block_hashes_at_height_filter_one ::
  "int \<Rightarrow> int \<Rightarrow> int \<Rightarrow> block_hash \<Rightarrow> 'z chain_db_scheme \<Rightarrow> block_hash list" where
  "fetch_block_hashes_at_height_filter_one from_group to_group height hash_to_ignore db =
    List.map bm_hash (filter (\<lambda>b. bm_chain_from b = from_group \<and> bm_chain_to b = to_group
      \<and> bm_height b = height \<and> bm_hash b \<noteq> hash_to_ignore) (t_rows (db_blocks db)))"

datatype sort_order = Asc | Desc

definition get_blocks :: "int \<Rightarrow> int \<Rightarrow> sort_order option \<Rightarrow> 'z chain_db_scheme \<Rightarrow> block_model list res" where
  "get_blocks limit offset ord db =
    (case ord of
      Some Desc \<Rightarrow> sql_page offset limit (order_desc bm_height (t_rows (db_blocks db)))
    | _ \<Rightarrow> sql_page offset limit (sort_key bm_height (t_rows (db_blocks db))))"

definition get_block_by_height :: "int \<Rightarrow> 'z chain_db_scheme \<Rightarrow> block_model option" where
  "get_block_by_height height db = first_of (filter (\<lambda>b. bm_height b = height) (t_rows (db_blocks db)))"

definition exists_block :: "block_hash \<Rightarrow> 'z chain_db_scheme \<Rightarrow> bool" where
  "exists_block h db \<longleftrightarrow> first_of (filter (\<lambda>b. bm_hash b = h) (t_rows (db_blocks db))) \<noteq> None"

text \<open>\<^verbatim>\<open>timestamp_millis\<close> of a time rounds towards the past.\<close>

definition timestamp_millis :: "naive_datetime \<Rightarrow> int" where
  "timestamp_millis t = t div 1000000"

definition get_max_block_timestamp :: "'z chain_db_scheme \<Rightarrow> int option" where
  "get_max_block_timestamp db =
    (case t_rows (db_blocks db) of
      [] \<Rightarrow> None
    | b # bs \<Rightarrow> Some (timestamp_millis (fold max (List.map bm_timestamp bs) (bm_timestamp b))))"

definition get_blocks_at_height :: "int \<Rightarrow> 'z chain_db_scheme \<Rightarrow> block_model list" where
  "get_blocks_at_height height db = filter (\<lambda>b. bm_height b = height) (t_rows (db_blocks db))"

definition get_latest_block :: "int \<Rightarrow> int \<Rightarrow> 'z chain_db_scheme \<Rightarrow> block_model option" where
  "get_latest_block from_group to_group db =
    first_of (order_desc bm_height (filter (\<lambda>b. bm_chain_from b = from_group \<and> bm_chain_to b = to_group)
      (t_rows (db_blocks db))))"

section \<open>The event and transaction repositories\<close>

text \<open>
  Events carry two unique constraints, (transaction, contract, index) and (transaction, index); the
  second one decides. Random identifiers are taken to be new.
\<close>

definition insert_events_to_db :: "event_model list \<Rightarrow> ('z chain_db_scheme, error, unit) action" where
  "insert_events_to_db events db =
    (Inr (), db\<lparr>db_events := insert_ignore event_key event_key row_as_is events (db_events db)\<rparr>)"

definition get_events :: "int \<Rightarrow> int \<Rightarrow> 'z chain_db_scheme \<Rightarrow> event_model list res" where
  "get_events limit offset db = sql_page offset limit (t_rows (db_events db))"

definition get_events_by_contract :: "string \<Rightarrow> int \<Rightarrow> int \<Rightarrow> 'z chain_db_scheme \<Rightarrow> event_model list res" where
  "get_events_by_contract contract limit offset db =
    sql_page offset limit (filter (\<lambda>e. evm_contract_address e = contract) (t_rows (db_events db)))"

definition get_events_by_tx :: "string \<Rightarrow> int \<Rightarrow> int \<Rightarrow> 'z chain_db_scheme \<Rightarrow> event_model list res" where
  "get_events_by_tx tx limit offset db =
    sql_page offset limit (filter (\<lambda>e. evm_tx_id e = tx) (t_rows (db_events db)))"

definition insert_txs_to_db :: "transaction_model list \<Rightarrow> ('z chain_db_scheme, error, unit) action" where
  "insert_txs_to_db txs db =
    (Inr (), db\<lparr>db_txs := insert_ignore tm_tx_hash tx_row_hash mk_tx_row txs (db_txs db)\<rparr>)"

definition get_txs :: "int \<Rightarrow> int \<Rightarrow> 'z chain_db_scheme \<Rightarrow> transaction_model list res" where
  "get_txs limit offset db = sql_page offset limit (List.map txr_model (t_rows (db_txs db)))"

definition get_tx_by_hash :: "string \<Rightarrow> 'z chain_db_scheme \<Rightarrow> transaction_model option" where
  "get_tx_by_hash h db = first_of (filter (\<lambda>t. tm_tx_hash t = h) (List.map txr_model (t_rows (db_txs db))))"

definition block_txs :: "block_hash \<Rightarrow> 'z chain_db_scheme \<Rightarrow> transaction_model list" where
  "block_txs h db = filter (\<lambda>t. tm_block_hash t = Some h) (List.map txr_model (t_rows (db_txs db)))"

definition get_txs_by_block :: "block_hash \<Rightarrow> 'z chain_db_scheme \<Rightarrow> transaction_model list res" where
  "get_txs_by_block h db =
    (if exists_block h db then Inr (block_txs h db) else Inl (Error ''Block not found''))"

definition get_block_transactions :: "block_hash \<Rightarrow> 'z chain_db_scheme \<Rightarrow> transaction_model list res" where
  "get_block_transactions h db =
    (case get_block_by_hash h db of
      Some block \<Rightarrow> Inr (block_txs (bm_hash block) db)
    | None \<Rightarrow> Inl (Error (''Block not found: '' @ h)))"

section \<open>The main chain\<close>

definition insert_block_and_events :: "block_model \<Rightarrow> event_model list \<Rightarrow> ('z chain_db_scheme, error, unit) action" where
  "insert_block_and_events block events db =
    (if has_key bm_hash (bm_hash block) (db_blocks db) then (Inl duplicate_key, db)
     else if bm_height block < 0 then (Inl (Error ''violates check constraint height_positive''), db)
     else if \<not> distinct (List.map event_key events) \<or> (\<exists>e\<in>set events. has_key event_key (event_key e) (db_events db))
     then (Inl duplicate_key, db)
     else (Inr (), db\<lparr>db_blocks := append_row row_as_is block (db_blocks db),
       db_events := insert_ignore event_key event_key row_as_is events (db_events db)\<rparr>))"

definition set_main_chain :: "bool \<Rightarrow> block_hash \<Rightarrow> 'z chain_db_scheme \<Rightarrow> 'z chain_db_scheme" where
  "set_main_chain flag h db = db\<lparr>
    db_blocks := (db_blocks db)\<lparr>t_rows := List.map (\<lambda>b. if bm_hash b = h then b\<lparr>bm_main_chain := flag\<rparr> else b)
      (t_rows (db_blocks db))\<rparr>,
    db_txs := (db_txs db)\<lparr>t_rows := List.map (\<lambda>r. if tm_block_hash (txr_model r) = Some h
      then r\<lparr>txr_main_chain := flag\<rparr> else r) (t_rows (db_txs db))\<rparr>\<rparr>"

definition update_main_chain_status :: "block_hash list \<Rightarrow> bool \<Rightarrow> 'z chain_db_scheme \<Rightarrow> 'z chain_db_scheme" where
  "update_main_chain_status block_hashes main_chain db = fold (set_main_chain main_chain) block_hashes db"

text \<open>The loop of \<^verbatim>\<open>update_main_chain\<close>; \<^verbatim>\<open>None\<close> when it does not end.\<close>

partial_function (option) update_main_chain ::
  "block_hash \<Rightarrow> int \<Rightarrow> int \<Rightarrow> int option \<Rightarrow> 'z chain_db_scheme \<Rightarrow> (block_hash res \<times> 'z chain_db_scheme) option" where
  "update_main_chain current_hash chain_from chain_to group_num db =
    (case get_block_by_hash current_hash db of
      None \<Rightarrow> Some (Inr current_hash, db)
    | Some block \<Rightarrow>
        if \<not> bm_main_chain block \<and> \<not> (bm_chain_from block = chain_from \<and> bm_chain_to block = chain_to)
        then Some (Inl (Panic ''assertion failed: left == right''), db)
        else (let block_hashes = fetch_block_hashes_at_height_filter_one (bm_chain_from block)
                  (bm_chain_to block) (bm_height block) (bm_hash block) db;
                db1 = update_main_chain_status block_hashes False db;
                db2 = update_main_chain_status [current_hash] True db1
              in case block_parent group_num block of
                Inl e \<Rightarrow> Some (Inl e, db2)
              | Inr None \<Rightarrow> Some (Inl (Panic ''called Option::unwrap() on a None value''), db2)
              | Inr (Some p) \<Rightarrow> update_main_chain p chain_from chain_to group_num db2))"

end
