(* ===== verification/Block_Store_Laws.thy ===== *)
theory Block_Store_Laws
  imports Block_Store
begin

text \<open>
  What the generic store promises: a batch can be stored again without changing anything, a block is
  read back as it was first stored, only the first event of an index survives in a transaction, and
  \<^verbatim>\<open>update_main_chain\<close> leaves one main chain behind.
\<close>

interpretation blocks: keyed_table bm_hash bm_hash row_as_is
  by unfold_locales (simp add: row_as_is_def)

interpretation events: keyed_table event_key event_key row_as_is
  by unfold_locales (simp add: row_as_is_def)

interpretation txs: keyed_table tm_tx_hash tx_row_hash mk_tx_row
  by unfold_locales (simp add: mk_tx_row_def tx_row_hash_def)

lemma get_block_lookup: "get_block_by_hash h db = lookup bm_hash h (db_blocks db)"
  by (simp add: get_block_by_hash_def lookup_def find_eq_first_of)

lemma get_tx_lookup: "get_tx_by_hash h db = map_option txr_model (lookup tx_row_hash h (db_txs db))"
  by (simp add: get_tx_by_hash_def lookup_def find_eq_first_of filter_map first_of_map o_def tx_row_hash_def)

lemma get_block_in: "get_block_by_hash h db = Some b \<Longrightarrow> b \<in> set (t_rows (db_blocks db)) \<and> bm_hash b = h"
  unfolding get_block_lookup by (rule lookup_Some_in)

section \<open>Storing batches\<close>

lemma find_map_opt: "List.find P (List.map f xs) = map_option f (List.find (\<lambda>x. P (f x)) xs)"
  by (induction xs) auto

lemma block_model_hash [simp]: "bm_hash (block_model_of L b) = rb_hash b"
  "bm_height (block_model_of L b) = rb_height b"
  by (simp_all add: block_model_of_def)

text \<open>
  Storing the blocks of a batch never loses or alters one: afterwards a hash reads back as the block that
  was stored under it before, or else as the first block of the batch with that hash; and storing the
  batch again, as the overlapping ranges of the synchronisation do, changes no row.
\<close>
theorem blocks_readback:
  assumes "\<forall>be\<in>set batch. 0 \<le> rb_height (bae_block be)"
  shows "\<exists>db1 db2. insert_blocks_to_db (convert_bwe_to_block_models L batch) db = (Inr (), db1) \<and>
    insert_blocks_to_db (convert_bwe_to_block_models L batch) db1 = (Inr (), db2) \<and>
    t_rows (db_blocks db2) = t_rows (db_blocks db1) \<and>
    (\<forall>h. get_block_by_hash h db1 = (case get_block_by_hash h db of
        Some b \<Rightarrow> Some b
      | None \<Rightarrow> map_option (\<lambda>be. block_model_of L (bae_block be))
          (List.find (\<lambda>be. rb_hash (bae_block be) = h) batch)))"
proof -
  let ?ms = "convert_bwe_to_block_models L batch"
  let ?store = "\<lambda>db. db\<lparr>db_blocks := insert_ignore bm_hash bm_hash row_as_is ?ms (db_blocks db)\<rparr>"
  have ok: "insert_blocks_to_db ?ms db' = (Inr (), ?store db')" for db'
    using assms by (auto simp: insert_blocks_to_db_def convert_bwe_to_block_models_def insert_ignore_def)
  have "lookup bm_hash h (db_blocks (?store db)) = (case lookup bm_hash h (db_blocks db) of
      Some b \<Rightarrow> Some b | None \<Rightarrow> List.find (\<lambda>m. bm_hash m = h) ?ms)" for h
    using blocks.ignore_lookup_exact [of "\<lambda>b. b" "\<lambda>b. b" h ?ms "db_blocks db"]
    by (simp add: row_as_is_def option.map_ident split: option.splits)
  then have "get_block_by_hash h (?store db) = (case get_block_by_hash h db of
        Some b \<Rightarrow> Some b
      | None \<Rightarrow> map_option (\<lambda>be. block_model_of L (bae_block be))
          (List.find (\<lambda>be. rb_hash (bae_block be) = h) batch))" for h
    by (simp add: get_block_lookup convert_bwe_to_block_models_def find_map_opt o_def split: option.splits)
  moreover have "t_rows (db_blocks (?store (?store db))) = t_rows (db_blocks (?store db))"
    by (simp add: blocks.ignore_idem)
  ultimately show ?thesis
    using ok by blast
qed

definition plain_block :: "block_hash \<Rightarrow> int \<Rightarrow> rich_block" where
  "plain_block h height = \<lparr>rb_hash = h, rb_timestamp = 0, rb_chain_from = 0, rb_chain_to = 0,
    rb_height = height, rb_deps = [], rb_transactions = [], rb_nonce = [], rb_version = 0,
    rb_dep_state_hash = [], rb_txs_hash = [], rb_target = [], rb_ghost_uncles = [], rb_parent = None,
    rb_main_chain = None\<rparr>"

theorem blocks_readback_witness:
  "\<exists>db1. insert_blocks_to_db (convert_bwe_to_block_models \<lparr>date_min = 0, date_max = 9\<rparr>
      [\<lparr>bae_block = plain_block ''a'' 7, bae_events = []\<rparr>]) empty_chain_db = (Inr (), db1) \<and>
    get_block_by_hash ''a'' db1 = Some (block_model_of \<lparr>date_min = 0, date_max = 9\<rparr> (plain_block ''a'' 7))"
  using blocks_readback [of "[\<lparr>bae_block = plain_block ''a'' 7, bae_events = []\<rparr>]" "\<lparr>date_min = 0, date_max = 9\<rparr>" empty_chain_db]
  by (auto simp: plain_block_def get_block_by_hash_def empty_chain_db_def)

text \<open>
  Of the events of one transaction with one index only the first is ever stored, whatever its
  contract and fields: the events read for the pair are those stored before, or else just the first of the batch.
\<close>
theorem events_first_per_index:
  "\<exists>db'. insert_events_to_db (convert_bwe_to_event_models uuid batch) db = (Inr (), db') \<and>
    filter (\<lambda>e. event_key e = k) (t_rows (db_events db')) =
      (if filter (\<lambda>e. event_key e = k) (t_rows (db_events db)) \<noteq> []
       then filter (\<lambda>e. event_key e = k) (t_rows (db_events db))
       else take 1 (filter (\<lambda>e. event_key e = k) (convert_bwe_to_event_models uuid batch)))"
proof -
  let ?es = "convert_bwe_to_event_models uuid batch"
  have "filter (\<lambda>e. event_key e = k) (t_rows (insert_ignore event_key event_key row_as_is ?es (db_events db))) =
      (if has_key event_key k (db_events db) then filter (\<lambda>e. event_key e = k) (t_rows (db_events db))
       else take 1 (filter (\<lambda>e. event_key e = k) ?es))"
    using events.ignore_filter [of "\<lambda>e. e" "\<lambda>e. e" k ?es "db_events db"]
    by (simp add: row_as_is_def)
  then show ?thesis
    by (auto simp: insert_events_to_db_def has_key_def filter_empty_conv)
qed

section \<open>The main chain\<close>

inductive ancestor :: "int option \<Rightarrow> 'z chain_db_scheme \<Rightarrow> block_hash \<Rightarrow> block_hash \<Rightarrow> bool"
  for g :: "int option" and db :: "'z chain_db_scheme" where
  here: "get_block_by_hash h db = Some b \<Longrightarrow> ancestor g db h h"
| up: "get_block_by_hash h db = Some b \<Longrightarrow> block_parent g b = Inr (Some p) \<Longrightarrow> ancestor g db p k
    \<Longrightarrow> ancestor g db h k"

inductive_simps ancestor_iff: "ancestor g db h k"

text \<open>Every parent that is stored lies below its child.\<close>

definition parents_lower :: "int option \<Rightarrow> 'z chain_db_scheme \<Rightarrow> bool" where
  "parents_lower g db \<longleftrightarrow> keys_unique bm_hash (db_blocks db) \<and>
    (\<forall>b\<in>set (t_rows (db_blocks db)). 0 \<le> bm_height b \<and>
      (\<forall>p c. block_parent g b = Inr (Some p) \<longrightarrow> get_block_by_hash p db = Some c \<longrightarrow> bm_height c < bm_height b))"

definition same_place :: "block_model \<Rightarrow> block_model \<Rightarrow> bool" where
  "same_place b c \<longleftrightarrow> bm_chain_from b = bm_chain_from c \<and> bm_chain_to b = bm_chain_to c \<and> bm_height b = bm_height c"

text \<open>The flag of a block after following the parents from \<^verbatim>\<open>h\<close>.\<close>

definition flagged :: "int option \<Rightarrow> 'z chain_db_scheme \<Rightarrow> block_hash \<Rightarrow> block_model \<Rightarrow> block_model" where
  "flagged g db h b = b\<lparr>bm_main_chain := ancestor g db h (bm_hash b) \<or>
    (bm_main_chain b \<and> \<not> (\<exists>k c. ancestor g db h k \<and> get_block_by_hash k db = Some c \<and> same_place c b))\<rparr>"

definition set_flag :: "(block_model \<Rightarrow> bool) \<Rightarrow> block_model \<Rightarrow> block_model" where
  "set_flag f b = b\<lparr>bm_main_chain := f b\<rparr>"

lemma set_flag_sel [simp]: "bm_hash (set_flag f b) = bm_hash b" "bm_height (set_flag f b) = bm_height b"
  "bm_chain_from (set_flag f b) = bm_chain_from b" "bm_chain_to (set_flag f b) = bm_chain_to b"
  "block_parent g (set_flag f b) = block_parent g b" "bm_main_chain (set_flag f b) = f b"
  by (simp_all add: set_flag_def block_parent_def get_deps_def)

lemma get_block_set_flag:
  assumes "t_rows (db_blocks db') = List.map (set_flag f) (t_rows (db_blocks db))"
  shows "get_block_by_hash h db' = map_option (set_flag f) (get_block_by_hash h db)"
  by (simp add: get_block_by_hash_def assms filter_map o_def first_of_map)

lemma ancestor_mono:
  assumes "ancestor g db h k" "\<And>h b. get_block_by_hash h db = Some b \<Longrightarrow>
    \<exists>c. get_block_by_hash h db' = Some c \<and> block_parent g c = block_parent g b"
  shows "ancestor g db' h k"
  using assms(1)
proof induction
  case (here h b)
  then show ?case using assms(2) [OF here] ancestor.here by blast
next
  case (up h b p k)
  then show ?case using assms(2) [OF up(1)] ancestor.up by metis
qed

lemma ancestor_set_flag:
  assumes "t_rows (db_blocks db') = List.map (set_flag f) (t_rows (db_blocks db))"
  shows "ancestor g db' = ancestor g db"
proof (intro ext iffI)
  fix h k
  show "ancestor g db h k \<Longrightarrow> ancestor g db' h k"
    by (erule ancestor_mono) (simp add: get_block_set_flag [OF assms])
  show "ancestor g db' h k \<Longrightarrow> ancestor g db h k"
    by (erule ancestor_mono) (auto simp: get_block_set_flag [OF assms])
qed

lemma parents_lower_set_flag:
  assumes "t_rows (db_blocks db') = List.map (set_flag f) (t_rows (db_blocks db))" "parents_lower g db"
  shows "parents_lower g db'"
  using assms(2) unfolding parents_lower_def
  by (auto simp: get_block_set_flag [OF assms(1)] assms(1) keys_unique_def o_def)

lemma ancestor_height:
  assumes "ancestor g db h k" "parents_lower g db" "get_block_by_hash h db = Some b" "get_block_by_hash k db = Some c"
  shows "bm_height c \<le> bm_height b"
  using assms
proof (induction arbitrary: b)
  case (up h b p k)
  then obtain d where d: "get_block_by_hash p db = Some d"
    by (auto elim: ancestor.cases)
  have "bm_height d < bm_height b"
    using up.prems(1,2) get_block_in [OF up.hyps(1)] up.hyps(1,2) d by (simp add: parents_lower_def)
  with up.IH [OF up.prems(1) d up.prems(3)] up.hyps(1) up.prems(2) show ?case by simp
qed simp

lemma update_status_rows:
  "t_rows (db_blocks (update_main_chain_status hs flag db)) =
    List.map (set_flag (\<lambda>b. if bm_hash b \<in> set hs then flag else bm_main_chain b)) (t_rows (db_blocks db))"
  unfolding update_main_chain_status_def
proof (induction hs arbitrary: db)
  case Nil
  then show ?case by (simp add: set_flag_def)
next
  case (Cons h hs)
  then show ?case
    by (simp add: set_main_chain_def set_flag_def)
qed

definition step_flag :: "'z chain_db_scheme \<Rightarrow> block_model \<Rightarrow> block_model \<Rightarrow> bool" where
  "step_flag db block b = (bm_hash b = bm_hash block \<or> bm_main_chain b \<and> \<not> same_place block b)"

lemma step_rows:
  assumes "hs = fetch_block_hashes_at_height_filter_one (bm_chain_from block) (bm_chain_to block)
      (bm_height block) (bm_hash block) db"
    and "keys_unique bm_hash (db_blocks db)"
  shows "t_rows (db_blocks (update_main_chain_status [bm_hash block] True (update_main_chain_status hs False db)))
    = List.map (set_flag (step_flag db block)) (t_rows (db_blocks db))"
proof -
  have inj: "inj_on bm_hash (set (t_rows (db_blocks db)))"
    using assms(2) by (simp add: keys_unique_def distinct_map)
  have hs: "set hs = bm_hash ` {b \<in> set (t_rows (db_blocks db)). same_place block b \<and> bm_hash b \<noteq> bm_hash block}"
    unfolding assms(1) fetch_block_hashes_at_height_filter_one_def same_place_def by auto
  have "bm_hash b \<in> set hs \<longleftrightarrow> same_place block b \<and> bm_hash b \<noteq> bm_hash block"
    if "b \<in> set (t_rows (db_blocks db))" for b
    using that inj_on_image_mem_iff [OF inj that] unfolding hs by simp
  then show ?thesis
    by (auto simp: update_status_rows set_flag_def step_flag_def)
qed

lemma flagged_set_flag:
  assumes "t_rows (db_blocks db') = List.map (set_flag f) (t_rows (db_blocks db))"
  shows "flagged g db' p (set_flag f b) = b\<lparr>bm_main_chain := ancestor g db p (bm_hash b) \<or>
    (f b \<and> \<not> (\<exists>k c. ancestor g db p k \<and> get_block_by_hash k db = Some c \<and> same_place c b))\<rparr>"
proof -
  have "(\<exists>k c. ancestor g db p k \<and> get_block_by_hash k db' = Some c \<and> same_place c (set_flag f b)) \<longleftrightarrow>
      (\<exists>k c. ancestor g db p k \<and> get_block_by_hash k db = Some c \<and> same_place c b)"
    by (auto simp: get_block_set_flag [OF assms] same_place_def)
  then show ?thesis
    unfolding flagged_def ancestor_set_flag [OF assms] by (simp add: set_flag_def)
qed

lemma flagged_step:
  assumes g: "get_block_by_hash h db = Some block" and pl: "parents_lower g db"
    and par: "block_parent g block = Inr (Some p)"
    and rows: "t_rows (db_blocks db') = List.map (set_flag (step_flag db block)) (t_rows (db_blocks db))"
  shows "List.map (flagged g db' p) (t_rows (db_blocks db')) = List.map (flagged g db h) (t_rows (db_blocks db))"
proof -
  have anc: "ancestor g db h k \<longleftrightarrow> k = h \<or> ancestor g db p k" for k
    using g par by (subst ancestor_iff) auto
  have low: "bm_height c < bm_height block" if a: "ancestor g db p k" "get_block_by_hash k db = Some c" for k c
  proof -
    obtain d where d: "get_block_by_hash p db = Some d"
      using a(1) by (auto simp: ancestor_iff [of g db p k])
    with pl par get_block_in [OF g] have "bm_height d < bm_height block"
      by (auto simp: parents_lower_def)
    with ancestor_height [OF a(1) pl d a(2)] show ?thesis by simp
  qed
  have hash: "bm_hash block = h" and inb: "block \<in> set (t_rows (db_blocks db))"
    using get_block_in [OF g] by simp_all
  have "flagged g db' p (set_flag (step_flag db block) b) = flagged g db h b"
    if b: "b \<in> set (t_rows (db_blocks db))" for b
  proof -
    let ?place = "\<lambda>x. \<exists>k c. ancestor g db x k \<and> get_block_by_hash k db = Some c \<and> same_place c b"
    have place: "?place h \<longleftrightarrow> same_place block b \<or> ?place p"
      using g by (auto simp: anc)
    have same: "bm_hash b = h \<Longrightarrow> b = block"
      using pl b inb hash by (auto simp: parents_lower_def keys_unique_def dest: distinct_map_unique)
    have top: "\<not> ?place p" if "bm_hash b = h"
      using low same [OF that] by (force simp: same_place_def)
    have "(ancestor g db p (bm_hash b) \<or> step_flag db block b \<and> \<not> ?place p)
        = (ancestor g db h (bm_hash b) \<or> bm_main_chain b \<and> \<not> ?place h)"
      using top place anc [of "bm_hash b"] unfolding step_flag_def hash by blast
    then show ?thesis
      unfolding flagged_set_flag [OF rows] by (simp add: flagged_def)
  qed
  then show ?thesis
    unfolding rows by simp
qed

lemma unwrap_all_panics: "map_res (unwrap m) xs = Inl e \<Longrightarrow> e = Panic m"
proof (induction xs)
  case (Cons x xs)
  then show ?case by (cases x; cases "map_res (unwrap m) xs") auto
qed simp

lemma block_parent_panics: "block_parent g b = Inl e \<Longrightarrow> \<exists>m. e = Panic m"
  by (cases "get_deps b")
    (auto simp: block_parent_def Let_def get_deps_def dest: unwrap_all_panics split: if_splits)

lemma update_main_chain_spec:
  assumes "parents_lower g db"
  shows "\<exists>r db'. update_main_chain h cf ct g db = Some (r, db') \<and>
    (\<forall>e. r = Inr e \<longrightarrow> get_block_by_hash e db = None \<and>
      t_rows (db_blocks db') = List.map (flagged g db h) (t_rows (db_blocks db))) \<and>
    ((\<exists>k c. ancestor g db h k \<and> get_block_by_hash k db = Some c \<and> bm_height c = 0) \<longrightarrow> (\<exists>m. r = Inl (Panic m)))"
  using assms
proof (induction "case get_block_by_hash h db of None \<Rightarrow> 0 | Some b \<Rightarrow> Suc (nat (bm_height b))"
    arbitrary: h db rule: less_induct)
  case less
  show ?case
  proof (cases "get_block_by_hash h db")
    case None
    then have no: "\<not> ancestor g db h k" for k
      by (subst ancestor_iff) simp
    have "List.map (flagged g db h) (t_rows (db_blocks db)) = t_rows (db_blocks db)"
      by (rule map_idI) (simp add: flagged_def no)
    with None no show ?thesis
      by (subst update_main_chain.simps) simp
  next
    case (Some block)
    let ?db1 = "update_main_chain_status (fetch_block_hashes_at_height_filter_one (bm_chain_from block)
        (bm_chain_to block) (bm_height block) (bm_hash block) db) False db"
    let ?db2 = "update_main_chain_status [h] True ?db1"
    have hash: "bm_hash block = h" using get_block_in [OF Some] by simp
    have rows: "t_rows (db_blocks ?db2) = List.map (set_flag (step_flag db block)) (t_rows (db_blocks db))"
      using step_rows [OF refl, of db block] less.prems by (simp add: parents_lower_def hash)
    have unfold: "update_main_chain h cf ct g db =
        (if \<not> bm_main_chain block \<and> \<not> (bm_chain_from block = cf \<and> bm_chain_to block = ct)
         then Some (Inl (Panic ''assertion failed: left == right''), db)
         else case block_parent g block of Inl e \<Rightarrow> Some (Inl e, ?db2)
            | Inr None \<Rightarrow> Some (Inl (Panic ''called Option::unwrap() on a None value''), ?db2)
            | Inr (Some p) \<Rightarrow> update_main_chain p cf ct g ?db2)"
      unfolding update_main_chain.simps [of h cf ct g db] by (simp only: Some option.case Let_def)
    show ?thesis
    proof (cases "\<exists>p. block_parent g block = Inr (Some p) \<and> \<not> (\<not> bm_main_chain block \<and> \<not> (bm_chain_from block = cf \<and> bm_chain_to block = ct))")
      case True
      then obtain p where par: "block_parent g block = Inr (Some p)"
        and eq: "update_main_chain h cf ct g db = update_main_chain p cf ct g ?db2"
        unfolding unfold by auto
      have h0: "bm_height block \<noteq> 0" using par by (auto simp: block_parent_def)
      have pl2: "parents_lower g ?db2" by (rule parents_lower_set_flag [OF rows less.prems])
      have anc: "ancestor g db h k \<longleftrightarrow> k = h \<or> ancestor g db p k" for k
        using Some par by (subst ancestor_iff) auto
      have small: "(case get_block_by_hash p ?db2 of None \<Rightarrow> 0 | Some b \<Rightarrow> Suc (nat (bm_height b)))
          < (case get_block_by_hash h db of None \<Rightarrow> 0 | Some b \<Rightarrow> Suc (nat (bm_height b)))"
      proof (cases "get_block_by_hash p db")
        case (Some c)
        have "0 \<le> bm_height c" "bm_height c < bm_height block"
          using less.prems get_block_in [OF Some] get_block_in [OF \<open>get_block_by_hash h db = Some block\<close>] par Some
          by (auto simp: parents_lower_def)
        then show ?thesis
          by (simp add: get_block_set_flag [OF rows] Some \<open>get_block_by_hash h db = Some block\<close>)
      qed (simp add: get_block_set_flag [OF rows] Some)
      from less.hyps [OF small pl2] show ?thesis
        unfolding eq flagged_step [OF Some less.prems par rows] ancestor_set_flag [OF rows]
        using Some h0 by (fastforce simp: get_block_set_flag [OF rows] anc)
    next
      case False
      have "\<exists>m db'. update_main_chain h cf ct g db = Some (Inl (Panic m), db')"
        using False unfolding unfold
        using block_parent_panics [of g block]
        by (cases "block_parent g block") (auto split: option.splits if_splits)
      then show ?thesis by auto
    qed
  qed
qed

text \<open>
  C35: When stored parents lie below their children, following the parents always ends. A call that
  returns has made every ancestor of the given block a main-chain block, has cleared the flag of every other
  block beside one of them, and has changed no other flag; its result is the first hash that is not stored.
  But a call that reaches a block of height 0 always panics, for lack of a parent.
\<close>
theorem update_main_chain_flags:
  assumes "parents_lower g db"
  shows "\<exists>r db'. update_main_chain h cf ct g db = Some (r, db') \<and>
    (\<forall>e. r = Inr e \<longrightarrow> get_block_by_hash e db = None \<and>
      t_rows (db_blocks db') = List.map (flagged g db h) (t_rows (db_blocks db))) \<and>
    ((\<exists>k c. ancestor g db h k \<and> get_block_by_hash k db = Some c \<and> bm_height c = 0) \<longrightarrow> (\<exists>m. r = Inl (Panic m)))"
  by (rule update_main_chain_spec [OF assms])

definition example_chain :: chain_db where
  "example_chain = empty_chain_db\<lparr>db_blocks := \<lparr>t_rows =
    [block_model_of \<lparr>date_min = 0, date_max = 9\<rparr> ((plain_block ''b'' 5)\<lparr>rb_deps := [''a'']\<rparr>),
     (block_model_of \<lparr>date_min = 0, date_max = 9\<rparr> ((plain_block ''c'' 5)\<lparr>rb_deps := [''a'']\<rparr>))\<lparr>bm_main_chain := True\<rparr>],
    t_next = 1\<rparr>\<rparr>"

theorem update_main_chain_flags_witness:
  "parents_lower (Some 0) example_chain \<and>
    (\<exists>r db'. update_main_chain ''b'' 0 0 (Some 0) example_chain = Some (r, db'))"
proof -
  have pl: "parents_lower (Some 0) example_chain"
    by (simp add: parents_lower_def example_chain_def keys_unique_def block_model_of_def plain_block_def
        block_parent_def get_deps_def wrap_u64_def get_block_by_hash_def)
  with update_main_chain_flags [OF pl, of "''b''" 0 0] show ?thesis by blast
qed

end
