(* ===== verification/Pipeline.thy ===== *)
theory Pipeline
  imports Chain_Types Transitions
begin

text \<open>
  The two-stage pipeline of a processor (\<^verbatim>\<open>bento-core/src/workers/stage.rs\<close>, \<^verbatim>\<open>pipeline.rs\<close>):
  the stages, the concurrent run of the processing and the storage task over bounded channels as a step relation,
  and a sequential specification. Every schedule is shown to end like the sequential run,
  and to end at all exactly when the batches fit into the first channel.
\<close>

section \<open>Processors and stages\<close>

record ('o, 'db) processor =
  pr_name :: string
  pr_process_blocks :: "block_and_events list \<Rightarrow> 'db \<Rightarrow> 'o res"
  pr_store_output :: "'o \<Rightarrow> ('db, error, unit) action"

datatype 'o stage_message =
    RangeMsg block_range
  | BatchMsg block_batch
  | ProcessedMsg 'o
  | CompleteMsg

text \<open>Processing a batch may read the database (a processor keeps its connection pool).\<close>

fun processor_stage_handle :: "('o, 'db) processor \<Rightarrow> 'o stage_message \<Rightarrow> 'db \<Rightarrow> 'o stage_message res" where
  "processor_stage_handle P (BatchMsg batch) db =
    and_then (pr_process_blocks P (batch_blocks batch) db) (\<lambda>output. Inr (ProcessedMsg output))"
| "processor_stage_handle P msg db = Inr msg"

fun storage_stage_handle :: "('o, 'db) processor \<Rightarrow> 'o stage_message \<Rightarrow> ('db, error, 'o stage_message) action" where
  "storage_stage_handle P (ProcessedMsg output) db =
    (case pr_store_output P output db of (Inl e, db') \<Rightarrow> (Inl e, db') | (Inr _, db') \<Rightarrow> (Inr CompleteMsg, db'))"
| "storage_stage_handle P msg db = (Inr msg, db)"

section \<open>The run of a pipeline\<close>

definition channel_capacity :: nat where
  "channel_capacity = 100"

datatype task = Running | Ended "unit res"

text \<open>
  \<^verbatim>\<open>pp_feed\<close> holds the batches that \<^verbatim>\<open>run\<close> has still to send; the tasks exist once
  \<^verbatim>\<open>pp_spawned\<close>. \<^verbatim>\<open>pp_held\<close> is an output that the processing task has computed and not sent yet.
\<close>

record ('o, 'db) pipe =
  pp_feed :: "block_batch list"
  pp_in :: "block_batch list"
  pp_held :: "'o option"
  pp_out :: "'o list"
  pp_spawned :: bool
  pp_process :: task
  pp_storage :: task
  pp_db :: 'db

definition pipe_init :: "block_batch list \<Rightarrow> 'db \<Rightarrow> ('o, 'db) pipe" where
  "pipe_init batches db = \<lparr>pp_feed = batches, pp_in = [], pp_held = None, pp_out = [], pp_spawned = False,
    pp_process = Running, pp_storage = Running, pp_db = db\<rparr>"

definition channel_closed :: error where
  "channel_closed = Error ''channel closed''"

inductive pipe_step :: "('o, 'db) processor \<Rightarrow> ('o, 'db) pipe \<Rightarrow> ('o, 'db) pipe \<Rightarrow> bool" for P where
  feed: "\<not> pp_spawned s \<Longrightarrow> pp_feed s = b # bs \<Longrightarrow> length (pp_in s) < channel_capacity \<Longrightarrow>
    pipe_step P s (s\<lparr>pp_feed := bs, pp_in := pp_in s @ [b]\<rparr>)"
| spawn: "\<not> pp_spawned s \<Longrightarrow> pp_feed s = [] \<Longrightarrow> pipe_step P s (s\<lparr>pp_spawned := True\<rparr>)"
| handle: "pp_spawned s \<Longrightarrow> pp_process s = Running \<Longrightarrow> pp_held s = None \<Longrightarrow> pp_in s = b # bs \<Longrightarrow>
    processor_stage_handle P (BatchMsg b) (pp_db s) = Inr (ProcessedMsg output) \<Longrightarrow>
    pipe_step P s (s\<lparr>pp_in := bs, pp_held := Some output\<rparr>)"
| handle_error: "pp_spawned s \<Longrightarrow> pp_process s = Running \<Longrightarrow> pp_held s = None \<Longrightarrow> pp_in s = b # bs \<Longrightarrow>
    processor_stage_handle P (BatchMsg b) (pp_db s) = Inl e \<Longrightarrow>
    pipe_step P s (s\<lparr>pp_in := bs, pp_process := Ended (Inl e)\<rparr>)"
| send: "pp_process s = Running \<Longrightarrow> pp_held s = Some output \<Longrightarrow> pp_storage s = Running \<Longrightarrow>
    length (pp_out s) < channel_capacity \<Longrightarrow>
    pipe_step P s (s\<lparr>pp_held := None, pp_out := pp_out s @ [output]\<rparr>)"
| send_closed: "pp_process s = Running \<Longrightarrow> pp_held s = Some output \<Longrightarrow> pp_storage s \<noteq> Running \<Longrightarrow>
    pipe_step P s (s\<lparr>pp_held := None, pp_process := Ended (Inl channel_closed)\<rparr>)"
| finish_process: "pp_spawned s \<Longrightarrow> pp_process s = Running \<Longrightarrow> pp_held s = None \<Longrightarrow> pp_in s = [] \<Longrightarrow>
    pipe_step P s (s\<lparr>pp_process := Ended (Inr ())\<rparr>)"
| store: "pp_spawned s \<Longrightarrow> pp_storage s = Running \<Longrightarrow> pp_out s = output # outs \<Longrightarrow>
    storage_stage_handle P (ProcessedMsg output) (pp_db s) = (Inr msg, db') \<Longrightarrow>
    pipe_step P s (s\<lparr>pp_out := outs, pp_db := db'\<rparr>)"
| store_error: "pp_spawned s \<Longrightarrow> pp_storage s = Running \<Longrightarrow> pp_out s = output # outs \<Longrightarrow>
    storage_stage_handle P (ProcessedMsg output) (pp_db s) = (Inl e, db') \<Longrightarrow>
    pipe_step P s (s\<lparr>pp_out := [], pp_db := db', pp_storage := Ended (Inl e)\<rparr>)"
| finish_storage: "pp_spawned s \<Longrightarrow> pp_storage s = Running \<Longrightarrow> pp_out s = [] \<Longrightarrow> pp_process s \<noteq> Running \<Longrightarrow>
    pipe_step P s (s\<lparr>pp_storage := Ended (Inr ())\<rparr>)"

inductive_cases pipe_stepE: "pipe_step P s t"

definition pipe_reach :: "('o, 'db) processor \<Rightarrow> block_batch list \<Rightarrow> 'db \<Rightarrow> ('o, 'db) pipe \<Rightarrow> bool" where
  "pipe_reach P batches db s \<longleftrightarrow> (pipe_step P)\<^sup>*\<^sup>* (pipe_init batches db) s"

text \<open>
  \<^verbatim>\<open>process_result??; storage_result??\<close>: a panic of a task arrives as an error (whose text, with the
  number of the task, is not modelled).
\<close>

fun joined :: "unit res \<Rightarrow> unit res" where
  "joined (Inl (Panic m)) = Inl (Error (''task panicked: '' @ m))"
| "joined r = r"

definition pipe_result :: "('o, 'db) pipe \<Rightarrow> unit res option" where
  "pipe_result s = (case (pp_process s, pp_storage s) of
      (Ended r1, Ended r2) \<Rightarrow> Some (and_then (joined r1) (\<lambda>_. joined r2))
    | _ \<Rightarrow> None)"

section \<open>The sequential specification\<close>

text \<open>Each batch is processed and stored before the next one; the first failure ends the run.\<close>

fun pipeline_seq :: "('o, 'db) processor \<Rightarrow> block_batch list \<Rightarrow> ('db, error, unit) action" where
  "pipeline_seq P [] db = (Inr (), db)"
| "pipeline_seq P (b # bs) db =
    (case pr_process_blocks P (batch_blocks b) db of
      Inl e \<Rightarrow> (Inl e, db)
    | Inr output \<Rightarrow>
        (case pr_store_output P output db of
          (Inl e, db') \<Rightarrow> (Inl e, db')
        | (Inr _, db') \<Rightarrow> pipeline_seq P bs db'))"

text \<open>What \<^verbatim>\<open>Pipeline::run\<close> comes to; \<^verbatim>\<open>None\<close> when it never returns.\<close>

definition pipeline_run :: "('o, 'db) processor \<Rightarrow> block_batch list \<Rightarrow> 'db \<Rightarrow> (unit res \<times> 'db) option" where
  "pipeline_run P batches db =
    (if length batches > channel_capacity then None
     else Some (case pipeline_seq P batches db of (r, db') \<Rightarrow> (joined r, db')))"

section \<open>Safety: every schedule agrees with the sequential run\<close>

fun store_all :: "('o, 'db) processor \<Rightarrow> 'o list \<Rightarrow> ('db, error, unit) action" where
  "store_all P [] db = (Inr (), db)"
| "store_all P (output # outs) db =
    (case pr_store_output P output db of (Inl e, db') \<Rightarrow> (Inl e, db') | (Inr _, db') \<Rightarrow> store_all P outs db')"

definition held_list :: "('o, 'db) pipe \<Rightarrow> 'o list" where
  "held_list s = (case pp_held s of None \<Rightarrow> [] | Some h \<Rightarrow> [h])"

text \<open>What a sequential continuation of a state would come to.\<close>

definition cont_of ::
  "('o, 'db) processor \<Rightarrow> task \<Rightarrow> 'o list \<Rightarrow> task \<Rightarrow> block_batch list \<Rightarrow> ('db, error, unit) action" where
  "cont_of P storage outs process batches = (case storage of
      Ended (Inl e) \<Rightarrow> (\<lambda>db. (Inl e, db))
    | _ \<Rightarrow> bind_act (store_all P outs) (\<lambda>_. case process of
          Ended r \<Rightarrow> (\<lambda>db. (r, db))
        | Running \<Rightarrow> pipeline_seq P batches))"

definition cont :: "('o, 'db) processor \<Rightarrow> ('o, 'db) pipe \<Rightarrow> unit res \<times> 'db" where
  "cont P s = cont_of P (pp_storage s) (pp_out s @ held_list s) (pp_process s) (pp_in s @ pp_feed s) (pp_db s)"

lemma store_all_one: "store_all P (res # outs) db = bind_act (pr_store_output P res) (\<lambda>_. store_all P outs) db"
  by (simp add: bind_act_def split: sum.split prod.split)

lemma store_all_append:
  "store_all P (xs @ ys) db = bind_act (store_all P xs) (\<lambda>_. store_all P ys) db"
  by (induction xs arbitrary: db) (auto simp: bind_act_def split: sum.split prod.split)

lemma bind_act_assoc: "bind_act (bind_act m f) g = bind_act m (\<lambda>x. bind_act (f x) g)"
  by (rule ext) (simp add: bind_act_def split: sum.split prod.split)

definition pipe_inv :: "block_batch list \<Rightarrow> ('o, 'db) pipe \<Rightarrow> bool" where
  "pipe_inv batches s \<longleftrightarrow>
    (\<not> pp_spawned s \<longrightarrow> pp_in s @ pp_feed s = batches \<and> pp_held s = None \<and> pp_out s = []
      \<and> pp_process s = Running \<and> pp_storage s = Running) \<and>
    (pp_spawned s \<longrightarrow> pp_feed s = [] \<and> length batches \<le> channel_capacity) \<and>
    length (pp_in s) \<le> channel_capacity \<and>
    (pp_storage s = Ended (Inr ()) \<longrightarrow> pp_process s \<noteq> Running \<and> pp_out s = []) \<and>
    (pp_process s \<noteq> Running \<longrightarrow> pp_held s = None)"

lemma pipe_inv_init: "pipe_inv batches (pipe_init batches db)"
  by (simp add: pipe_inv_def pipe_init_def)

lemma pipe_inv_step: "pipe_step P s t \<Longrightarrow> pipe_inv batches s \<Longrightarrow> pipe_inv batches t"
  by (induction rule: pipe_step.induct) (auto simp: pipe_inv_def)

lemma handle_simps [simp]:
  "processor_stage_handle P (BatchMsg b) db = Inr (ProcessedMsg output) \<longleftrightarrow> pr_process_blocks P (batch_blocks b) db = Inr output"
  "processor_stage_handle P (BatchMsg b) db = Inl e \<longleftrightarrow> pr_process_blocks P (batch_blocks b) db = Inl e"
  by (cases "pr_process_blocks P (batch_blocks b) db"; simp)+

lemma joined_eq_Inr [simp]: "joined x = Inr () \<longleftrightarrow> x = Inr ()"
  by (cases x rule: joined.cases) auto

declare processor_stage_handle.simps [simp del] storage_stage_handle.simps [simp del]

lemma storage_simps:
  "storage_stage_handle P (ProcessedMsg output) db = (Inr msg, db') \<longleftrightarrow>
    msg = CompleteMsg \<and> pr_store_output P output db = (Inr (), db')"
  "storage_stage_handle P (ProcessedMsg output) db = (Inl e, db') \<longleftrightarrow> pr_store_output P output db = (Inl e, db')"
  by (auto simp: storage_stage_handle.simps split: sum.split prod.split)

lemma bind_act_congr: "(\<And>db. f db = g db) \<Longrightarrow> bind_act m (\<lambda>_. f) db = bind_act m (\<lambda>_. g) db"
  by (simp add: bind_act_def split: sum.split prod.split)

lemma cont_of_simps:
  "cont_of P (Ended (Inl e)) outs pr bs = (\<lambda>db. (Inl e, db))"
  "cont_of P (Ended (Inr ())) outs pr bs = cont_of P Running outs pr bs"
  "cont_of P Running outs (Ended r) bs = bind_act (store_all P outs) (\<lambda>_ db. (r, db))"
  "cont_of P Running outs Running bs = bind_act (store_all P outs) (\<lambda>_. pipeline_seq P bs)"
  by (simp_all add: cont_of_def)

lemma storage_cases: "st = Running \<or> st = Ended (Inr ()) \<or> (\<exists>e. st = Ended (Inl e))"
proof (cases st)
  case (Ended r)
  then show ?thesis by (cases r) auto
qed simp

text \<open>Processing that does not read the database.\<close>

definition db_independent :: "('o, 'db) processor \<Rightarrow> bool" where
  "db_independent P \<longleftrightarrow> (\<forall>bs db db'. pr_process_blocks P bs db = pr_process_blocks P bs db')"

lemma cont_step:
  assumes "db_independent P"
  shows "pipe_step P s t \<Longrightarrow> pipe_inv batches s \<Longrightarrow> cont P t = cont P s"
proof (induction rule: pipe_step.induct)
  case (handle s b bs res)
  have "pipeline_seq P (b # bs @ pp_feed s) = bind_act (store_all P [res]) (\<lambda>_. pipeline_seq P (bs @ pp_feed s))"
  proof
    fix db
    have "pr_process_blocks P (batch_blocks b) db = Inr res"
      using handle(5) assms unfolding db_independent_def handle_simps by metis
    then show "pipeline_seq P (b # bs @ pp_feed s) db = bind_act (store_all P [res]) (\<lambda>_. pipeline_seq P (bs @ pp_feed s)) db"
      by (simp add: bind_act_def split: sum.split prod.split)
  qed
  with handle storage_cases [of "pp_storage s"] show ?case
    by (auto simp: cont_def held_list_def store_all_append [abs_def] bind_act_assoc pipe_inv_def cont_of_simps)
next
  case (handle_error s b bs e)
  have "pipeline_seq P (b # bs @ pp_feed s) = (\<lambda>db. (Inl e, db))"
  proof
    fix db
    have "pr_process_blocks P (batch_blocks b) db = Inl e"
      using handle_error(5) assms unfolding db_independent_def handle_simps by metis
    then show "pipeline_seq P (b # bs @ pp_feed s) db = (Inl e, db)" by simp
  qed
  with handle_error storage_cases [of "pp_storage s"] show ?case
    by (auto simp: cont_def held_list_def pipe_inv_def cont_of_simps)
next
  case (finish_process s)
  have "pipeline_seq P [] = (\<lambda>db. (Inr (), db))"
    by (intro ext) simp
  with finish_process storage_cases [of "pp_storage s"] show ?case
    by (auto simp: cont_def held_list_def pipe_inv_def cont_of_simps)
next
  case (send_closed s res)
  with storage_cases [of "pp_storage s"] show ?case
    by (auto simp: cont_def pipe_inv_def cont_of_simps)
next
  case (store s res outs msg db')
  have "store_all P (res # xs) (pp_db s) = store_all P xs db'" for xs
    using store(4) by (simp add: storage_simps)
  then have "cont_of P Running (res # xs) pr bs (pp_db s) = cont_of P Running xs pr bs db'" for xs pr bs
    by (cases pr) (simp_all add: cont_of_simps bind_act_def)
  with store show ?case
    by (simp add: cont_def held_list_def)
next
  case (store_error s res outs e db')
  have "cont_of P Running (res # xs) pr bs (pp_db s) = (Inl e, db')" for xs pr bs
    using store_error(4) by (cases pr) (simp_all add: storage_simps cont_of_simps bind_act_def)
  with store_error show ?case
    by (simp add: cont_def held_list_def cont_of_simps)
qed (auto simp: cont_def held_list_def pipe_inv_def cont_of_simps)

lemma cont_init: "cont P (pipe_init batches db) = pipeline_seq P batches db"
proof -
  have "store_all P [] = (\<lambda>db. (Inr (), db))"
    by (intro ext) simp
  then show ?thesis
    by (simp add: cont_def cont_of_def pipe_init_def held_list_def bind_act_def)
qed

definition pipe_measure :: "('o, 'db) pipe \<Rightarrow> nat" where
  "pipe_measure s = 10 * length (pp_feed s) + 8 * length (pp_in s) + 6 * length (held_list s)
    + 4 * length (pp_out s) + (if pp_process s = Running then 3 else 0) + (if pp_storage s = Running then 3 else 0)
    + (if pp_spawned s then 0 else 1)"

lemma pipe_measure_step: "pipe_step P s t \<Longrightarrow> pipe_measure t < pipe_measure s"
  by (induction rule: pipe_step.induct) (auto simp: pipe_measure_def held_list_def)

text \<open>The invariant with the continuation of the initial state, as one system.\<close>

interpretation pipe: measured_system "pipe_step P" "pipe_inv batches" pipe_measure for P batches
  by unfold_locales (auto intro: pipe_inv_step pipe_measure_step)

interpretation pipe_cont: invariant_system "pipe_step P"
    "\<lambda>s. pipe_inv batches s \<and> (db_independent P \<longrightarrow> cont P s = c)" for P batches c
  by unfold_locales (auto intro: pipe_inv_step simp: cont_step)

lemma reach_inv:
  assumes "pipe_reach P batches db s"
  shows "pipe_inv batches s \<and> (db_independent P \<longrightarrow> cont P s = pipeline_seq P batches db)"
  by (rule pipe_cont.inv_reachable [OF assms [unfolded pipe_reach_def]]) (simp add: pipe_inv_init cont_init)

lemma ended_is_sequential:
  assumes "pipe_reach P batches db s" "pipe_result s = Some r" "db_independent P"
  shows "\<exists>r'. pipeline_run P batches db = Some (r', pp_db s) \<and> (r = Inr () \<longleftrightarrow> r' = Inr ())"
proof -
  note i = reach_inv [OF assms(1)]
  obtain r1 r2 where ends: "pp_process s = Ended r1" "pp_storage s = Ended r2"
    using assms(2) by (auto simp: pipe_result_def split: task.splits)
  have fits: "length batches \<le> channel_capacity"
    using i ends by (auto simp: pipe_inv_def)
  have seq: "pipeline_seq P batches db = (case r2 of Inl e \<Rightarrow> (Inl e, pp_db s) | Inr _ \<Rightarrow> (r1, pp_db s))"
    using i ends assms(3) by (auto simp: cont_def cont_of_def pipe_inv_def held_list_def bind_act_def split: sum.split)
  have r: "r = and_then (joined r1) (\<lambda>_. joined r2)"
    using assms(2) ends by (simp add: pipe_result_def)
  have "r = Inr () \<longleftrightarrow> r1 = Inr () \<and> r2 = Inr ()"
    unfolding r by (simp add: and_then_eq_Inr)
  then show ?thesis
    using fits by (cases r2) (auto simp: pipeline_run_def seq)
qed


section \<open>Liveness: a pipeline ends exactly when its batches fit into the channel\<close>

lemma pipe_progress:
  assumes "pipe_inv batches s" "length batches \<le> channel_capacity" "pipe_result s = None"
  shows "\<exists>t. pipe_step P s t"
proof (cases "pp_spawned s")
  case False
  then have inn: "pp_in s @ pp_feed s = batches"
    using assms(1) by (simp add: pipe_inv_def)
  show ?thesis
  proof (cases "pp_feed s")
    case Nil
    then show ?thesis using pipe_step.spawn [OF False] by blast
  next
    case (Cons b bs)
    with inn assms(2) have "length (pp_in s) < channel_capacity" by auto
    then show ?thesis using pipe_step.feed [OF False Cons] by blast
  qed
next
  case True
  have store: "\<exists>t. pipe_step P s t" if "pp_storage s = Running" "pp_out s = res # outs" for res outs
  proof (cases "storage_stage_handle P (ProcessedMsg res) (pp_db s)")
    case (Pair r db')
    then show ?thesis
      using pipe_step.store [OF True that] pipe_step.store_error [OF True that] by (cases r) blast+
  qed
  show ?thesis
  proof (cases "pp_process s")
    case Running
    show ?thesis
    proof (cases "pp_held s")
      case None
      show ?thesis
      proof (cases "pp_in s")
        case Nil
        then show ?thesis using pipe_step.finish_process [OF True Running None] by blast
      next
        case (Cons b bs)
        then show ?thesis
          using pipe_step.handle [OF True Running None Cons] pipe_step.handle_error [OF True Running None Cons]
          by (cases "pr_process_blocks P (batch_blocks b) (pp_db s)") (auto simp: handle_simps, blast)
      qed
    next
      case (Some res)
      show ?thesis
      proof (cases "pp_storage s = Running")
        case st: True
        show ?thesis
        proof (cases "length (pp_out s) < channel_capacity")
          case True
          then show ?thesis using pipe_step.send [OF Running Some st] by blast
        next
          case False
          then obtain a outs where "pp_out s = a # outs"
            by (cases "pp_out s") (auto simp: channel_capacity_def)
          then show ?thesis using store [OF st] by blast
        qed
      next
        case False
        then show ?thesis using pipe_step.send_closed [OF Running Some] by blast
      qed
    qed
  next
    case (Ended r)
    then have "pp_storage s = Running"
      using assms(3) by (cases "pp_storage s") (auto simp: pipe_result_def)
    then show ?thesis
      using store pipe_step.finish_storage [OF True] Ended by (cases "pp_out s") auto
  qed
qed

text \<open>
  C13: No run of a pipeline is infinite, but a run can end only when the batches fit into the first
  channel, whose receiver is started after they have all been sent: with at most 100 batches every
  run that cannot continue has ended, with more no run ever ends.
\<close>
theorem pipeline_ends_iff_fits:
  "((\<exists>s. pipe_reach P batches db s \<and> pipe_result s \<noteq> None) \<longleftrightarrow> length batches \<le> 100) \<and>
    (length batches \<le> 100 \<and> pipe_reach P batches db s \<and> \<not> (\<exists>t. pipe_step P s t) \<longrightarrow> pipe_result s \<noteq> None) \<and>
    \<not> (f 0 = pipe_init batches db \<and> (\<forall>i. pipe_step P (f i) (f (Suc i))))"
proof (intro conjI)
  note init = pipe_inv_init [of batches db]
  show stuck: "length batches \<le> 100 \<and> pipe_reach P batches db s \<and> \<not> (\<exists>t. pipe_step P s t) \<longrightarrow> pipe_result s \<noteq> None" for s
    using pipe_progress [of batches s P] reach_inv [of P batches db s] by (auto simp: channel_capacity_def)
  show "(\<exists>s. pipe_reach P batches db s \<and> pipe_result s \<noteq> None) \<longleftrightarrow> length batches \<le> 100"
  proof
    assume "\<exists>s. pipe_reach P batches db s \<and> pipe_result s \<noteq> None"
    then obtain s where r: "pipe_reach P batches db s" "pipe_result s \<noteq> None"
      by (elim exE conjE)
    have s: "pipe_inv batches s" "pipe_result s \<noteq> None"
      using reach_inv [OF r(1)] r(2) by simp_all
    then have "pp_spawned s"
      by (auto simp: pipe_inv_def pipe_result_def)
    with s(1) show "length batches \<le> 100"
      by (simp add: pipe_inv_def channel_capacity_def)
  next
    assume "length batches \<le> 100"
    moreover obtain t where "pipe_reach P batches db t" "\<not> (\<exists>u. pipe_step P t u)"
      using pipe.reaches_end [OF init, of P] by (auto simp: pipe_reach_def)
    ultimately show "\<exists>s. pipe_reach P batches db s \<and> pipe_result s \<noteq> None"
      using stuck by blast
  qed
  show "\<not> (f 0 = pipe_init batches db \<and> (\<forall>i. pipe_step P (f i) (f (Suc i))))"
    using pipe.no_infinite_run [of batches f P] init by metis
qed

definition example_processor :: "(nat, nat list) processor" where
  "example_processor = \<lparr>pr_name = ''count'', pr_process_blocks = (\<lambda>bs db. Inr (length bs)),
    pr_store_output = (\<lambda>n db. if n = 3 then (Inl (Error ''full''), db) else (Inr (), db @ [n]))\<rparr>"

definition example_batch :: block_batch where
  "example_batch = \<lparr>batch_blocks = [], batch_range = \<lparr>range_from_ts = 0, range_to_ts = 1\<rparr>\<rparr>"

theorem pipeline_ends_iff_fits_witness:
  "\<exists>s. pipe_reach example_processor [example_batch] [] s \<and> pipe_result s \<noteq> None"
  using pipeline_ends_iff_fits [of example_processor "[example_batch]" "[]"] by simp


end
