(* ===== verification/Worker.thy ===== *)
theory Worker
  imports Block_Store Pipeline
begin

text \<open>
  The indexing worker (\<^verbatim>\<open>bento-core/src/workers/fetch.rs\<close>, \<^verbatim>\<open>worker.rs\<close>), its configuration and the three built-in
  processors. The node is a parameter: a record of the client's methods, taken as functions of their arguments
  within one call. Timestamps are \<^verbatim>\<open>u64\<close> and wrap. A result is \<^verbatim>\<open>None\<close> when the call never returns.
\<close>

section \<open>Built-in processors\<close>

datatype 'c processor_output =
    BlockOut "block_model list"
  | EventOut "event_model list"
  | TxOut "transaction_model list"
  | CustomOut 'c

definition block_processor :: "date_limits \<Rightarrow> ('c processor_output, 'z chain_db_scheme) processor" where
  "block_processor L = \<lparr>pr_name = ''block'',
    pr_process_blocks = (\<lambda>blocks db. Inr (BlockOut (convert_bwe_to_block_models L blocks))),
    pr_store_output = (\<lambda>out db. case out of
        BlockOut blocks \<Rightarrow> if blocks \<noteq> [] then insert_blocks_to_db blocks db else (Inr (), db)
      | _ \<Rightarrow> (Inr (), db))\<rparr>"

text \<open>\<^verbatim>\<open>uuid\<close> gives the random identifiers of one batch.\<close>

definition event_processor ::
  "(block_and_events list \<Rightarrow> nat \<Rightarrow> string) \<Rightarrow> ('c processor_output, 'z chain_db_scheme) processor" where
  "event_processor uuid = \<lparr>pr_name = ''event'',
    pr_process_blocks = (\<lambda>blocks db. Inr (EventOut (convert_bwe_to_event_models (uuid blocks) blocks))),
    pr_store_output = (\<lambda>out db. case out of
        EventOut events \<Rightarrow> if events \<noteq> [] then insert_events_to_db events db else (Inr (), db)
      | _ \<Rightarrow> (Inr (), db))\<rparr>"

definition tx_processor :: "('c processor_output, 'z chain_db_scheme) processor" where
  "tx_processor = \<lparr>pr_name = ''tx'',
    pr_process_blocks = (\<lambda>blocks db. Inr (TxOut (convert_bwe_to_tx_models blocks))),
    pr_store_output = (\<lambda>out db. case out of
        TxOut models \<Rightarrow> if models \<noteq> [] then insert_txs_to_db models db else (Inr (), db)
      | _ \<Rightarrow> (Inr (), db))\<rparr>"

datatype ('c, 'db) processor_config =
    BlockProcessor
  | EventProcessor
  | TxProcessor
  | Custom string "('c processor_output, 'db) processor"

fun config_name :: "('c, 'db) processor_config \<Rightarrow> string" where
  "config_name BlockProcessor = ''block''"
| "config_name EventProcessor = ''event''"
| "config_name TxProcessor = ''tx''"
| "config_name (Custom name _) = name"

fun build_processor ::
  "date_limits \<Rightarrow> (block_and_events list \<Rightarrow> nat \<Rightarrow> string) \<Rightarrow> ('c, 'z chain_db_scheme) processor_config
    \<Rightarrow> ('c processor_output, 'z chain_db_scheme) processor" where
  "build_processor L uuid BlockProcessor = block_processor L"
| "build_processor L uuid EventProcessor = event_processor uuid"
| "build_processor L uuid TxProcessor = tx_processor"
| "build_processor L uuid (Custom _ factory) = factory"

section \<open>Fetching\<close>

record node_client =
  nc_get_blocks_and_events :: "int \<Rightarrow> int \<Rightarrow> block_and_events list list res"
  nc_get_block_hash_by_height :: "int \<Rightarrow> int \<Rightarrow> int \<Rightarrow> string list res"
  nc_get_block_and_events_by_hash :: "string \<Rightarrow> block_and_events res"
  nc_get_chain_info :: "int \<Rightarrow> int \<Rightarrow> chain_info res"

definition with_context :: "string \<Rightarrow> 'a res \<Rightarrow> 'a res" where
  "with_context m r = map_err (\<lambda>e. case e of Error _ \<Rightarrow> Error m | Panic p \<Rightarrow> Panic p) r"

definition fetch_chunk :: "node_client \<Rightarrow> block_range \<Rightarrow> block_batch res" where
  "fetch_chunk client r =
    (if wrap_u64 (range_to_ts r - range_from_ts r) > max_timestamp_range
     then Inl (Error ''Timestamp range exceeds maximum limit'')
     else and_then (nc_get_blocks_and_events client (range_from_ts r) (range_to_ts r)) (\<lambda>groups.
       Inr \<lparr>batch_blocks = concat groups, batch_range = r\<rparr>))"

definition chunk_range :: "block_range \<Rightarrow> nat \<Rightarrow> nat \<Rightarrow> block_range" where
  "chunk_range r num_workers i =
    (let total_time = wrap_u64 (range_to_ts r - range_from_ts r);
         chunk_size = total_time div int num_workers;
         from_ts = wrap_u64 (range_from_ts r + wrap_u64 (int i * chunk_size));
         to_ts = (if i = num_workers - 1 then range_to_ts r else wrap_u64 (from_ts + chunk_size))
     in \<lparr>range_from_ts = from_ts, range_to_ts = to_ts\<rparr>)"

definition fetch_parallel :: "node_client \<Rightarrow> block_range \<Rightarrow> nat \<Rightarrow> block_batch list res" where
  "fetch_parallel client r num_workers =
    (if num_workers = 0 then Inl (Panic ''attempt to divide by zero'')
     else map_res (\<lambda>i. with_context (''Failed to fetch chunk (worker '' @ string_of_nat i @ ''/'' @ string_of_nat num_workers @ '')'')
         (fetch_chunk client (chunk_range r num_workers i))) [0..<num_workers])"

section \<open>The worker\<close>

record sync_options =
  so_step :: int
  so_backstep :: int
  so_request_interval :: int

record backfill_options =
  bo_start_ts :: "int option"
  bo_stop_ts :: "int option"
  bo_request_interval :: int
  bo_step :: int
  bo_backstep :: int

record ('o, 'db) worker =
  wk_processors :: "('o, 'db) processor list"
  wk_sync_opts :: "sync_options option"
  wk_backfill_opts :: "backfill_options option"
  wk_workers :: nat

type_synonym ('db, 'a) run = "'db \<Rightarrow> ('a res \<times> 'db) option"

definition bind_run :: "('db, 'a) run \<Rightarrow> ('a \<Rightarrow> ('db, 'b) run) \<Rightarrow> ('db, 'b) run" where
  "bind_run m f db = (case m db of
      None \<Rightarrow> None
    | Some (Inl e, db') \<Rightarrow> Some (Inl e, db')
    | Some (Inr a, db') \<Rightarrow> f a db')"

definition lift_run :: "('db \<Rightarrow> 'a res) \<Rightarrow> ('db, 'a) run" where
  "lift_run r db = Some (r db, db)"

definition context_run :: "string \<Rightarrow> ('db, 'a) run \<Rightarrow> ('db, 'a) run" where
  "context_run m r db = map_option (\<lambda>(x, db'). (with_context m x, db')) (r db)"

text \<open>
  \<^verbatim>\<open>join_all\<close> lets every pipeline finish, whatever the others return; then the first error in the order of the
  processors is the result. The pipelines appear here one after another, each by its sequential run, which is one of the
  schedules of the concurrent run in \<^verbatim>\<open>Fleet\<close>; \<^verbatim>\<open>Fleet_Laws\<close> shows how far the other schedules agree with it. For
  a processor that reads the database, as the exchange and the lending processor do, they can store something else.
\<close>

fun processor_error :: "string \<Rightarrow> unit res \<Rightarrow> unit res" where
  "processor_error name (Inl (Error m)) = Inl (Error (''Processor '' @ name @ '' failed: '' @ m))"
| "processor_error name r = r"

fun run_pipeline :: "('o, 'db) processor list \<Rightarrow> block_batch list \<Rightarrow> ('db, unit) run" where
  "run_pipeline [] batches db = Some (Inr (), db)"
| "run_pipeline (P # Ps) batches db =
    (case pipeline_run P batches db of
      None \<Rightarrow> None
    | Some (r, db1) \<Rightarrow>
        (case run_pipeline Ps batches db1 of
          None \<Rightarrow> None
        | Some (rs, db2) \<Rightarrow> Some (and_then (processor_error (pr_name P) r) (\<lambda>_. rs), db2)))"

text \<open>A failed fetch is logged, and the range skipped.\<close>

definition sync_range :: "node_client \<Rightarrow> ('o, 'db) worker \<Rightarrow> int \<Rightarrow> int \<Rightarrow> ('db, unit) run" where
  "sync_range client W start_ts stop_ts db =
    (case fetch_parallel client \<lparr>range_from_ts = start_ts, range_to_ts = stop_ts\<rparr> (wk_workers W) of
      Inl (Panic m) \<Rightarrow> Some (Inl (Panic m), db)
    | Inl (Error _) \<Rightarrow> Some (Inr (), db)
    | Inr batches \<Rightarrow> if batches = [] then Some (Inr (), db) else run_pipeline (wk_processors W) batches db)"

definition get_groups :: "(int \<times> int) list" where
  "get_groups = concat (List.map (\<lambda>from_group. List.map (\<lambda>to_group. (int from_group, int to_group))
    [0..<nat default_group_num]) [0..<nat default_group_num])"

definition first_hash :: "string list \<Rightarrow> string res" where
  "first_hash hashes = (case hashes of [] \<Rightarrow> Inl (Panic ''index out of bounds'') | h # _ \<Rightarrow> Inr h)"

definition fetch_at_height :: "node_client \<Rightarrow> int \<Rightarrow> (int \<times> int) list \<Rightarrow> block_and_events list option res" where
  "fetch_at_height client height groups =
    (let h = string_of_int height in
     and_then (with_context (''Failed to fetch block hashes for height '' @ h)
       (map_res (\<lambda>(from_group, to_group). nc_get_block_hash_by_height client height from_group to_group) groups)) (\<lambda>block_hashes.
     if block_hashes = [] then Inr None
     else and_then (map_res first_hash block_hashes) (\<lambda>hashes.
       map_err (\<lambda>e. case e of Error _ \<Rightarrow> Error (''Failed to fetch blocks and events for height '' @ h) | Panic p \<Rightarrow> Panic p)
         (and_then (map_res (nc_get_block_and_events_by_hash client) hashes) (\<lambda>bs. Inr (Some bs))))))"

definition sync_at_height ::
  "node_client \<Rightarrow> ('o, 'db) worker \<Rightarrow> int \<Rightarrow> (int \<times> int) list option \<Rightarrow> ('db, unit) run" where
  "sync_at_height client W height chains_to_sync =
    bind_run (lift_run (\<lambda>_. fetch_at_height client height
        (case chains_to_sync of Some cs \<Rightarrow> cs | None \<Rightarrow> get_groups))) (\<lambda>fetched.
      case fetched of
        None \<Rightarrow> lift_run (\<lambda>_. Inr ())
      | Some blocks \<Rightarrow> context_run (''Failed to process blocks at height '' @ string_of_int height @ '' through pipeline'')
          (run_pipeline (wk_processors W)
            [\<lparr>batch_blocks = blocks, batch_range = \<lparr>range_from_ts = 0, range_to_ts = 0\<rparr>\<rparr>]))"

definition get_latest_block_timestamp_from_node :: "node_client \<Rightarrow> int \<Rightarrow> int \<Rightarrow> int res" where
  "get_latest_block_timestamp_from_node client chain_from chain_to =
    and_then (nc_get_chain_info client chain_from chain_to) (\<lambda>info.
    and_then (nc_get_block_hash_by_height client (wrap_u64 (ci_current_height info)) chain_from chain_to) (\<lambda>hashes.
    and_then (first_hash hashes) (\<lambda>h.
    and_then (nc_get_block_and_events_by_hash client h) (\<lambda>block.
      Inr (wrap_u64 (rb_timestamp (bae_block block)))))))"

section \<open>Backfill\<close>

partial_function (option) backfill_loop ::
  "node_client \<Rightarrow> ('o, 'db) worker \<Rightarrow> int \<Rightarrow> int \<Rightarrow> int \<Rightarrow> 'db \<Rightarrow> (unit res \<times> 'db) option" where
  "backfill_loop client W step stop_ts current_ts db =
    (if current_ts < stop_ts
     then (let chunk_end = min (wrap_u64 (current_ts + step)) stop_ts in
           case sync_range client W current_ts chunk_end db of
             None \<Rightarrow> None
           | Some (r, db') \<Rightarrow>
               (case r of
                 Inl e \<Rightarrow> Some (Inl e, db')
               | Inr _ \<Rightarrow> backfill_loop client W step stop_ts chunk_end db'))
     else Some (Inr (), db))"

definition first_timestamp_at :: "int \<Rightarrow> 'z chain_db_scheme \<Rightarrow> int res" where
  "first_timestamp_at height db =
    (case List.map bm_timestamp (get_blocks_at_height height db) of
      [] \<Rightarrow> Inl (Panic ''called Option::unwrap() on a None value'')
    | t # ts \<Rightarrow> Inr (wrap_u64 (timestamp_millis (fold min ts t))))"

definition backfill_start :: "node_client \<Rightarrow> ('o, 'z chain_db_scheme) worker \<Rightarrow> backfill_options \<Rightarrow> ('z chain_db_scheme, int) run" where
  "backfill_start client W opts =
    (case bo_start_ts opts of
      Some t \<Rightarrow> lift_run (\<lambda>_. Inr t)
    | None \<Rightarrow> bind_run (sync_at_height client W 0 None) (\<lambda>_.
        bind_run (sync_at_height client W 1 None) (\<lambda>_. lift_run (first_timestamp_at 1))))"

definition run_backfill :: "node_client \<Rightarrow> ('o, 'z chain_db_scheme) worker \<Rightarrow> backfill_options \<Rightarrow> ('z chain_db_scheme, unit) run" where
  "run_backfill client W opts =
    bind_run (lift_run (\<lambda>_. case bo_stop_ts opts of
        Some t \<Rightarrow> Inr t | None \<Rightarrow> get_latest_block_timestamp_from_node client 0 0)) (\<lambda>stop_ts.
    bind_run (backfill_start client W opts) (\<lambda>start_ts.
      backfill_loop client W (bo_step opts) stop_ts start_ts))"

section \<open>Synchronisation\<close>

definition sync_start :: "int \<Rightarrow> int \<Rightarrow> int \<Rightarrow> int" where
  "sync_start latest_remote_ts latest_local_ts backstep =
    (if wrap_u64 (latest_remote_ts - wrap_u64 (latest_local_ts - backstep)) > backstep
     then wrap_u64 (latest_remote_ts - backstep)
     else wrap_u64 (latest_local_ts - backstep))"

text \<open>One round of the endless loop; \<^verbatim>\<open>now_ms\<close> is the clock, for a database without blocks.\<close>

definition sync_round ::
  "node_client \<Rightarrow> int \<Rightarrow> ('o, 'z chain_db_scheme) worker \<Rightarrow> ('z chain_db_scheme, unit) run" where
  "sync_round client now_ms W =
    bind_run (lift_run (\<lambda>_. case wk_sync_opts W of
        None \<Rightarrow> Inl (Panic ''called Option::unwrap() on a None value'') | Some opts \<Rightarrow> Inr (so_backstep opts))) (\<lambda>backstep.
    bind_run (lift_run (\<lambda>_. get_latest_block_timestamp_from_node client 0 0)) (\<lambda>latest_remote_ts.
    bind_run (lift_run (\<lambda>db. Inr (case get_max_block_timestamp db of
        Some ts \<Rightarrow> wrap_u64 ts | None \<Rightarrow> wrap_u64 now_ms))) (\<lambda>latest_local_ts.
      sync_range client W (sync_start latest_remote_ts latest_local_ts backstep) latest_remote_ts)))"

text \<open>The rounds of a session: the node and the clock that each of them meets.\<close>

fun run_sync ::
  "(node_client \<times> int) list \<Rightarrow> ('o, 'z chain_db_scheme) worker \<Rightarrow> ('z chain_db_scheme, unit) run" where
  "run_sync [] W db = Some (Inr (), db)"
| "run_sync (env # envs) W db = bind_run (sync_round (fst env) (snd env) W) (\<lambda>_. run_sync envs W) db"

definition run_worker ::
  "(node_client \<times> int) list \<Rightarrow> node_client \<Rightarrow> ('o, 'z chain_db_scheme) worker \<Rightarrow> ('z chain_db_scheme, unit) run" where
  "run_worker envs client W =
    (case wk_backfill_opts W of Some opts \<Rightarrow> run_backfill client W opts | None \<Rightarrow> run_sync envs W)"

end
