(* ===== verification/Worker_Laws.thy ===== *)
theory Worker_Laws
  imports Worker Block_Store_Laws
begin

text \<open>
  The worker: the chunks of a parallel fetch tile its range, a backfill
  ends, covers its range and leaves every block of the node in the database, and the window of a synchronisation round.
  The contract of a processor that stores what it is given is a locale, interpreted for the three built-in processors.
\<close>

section \<open>The chunks of a fetch\<close>

lemma wrap_u64_bounds: "0 \<le> wrap_u64 x" "wrap_u64 x \<le> 18446744073709551615"
  using wrap_u64_range [of x] unfolding in_u64_def by auto

lemma chunk_range_simps:
  assumes "in_u64 a" "in_u64 b" "a \<le> b" "i < n"
  shows "chunk_range \<lparr>range_from_ts = a, range_to_ts = b\<rparr> n i =
    \<lparr>range_from_ts = a + int i * ((b - a) div int n),
     range_to_ts = (if i = n - 1 then b else a + int (i + 1) * ((b - a) div int n))\<rparr>"
proof -
  let ?q = "(b - a) div int n"
  have q0: "0 \<le> ?q" using assms by (simp add: pos_imp_zdiv_nonneg_iff)
  have tot: "wrap_u64 (b - a) = b - a"
    by (rule wrap_u64_id) (use assms in \<open>auto simp: in_u64_def\<close>)
  have le: "int k * ?q \<le> b - a" if "k \<le> n" for k
  proof -
    have "int k * ?q \<le> int n * ?q" using that q0 by (simp add: mult_right_mono)
    also have "\<dots> = (b - a) - (b - a) mod int n" by (simp add: minus_mod_eq_mult_div)
    also have "\<dots> \<le> b - a" using assms by simp
    finally show ?thesis .
  qed
  have in1: "in_u64 (int k * ?q)" "in_u64 (a + int k * ?q)" if "k \<le> n" for k
    using le [OF that] q0 assms mult_nonneg_nonneg [of "int k" ?q] by (auto simp: in_u64_def)
  have dist: "int (i + 1) * ?q = int i * ?q + ?q" by (simp add: ring_distribs)
  have "wrap_u64 (a + int i * ?q + ?q) = a + int (i + 1) * ?q"
    using wrap_u64_id [OF in1(2) [of "i + 1"]] assms(4) unfolding dist by (simp add: add.assoc)
  then show ?thesis
    using wrap_u64_id [OF in1(1) [of i]] wrap_u64_id [OF in1(2) [of i]] assms(4)
    unfolding chunk_range_def Let_def by (simp add: tot)
qed

lemma map_res_eq_Inr_map:
  "(\<forall>x\<in>set xs. \<exists>y. f x = Inr y) \<Longrightarrow> \<exists>ys. map_res f xs = Inr ys"
  by (induction xs) auto

lemma with_context_Inr [simp]: "with_context m r = Inr a \<longleftrightarrow> r = Inr a"
  by (simp add: with_context_def map_err_eq_Inr)

lemma fetch_chunk_Inr:
  "fetch_chunk client r = Inr batch \<longleftrightarrow> wrap_u64 (range_to_ts r - range_from_ts r) \<le> max_timestamp_range \<and>
    (\<exists>groups. nc_get_blocks_and_events client (range_from_ts r) (range_to_ts r) = Inr groups \<and>
      batch = \<lparr>batch_blocks = concat groups, batch_range = r\<rparr>)"
  by (auto simp: fetch_chunk_def and_then_eq_Inr)

lemma fetch_parallel_Inr:
  "fetch_parallel client r n = Inr batches \<longleftrightarrow> n \<noteq> 0 \<and> length batches = n \<and>
    (\<forall>i<n. fetch_chunk client (chunk_range r n i) = Inr (batches ! i))"
  by (auto simp: fetch_parallel_def map_res_eq_Inr list_all2_conv_all_nth)

lemma fetch_tiles:
  assumes "in_u64 a" "in_u64 b" "a \<le> b"
    and "fetch_parallel client \<lparr>range_from_ts = a, range_to_ts = b\<rparr> n = Inr batches"
  shows "length batches = n \<and> range_from_ts (batch_range (hd batches)) = a \<and>
    range_to_ts (batch_range (last batches)) = b \<and>
    (\<forall>i. i + 1 < n \<longrightarrow> range_to_ts (batch_range (batches ! i)) = range_from_ts (batch_range (batches ! (i + 1)))) \<and>
    (\<forall>t. a \<le> t \<and> t \<le> b \<longrightarrow> (\<exists>c\<in>set batches. range_from_ts (batch_range c) \<le> t \<and> t \<le> range_to_ts (batch_range c))) \<and>
    b - a - (int n - 1) * ((b - a) div int n) \<le> 1800000"
proof -
  have n: "n \<noteq> 0" "length batches = n" and chunk: "\<And>i. i < n \<Longrightarrow>
      fetch_chunk client (chunk_range \<lparr>range_from_ts = a, range_to_ts = b\<rparr> n i) = Inr (batches ! i)"
    using assms(4) unfolding fetch_parallel_Inr by auto
  let ?q = "(b - a) div int n"
  have range: "batch_range (batches ! i) = \<lparr>range_from_ts = a + int i * ?q,
      range_to_ts = (if i = n - 1 then b else a + int (i + 1) * ?q)\<rparr>" if "i < n" for i
    using chunk [OF that] chunk_range_simps [OF assms(1-3) that] by (auto simp: fetch_chunk_Inr)
  have ne: "batches \<noteq> []" using n by auto
  have first: "range_from_ts (batch_range (hd batches)) = a"
    using range [of 0] n by (simp add: hd_conv_nth [OF ne])
  have final: "range_to_ts (batch_range (last batches)) = b"
    using range [of "n - 1"] n by (simp add: last_conv_nth [OF ne])
  have tiles: "\<forall>i. i + 1 < n \<longrightarrow> range_to_ts (batch_range (batches ! i)) = range_from_ts (batch_range (batches ! (i + 1)))"
    using range by auto
  have cover: "\<exists>c\<in>set batches. range_from_ts (batch_range c) \<le> t \<and> t \<le> range_to_ts (batch_range c)"
    if t: "a \<le> t" "t \<le> b" for t
  proof -
    have "k \<le> n \<Longrightarrow> k > 0 \<Longrightarrow> t \<le> range_to_ts (batch_range (batches ! (k - 1))) \<Longrightarrow>
        \<exists>c\<in>set batches. range_from_ts (batch_range c) \<le> t \<and> t \<le> range_to_ts (batch_range c)" for k
    proof (induction k)
      case (Suc k)
      show ?case
      proof (cases "range_from_ts (batch_range (batches ! k)) \<le> t")
        case True
        with Suc.prems n show ?thesis by (intro bexI [of _ "batches ! k"]) auto
      next
        case False
        then have "k \<noteq> 0" using t first hd_conv_nth [OF ne] by (cases k) auto
        then have "t \<le> range_to_ts (batch_range (batches ! (k - 1)))"
          using False tiles [rule_format, of "k - 1"] Suc.prems(1) by simp
        with Suc \<open>k \<noteq> 0\<close> show ?thesis by simp
      qed
    qed simp
    from this [of n] n t final last_conv_nth [OF ne] show ?thesis by simp
  qed
  have "wrap_u64 (b - (a + int (n - 1) * ?q)) \<le> max_timestamp_range"
    using chunk [of "n - 1"] n chunk_range_simps [OF assms(1-3), of "n - 1" n] by (simp add: fetch_chunk_Inr)
  moreover have "0 \<le> int (n - 1) * ?q" "int (n - 1) * ?q \<le> b - a"
  proof -
    have q0: "0 \<le> ?q" using assms n by (simp add: pos_imp_zdiv_nonneg_iff)
    then show "0 \<le> int (n - 1) * ?q" by simp
    have "int (n - 1) * ?q \<le> int n * ?q" using q0 by (simp add: mult_right_mono)
    also have "\<dots> \<le> b - a" using assms n by (simp add: minus_mod_eq_mult_div [symmetric])
    finally show "int (n - 1) * ?q \<le> b - a" .
  qed
  ultimately have "b - a - int (n - 1) * ?q \<le> 1800000"
    using assms(1-3) by (simp add: wrap_u64_id in_u64_def max_timestamp_range_def)
  then show ?thesis
    using n first final tiles cover by (simp add: of_nat_diff)
qed

text \<open>
  A parallel fetch that succeeds has asked for chunks that tile the range: one per worker, the
  first starting and the last ending with the range, each starting where the one before it ends, so that every instant
  of the range lies in a chunk; and no chunk is longer than the limit, so a range with a longer last
  chunk is always refused.
\<close>
theorem fetch_parallel_tiles:
  assumes "in_u64 a" "in_u64 b" "a \<le> b"
    and "fetch_parallel client \<lparr>range_from_ts = a, range_to_ts = b\<rparr> n = Inr batches"
  shows "length batches = n \<and> range_from_ts (batch_range (hd batches)) = a \<and>
    range_to_ts (batch_range (last batches)) = b \<and>
    (\<forall>i. i + 1 < n \<longrightarrow> range_to_ts (batch_range (batches ! i)) = range_from_ts (batch_range (batches ! (i + 1)))) \<and>
    (\<forall>t. a \<le> t \<and> t \<le> b \<longrightarrow> (\<exists>c\<in>set batches. range_from_ts (batch_range c) \<le> t \<and> t \<le> range_to_ts (batch_range c))) \<and>
    b - a - (int n - 1) * ((b - a) div int n) \<le> 1800000"
  by (rule fetch_tiles [OF assms])

theorem fetch_parallel_tiles_witness:
  "\<exists>batches. fetch_parallel \<lparr>nc_get_blocks_and_events = (\<lambda>f t. Inr []), nc_get_block_hash_by_height = (\<lambda>h f t. Inr []),
      nc_get_block_and_events_by_hash = (\<lambda>h. Inl (Error ''none'')), nc_get_chain_info = (\<lambda>f t. Inl (Error ''none''))\<rparr>
      \<lparr>range_from_ts = 1000, range_to_ts = 5000\<rparr> 4 = Inr batches \<and> length batches = 4"
  (is "\<exists>batches. fetch_parallel ?c ?r 4 = Inr batches \<and> _")
proof -
  have "\<exists>bs. fetch_parallel ?c ?r 4 = Inr bs"
    by (simp add: fetch_parallel_def numeral_eq_Suc fetch_chunk_def chunk_range_def with_context_def wrap_u64_def
        max_timestamp_range_def)
  then obtain bs where "fetch_parallel ?c ?r 4 = Inr bs" ..
  from fetch_parallel_tiles [OF _ _ _ this] this show ?thesis
    by (auto simp: in_u64_def)
qed

section \<open>Processors that store what they are given\<close>

text \<open>
  A processor meets the contract when it accepts every batch of good blocks, stores all of them, and
  undoes nothing (\<^verbatim>\<open>keeps\<close>) that was stored.
\<close>

locale storing_processor =
  fixes P :: "('o, 'db) processor" and good :: "block_and_events \<Rightarrow> bool"
    and stored :: "'db \<Rightarrow> block_and_events \<Rightarrow> bool" and keeps :: "'db \<Rightarrow> 'db \<Rightarrow> bool"
  assumes stores: "\<forall>b\<in>set bs. good b \<Longrightarrow> \<exists>out db'. pr_process_blocks P bs db = Inr out \<and>
      pr_store_output P out db = (Inr (), db') \<and> keeps db db' \<and> (\<forall>b\<in>set bs. stored db' b)"
    and keeps_refl: "keeps db db"
    and keeps_trans: "keeps db1 db2 \<Longrightarrow> keeps db2 db3 \<Longrightarrow> keeps db1 db3"
    and stored_keeps: "stored db b \<Longrightarrow> keeps db db' \<Longrightarrow> stored db' b"
begin

lemma pipeline_seq_stores:
  assumes "\<forall>batch\<in>set batches. \<forall>b\<in>set (batch_blocks batch). good b"
  shows "\<exists>db'. pipeline_seq P batches db = (Inr (), db') \<and> keeps db db' \<and>
    (\<forall>batch\<in>set batches. \<forall>b\<in>set (batch_blocks batch). stored db' b)"
  using assms
proof (induction batches arbitrary: db)
  case Nil
  then show ?case by (simp add: keeps_refl)
next
  case (Cons batch batches)
  obtain out db1 where 1: "pr_process_blocks P (batch_blocks batch) db = Inr out"
      "pr_store_output P out db = (Inr (), db1)" "keeps db db1" "\<forall>b\<in>set (batch_blocks batch). stored db1 b"
    using stores [of "batch_blocks batch" db] Cons.prems by auto
  obtain db2 where 2: "pipeline_seq P batches db1 = (Inr (), db2)" "keeps db1 db2"
      "\<forall>batch\<in>set batches. \<forall>b\<in>set (batch_blocks batch). stored db2 b"
    using Cons by force
  from 1 2 show ?case
    using keeps_trans stored_keeps by auto
qed

lemma pipeline_run_stores:
  assumes "\<forall>batch\<in>set batches. \<forall>b\<in>set (batch_blocks batch). good b" "length batches \<le> channel_capacity"
  shows "\<exists>db'. pipeline_run P batches db = Some (Inr (), db') \<and> keeps db db' \<and>
    (\<forall>batch\<in>set batches. \<forall>b\<in>set (batch_blocks batch). stored db' b)"
  using pipeline_seq_stores [OF assms(1), of db] assms(2) by (auto simp: pipeline_run_def)

end

definition keeps_rows :: "'z chain_db_scheme \<Rightarrow> 'z chain_db_scheme \<Rightarrow> bool" where
  "keeps_rows db db' \<longleftrightarrow>
    (\<forall>h. has_key bm_hash h (db_blocks db) \<longrightarrow> has_key bm_hash h (db_blocks db')) \<and>
    (\<forall>k. has_key event_key k (db_events db) \<longrightarrow> has_key event_key k (db_events db')) \<and>
    (\<forall>h. has_key tx_row_hash h (db_txs db) \<longrightarrow> has_key tx_row_hash h (db_txs db'))"

definition block_stored :: "'z chain_db_scheme \<Rightarrow> block_and_events \<Rightarrow> bool" where
  "block_stored db b \<longleftrightarrow> has_key bm_hash (rb_hash (bae_block b)) (db_blocks db)"

definition events_stored :: "'z chain_db_scheme \<Rightarrow> block_and_events \<Rightarrow> bool" where
  "events_stored db b \<longleftrightarrow>
    (\<forall>e\<in>set (bae_events b). has_key event_key (ce_tx_id e, ce_event_index e) (db_events db))"

definition txs_stored :: "'z chain_db_scheme \<Rightarrow> block_and_events \<Rightarrow> bool" where
  "txs_stored db b \<longleftrightarrow>
    (\<forall>t\<in>set (rb_transactions (bae_block b)). has_key tx_row_hash (utx_tx_id (tx_unsigned t)) (db_txs db))"

definition good_block :: "block_and_events \<Rightarrow> bool" where
  "good_block b \<longleftrightarrow> 0 \<le> rb_height (bae_block b)"

lemma keys_dedup_by: "key ` set (dedup_by key xs) = key ` set xs"
  by (induction key xs rule: dedup_by.induct) auto

lemma event_keys_converted:
  "event_key ` set (convert_bwe_to_event_models uuid blocks) =
    (\<lambda>e. (ce_tx_id e, ce_event_index e)) ` (\<Union>b\<in>set blocks. set (bae_events b))"
proof -
  have "event_key (event_model_of u e) = (ce_tx_id e, ce_event_index e)" for u e
    by (simp add: event_key_def event_model_of_def)
  then have "List.map event_key (convert_bwe_to_event_models uuid blocks) =
      List.map (\<lambda>e. (ce_tx_id e, ce_event_index e)) (concat (List.map bae_events blocks))"
    by (auto simp: convert_bwe_to_event_models_def Let_def case_prod_beta intro!: nth_equalityI)
  then have "event_key ` set (convert_bwe_to_event_models uuid blocks) =
      (\<lambda>e. (ce_tx_id e, ce_event_index e)) ` set (concat (List.map bae_events blocks))"
    by (metis list.set_map)
  then show ?thesis by simp
qed

lemma tx_keys_converted:
  "tm_tx_hash ` set (convert_bwe_to_tx_models blocks) =
    (\<lambda>t. utx_tx_id (tx_unsigned t)) ` (\<Union>b\<in>set blocks. set (rb_transactions (bae_block b)))"
proof -
  have "tm_tx_hash ` set (List.map (transaction_model_of h) (dedup_by (\<lambda>t. utx_tx_id (tx_unsigned t)) ts)) =
      (\<lambda>t. utx_tx_id (tx_unsigned t)) ` set ts" for h ts
    using keys_dedup_by [of "\<lambda>t. utx_tx_id (tx_unsigned t)" ts]
    by (simp add: image_image transaction_model_of_def)
  then show ?thesis
    by (simp add: convert_bwe_to_tx_models_def image_UN)
qed

interpretation block_storing: storing_processor "block_processor L" good_block block_stored keeps_rows for L
proof unfold_locales
  fix bs and db :: "'z chain_db_scheme"
  assume g: "\<forall>b\<in>set bs. good_block b"
  let ?ms = "convert_bwe_to_block_models L bs"
  show "\<exists>out db'. pr_process_blocks (block_processor L) bs db = Inr out \<and>
      pr_store_output (block_processor L) out db = (Inr (), db') \<and> keeps_rows db db' \<and> (\<forall>b\<in>set bs. block_stored db' b)"
  proof (intro exI conjI)
    show "pr_process_blocks (block_processor L) bs db = Inr (BlockOut ?ms)"
      by (simp add: block_processor_def)
    show "pr_store_output (block_processor L) (BlockOut ?ms) db = (Inr (),
        db\<lparr>db_blocks := insert_ignore bm_hash bm_hash row_as_is ?ms (db_blocks db)\<rparr>)"
      using g by (auto simp: block_processor_def insert_blocks_to_db_def convert_bwe_to_block_models_def
          insert_ignore_def good_block_def)
  qed (auto simp: keeps_rows_def block_stored_def blocks.has_key_ignore convert_bwe_to_block_models_def image_image)
qed (auto simp: keeps_rows_def block_stored_def)

interpretation event_storing: storing_processor "event_processor uuid" good_block events_stored keeps_rows for uuid
proof unfold_locales
  fix bs and db :: "'z chain_db_scheme"
  let ?es = "convert_bwe_to_event_models (uuid bs) bs"
  show "\<exists>out db'. pr_process_blocks (event_processor uuid) bs db = Inr out \<and>
      pr_store_output (event_processor uuid) out db = (Inr (), db') \<and> keeps_rows db db' \<and> (\<forall>b\<in>set bs. events_stored db' b)"
  proof (intro exI conjI)
    show "pr_process_blocks (event_processor uuid) bs db = Inr (EventOut ?es)"
      by (simp add: event_processor_def)
    show "pr_store_output (event_processor uuid) (EventOut ?es) db = (Inr (),
        db\<lparr>db_events := insert_ignore event_key event_key row_as_is ?es (db_events db)\<rparr>)"
      by (auto simp: event_processor_def insert_events_to_db_def insert_ignore_def)
  qed (auto simp: keeps_rows_def events_stored_def events.has_key_ignore event_keys_converted)
qed (auto simp: keeps_rows_def events_stored_def)

interpretation tx_storing: storing_processor tx_processor good_block txs_stored keeps_rows
proof unfold_locales
  fix bs and db :: "'z chain_db_scheme"
  let ?ts = "convert_bwe_to_tx_models bs"
  show "\<exists>out db'. pr_process_blocks tx_processor bs db = Inr out \<and>
      pr_store_output tx_processor out db = (Inr (), db') \<and> keeps_rows db db' \<and> (\<forall>b\<in>set bs. txs_stored db' b)"
  proof (intro exI conjI)
    show "pr_process_blocks tx_processor bs db = Inr (TxOut ?ts)"
      by (simp add: tx_processor_def)
    show "pr_store_output tx_processor (TxOut ?ts) db = (Inr (),
        db\<lparr>db_txs := insert_ignore tm_tx_hash tx_row_hash mk_tx_row ?ts (db_txs db)\<rparr>)"
      by (auto simp: tx_processor_def insert_txs_to_db_def insert_ignore_def)
  qed (auto simp: keeps_rows_def txs_stored_def txs.has_key_ignore tx_keys_converted)
qed (auto simp: keeps_rows_def txs_stored_def)

section \<open>Backfill\<close>

definition built_in :: "date_limits \<Rightarrow> (block_and_events list \<Rightarrow> nat \<Rightarrow> string)
    \<Rightarrow> ('c processor_output, 'z chain_db_scheme) processor list" where
  "built_in L uuid = List.map (build_processor L uuid) [BlockProcessor, EventProcessor, TxProcessor]"

definition fully_stored :: "'z chain_db_scheme \<Rightarrow> block_and_events \<Rightarrow> bool" where
  "fully_stored db b \<longleftrightarrow> block_stored db b \<and> events_stored db b \<and> txs_stored db b"

lemma keeps_rows_trans: "keeps_rows db1 db2 \<Longrightarrow> keeps_rows db2 db3 \<Longrightarrow> keeps_rows db1 db3"
  by (simp add: keeps_rows_def)

lemma fully_stored_keeps: "fully_stored db b \<Longrightarrow> keeps_rows db db' \<Longrightarrow> fully_stored db' b"
  unfolding fully_stored_def
  using block_storing.stored_keeps event_storing.stored_keeps tx_storing.stored_keeps by blast

lemma run_built_in:
  fixes db :: "'z chain_db_scheme"
  assumes "\<forall>batch\<in>set batches. \<forall>b\<in>set (batch_blocks batch). good_block b" "length batches \<le> 100"
  shows "\<exists>db'. run_pipeline (built_in L uuid :: ('c processor_output, 'z chain_db_scheme) processor list) batches db = Some (Inr (), db') \<and> keeps_rows db db' \<and>
    (\<forall>batch\<in>set batches. \<forall>b\<in>set (batch_blocks batch). fully_stored db' b)"
proof -
  have cap: "length batches \<le> channel_capacity" using assms(2) by (simp add: channel_capacity_def)
  note pre = assms(1) cap
  obtain db1 where 1: "pipeline_run (block_processor L :: ('c processor_output, 'z chain_db_scheme) processor) batches db = Some (Inr (), db1)" "keeps_rows db db1"
      "\<forall>batch\<in>set batches. \<forall>b\<in>set (batch_blocks batch). block_stored db1 b"
    using block_storing.pipeline_run_stores [OF pre] by blast
  obtain db2 where 2: "pipeline_run (event_processor uuid :: ('c processor_output, 'z chain_db_scheme) processor) batches db1 = Some (Inr (), db2)" "keeps_rows db1 db2"
      "\<forall>batch\<in>set batches. \<forall>b\<in>set (batch_blocks batch). events_stored db2 b"
    using event_storing.pipeline_run_stores [OF pre] by blast
  obtain db3 where 3: "pipeline_run (tx_processor :: ('c processor_output, 'z chain_db_scheme) processor) batches db2 = Some (Inr (), db3)" "keeps_rows db2 db3"
      "\<forall>batch\<in>set batches. \<forall>b\<in>set (batch_blocks batch). txs_stored db3 b"
    using tx_storing.pipeline_run_stores [OF pre] by blast
  have "run_pipeline (built_in L uuid :: ('c processor_output, 'z chain_db_scheme) processor list) batches db = Some (Inr (), db3)"
    by (simp add: built_in_def 1 2 3)
  moreover have "keeps_rows db db3" "keeps_rows db1 db3"
    using keeps_rows_trans 1(2) 2(2) 3(2) by blast+
  moreover have "fully_stored db3 b" if "batch \<in> set batches" "b \<in> set (batch_blocks batch)" for batch b
    unfolding fully_stored_def
    using that 1(3) 2(3) 3(2,3) \<open>keeps_rows db1 db3\<close> block_storing.stored_keeps event_storing.stored_keeps by blast
  ultimately show ?thesis by blast
qed

text \<open>A node that answers each range with the blocks of its history that lie in it.\<close>

definition serves :: "node_client \<Rightarrow> block_and_events set \<Rightarrow> bool" where
  "serves client history \<longleftrightarrow> (\<forall>f t. \<exists>groups. nc_get_blocks_and_events client f t = Inr groups \<and>
    set (concat groups) = {b \<in> history. f \<le> rb_timestamp (bae_block b) \<and> rb_timestamp (bae_block b) \<le> t})"

lemma served_fetch:
  assumes "serves client history" "in_u64 a" "in_u64 b" "a \<le> b" "b - a \<le> 1800000" "0 < n"
  shows "\<exists>batches. fetch_parallel client \<lparr>range_from_ts = a, range_to_ts = b\<rparr> n = Inr batches \<and> length batches = n \<and>
    (\<forall>batch\<in>set batches. set (batch_blocks batch) = {x \<in> history. range_from_ts (batch_range batch) \<le> rb_timestamp (bae_block x)
      \<and> rb_timestamp (bae_block x) \<le> range_to_ts (batch_range batch)})"
proof -
  let ?r = "\<lparr>range_from_ts = a, range_to_ts = b\<rparr>"
  let ?q = "(b - a) div int n"
  have q0: "0 \<le> ?q" using assms by (simp add: pos_imp_zdiv_nonneg_iff)
  have le: "int k * ?q \<le> b - a" if "k \<le> n" for k
  proof -
    have "int k * ?q \<le> int n * ?q" using that q0 by (simp add: mult_right_mono)
    also have "\<dots> \<le> b - a" using assms by (simp add: minus_mod_eq_mult_div [symmetric])
    finally show ?thesis .
  qed
  have chunk: "d = (if i = n - 1 then b - a - x else q) \<Longrightarrow> 0 \<le> x \<Longrightarrow> x + q \<le> b - a \<Longrightarrow> 0 \<le> q \<Longrightarrow> b - a \<le> 1800000
      \<Longrightarrow> 0 \<le> d \<and> d \<le> 1800000" for d x q :: int and i
    by (auto split: if_splits)
  have ok: "\<exists>batch. fetch_chunk client (chunk_range ?r n i) = Inr batch" if "i < n" for i
  proof -
    have nn: "0 \<le> int i * ?q" "int i * ?q + ?q \<le> b - a"
      using q0 le [of "i + 1"] that by (simp_all add: ring_distribs)
    have "range_to_ts (chunk_range ?r n i) - range_from_ts (chunk_range ?r n i)
        = (if i = n - 1 then b - a - int i * ?q else ?q)"
      unfolding chunk_range_simps [OF assms(2-4) that] by (simp add: ring_distribs)
    then have "range_to_ts (chunk_range ?r n i) - range_from_ts (chunk_range ?r n i) \<in> {0..1800000}"
      unfolding atLeastAtMost_iff by (rule chunk [OF _ nn q0 assms(5)])
    then have "wrap_u64 (range_to_ts (chunk_range ?r n i) - range_from_ts (chunk_range ?r n i)) \<le> max_timestamp_range"
      by (simp add: wrap_u64_def max_timestamp_range_def)
    moreover obtain groups where "nc_get_blocks_and_events client (range_from_ts (chunk_range ?r n i))
        (range_to_ts (chunk_range ?r n i)) = Inr groups"
      using assms(1) unfolding serves_def by blast
    ultimately show ?thesis by (auto simp: fetch_chunk_Inr)
  qed
  have "\<exists>batches. fetch_parallel client ?r n = Inr batches"
    using assms(6) ok by (simp add: fetch_parallel_def) (intro map_res_eq_Inr_map; simp)
  then obtain batches where f: "fetch_parallel client ?r n = Inr batches" ..
  moreover have "set (batch_blocks batch) = {x \<in> history. range_from_ts (batch_range batch) \<le> rb_timestamp (bae_block x)
      \<and> rb_timestamp (bae_block x) \<le> range_to_ts (batch_range batch)}" if b: "batch \<in> set batches" for batch
  proof -
    from b f obtain r where "fetch_chunk client r = Inr batch"
      by (auto simp: fetch_parallel_Inr in_set_conv_nth)
    moreover obtain groups where "nc_get_blocks_and_events client (range_from_ts r) (range_to_ts r) = Inr groups"
        "set (concat groups) = {x \<in> history. range_from_ts r \<le> rb_timestamp (bae_block x) \<and> rb_timestamp (bae_block x) \<le> range_to_ts r}"
      using assms(1) unfolding serves_def by blast
    ultimately show ?thesis by (auto simp: fetch_chunk_Inr)
  qed
  ultimately show ?thesis by (auto simp: fetch_parallel_Inr)
qed

lemma sync_range_stores:
  fixes db :: "'z chain_db_scheme" and W :: "('c processor_output, 'z chain_db_scheme) worker"
  assumes s: "serves client history" and g: "\<forall>x\<in>history. good_block x"
    and r: "in_u64 a" "in_u64 b" "a \<le> b" "b - a \<le> 1800000" and n: "0 < wk_workers W" "wk_workers W \<le> 100"
    and P: "wk_processors W = built_in L uuid"
  shows "\<exists>db'. sync_range client W a b db = Some (Inr (), db') \<and> keeps_rows db db' \<and>
    (\<forall>x\<in>history. a \<le> rb_timestamp (bae_block x) \<and> rb_timestamp (bae_block x) \<le> b \<longrightarrow> fully_stored db' x)"
proof -
  obtain batches where f: "fetch_parallel client \<lparr>range_from_ts = a, range_to_ts = b\<rparr> (wk_workers W) = Inr batches"
      "length batches = wk_workers W"
    and blocks: "\<And>batch. batch \<in> set batches \<Longrightarrow> set (batch_blocks batch) = {x \<in> history.
        range_from_ts (batch_range batch) \<le> rb_timestamp (bae_block x) \<and> rb_timestamp (bae_block x) \<le> range_to_ts (batch_range batch)}"
    using served_fetch [OF s r n(1)] by blast
  have good: "\<forall>batch\<in>set batches. \<forall>x\<in>set (batch_blocks batch). good_block x"
    using blocks g by blast
  obtain db' where run: "run_pipeline (wk_processors W) batches db = Some (Inr (), db')" "keeps_rows db db'"
      "\<forall>batch\<in>set batches. \<forall>x\<in>set (batch_blocks batch). fully_stored db' x"
    using run_built_in [OF good, where db = db and L = L and uuid = uuid] f(2) n(2) unfolding P by auto
  have "fully_stored db' x" if x: "x \<in> history" "a \<le> rb_timestamp (bae_block x)" "rb_timestamp (bae_block x) \<le> b" for x
  proof -
    obtain c where "c \<in> set batches" "range_from_ts (batch_range c) \<le> rb_timestamp (bae_block x)"
        "rb_timestamp (bae_block x) \<le> range_to_ts (batch_range c)"
      using fetch_tiles [OF r(1-3) f(1)] x(2,3) by blast
    with x(1) blocks run(3) show ?thesis by blast
  qed
  with run(1,2) f n(1) show ?thesis
    by (auto simp: sync_range_def)
qed

lemma backfill_loop_stores:
  fixes db :: "'z chain_db_scheme" and W :: "('c processor_output, 'z chain_db_scheme) worker"
  assumes s: "serves client history" and g: "\<forall>x\<in>history. good_block x"
    and n: "0 < wk_workers W" "wk_workers W \<le> 100" and P: "wk_processors W = built_in L uuid"
    and st: "0 < step" "step \<le> 1800000" "in_u64 (stop + step)" "0 \<le> start" "start < stop"
  shows "\<exists>db'. backfill_loop client W step stop start db = Some (Inr (), db') \<and> keeps_rows db db' \<and>
    (\<forall>x\<in>history. start \<le> rb_timestamp (bae_block x) \<and> rb_timestamp (bae_block x) \<le> stop \<longrightarrow> fully_stored db' x)"
  using st(4,5)
proof (induction "nat (stop - start)" arbitrary: start db rule: less_induct)
  case less
  let ?e = "min (start + step) stop"
  have w: "wrap_u64 (start + step) = start + step"
    by (rule wrap_u64_id) (use less.prems st in \<open>auto simp: in_u64_def\<close>)
  have u: "in_u64 start" "in_u64 ?e" "start \<le> ?e" "?e - start \<le> 1800000" "start < ?e"
    using less.prems st by (auto simp: in_u64_def)
  obtain db1 where 1: "sync_range client W start ?e db = Some (Inr (), db1)" "keeps_rows db db1"
      "\<forall>x\<in>history. start \<le> rb_timestamp (bae_block x) \<and> rb_timestamp (bae_block x) \<le> ?e \<longrightarrow> fully_stored db1 x"
    using sync_range_stores [OF s g u(1-4) n P] by blast
  have eq: "backfill_loop client W step stop start db = backfill_loop client W step stop ?e db1"
    using less.prems by (subst backfill_loop.simps) (simp add: Let_def w 1(1))
  show ?case
  proof (cases "?e < stop")
    case True
    then obtain db2 where 2: "backfill_loop client W step stop ?e db1 = Some (Inr (), db2)" "keeps_rows db1 db2"
        "\<forall>x\<in>history. ?e \<le> rb_timestamp (bae_block x) \<and> rb_timestamp (bae_block x) \<le> stop \<longrightarrow> fully_stored db2 x"
      using less.hyps [OF _ _ True, of db1] less.prems u(5) by fastforce
    have "fully_stored db2 x" if "x \<in> history" "start \<le> rb_timestamp (bae_block x)" "rb_timestamp (bae_block x) \<le> stop" for x
      using 1(3) 2(2,3) that fully_stored_keeps [of db1 x db2] by (cases "rb_timestamp (bae_block x) \<le> ?e") auto
    with eq 2 1(2) show ?thesis
      using keeps_rows_trans by auto
  next
    case False
    then have e: "?e = stop" by simp
    have "backfill_loop client W step stop stop db1 = Some (Inr (), db1)"
      by (subst backfill_loop.simps) simp
    with eq 1 show ?thesis unfolding e by auto
  qed
qed


lemma run_pipeline_returns: "length batches \<le> 100 \<Longrightarrow> \<exists>y. run_pipeline Ps batches db = Some y"
  by (induction Ps arbitrary: db)
    (auto simp: pipeline_run_def channel_capacity_def split: prod.split option.split, metis option.distinct(1))

lemma sync_range_returns:
  assumes "wk_workers W \<le> 100"
  shows "\<exists>y. sync_range client W a b db = Some y"
proof (cases "fetch_parallel client \<lparr>range_from_ts = a, range_to_ts = b\<rparr> (wk_workers W)")
  case (Inl e)
  then show ?thesis by (cases e) (simp_all add: sync_range_def)
next
  case (Inr batches)
  then have "length batches \<le> 100" using assms by (simp add: fetch_parallel_Inr)
  with Inr run_pipeline_returns [of batches "wk_processors W" db] show ?thesis by (simp add: sync_range_def)
qed


section \<open>Synchronisation\<close>

lemma sync_start_window:
  assumes "in_u64 remote" "in_u64 loc" "0 \<le> backstep" "backstep \<le> loc" "loc \<le> remote"
  shows "sync_start remote loc backstep = remote - backstep"
proof -
  have w: "wrap_u64 (loc - backstep) = loc - backstep" "wrap_u64 (remote - (loc - backstep)) = remote - (loc - backstep)"
    "wrap_u64 (remote - backstep) = remote - backstep"
    by (rule wrap_u64_id, use assms in \<open>auto simp: in_u64_def\<close>)+
  show ?thesis
    using assms(5) by (simp add: sync_start_def w)
qed


section \<open>Examples\<close>

definition example_bae :: block_and_events where
  "example_bae = \<lparr>bae_block = (plain_block ''b'' 7)\<lparr>rb_timestamp := 5000\<rparr>, bae_events = []\<rparr>"

definition example_client :: node_client where
  "example_client = \<lparr>nc_get_blocks_and_events = (\<lambda>f t. Inr [if f \<le> 5000 \<and> 5000 \<le> t then [example_bae] else []]),
    nc_get_block_hash_by_height = (\<lambda>h f t. Inr [''b'']),
    nc_get_block_and_events_by_hash = (\<lambda>h. Inr example_bae), nc_get_chain_info = (\<lambda>f t. Inr \<lparr>ci_current_height = 7\<rparr>)\<rparr>"

definition example_worker :: "(unit processor_output, chain_db) worker" where
  "example_worker = \<lparr>wk_processors = built_in \<lparr>date_min = 0, date_max = 100000\<rparr> (\<lambda>_ _. ''id''),
    wk_sync_opts = Some \<lparr>so_step = 1000, so_backstep = 2000, so_request_interval = 1\<rparr>, wk_backfill_opts = None, wk_workers = 4\<rparr>"

definition example_opts :: backfill_options where
  "example_opts = \<lparr>bo_start_ts = Some 1000, bo_stop_ts = Some 9000, bo_request_interval = 1, bo_step = 1500, bo_backstep = 0\<rparr>"

lemma example_serves: "serves example_client {example_bae}"
  by (auto simp: serves_def example_client_def example_bae_def)




end
