(* ===== verification/Account_Processors.thy ===== *)
theory Account_Processors
  imports Account_Txs Lending_Models Token_Prices Worker
begin

text \<open>
  The application's processors for account transactions (\<^verbatim>\<open>processors\<close> of the indexer application): the
  classifier, token transfers, contract calls, and the swaps and pools of two exchanges. They work on the database of
  the generic store extended by the application's tables. Parsing a decimal number (crate \<^verbatim>\<open>bigdecimal\<close>) is
  the parameter \<^verbatim>\<open>pd\<close>. Logging matters in one place, where a log line slices a text; whether lines of the
  level \<^verbatim>\<open>info\<close> are formatted is the parameter \<^verbatim>\<open>info\<close>.
\<close>

section \<open>The application's database and processor outputs\<close>

record app_db = chain_db +
  ad_account_txs :: "account_transaction table"
  ad_pools :: "pool table"

datatype app_output =
    TransferOutput "new_account_transaction list"
  | CallOutput "new_account_transaction list"
  | DexOutput "new_pool_dto list" "new_account_transaction list"
  | LendingOutput "market list" "new_lending_event list"

type_synonym 'z app_processor = "(app_output processor_output, 'z app_db_scheme) processor"

definition store_account_txs :: "new_account_transaction list \<Rightarrow> ('z app_db_scheme, error, unit) action" where
  "store_account_txs txs db = (Inr (), db\<lparr>ad_account_txs := insert_transactions txs (ad_account_txs db)\<rparr>)"

section \<open>Classification\<close>

datatype transaction_category = Transfer | Swap | ContractCall | BlockReward | Unknown

definition is_swap_transaction :: "string list \<Rightarrow> chain_tx \<Rightarrow> bool" where
  "is_swap_transaction dex_contract_addresses t \<longleftrightarrow>
    (\<exists>i\<in>set (tx_contract_inputs t). cin_address i \<in> set dex_contract_addresses) \<or>
    (\<exists>f\<in>set (tx_generated_outputs t). out_address f \<in> set dex_contract_addresses)"

definition is_contract_transaction :: "chain_tx \<Rightarrow> bool" where
  "is_contract_transaction t \<longleftrightarrow> tx_contract_inputs t \<noteq> [] \<or> tx_generated_outputs t \<noteq> []"

definition is_block_reward :: "chain_tx \<Rightarrow> bool" where
  "is_block_reward t \<longleftrightarrow> utx_inputs (tx_unsigned t) = [] \<and> length (utx_fixed_outputs (tx_unsigned t)) = 1"

definition classify :: "string list \<Rightarrow> chain_tx \<Rightarrow> transaction_category" where
  "classify dex_contract_addresses t =
    (if is_block_reward t then BlockReward
     else if is_swap_transaction dex_contract_addresses t then Swap
     else if is_contract_transaction t then ContractCall
     else Transfer)"

section \<open>Token transfers\<close>

type_synonym amounts = "(string \<times> string, rat) hmap"

definition parse_or_zero :: "(string \<Rightarrow> rat option) \<Rightarrow> string \<Rightarrow> rat" where
  "parse_or_zero pd s = (case pd s of None \<Rightarrow> 0 | Some x \<Rightarrow> x)"

text \<open>The amounts of one input or output, in the order in which the code adds them.\<close>

definition amount_entries ::
  "(string \<Rightarrow> rat option) \<Rightarrow> string \<Rightarrow> string \<Rightarrow> token list \<Rightarrow> ((string \<times> string) \<times> rat) list" where
  "amount_entries pd address atto_alph_amount tokens =
    ((address, alph_token_id), parse_or_zero pd atto_alph_amount)
      # List.map (\<lambda>t. ((address, tk_id t), parse_or_zero pd (tk_amount t))) tokens"

definition add_amounts :: "((string \<times> string) \<times> rat) list \<Rightarrow> amounts \<Rightarrow> amounts" where
  "add_amounts = accumulate fst 0 (\<lambda>e total. total + snd e)"

definition input_map :: "(string \<Rightarrow> rat option) \<Rightarrow> chain_tx \<Rightarrow> amounts" where
  "input_map pd t = fold (\<lambda>i. add_amounts (amount_entries pd (rai_address i) (rai_atto_alph_amount i) (rai_tokens i)))
    (utx_inputs (tx_unsigned t)) []"

definition output_map :: "(string \<Rightarrow> rat option) \<Rightarrow> chain_tx \<Rightarrow> amounts" where
  "output_map pd t = fold (\<lambda>f. add_amounts (amount_entries pd (fao_address f) (fao_atto_alph_amount f) (fao_tokens f)))
    (utx_fixed_outputs (tx_unsigned t)) []"

definition input_addresses :: "chain_tx \<Rightarrow> string list" where
  "input_addresses t = remdups (List.map rai_address (utx_inputs (tx_unsigned t)))"

text \<open>Several input addresses are only accepted when they are two, with a known payer of gas among them.\<close>

definition ambiguous_inputs :: "string list \<Rightarrow> chain_tx \<Rightarrow> bool" where
  "ambiguous_inputs gas_payers t \<longleftrightarrow> length (input_addresses t) > 1 \<and>
    ((\<forall>a\<in>set (input_addresses t). a \<notin> set gas_payers) \<or> length (input_addresses t) \<noteq> 2)"

definition dust_amount :: rat where
  "dust_amount = 1000000000000000"

definition without_gas_payers :: "string list \<Rightarrow> amounts \<Rightarrow> amounts" where
  "without_gas_payers gas_payers m = fold (\<lambda>g. filter (\<lambda>e. fst (fst e) \<noteq> g)) gas_payers m"

definition account_record ::
  "date_limits \<Rightarrow> rich_block \<Rightarrow> string \<Rightarrow> string \<Rightarrow> details \<Rightarrow> string \<Rightarrow> new_account_transaction" where
  "account_record L block ty txid d address = \<lparr>nat_address = address, nat_tx_type = ty, nat_tx_id = txid,
    nat_from_group = wrap_i16 (rb_chain_from block), nat_to_group = wrap_i16 (rb_chain_to block),
    nat_block_height = rb_height block, nat_timestamp = timestamp_millis_to_naive_datetime L (rb_timestamp block),
    nat_details = d\<rparr>"

text \<open>The loop over the remaining inputs stops at the first one of the same token that covers the amount.\<close>

definition find_sender :: "string \<Rightarrow> string \<Rightarrow> rat \<Rightarrow> amounts \<Rightarrow> string option" where
  "find_sender to_addr token_id out_amount filtered =
    map_option (\<lambda>e. fst (fst e)) (List.find (\<lambda>((from_addr, in_token_id), in_amount).
      in_token_id = token_id \<and> from_addr \<noteq> to_addr \<and> in_amount \<ge> out_amount) filtered)"

text \<open>The records of one entry of the output map: none, or one for the sender and one for the receiver.\<close>

definition transfers_to ::
  "date_limits \<Rightarrow> rich_block \<Rightarrow> chain_tx \<Rightarrow> amounts \<Rightarrow> amounts \<Rightarrow> (string \<times> string) \<times> rat \<Rightarrow> new_account_transaction list"
  where
  "transfers_to L block t inputs filtered entry =
    (case entry of ((to_addr, token_id), out_amount) \<Rightarrow>
      if token_id = alph_token_id \<and> out_amount \<le> dust_amount then []
      else if (case map_of inputs (to_addr, token_id) of None \<Rightarrow> 0 | Some x \<Rightarrow> x) \<ge> out_amount then []
      else case find_sender to_addr token_id out_amount filtered of
        None \<Rightarrow> []
      | Some from_addr \<Rightarrow>
          List.map (account_record L block ''transfer'' (utx_tx_id (tx_unsigned t))
            (TransferJson \<lparr>td_token_id = token_id, td_from_address = from_addr, td_to_address = to_addr,
              td_amount = out_amount\<rparr>)) [from_addr, to_addr])"

definition extract_token_transfers ::
  "date_limits \<Rightarrow> (string \<Rightarrow> rat option) \<Rightarrow> string list \<Rightarrow> rich_block \<Rightarrow> chain_tx \<Rightarrow> new_account_transaction list" where
  "extract_token_transfers L pd gas_payers block t =
    (if ambiguous_inputs gas_payers t then []
     else concat (List.map (transfers_to L block t (input_map pd t) (without_gas_payers gas_payers (input_map pd t)))
       (output_map pd t)))"

definition transfer_processor ::
  "date_limits \<Rightarrow> (string \<Rightarrow> rat option) \<Rightarrow> string list \<Rightarrow> 'z app_processor" where
  "transfer_processor L pd gas_payers = \<lparr>pr_name = ''transfer'',
    pr_process_blocks = (\<lambda>bwe db. Inr (CustomOut (TransferOutput (concat (List.map (\<lambda>el.
        concat (List.map (extract_token_transfers L pd gas_payers (bae_block el))
          (filter (\<lambda>t. classify [] t = Transfer) (rb_transactions (bae_block el))))) bwe))))),
    pr_store_output = (\<lambda>out db. case out of
        CustomOut (TransferOutput transfers) \<Rightarrow>
          if transfers \<noteq> [] then store_account_txs transfers db else (Inr (), db)
      | CustomOut _ \<Rightarrow> (Inl (Error ''Invalid custom output type''), db)
      | _ \<Rightarrow> (Inl (Error ''Expected Custom output type''), db))\<rparr>"

section \<open>Contract calls\<close>

definition extract_contract_call :: "date_limits \<Rightarrow> rich_block \<Rightarrow> chain_tx \<Rightarrow> new_account_transaction option" where
  "extract_contract_call L block t =
    (case (first_of (utx_inputs (tx_unsigned t)), first_of (tx_contract_inputs t)) of
      (Some i, Some c) \<Rightarrow> Some (account_record L block ''contract_call'' (utx_tx_id (tx_unsigned t))
        (CallJson \<lparr>ccd_contract_address = cin_address c\<rparr>) (rai_address i))
    | _ \<Rightarrow> None)"

definition contract_call_processor :: "date_limits \<Rightarrow> 'z app_processor" where
  "contract_call_processor L = \<lparr>pr_name = ''contract_call'',
    pr_process_blocks = (\<lambda>bwe db. Inr (CustomOut (CallOutput (concat (List.map (\<lambda>el.
        List.map_filter (extract_contract_call L (bae_block el))
          (filter (\<lambda>t. classify [] t = ContractCall) (rb_transactions (bae_block el)))) bwe))))),
    pr_store_output = (\<lambda>out db. case out of
        CustomOut (CallOutput contract_calls) \<Rightarrow>
          if contract_calls \<noteq> [] then store_account_txs contract_calls db else (Inr (), db)
      | CustomOut _ \<Rightarrow> (Inl (Error ''Invalid custom output type''), db)
      | _ \<Rightarrow> (Inl (Error ''Expected Custom output type''), db))\<rparr>"

section \<open>Pools and swaps\<close>

definition ayin_v2_factory_address :: string where
  "ayin_v2_factory_address = ''vyrkJHG49TXss6pGAz2dVxq5o7mBXNNXAV18nAeqVT1R''"

definition elexium_factory_address :: string where
  "elexium_factory_address = ''22oTtDJEMjNc9QAdmcZarnEzgkAooJp9gZy7RYBisniR5''"

definition extract_string_field :: "event_field list \<Rightarrow> nat \<Rightarrow> string option" where
  "extract_string_field fs i = (if i < length fs then json_as_str (ef_value (fs ! i)) else None)"

definition extract_bigdecimal_field :: "(string \<Rightarrow> rat option) \<Rightarrow> event_field list \<Rightarrow> nat \<Rightarrow> rat option" where
  "extract_bigdecimal_field pd fs i = Option.bind (extract_string_field fs i) pd"

definition pool_of_fields ::
  "crypto_ops \<Rightarrow> string \<Rightarrow> event_field list \<Rightarrow> nat \<Rightarrow> new_pool_dto option res" where
  "pool_of_fields C factory fs i =
    (case (extract_string_field fs 0, extract_string_field fs 1, extract_string_field fs i) of
      (Some token_a, Some token_b, Some contract_id) \<Rightarrow>
        and_then (address_from_contract_id C contract_id) (\<lambda>address.
          Inr (Some \<lparr>npd_token_a = token_a, npd_token_b = token_b, npd_factory_address = factory,
            npd_address = address\<rparr>))
    | _ \<Rightarrow> Inr None)"

definition parse_ayin_v2_pool_event :: "crypto_ops \<Rightarrow> contract_event \<Rightarrow> new_pool_dto option res" where
  "parse_ayin_v2_pool_event C e =
    (if length (ce_fields e) < 4 then Inr None else pool_of_fields C ayin_v2_factory_address (ce_fields e) 2)"

definition parse_elexium_pool_event :: "crypto_ops \<Rightarrow> contract_event \<Rightarrow> new_pool_dto option res" where
  "parse_elexium_pool_event C e =
    (if length (ce_fields e) < 5 then Inr None else pool_of_fields C elexium_factory_address (ce_fields e) 3)"

definition parse_pool_creation_event :: "crypto_ops \<Rightarrow> contract_event \<Rightarrow> new_pool_dto option res" where
  "parse_pool_creation_event C e =
    (if ce_contract_address e = ayin_v2_factory_address \<and> ce_event_index e = 0 then parse_ayin_v2_pool_event C e
     else if ce_contract_address e = elexium_factory_address \<and> ce_event_index e = 0 then parse_elexium_pool_event C e
     else Inr None)"

definition extract_new_pools :: "crypto_ops \<Rightarrow> contract_event list \<Rightarrow> new_pool_dto list res" where
  "extract_new_pools C events =
    and_then (map_res (parse_pool_creation_event C) events) (\<lambda>ps. Inr (List.map_filter id ps))"

text \<open>
  The body that both parsers of swap events share: the direction is given by the first amount.
\<close>

definition swap_of_fields ::
  "date_limits \<Rightarrow> (string \<Rightarrow> rat option) \<Rightarrow> contract_event \<Rightarrow> pool \<Rightarrow> rich_block \<Rightarrow> new_account_transaction option"
  where
  "swap_of_fields L pd e p block =
    (case (extract_string_field (ce_fields e) 0, extract_bigdecimal_field pd (ce_fields e) 1,
        extract_bigdecimal_field pd (ce_fields e) 2, extract_bigdecimal_field pd (ce_fields e) 3,
        extract_bigdecimal_field pd (ce_fields e) 4) of
      (Some sender, Some token_a_in, Some token_b_in, Some token_a_out, Some token_b_out) \<Rightarrow>
        let swap = (if token_a_in = 0
          then \<lparr>sd_token_in = pool_token_b p, sd_token_out = pool_token_a p, sd_amount_in = token_b_in,
            sd_amount_out = token_a_out, sd_pool_address = ce_contract_address e, sd_tx_id = ce_tx_id e,
            sd_hop_count = 1\<rparr>
          else \<lparr>sd_token_in = pool_token_a p, sd_token_out = pool_token_b p, sd_amount_in = token_a_in,
            sd_amount_out = token_b_out, sd_pool_address = ce_contract_address e, sd_tx_id = ce_tx_id e,
            sd_hop_count = 1\<rparr>)
        in Some (account_record L block ''swap'' (ce_tx_id e) (SwapJson swap) sender)
    | _ \<Rightarrow> None)"

definition parse_elexium_swap_event ::
  "date_limits \<Rightarrow> (string \<Rightarrow> rat option) \<Rightarrow> contract_event \<Rightarrow> pool \<Rightarrow> rich_block \<Rightarrow> new_account_transaction option"
  where
  "parse_elexium_swap_event L pd e p block =
    (if length (ce_fields e) \<noteq> 6 \<or> ce_event_index e \<noteq> 3 then None else swap_of_fields L pd e p block)"

definition parse_ayin_v2_swap_event ::
  "date_limits \<Rightarrow> (string \<Rightarrow> rat option) \<Rightarrow> contract_event \<Rightarrow> pool \<Rightarrow> rich_block \<Rightarrow> new_account_transaction option"
  where
  "parse_ayin_v2_swap_event L pd e p block =
    (if length (ce_fields e) \<noteq> 6 \<or> ce_event_index e \<noteq> 2 then None else swap_of_fields L pd e p block)"

definition parse_swap_event ::
  "date_limits \<Rightarrow> (string \<Rightarrow> rat option) \<Rightarrow> contract_event \<Rightarrow> (string, pool) hmap \<Rightarrow> rich_block
    \<Rightarrow> new_account_transaction option" where
  "parse_swap_event L pd e pools block =
    (case map_of pools (ce_contract_address e) of
      None \<Rightarrow> None
    | Some p \<Rightarrow>
        if pool_factory_address p = ayin_v2_factory_address then parse_ayin_v2_swap_event L pd e p block
        else if pool_factory_address p = elexium_factory_address then parse_elexium_swap_event L pd e p block
        else None)"

definition extract_swaps ::
  "date_limits \<Rightarrow> (string \<Rightarrow> rat option) \<Rightarrow> block_and_events \<Rightarrow> (string, pool) hmap
    \<Rightarrow> (int \<times> new_account_transaction) list" where
  "extract_swaps L pd bwe pools = List.map_filter (\<lambda>e.
    map_option (\<lambda>swap. (ce_event_index e, swap)) (parse_swap_event L pd e pools (bae_block bwe))) (bae_events bwe)"

section \<open>Swaps over several pools\<close>

definition set_swap_details :: "new_account_transaction \<Rightarrow> swap_details \<Rightarrow> new_account_transaction" where
  "set_swap_details account_tx swap = account_tx\<lparr>nat_details := SwapJson swap\<rparr>"

definition get_swap_details :: "new_account_transaction \<Rightarrow> swap_details option" where
  "get_swap_details account_tx = swap_details_of (nat_details account_tx)"

text \<open>\<^verbatim>\<open>&text[..8]\<close> in the arguments of a log line panics on a shorter text.\<close>

definition log_prefixes :: "bool \<Rightarrow> string list \<Rightarrow> unit res" where
  "log_prefixes info texts =
    (if info \<and> (\<exists>t\<in>set texts. length t < 8) then Inl (Panic ''end byte index 8 is out of bounds'') else Inr ())"

fun join_comma :: "string list \<Rightarrow> string" where
  "join_comma [] = []"
| "join_comma [s] = s"
| "join_comma (s # ss) = s @ '','' @ join_comma ss"

definition sort_hops :: "(int \<times> new_account_transaction) list \<Rightarrow> (int \<times> new_account_transaction) list" where
  "sort_hops swap_list = rev (sort_key fst swap_list)"

definition is_split_swap :: "swap_details \<Rightarrow> new_account_transaction list \<Rightarrow> bool" where
  "is_split_swap first_details swaps \<longleftrightarrow> (\<forall>s\<in>set swaps. case get_swap_details s of
      Some d \<Rightarrow> sd_token_in d = sd_token_in first_details \<and> sd_token_out d = sd_token_out first_details
    | None \<Rightarrow> False)"

text \<open>The swaps of one transaction, in the order of their events, become one swap.\<close>

definition aggregate_tx ::
  "bool \<Rightarrow> string \<times> (int \<times> new_account_transaction) list \<Rightarrow> new_account_transaction res" where
  "aggregate_tx info = (\<lambda>(tx_id, swap_list).
    if length swap_list = 1 then Inr (snd (hd swap_list))
    else
      and_then (log_prefixes info (concat (List.map (\<lambda>d. [sd_token_in d, sd_token_out d, sd_pool_address d])
        (List.map_filter (\<lambda>s. get_swap_details (snd s)) swap_list)))) (\<lambda>_.
      let swaps = List.map snd (sort_hops swap_list) in
      and_then (log_prefixes info (concat (List.map (\<lambda>d. [sd_token_in d, sd_token_out d])
        (List.map_filter get_swap_details swaps)))) (\<lambda>_.
      let hop_count = wrap_i32 (int (length swaps));
          first_swap = hd swaps;
          last_swap = last swaps in
      and_then (unwrap ''called Option::unwrap() on a None value'' (get_swap_details first_swap)) (\<lambda>first_details.
      and_then (unwrap ''called Option::unwrap() on a None value'' (get_swap_details last_swap)) (\<lambda>last_details.
      let details = List.map_filter get_swap_details swaps in
      if is_split_swap first_details swaps
      then and_then (log_prefixes info [sd_token_in first_details, sd_token_out first_details]) (\<lambda>_.
        Inr (set_swap_details first_swap \<lparr>sd_token_in = sd_token_in first_details,
          sd_token_out = sd_token_out first_details,
          sd_amount_in = sum_list (List.map sd_amount_in details),
          sd_amount_out = sum_list (List.map sd_amount_out details),
          sd_pool_address = join_comma (List.map sd_pool_address details),
          sd_tx_id = tx_id, sd_hop_count = hop_count\<rparr>))
      else and_then (log_prefixes info [sd_token_in first_details, sd_token_out last_details]) (\<lambda>_.
        Inr (set_swap_details first_swap \<lparr>sd_token_in = sd_token_in first_details,
          sd_token_out = sd_token_out last_details,
          sd_amount_in = sd_amount_in first_details, sd_amount_out = sd_amount_out last_details,
          sd_pool_address = join_comma (List.map sd_pool_address details),
          sd_tx_id = tx_id, sd_hop_count = hop_count\<rparr>)))))))"

definition aggregate_multi_hop_swaps ::
  "bool \<Rightarrow> (int \<times> new_account_transaction) list \<Rightarrow> new_account_transaction list res" where
  "aggregate_multi_hop_swaps info swaps_with_index =
    map_res (aggregate_tx info) (group_by (\<lambda>s. nat_tx_id (snd s)) swaps_with_index)"

section \<open>The processor of the exchanges\<close>

type_synonym dex_state =
  "(string, pool) hmap \<times> new_pool_dto list \<times> (int \<times> new_account_transaction) list"

definition dex_block ::
  "crypto_ops \<Rightarrow> date_limits \<Rightarrow> (string \<Rightarrow> rat option) \<Rightarrow> block_and_events \<Rightarrow> dex_state \<Rightarrow> dex_state res" where
  "dex_block C L pd block_events = (\<lambda>(existing_pools, new_pools, swaps).
    and_then (extract_new_pools C (bae_events block_events)) (\<lambda>block_pools.
      let existing = fold (\<lambda>p. hm_insert (npd_address p) (pool_of_dto p)) block_pools existing_pools
      in Inr (existing, new_pools @ block_pools, swaps @ extract_swaps L pd block_events existing)))"

definition dex_process_blocks ::
  "bool \<Rightarrow> crypto_ops \<Rightarrow> date_limits \<Rightarrow> (string \<Rightarrow> rat option) \<Rightarrow> block_and_events list \<Rightarrow> 'z app_db_scheme
    \<Rightarrow> app_output processor_output res" where
  "dex_process_blocks info C L pd bwe db =
    and_then (fold_res (dex_block C L pd) bwe (get_pools (ad_pools db), [], [])) (\<lambda>(_, new_pools, swaps).
      and_then (aggregate_multi_hop_swaps info swaps) (\<lambda>processed_swaps.
        Inr (CustomOut (DexOutput new_pools processed_swaps))))"

definition dex_store_output ::
  "app_output processor_output \<Rightarrow> ('z app_db_scheme, error, unit) action" where
  "dex_store_output out db = (case out of
      CustomOut (DexOutput new_pools swaps) \<Rightarrow>
        let db1 = (if new_pools \<noteq> [] then db\<lparr>ad_pools := insert_pools new_pools (ad_pools db)\<rparr> else db)
        in if swaps \<noteq> [] then store_account_txs swaps db1 else (Inr (), db1)
    | _ \<Rightarrow> (Inr (), db))"

definition dex_processor ::
  "bool \<Rightarrow> crypto_ops \<Rightarrow> date_limits \<Rightarrow> (string \<Rightarrow> rat option) \<Rightarrow> 'z app_processor" where
  "dex_processor info C L pd = \<lparr>pr_name = ''dex'', pr_process_blocks = dex_process_blocks info C L pd,
    pr_store_output = dex_store_output\<rparr>"

end
