(* ===== verification/Account_Processors_Laws.thy ===== *)
theory Account_Processors_Laws
  imports Account_Processors Block_Store_Laws
begin

text \<open>
  What the processors for account transactions record: exactly the transfers of the single paying address, one
  aggregated swap per transaction, and how both depend on the order in which events and batches arrive.
\<close>

section \<open>Transfers\<close>

definition input_entries :: "(string \<Rightarrow> rat option) \<Rightarrow> chain_tx \<Rightarrow> ((string \<times> string) \<times> rat) list" where
  "input_entries pd t = concat (List.map (\<lambda>i. amount_entries pd (rai_address i) (rai_atto_alph_amount i) (rai_tokens i))
    (utx_inputs (tx_unsigned t)))"

definition output_entries :: "(string \<Rightarrow> rat option) \<Rightarrow> chain_tx \<Rightarrow> ((string \<times> string) \<times> rat) list" where
  "output_entries pd t = concat (List.map (\<lambda>f. amount_entries pd (fao_address f) (fao_atto_alph_amount f) (fao_tokens f))
    (utx_fixed_outputs (tx_unsigned t)))"

text \<open>The sum of the amounts of an address in a token, if it has any.\<close>

definition total_of :: "((string \<times> string) \<times> rat) list \<Rightarrow> string \<times> string \<Rightarrow> rat option" where
  "total_of es k = (let ks = filter (\<lambda>e. fst e = k) es in
    if ks = [] then None else Some (sum_list (List.map snd ks)))"

lemma fold_add_sum: "fold (\<lambda>e total. total + g e) xs (a :: rat) = a + sum_list (List.map g xs)"
  by (induction xs arbitrary: a) auto

lemma fold_accumulate_concat:
  "fold (\<lambda>x. accumulate key d g (f x)) xs m = accumulate key d g (concat (List.map f xs)) m"
  by (induction xs arbitrary: m) (auto simp: accumulate_def)

lemma amounts_get: "map_of (add_amounts es []) k = total_of es k"
  by (auto simp: add_amounts_def accumulate_get fold_add_sum total_of_def filter_empty_conv)

lemma input_map_entries: "input_map pd t = add_amounts (input_entries pd t) []"
  by (simp add: input_map_def input_entries_def add_amounts_def fold_accumulate_concat)

lemma output_map_entries: "output_map pd t = add_amounts (output_entries pd t) []"
  by (simp add: output_map_def output_entries_def add_amounts_def fold_accumulate_concat)

lemma input_map_get: "map_of (input_map pd t) k = total_of (input_entries pd t) k"
  by (simp add: input_map_entries amounts_get)

lemma hm_wf_input_map [simp]: "hm_wf (input_map pd t)"
  by (simp add: input_map_entries add_amounts_def)

lemma hm_wf_output_map [simp]: "hm_wf (output_map pd t)"
  by (simp add: output_map_entries add_amounts_def)

lemma input_map_in: "(k, x) \<in> set (input_map pd t) \<longleftrightarrow> total_of (input_entries pd t) k = Some x"
  by (simp add: map_of_in_iff [symmetric] input_map_get)

lemma output_map_in: "(k, x) \<in> set (output_map pd t) \<longleftrightarrow> total_of (output_entries pd t) k = Some x"
  by (simp add: map_of_in_iff [symmetric] output_map_entries amounts_get [symmetric] add_amounts_def)

lemma without_gas_payers_filter:
  "without_gas_payers gas m = filter (\<lambda>e. fst (fst e) \<notin> set gas) m"
  by (induction gas arbitrary: m) (auto simp: without_gas_payers_def filter_filter intro: filter_cong)

lemma total_of_address:
  assumes "total_of (input_entries pd t) (s, tok) = Some y"
  shows "s \<in> set (input_addresses t)"
proof -
  have "\<exists>e\<in>set (input_entries pd t). fst e = (s, tok)"
    using assms by (auto simp: total_of_def filter_empty_conv split: if_splits)
  then show ?thesis
    by (auto simp: input_entries_def amount_entries_def input_addresses_def)
qed

lemma single_sender:
  assumes "\<not> ambiguous_inputs gas t" "s \<in> set (input_addresses t)" "s' \<in> set (input_addresses t)"
    and "s \<notin> set gas" "s' \<notin> set gas"
  shows "s = s'"
proof (rule ccontr)
  assume ne: "s \<noteq> s'"
  have d: "distinct (input_addresses t)"
    by (simp add: input_addresses_def)
  have card: "card (set (input_addresses t)) = length (input_addresses t)"
    using d by (simp add: distinct_card)
  have "card {s, s'} \<le> card (set (input_addresses t))"
    using assms by (intro card_mono) auto
  then have "2 \<le> length (input_addresses t)"
    using ne card by simp
  then have two: "length (input_addresses t) = 2" and g: "\<exists>a\<in>set (input_addresses t). a \<in> set gas"
    using assms(1) by (auto simp: ambiguous_inputs_def)
  have "set (input_addresses t) = {s, s'}"
    by (rule card_seteq [symmetric]) (use assms ne two card in auto)
  with g assms show False
    by auto
qed

text \<open>
  The specification: the address \<^verbatim>\<open>s\<close>, which does not only pay gas, spends at least the total \<^verbatim>\<open>x\<close> that
  \<^verbatim>\<open>r\<close> gets in a token, and \<^verbatim>\<open>r\<close> itself spends less than it gets.
\<close>

definition is_transfer ::
  "(string \<Rightarrow> rat option) \<Rightarrow> string list \<Rightarrow> chain_tx \<Rightarrow> transfer_details \<Rightarrow> bool" where
  "is_transfer pd gas t d \<longleftrightarrow>
    td_from_address d \<notin> set gas \<and> td_from_address d \<noteq> td_to_address d \<and>
    total_of (output_entries pd t) (td_to_address d, td_token_id d) = Some (td_amount d) \<and>
    (td_token_id d = alph_token_id \<longrightarrow> dust_amount < td_amount d) \<and>
    (case total_of (input_entries pd t) (td_to_address d, td_token_id d) of None \<Rightarrow> 0 | Some y \<Rightarrow> y) < td_amount d \<and>
    (\<exists>y. total_of (input_entries pd t) (td_from_address d, td_token_id d) = Some y \<and> td_amount d \<le> y)"

lemma find_in: "List.find P xs = Some z \<Longrightarrow> z \<in> set xs \<and> P z"
  by (induction xs) (auto split: if_splits)

lemma sender_found:
  assumes amb: "\<not> ambiguous_inputs gas t"
  shows "find_sender r tok x (without_gas_payers gas (input_map pd t)) = Some s \<longleftrightarrow>
    s \<notin> set gas \<and> s \<noteq> r \<and> (\<exists>y. total_of (input_entries pd t) (s, tok) = Some y \<and> x \<le> y)"
    (is "?L \<longleftrightarrow> ?R s")
proof -
  let ?m = "without_gas_payers gas (input_map pd t)"
  have sound: "?R s'" if f: "find_sender r tok x ?m = Some s'" for s'
  proof -
    obtain e where "List.find (\<lambda>((from_addr, in_token_id), in_amount).
        in_token_id = tok \<and> from_addr \<noteq> r \<and> in_amount \<ge> x) ?m = Some e" "s' = fst (fst e)"
      using f by (auto simp: find_sender_def)
    from find_in [OF this(1)] this(2) show "?R s'"
      by (cases e) (auto simp: without_gas_payers_filter input_map_in)
  qed
  have "?L" if R: "?R s"
  proof -
    obtain y where y: "total_of (input_entries pd t) (s, tok) = Some y" "x \<le> y"
      using R by blast
    then have "((s, tok), y) \<in> set ?m"
      using R by (simp add: without_gas_payers_filter input_map_in)
    then have "find_sender r tok x ?m \<noteq> None"
      using R y by (auto simp: find_sender_def find_None_iff)
    then obtain s' where f: "find_sender r tok x ?m = Some s'"
      by auto
    have "s' = s"
      using single_sender [OF amb] total_of_address sound [OF f] R by metis
    with f show ?L
      by simp
  qed
  with sound show ?thesis
    by blast
qed

definition transfer_records ::
  "date_limits \<Rightarrow> rich_block \<Rightarrow> chain_tx \<Rightarrow> transfer_details \<Rightarrow> new_account_transaction list" where
  "transfer_records L block t d = List.map
    (account_record L block ''transfer'' (utx_tx_id (tx_unsigned t)) (TransferJson d)) [td_from_address d, td_to_address d]"

definition entry_transfer ::
  "(string \<Rightarrow> rat option) \<Rightarrow> string list \<Rightarrow> chain_tx \<Rightarrow> (string \<times> string) \<times> rat \<Rightarrow> transfer_details option" where
  "entry_transfer pd gas t e = (case e of ((r, tok), x) \<Rightarrow>
    if tok = alph_token_id \<and> x \<le> dust_amount then None
    else if (case total_of (input_entries pd t) (r, tok) of None \<Rightarrow> 0 | Some y \<Rightarrow> y) \<ge> x then None
    else map_option (\<lambda>s. \<lparr>td_token_id = tok, td_from_address = s, td_to_address = r, td_amount = x\<rparr>)
      (find_sender r tok x (without_gas_payers gas (input_map pd t))))"

lemma transfers_to_entry:
  "transfers_to L block t (input_map pd t) (without_gas_payers gas (input_map pd t)) =
    (\<lambda>e. case entry_transfer pd gas t e of None \<Rightarrow> [] | Some d \<Rightarrow> transfer_records L block t d)"
  by (rule ext) (auto simp: transfers_to_def entry_transfer_def transfer_records_def input_map_get split: prod.splits option.splits)

lemma entry_transfer_key:
  "entry_transfer pd gas t e = Some d \<Longrightarrow> fst e = (td_to_address d, td_token_id d)"
  by (auto simp: entry_transfer_def split: prod.splits if_splits)

lemma entry_transfer_iff:
  assumes "\<not> ambiguous_inputs gas t"
  shows "(\<exists>e\<in>set (output_map pd t). entry_transfer pd gas t e = Some d) \<longleftrightarrow> is_transfer pd gas t d"
proof -
  have "(\<exists>e\<in>set (output_map pd t). entry_transfer pd gas t e = Some d) \<longleftrightarrow>
    (\<exists>x. total_of (output_entries pd t) (td_to_address d, td_token_id d) = Some x \<and>
      entry_transfer pd gas t ((td_to_address d, td_token_id d), x) = Some d)"
    by (metis entry_transfer_key output_map_in prod.collapse)
  also have "\<dots> \<longleftrightarrow> is_transfer pd gas t d"
    by (cases d) (auto simp: entry_transfer_def is_transfer_def sender_found [OF assms] not_le)
  finally show ?thesis .
qed

lemma extract_transfers_records:
  "extract_token_transfers L pd gas block t = (if ambiguous_inputs gas t then []
    else concat (List.map (transfer_records L block t) (List.map_filter (entry_transfer pd gas t) (output_map pd t))))"
proof -
  have "concat (List.map (\<lambda>e. case entry_transfer pd gas t e of None \<Rightarrow> [] | Some d \<Rightarrow> transfer_records L block t d) es) =
    concat (List.map (transfer_records L block t) (List.map_filter (entry_transfer pd gas t) es))" for es
    by (induction es) (auto simp: map_filter_simps split: option.splits)
  then show ?thesis
    by (simp add: extract_token_transfers_def transfers_to_entry)
qed

lemma distinct_entry_transfers: "distinct (List.map_filter (entry_transfer pd gas t) (output_map pd t))"
proof -
  have "distinct (List.map fst es) \<Longrightarrow> distinct (List.map_filter (entry_transfer pd gas t) es)" for es
  proof (induction es)
    case (Cons e es)
    have "entry_transfer pd gas t e' \<noteq> Some d" if "entry_transfer pd gas t e = Some d" "e' \<in> set es" for d e'
      using entry_transfer_key [OF that(1)] entry_transfer_key [of pd gas t e' d] that(2) Cons.prems
      by (metis distinct.simps(2) image_eqI list.set_map list.simps(9))
    with Cons show ?case
      by (auto simp: map_filter_simps in_map_filter split: option.splits)
  qed (simp add: map_filter_simps)
  then show ?thesis
    using hm_wf_output_map by (simp add: hm_wf_def)
qed

lemma distinct_concat_transfers:
  assumes "distinct ds" "\<And>d. d \<in> set ds \<Longrightarrow> td_from_address d \<noteq> td_to_address d"
  shows "distinct (concat (List.map (transfer_records L block t) ds))"
  using assms
  by (induction ds) (auto simp: transfer_records_def account_record_def)

text \<open>C14: The records extracted from a transaction are, without repetition, the records of sender and receiver of
  exactly the transfers of its single paying address; an ambiguous transaction has none. In particular the iteration
  order of the hash maps plays no part.\<close>
theorem transfers_exact:
  "distinct (extract_token_transfers L pd gas block t) \<and>
   set (extract_token_transfers L pd gas block t) =
    {account_record L block ''transfer'' (utx_tx_id (tx_unsigned t)) (TransferJson d) who | d who.
      \<not> ambiguous_inputs gas t \<and> is_transfer pd gas t d \<and> who \<in> {td_from_address d, td_to_address d}}"
proof (cases "ambiguous_inputs gas t")
  case False
  have set: "set (List.map_filter (entry_transfer pd gas t) (output_map pd t)) = {d. is_transfer pd gas t d}"
    by (auto simp: in_map_filter entry_transfer_iff [OF False, symmetric])
  show ?thesis
    using False set distinct_entry_transfers [of pd gas t]
      distinct_concat_transfers [of "List.map_filter (entry_transfer pd gas t) (output_map pd t)" L block t]
    by (auto simp: extract_transfers_records is_transfer_def transfer_records_def)
qed (simp add: extract_transfers_records)

section \<open>Swaps over several pools\<close>

lemma last_filter: "xs \<noteq> [] \<Longrightarrow> P (last xs) \<Longrightarrow> last (filter P xs) = last xs"
  by (induction xs rule: rev_induct) auto

lemma hd_filter: "xs \<noteq> [] \<Longrightarrow> P (hd xs) \<Longrightarrow> hd (filter P xs) = hd xs"
  by (cases xs) auto

lemma sorted_last_max: "sorted (List.map f ys) \<Longrightarrow> ys \<noteq> [] \<Longrightarrow> f (last ys) = Max (f ` set ys)"
proof (induction ys rule: rev_induct)
  case (snoc y ys)
  then show ?case
    by (intro Max_eqI [symmetric]) (auto simp: sorted_append)
qed simp

lemma sorted_hd_min: "sorted (List.map f ys) \<Longrightarrow> ys \<noteq> [] \<Longrightarrow> f (hd ys) = Min (f ` set ys)"
  by (cases ys) (auto intro!: Min_eqI [symmetric])

lemma last_sort_key:
  assumes "xs \<noteq> []"
  shows "last (sort_key f xs) = last (filter (\<lambda>x. f x = Max (f ` set xs)) xs)"
proof -
  let ?ys = "sort_key f xs"
  have ne: "?ys \<noteq> []"
    using assms by (metis length_0_conv length_sort)
  have "f (last ?ys) = Max (f ` set xs)"
    using sorted_last_max [of f ?ys] ne by simp
  then have "last ?ys = last (filter (\<lambda>x. f x = Max (f ` set xs)) ?ys)"
    using ne by (simp add: last_filter)
  then show ?thesis
    by (simp add: sort_key_stable)
qed

lemma hd_sort_key:
  assumes "xs \<noteq> []"
  shows "hd (sort_key f xs) = hd (filter (\<lambda>x. f x = Min (f ` set xs)) xs)"
proof -
  let ?ys = "sort_key f xs"
  have ne: "?ys \<noteq> []"
    using assms by (metis length_0_conv length_sort)
  have "f (hd ?ys) = Min (f ` set xs)"
    using sorted_hd_min [of f ?ys] ne by simp
  then have "hd ?ys = hd (filter (\<lambda>x. f x = Min (f ` set xs)) ?ys)"
    using ne by (simp add: hd_filter)
  then show ?thesis
    by (simp add: sort_key_stable)
qed

text \<open>Where the aggregated swap starts and ends: the order is descending by event index, and among equal
  indices against the order of the events.\<close>

definition route_start :: "(int \<times> 'a) list \<Rightarrow> 'a" where
  "route_start xs = snd (last (filter (\<lambda>x. fst x = Max (fst ` set xs)) xs))"

definition route_end :: "(int \<times> 'a) list \<Rightarrow> 'a" where
  "route_end xs = snd (hd (filter (\<lambda>x. fst x = Min (fst ` set xs)) xs))"

definition swap_of :: "new_account_transaction \<Rightarrow> swap_details" where
  "swap_of r = the (get_swap_details r)"

definition same_pair :: "new_account_transaction list \<Rightarrow> bool" where
  "same_pair rs \<longleftrightarrow> (\<exists>a b. \<forall>r\<in>set rs. sd_token_in (swap_of r) = a \<and> sd_token_out (swap_of r) = b)"

definition loggable :: "new_account_transaction \<Rightarrow> bool" where
  "loggable r \<longleftrightarrow> 8 \<le> length (sd_token_in (swap_of r)) \<and> 8 \<le> length (sd_token_out (swap_of r))
    \<and> 8 \<le> length (sd_pool_address (swap_of r))"

lemma sort_hops_ends:
  assumes "xs \<noteq> []"
  shows "hd (List.map snd (sort_hops xs)) = route_start xs"
    and "last (List.map snd (sort_hops xs)) = route_end xs"
    and "mset (List.map snd (sort_hops xs)) = mset (List.map snd xs)"
proof -
  have ne: "sort_key fst xs \<noteq> []"
    using assms by (metis length_0_conv length_sort)
  show "hd (List.map snd (sort_hops xs)) = route_start xs" "last (List.map snd (sort_hops xs)) = route_end xs"
    using ne assms by (simp_all add: sort_hops_def route_start_def route_end_def hd_map last_map hd_rev last_rev
        last_sort_key hd_sort_key)
  show "mset (List.map snd (sort_hops xs)) = mset (List.map snd xs)"
    by (simp add: sort_hops_def)
qed

lemma map_filter_total: "(\<And>x. x \<in> set xs \<Longrightarrow> f x = Some (g x)) \<Longrightarrow> List.map_filter f xs = List.map g xs"
  by (induction xs) (auto simp: map_filter_simps)

lemma log_prefixes_ok: "(info \<Longrightarrow> \<forall>t\<in>set ts. 8 \<le> length t) \<Longrightarrow> log_prefixes info ts = Inr ()"
  by (auto simp: log_prefixes_def not_less)

lemma aggregate_tx_result:
  assumes two: "2 \<le> length xs"
    and some: "\<forall>x\<in>set xs. get_swap_details (snd x) = Some (swap_of (snd x))"
    and log: "info \<Longrightarrow> \<forall>x\<in>set xs. loggable (snd x)"
  shows "\<exists>d. aggregate_tx info (tx, xs) = Inr (set_swap_details (route_start xs) d) \<and>
    sd_tx_id d = tx \<and> sd_hop_count d = wrap_i32 (int (length xs)) \<and>
    sd_token_in d = sd_token_in (swap_of (route_start xs)) \<and>
    sd_token_out d = sd_token_out (swap_of (route_end xs)) \<and>
    (if same_pair (List.map snd xs)
     then sd_amount_in d = sum_list (List.map (\<lambda>x. sd_amount_in (swap_of (snd x))) xs) \<and>
       sd_amount_out d = sum_list (List.map (\<lambda>x. sd_amount_out (swap_of (snd x))) xs)
     else sd_amount_in d = sd_amount_in (swap_of (route_start xs)) \<and>
       sd_amount_out d = sd_amount_out (swap_of (route_end xs)))"
proof -
  let ?swaps = "List.map snd (sort_hops xs)"
  have ne: "xs \<noteq> []" and l1: "length xs \<noteq> 1"
    using two by auto
  note ends = sort_hops_ends [OF ne]
  have set: "set ?swaps = snd ` set xs"
    using mset_eq_setD [OF ends(3)] by simp
  have len: "length ?swaps = length xs"
    using mset_eq_length [OF ends(3)] by simp
  have nes: "?swaps \<noteq> []"
    using len ne by auto
  have D: "List.map_filter get_swap_details ?swaps = List.map swap_of ?swaps"
    by (rule map_filter_total) (use some in \<open>auto simp only: set\<close>)
  have D0: "List.map_filter (\<lambda>s. get_swap_details (snd s)) xs = List.map (\<lambda>s. swap_of (snd s)) xs"
    by (rule map_filter_total) (use some in auto)
  have start: "route_start xs \<in> snd ` set xs" and finish: "route_end xs \<in> snd ` set xs"
    using hd_in_set [OF nes] last_in_set [OF nes] unfolding ends set by auto
  have log1: "log_prefixes info (concat (List.map (\<lambda>d. [sd_token_in d, sd_token_out d, sd_pool_address d])
      (List.map (\<lambda>s. swap_of (snd s)) xs))) = Inr ()"
    by (rule log_prefixes_ok) (use log in \<open>auto simp: loggable_def\<close>)
  have log2: "log_prefixes info (concat (List.map (\<lambda>d. [sd_token_in d, sd_token_out d]) (List.map swap_of ?swaps))) = Inr ()"
    by (rule log_prefixes_ok) (use log in \<open>auto simp: loggable_def sort_hops_def\<close>)
  have log3: "log_prefixes info [sd_token_in (swap_of (route_start xs)), sd_token_out (swap_of r)] = Inr ()"
    if "r \<in> snd ` set xs" for r
    by (rule log_prefixes_ok) (use log start that in \<open>auto simp: loggable_def\<close>)
  have split: "is_split_swap (swap_of (route_start xs)) ?swaps = same_pair (List.map snd xs)"
  proof -
    have "is_split_swap (swap_of (route_start xs)) ?swaps \<longleftrightarrow> (\<forall>r\<in>snd ` set xs.
        sd_token_in (swap_of r) = sd_token_in (swap_of (route_start xs)) \<and>
        sd_token_out (swap_of r) = sd_token_out (swap_of (route_start xs)))"
      unfolding is_split_swap_def set using some by simp
    also have "\<dots> \<longleftrightarrow> same_pair (List.map snd xs)"
      unfolding same_pair_def using start by (auto simp: Ball_def)
    finally show ?thesis .
  qed
  have sums: "sum_list (List.map (\<lambda>d. f d) (List.map swap_of ?swaps)) = sum_list (List.map (\<lambda>x. f (swap_of (snd x))) xs)"
    for f :: "swap_details \<Rightarrow> rat"
  proof -
    have "mset (List.map f (List.map swap_of ?swaps)) = mset (List.map (\<lambda>x. f (swap_of (snd x))) xs)"
      using arg_cong [OF ends(3), of "image_mset (\<lambda>r. f (swap_of r))"]
      by (simp add: image_mset.compositionality comp_def)
    then show ?thesis
      by (metis sum_mset_sum_list)
  qed
  have out: "sd_token_out (swap_of (route_start xs)) = sd_token_out (swap_of (route_end xs))"
    if "same_pair (List.map snd xs)"
    using that start finish unfolding same_pair_def set_map by metis
  have get: "get_swap_details (route_start xs) = Some (swap_of (route_start xs))"
    "get_swap_details (route_end xs) = Some (swap_of (route_end xs))"
    using some start finish by auto
  have agg: "aggregate_tx info (tx, xs) = Inr (set_swap_details (route_start xs) \<lparr>
      sd_token_in = sd_token_in (swap_of (route_start xs)), sd_token_out = sd_token_out (swap_of (route_end xs)),
      sd_amount_in = (if same_pair (List.map snd xs) then sum_list (List.map (\<lambda>x. sd_amount_in (swap_of (snd x))) xs)
        else sd_amount_in (swap_of (route_start xs))),
      sd_amount_out = (if same_pair (List.map snd xs) then sum_list (List.map (\<lambda>x. sd_amount_out (swap_of (snd x))) xs)
        else sd_amount_out (swap_of (route_end xs))),
      sd_pool_address = join_comma (List.map sd_pool_address (List.map swap_of ?swaps)),
      sd_tx_id = tx, sd_hop_count = wrap_i32 (int (length xs))\<rparr>)"
    unfolding aggregate_tx_def prod.case Let_def D D0 log1 log2 ends get split len and_then.simps unwrap.simps
      if_not_P [OF l1] log3 [OF start] log3 [OF finish] sums
    by (auto simp: out)
  show ?thesis
    unfolding agg by (rule exI, rule conjI [OF refl]) simp
qed

text \<open>C16: The swaps of a transaction become one: with a common token pair the amounts are summed, otherwise the
  route is read from the last event with the highest event index to the first one with the lowest.\<close>
theorem aggregated_swap:
  assumes "2 \<le> length xs" "\<forall>x\<in>set xs. get_swap_details (snd x) = Some (swap_of (snd x))"
    and "info \<Longrightarrow> \<forall>x\<in>set xs. loggable (snd x)"
  shows "\<exists>d. aggregate_tx info (tx, xs) = Inr (set_swap_details (route_start xs) d) \<and>
    sd_tx_id d = tx \<and> sd_hop_count d = wrap_i32 (int (length xs)) \<and>
    sd_token_in d = sd_token_in (swap_of (route_start xs)) \<and>
    sd_token_out d = sd_token_out (swap_of (route_end xs)) \<and>
    (if same_pair (List.map snd xs)
     then sd_amount_in d = sum_list (List.map (\<lambda>x. sd_amount_in (swap_of (snd x))) xs) \<and>
       sd_amount_out d = sum_list (List.map (\<lambda>x. sd_amount_out (swap_of (snd x))) xs)
     else sd_amount_in d = sd_amount_in (swap_of (route_start xs)) \<and>
       sd_amount_out d = sd_amount_out (swap_of (route_end xs)))"
  using assms by (rule aggregate_tx_result)

lemma parse_ayin_index:
  assumes "map_of pools (ce_contract_address e) = Some p" "pool_factory_address p = ayin_v2_factory_address"
    and "parse_swap_event L pd e pools block = Some r"
  shows "ce_event_index e = 2 \<and> swap_of_fields L pd e p block = Some r"
  using assms by (auto simp: parse_swap_event_def parse_ayin_v2_swap_event_def split: if_splits)

lemma factories_differ: "elexium_factory_address \<noteq> ayin_v2_factory_address"
  by (simp add: elexium_factory_address_def ayin_v2_factory_address_def)

lemma parse_elexium_index:
  assumes "map_of pools (ce_contract_address e) = Some p" "pool_factory_address p = elexium_factory_address"
    and "parse_swap_event L pd e pools block = Some r"
  shows "ce_event_index e = 3 \<and> swap_of_fields L pd e p block = Some r"
  using assms factories_differ by (auto simp: parse_swap_event_def parse_elexium_swap_event_def split: if_splits)

lemma swap_of_fields_shape:
  assumes "swap_of_fields L pd e p block = Some r"
  shows "get_swap_details r = Some (swap_of r) \<and> nat_tx_id r = ce_tx_id e"
  using assms
  by (auto simp: swap_of_fields_def Let_def get_swap_details_def swap_of_def account_record_def
      split: option.splits)

lemma no_new_pools:
  assumes "\<forall>e\<in>set events. ce_event_index e \<noteq> 0"
  shows "extract_new_pools C events = Inr []"
proof -
  have "map_res (parse_pool_creation_event C) events = Inr (List.map (\<lambda>_. None) events)"
    using assms by (induction events) (auto simp: parse_pool_creation_event_def)
  moreover have "List.map_filter id (List.map (\<lambda>_. None) events) = ([] :: new_pool_dto list)"
    by (induction events) (auto simp: map_filter_simps)
  ultimately show ?thesis
    by (simp add: extract_new_pools_def)
qed

lemma group_by_two: "key a = key b \<Longrightarrow> group_by key [a, b] = [(key a, [a, b])]"
  by (simp add: group_by_def accumulate_def hm_entry_def)

lemma dex_two_hops:
  assumes parse: "parse_swap_event L pd e (get_pools (ad_pools db)) (bae_block bwe) = Some r"
      "parse_swap_event L pd e' (get_pools (ad_pools db)) (bae_block bwe) = Some r'"
    and idx: "ce_event_index e \<noteq> 0" "ce_event_index e' \<noteq> 0"
    and tx: "nat_tx_id r = nat_tx_id r'"
    and events: "bae_events bwe = [e, e']"
  shows "dex_process_blocks False C L pd [bwe] db =
    and_then (aggregate_tx False (nat_tx_id r, [(ce_event_index e, r), (ce_event_index e', r')]))
      (\<lambda>s. Inr (CustomOut (DexOutput [] [s])))"
  using assms no_new_pools [of "[e, e']" C]
    group_by_two [of "\<lambda>s. nat_tx_id (snd s)" "(ce_event_index e, r)" "(ce_event_index e', r')"]
  by (simp add: dex_process_blocks_def dex_block_def extract_swaps_def map_filter_simps aggregate_multi_hop_swaps_def
      and_then_assoc)

text \<open>C15: A route over both exchanges loses its direction: whichever hop came first, the swap recorded for the
  transaction starts with the Elexium hop and ends with the Ayin hop, because the type of an event is taken for its
  position. A route from A over B to C that starts on Ayin is recorded as a swap of B for B.\<close>
theorem cross_exchange_route_misread:
  assumes pools: "map_of (get_pools (ad_pools db)) (ce_contract_address ayin) = Some p"
      "pool_factory_address p = ayin_v2_factory_address"
      "map_of (get_pools (ad_pools db)) (ce_contract_address elexium) = Some q"
      "pool_factory_address q = elexium_factory_address"
    and parse: "parse_swap_event L pd ayin (get_pools (ad_pools db)) (bae_block bwe) = Some r"
      "parse_swap_event L pd elexium (get_pools (ad_pools db)) (bae_block bwe) = Some s"
    and tx: "ce_tx_id ayin = ce_tx_id elexium"
    and pairs: "(sd_token_in (swap_of r), sd_token_out (swap_of r)) \<noteq> (sd_token_in (swap_of s), sd_token_out (swap_of s))"
    and order: "bae_events bwe \<in> {[ayin, elexium], [elexium, ayin]}"
  shows "\<exists>d. dex_process_blocks False C L pd [bwe] db = Inr (CustomOut (DexOutput [] [set_swap_details s d])) \<and>
    sd_token_in d = sd_token_in (swap_of s) \<and> sd_amount_in d = sd_amount_in (swap_of s) \<and>
    sd_token_out d = sd_token_out (swap_of r) \<and> sd_amount_out d = sd_amount_out (swap_of r)"
proof -
  note a = parse_ayin_index [OF pools(1,2) parse(1)] and b = parse_elexium_index [OF pools(3,4) parse(2)]
  have r: "get_swap_details r = Some (swap_of r)" "nat_tx_id r = ce_tx_id ayin"
    and s: "get_swap_details s = Some (swap_of s)" "nat_tx_id s = ce_tx_id ayin"
    using swap_of_fields_shape a b tx by auto
  have np: "\<not> same_pair [r, s]" "\<not> same_pair [s, r]"
    using pairs by (auto simp: same_pair_def)
  from order show ?thesis
  proof (elim insertE emptyE)
    assume e: "bae_events bwe = [ayin, elexium]"
    have "\<exists>d. aggregate_tx False (nat_tx_id r, [(2, r), (3, s)]) = Inr (set_swap_details s d) \<and>
        sd_token_in d = sd_token_in (swap_of s) \<and> sd_amount_in d = sd_amount_in (swap_of s) \<and>
        sd_token_out d = sd_token_out (swap_of r) \<and> sd_amount_out d = sd_amount_out (swap_of r)"
      using aggregate_tx_result [of "[(2, r), (3, s)]" False "nat_tx_id r"] r s np
      by (auto simp: route_start_def route_end_def)
    then show ?thesis
      using dex_two_hops [OF parse, of C] a b r s e by auto
  next
    assume e: "bae_events bwe = [elexium, ayin]"
    have "\<exists>d. aggregate_tx False (nat_tx_id s, [(3, s), (2, r)]) = Inr (set_swap_details s d) \<and>
        sd_token_in d = sd_token_in (swap_of s) \<and> sd_amount_in d = sd_amount_in (swap_of s) \<and>
        sd_token_out d = sd_token_out (swap_of r) \<and> sd_amount_out d = sd_amount_out (swap_of r)"
      using aggregate_tx_result [of "[(3, s), (2, r)]" False "nat_tx_id s"] r s np
      by (auto simp: route_start_def route_end_def)
    then show ?thesis
      using dex_two_hops [OF parse(2,1), of C] a b r s e by auto
  qed
qed

section \<open>Examples\<close>

definition decimal_text :: "string \<Rightarrow> rat option" where
  "decimal_text s = (if s \<noteq> [] \<and> list_all (\<lambda>c. 48 \<le> (of_char c :: nat) \<and> (of_char c :: nat) \<le> 57) s
    then Some (of_nat (fold (\<lambda>c n. 10 * n + (of_char c - 48)) s 0)) else None)"

definition text_fields :: "string list \<Rightarrow> event_field list" where
  "text_fields = List.map (\<lambda>s. \<lparr>ef_type = FByteVec, ef_value = JString s\<rparr>)"

definition plain_event :: "string \<Rightarrow> int \<Rightarrow> string list \<Rightarrow> contract_event" where
  "plain_event contract index texts =
    \<lparr>ce_tx_id = ''tx'', ce_contract_address = contract, ce_event_index = index, ce_fields = text_fields texts\<rparr>"

definition empty_app_db :: app_db where
  "empty_app_db = \<lparr>db_blocks = empty_table, db_events = empty_table, db_txs = empty_table,
    ad_account_txs = empty_table, ad_pools = empty_table\<rparr>"

definition two_pools_db :: app_db where
  "two_pools_db = empty_app_db\<lparr>ad_pools := \<lparr>t_rows =
    [\<lparr>pool_id = 1, pool_address = ''ayin pool'', pool_token_a = ''A'', pool_token_b = ''B'',
       pool_factory_address = ayin_v2_factory_address\<rparr>,
     \<lparr>pool_id = 2, pool_address = ''elexium pool'', pool_token_a = ''B'', pool_token_b = ''C'',
       pool_factory_address = elexium_factory_address\<rparr>], t_next = 3\<rparr>\<rparr>"

definition ayin_hop :: contract_event where
  "ayin_hop = plain_event ''ayin pool'' 2 [''user'', ''5'', ''0'', ''0'', ''7'', ''user'']"

definition elexium_hop :: contract_event where
  "elexium_hop = plain_event ''elexium pool'' 3 [''user'', ''7'', ''0'', ''0'', ''9'', ''user'']"

definition hop_block :: "contract_event list \<Rightarrow> block_and_events" where
  "hop_block es = \<lparr>bae_block = plain_block ''b'' 1, bae_events = es\<rparr>"

lemmas example_simps = ayin_hop_def elexium_hop_def plain_event_def text_fields_def two_pools_db_def empty_app_db_def
  get_pools_def hop_block_def plain_block_def parse_swap_event_def parse_ayin_v2_swap_event_def
  parse_elexium_swap_event_def swap_of_fields_def extract_bigdecimal_field_def extract_string_field_def
  decimal_text_def hm_insert_def account_record_def

lemma ayin_hop_parsed: "parse_swap_event \<lparr>date_min = 0, date_max = 9\<rparr> decimal_text ayin_hop
    (get_pools (ad_pools two_pools_db)) (bae_block (hop_block es)) =
  Some (account_record \<lparr>date_min = 0, date_max = 9\<rparr> (plain_block ''b'' 1) ''swap'' ''tx''
    (SwapJson \<lparr>sd_token_in = ''A'', sd_token_out = ''B'', sd_amount_in = 5, sd_amount_out = 7,
      sd_pool_address = ''ayin pool'', sd_tx_id = ''tx'', sd_hop_count = 1\<rparr>) ''user'')"
  using factories_differ by (simp add: example_simps)

lemma elexium_hop_parsed: "parse_swap_event \<lparr>date_min = 0, date_max = 9\<rparr> decimal_text elexium_hop
    (get_pools (ad_pools two_pools_db)) (bae_block (hop_block es)) =
  Some (account_record \<lparr>date_min = 0, date_max = 9\<rparr> (plain_block ''b'' 1) ''swap'' ''tx''
    (SwapJson \<lparr>sd_token_in = ''B'', sd_token_out = ''C'', sd_amount_in = 7, sd_amount_out = 9,
      sd_pool_address = ''elexium pool'', sd_tx_id = ''tx'', sd_hop_count = 1\<rparr>) ''user'')"
  using factories_differ by (simp add: example_simps)

theorem cross_exchange_route_misread_witness:
  "\<exists>s d. dex_process_blocks False toy_crypto \<lparr>date_min = 0, date_max = 9\<rparr> decimal_text
      [hop_block [ayin_hop, elexium_hop]] two_pools_db = Inr (CustomOut (DexOutput [] [set_swap_details s d])) \<and>
    sd_token_in d = ''B'' \<and> sd_token_out d = ''B''"
  using cross_exchange_route_misread [OF _ _ _ _ ayin_hop_parsed elexium_hop_parsed, of
      "\<lparr>pool_id = 1, pool_address = ''ayin pool'', pool_token_a = ''A'', pool_token_b = ''B'',
       pool_factory_address = ayin_v2_factory_address\<rparr>"
      "\<lparr>pool_id = 2, pool_address = ''elexium pool'', pool_token_a = ''B'', pool_token_b = ''C'',
       pool_factory_address = elexium_factory_address\<rparr>" "[ayin_hop, elexium_hop]" toy_crypto]
  by (auto simp: example_simps swap_of_def get_swap_details_def)

definition long_hop :: new_account_transaction where
  "long_hop = account_record \<lparr>date_min = 0, date_max = 9\<rparr> (plain_block ''b'' 1) ''swap'' ''tx'' (SwapJson
      \<lparr>sd_token_in = ''ABCDEFGH'', sd_token_out = ''IJKLMNOP'', sd_amount_in = 5, sd_amount_out = 7,
        sd_pool_address = ''long pool address'', sd_tx_id = ''tx'', sd_hop_count = 1\<rparr>) ''user''"

theorem aggregated_swap_witness:
  "\<exists>d. aggregate_tx True (''tx'', [(2, long_hop), (2, long_hop)]) = Inr (set_swap_details long_hop d) \<and>
      sd_amount_in d = 10 \<and> sd_amount_out d = 14"
  using aggregated_swap [of "[(2, long_hop), (2, long_hop)]" True "''tx''"]
  by (auto simp: long_hop_def account_record_def swap_of_def get_swap_details_def loggable_def route_start_def
      route_end_def same_pair_def split: if_splits)

section \<open>Batches that depend on each other\<close>

text \<open>
  The processing task may run ahead of the storage task. A processor that reads the database can therefore see it
  before or after the previous batch has been stored.
\<close>

lemma two_schedules:
  assumes p1: "pr_process_blocks P (batch_blocks b1) db = Inr o1"
    and s1: "pr_store_output P o1 db = (Inr (), db1)"
    and early: "pr_process_blocks P (batch_blocks b2) db = Inr o2" "pr_store_output P o2 db1 = (Inr (), db2)"
    and late: "pr_process_blocks P (batch_blocks b2) db1 = Inr o3" "pr_store_output P o3 db1 = (Inr (), db3)"
  shows "\<exists>s. pipe_reach P [b1, b2] db s \<and> pipe_result s = Some (Inr ()) \<and> pp_db s = db2"
    and "\<exists>s. pipe_reach P [b1, b2] db s \<and> pipe_result s = Some (Inr ()) \<and> pp_db s = db3"
proof -
  define st :: "block_batch list \<Rightarrow> block_batch list \<Rightarrow> 'a option \<Rightarrow> 'a list \<Rightarrow> bool \<Rightarrow> task \<Rightarrow> task \<Rightarrow> 'b \<Rightarrow> ('a, 'b) pipe"
    where "st = (\<lambda>feed inn held out sp pr sto d. \<lparr>pp_feed = feed, pp_in = inn, pp_held = held, pp_out = out,
      pp_spawned = sp, pp_process = pr, pp_storage = sto, pp_db = d\<rparr>)"
  note step = converse_rtranclp_into_rtranclp [where r = "pipe_step P"]
  have feed: "pipe_step P (st (b # bs) inn held out False pr sto d) (st bs (inn @ [b]) held out False pr sto d)"
    if "length inn < channel_capacity" for b bs inn held out pr sto d
    using pipe_step.feed [of "st (b # bs) inn held out False pr sto d" b bs P] that by (simp add: st_def)
  have spawn: "pipe_step P (st [] inn held out False pr sto d) (st [] inn held out True pr sto d)" for inn held out pr sto d
    using pipe_step.spawn [of "st [] inn held out False pr sto d" P] by (simp add: st_def)
  have handle: "pipe_step P (st [] (b # bs) None out True Running sto d) (st [] bs (Some x) out True Running sto d)"
    if "pr_process_blocks P (batch_blocks b) d = Inr x" for b bs x out sto d
    using pipe_step.handle [of "st [] (b # bs) None out True Running sto d" b bs P x] that by (simp add: st_def)
  have send: "pipe_step P (st [] inn (Some x) out True Running Running d) (st [] inn None (out @ [x]) True Running Running d)"
    if "length out < channel_capacity" for inn x out d
    using pipe_step.send [of "st [] inn (Some x) out True Running Running d" x P] that by (simp add: st_def)
  have finish: "pipe_step P (st [] [] None out True Running sto d) (st [] [] None out True (Ended (Inr ())) sto d)" for out sto d
    using pipe_step.finish_process [of "st [] [] None out True Running sto d" P] by (simp add: st_def)
  have store: "pipe_step P (st [] inn held (x # out) True pr Running d) (st [] inn held out True pr Running d')"
    if "pr_store_output P x d = (Inr (), d')" for inn held x out pr d d'
    using pipe_step.store [of "st [] inn held (x # out) True pr Running d" x out P CompleteMsg d'] that
    by (simp add: st_def storage_simps)
  have stop: "pipe_step P (st [] [] None [] True (Ended r) Running d) (st [] [] None [] True (Ended r) (Ended (Inr ())) d)" for r d
    using pipe_step.finish_storage [of "st [] [] None [] True (Ended r) Running d" P] by (simp add: st_def)
  have cap: "0 < channel_capacity" "Suc 0 < channel_capacity"
    by (simp_all add: channel_capacity_def)
  let ?done_state = "\<lambda>d. st [] [] None [] True (Ended (Inr ())) (Ended (Inr ())) d"
  have init: "pipe_init [b1, b2] db = st [b1, b2] [] None [] False Running Running db"
    by (simp add: pipe_init_def st_def)
  have f1: "pipe_step P (st [b1, b2] [] None [] False Running Running db) (st [b2] [b1] None [] False Running Running db)"
    and f2: "pipe_step P (st [b2] [b1] None [] False Running Running db) (st [] [b1, b2] None [] False Running Running db)"
    using feed [of "[]" b1 "[b2]"] feed [of "[b1]" b2 "[]"] cap by simp_all
  have snd1: "pipe_step P (st [] inn (Some x) [] True Running Running d) (st [] inn None [x] True Running Running d)" for inn x d
    using send [of "[]"] cap by simp
  have snd2: "pipe_step P (st [] [] (Some o2) [o1] True Running Running db) (st [] [] None [o1, o2] True Running Running db)"
    using send [of "[o1]" "[]" o2 db] cap by simp
  have start: "(pipe_step P)\<^sup>*\<^sup>* (st [b1, b2] [] None [] False Running Running db)
      (st [] [b2] None [o1] True Running Running db)"
    by (rule step [OF f1 step [OF f2 step [OF spawn step [OF handle [OF p1] step [OF snd1 rtranclp.rtrancl_refl]]]]])
  have "(pipe_step P)\<^sup>*\<^sup>* (st [] [b2] None [o1] True Running Running db) (?done_state db2)"
    by (rule step [OF handle [OF early(1)] step [OF snd2 step [OF finish step [OF store [OF s1] step [OF store [OF early(2)]
      step [OF stop rtranclp.rtrancl_refl]]]]]])
  moreover have "(pipe_step P)\<^sup>*\<^sup>* (st [] [b2] None [o1] True Running Running db) (?done_state db3)"
    by (rule step [OF store [OF s1] step [OF handle [OF late(1)] step [OF snd1 step [OF finish step [OF store [OF late(2)]
      step [OF stop rtranclp.rtrancl_refl]]]]]])
  moreover have "pipe_result (?done_state d) = Some (Inr ()) \<and> pp_db (?done_state d) = d" for d
    by (simp add: st_def pipe_result_def)
  ultimately show "\<exists>s. pipe_reach P [b1, b2] db s \<and> pipe_result s = Some (Inr ()) \<and> pp_db s = db2"
    "\<exists>s. pipe_reach P [b1, b2] db s \<and> pipe_result s = Some (Inr ()) \<and> pp_db s = db3"
    unfolding pipe_reach_def init using start by (meson rtranclp_trans)+
qed

lemma dex_store_ok: "dex_store_output out db = (Inr (), snd (dex_store_output out db))"
  by (auto simp: dex_store_output_def store_account_txs_def Let_def split: processor_output.splits app_output.splits)

text \<open>C18: Two batches of one pipeline race: the swaps of the second batch may be recognised with the pools known
  before the first batch was stored, or with those it created, and both runs end successfully.\<close>
theorem dex_batch_race:
  fixes db :: "'z app_db_scheme"
  assumes "dex_process_blocks info C L pd (batch_blocks b1) db = Inr o1"
    and "dex_process_blocks info C L pd (batch_blocks b2) db = Inr o2"
    and "dex_process_blocks info C L pd (batch_blocks b2) (snd (dex_store_output o1 db)) = Inr o3"
  shows "{snd (dex_store_output o2 (snd (dex_store_output o1 db))), snd (dex_store_output o3 (snd (dex_store_output o1 db)))}
    \<subseteq> {pp_db s | s. pipe_reach (dex_processor info C L pd) [b1, b2] db s \<and> pipe_result s = Some (Inr ())}"
proof -
  let ?P = "dex_processor info C L pd" and ?db1 = "snd (dex_store_output o1 db)"
  have p: "pr_process_blocks ?P = dex_process_blocks info C L pd" "pr_store_output ?P = dex_store_output"
    by (simp_all add: dex_processor_def)
  note runs = two_schedules [of ?P b1 db o1 ?db1 b2 o2 "snd (dex_store_output o2 ?db1)" o3 "snd (dex_store_output o3 ?db1)",
      unfolded p, OF assms(1) dex_store_ok assms(2) dex_store_ok assms(3) dex_store_ok]
  have in_runs: "a \<in> {pp_db s | s. R s}" if "\<exists>s. R0 s \<and> R1 s \<and> pp_db s = a" "\<And>s. R0 s \<Longrightarrow> R1 s \<Longrightarrow> R s"
    for a :: "'z app_db_scheme" and R R0 R1 :: "(app_output processor_output, 'z app_db_scheme) pipe \<Rightarrow> bool"
    using that by blast
  show ?thesis
    unfolding insert_subset by (intro conjI in_runs [OF runs(1)] in_runs [OF runs(2)] empty_subsetI) auto
qed

definition new_pool_address :: string where
  "new_pool_address = co_bs58_encode toy_crypto [3, 10]"

definition pool_batch :: block_batch where
  "pool_batch = \<lparr>batch_blocks = [hop_block [plain_event ayin_v2_factory_address 0 [''A'', ''B'', ''0a'', ''x'']]],
    batch_range = \<lparr>range_from_ts = 0, range_to_ts = 1\<rparr>\<rparr>"

definition swap_batch :: block_batch where
  "swap_batch = \<lparr>batch_blocks = [hop_block [plain_event new_pool_address 2 [''user'', ''5'', ''0'', ''0'', ''7'', ''user'']]],
    batch_range = \<lparr>range_from_ts = 1, range_to_ts = 2\<rparr>\<rparr>"

definition first_output :: "app_output processor_output" where
  "first_output = CustomOut (DexOutput [\<lparr>npd_token_a = ''A'', npd_token_b = ''B'',
    npd_factory_address = ayin_v2_factory_address, npd_address = new_pool_address\<rparr>] [])"

definition only_swap :: new_account_transaction where
  "only_swap = account_record \<lparr>date_min = 0, date_max = 9\<rparr> (plain_block ''b'' 1) ''swap'' ''tx'' (SwapJson
    \<lparr>sd_token_in = ''A'', sd_token_out = ''B'', sd_amount_in = 5, sd_amount_out = 7,
      sd_pool_address = new_pool_address, sd_tx_id = ''tx'', sd_hop_count = 1\<rparr>) ''user''"

lemmas dex_simps = dex_process_blocks_def dex_block_def extract_new_pools_def extract_swaps_def
  aggregate_multi_hop_swaps_def group_by_def accumulate_def map_filter_simps

lemma new_pool_not_factory [simp]: "new_pool_address \<noteq> ayin_v2_factory_address" "ayin_v2_factory_address \<noteq> new_pool_address"
  "new_pool_address \<noteq> elexium_factory_address"
  by (simp_all add: new_pool_address_def toy_crypto_def unary_def ayin_v2_factory_address_def elexium_factory_address_def)

lemma pool_batch_output:
  "dex_process_blocks info toy_crypto L decimal_text (batch_blocks pool_batch) empty_app_db = Inr first_output"
  by (simp add: dex_simps Let_def pool_batch_def hop_block_def plain_event_def text_fields_def empty_app_db_def get_pools_def
      empty_table_def parse_pool_creation_event_def parse_ayin_v2_pool_event_def pool_of_fields_def
      extract_string_field_def address_from_contract_id_def byte_of_pair_def hex_value_def first_output_def
      new_pool_address_def [symmetric] parse_swap_event_def hm_insert_def pool_of_dto_def)

lemma swap_batch_early:
  "dex_process_blocks info toy_crypto L decimal_text (batch_blocks swap_batch) empty_app_db = Inr (CustomOut (DexOutput [] []))"
  by (simp add: dex_simps Let_def swap_batch_def hop_block_def plain_event_def empty_app_db_def get_pools_def
      empty_table_def parse_pool_creation_event_def parse_swap_event_def)

lemma swap_batch_late:
  "dex_process_blocks info toy_crypto \<lparr>date_min = 0, date_max = 9\<rparr> decimal_text (batch_blocks swap_batch)
    (snd (dex_store_output first_output empty_app_db)) = Inr (CustomOut (DexOutput [] [only_swap]))"
  by (simp add: dex_simps Let_def swap_batch_def hop_block_def plain_event_def text_fields_def empty_app_db_def
      get_pools_def empty_table_def parse_pool_creation_event_def parse_swap_event_def dex_store_output_def
      first_output_def insert_pools_def insert_ignore_def insert_ignore1_def has_key_def append_row_def mk_pool_def
      pool_of_dto_def hm_insert_def parse_ayin_v2_swap_event_def swap_of_fields_def extract_bigdecimal_field_def
      extract_string_field_def decimal_text_def only_swap_def hm_entry_def aggregate_tx_def account_record_def
      plain_block_def)

theorem dex_batch_race_witness:
  "\<exists>s s'. pipe_reach (dex_processor False toy_crypto \<lparr>date_min = 0, date_max = 9\<rparr> decimal_text)
      [pool_batch, swap_batch] empty_app_db s \<and> pipe_result s = Some (Inr ()) \<and>
    pipe_reach (dex_processor False toy_crypto \<lparr>date_min = 0, date_max = 9\<rparr> decimal_text)
      [pool_batch, swap_batch] empty_app_db s' \<and> pipe_result s' = Some (Inr ()) \<and>
    t_rows (ad_account_txs (pp_db s)) = [] \<and> t_rows (ad_account_txs (pp_db s')) = [mk_account_tx 1 only_swap]"
proof -
  have "t_rows (ad_account_txs (snd (dex_store_output (CustomOut (DexOutput [] []))
      (snd (dex_store_output first_output empty_app_db))))) = []"
    "t_rows (ad_account_txs (snd (dex_store_output (CustomOut (DexOutput [] [only_swap]))
      (snd (dex_store_output first_output empty_app_db))))) = [mk_account_tx 1 only_swap]"
    by (simp_all add: dex_store_output_def store_account_txs_def first_output_def empty_app_db_def empty_table_def
        insert_transactions_def insert_ignore_def insert_ignore1_def has_key_def append_row_def)
  note final = this
  note runs = dex_batch_race [OF pool_batch_output swap_batch_early swap_batch_late, of False,
      unfolded insert_subset mem_Collect_eq]
  from runs [THEN conjunct1] runs [THEN conjunct2, THEN conjunct1] show ?thesis
    using final by (elim exE conjE) (intro exI conjI; simp)
qed

end
