(* ===== verification/Lending_Store.thy ===== *)
theory Lending_Store
  imports Account_Processors
begin

text \<open>
  The lending repository (\<^verbatim>\<open>repository/lending_repository.rs\<close>): markets, events, snapshots, and the positions
  that are recomputed from the events of a user. Parameters: \<^verbatim>\<open>collate\<close>, the order of texts in the database;
  \<^verbatim>\<open>qdiv\<close>, the division of \<^verbatim>\<open>NUMERIC\<close> values; \<^verbatim>\<open>qnum\<close>, the conversion of text to
  \<^verbatim>\<open>NUMERIC\<close>; \<^verbatim>\<open>now\<close>, the time of the query.
\<close>

record lending_db = app_db +
  ld_markets :: "market table"
  ld_events :: "lending_event table"
  ld_positions :: "position_snapshot table"
  ld_states :: "market_state_snapshot table"
  ld_stats :: "lending_stats_snapshot table"

section \<open>SQL of this repository\<close>

text \<open>\<^verbatim>\<open>DISTINCT ON (key)\<close> keeps the first row of each key; \<^verbatim>\<open>OFFSET (page - 1) * limit\<close>.\<close>

primrec distinct_on :: "('r \<Rightarrow> 'k) \<Rightarrow> 'r list \<Rightarrow> 'r list" where
  "distinct_on key [] = []"
| "distinct_on key (r # rs) = r # filter (\<lambda>s. key s \<noteq> key r) (distinct_on key rs)"

definition numbered_page :: "int \<Rightarrow> int \<Rightarrow> 'a list \<Rightarrow> 'a list res" where
  "numbered_page page limit = sql_page (wrap_i64 (wrap_i64 (page - 1) * limit)) limit"

definition insert_all :: "(int \<Rightarrow> 'n \<Rightarrow> 'r) \<Rightarrow> 'n list \<Rightarrow> 'r table \<Rightarrow> 'r table" where
  "insert_all mk ns T = fold (append_row mk) ns T"

section \<open>Markets and events\<close>

definition get_all_markets :: "'z lending_db_scheme \<Rightarrow> market list" where
  "get_all_markets db = sort_key mkt_created_at (t_rows (ld_markets db))"

definition get_markets :: "int \<Rightarrow> int \<Rightarrow> 'z lending_db_scheme \<Rightarrow> market list res" where
  "get_markets page limit db = numbered_page page limit (get_all_markets db)"

text \<open>Both the id and the contract of a market are unique, and the conflict clause covers both.\<close>

definition insert_market1 :: "market \<Rightarrow> market table \<Rightarrow> market table" where
  "insert_market1 m T =
    (if \<exists>r\<in>set (t_rows T). mkt_id r = mkt_id m \<or> mkt_market_contract_id r = mkt_market_contract_id m then T
     else T\<lparr>t_rows := t_rows T @ [m]\<rparr>)"

definition insert_markets :: "market list \<Rightarrow> 'z lending_db_scheme \<Rightarrow> 'z lending_db_scheme" where
  "insert_markets markets db =
    (if markets = [] then db else db\<lparr>ld_markets := fold insert_market1 markets (ld_markets db)\<rparr>)"

definition get_market :: "string \<Rightarrow> 'z lending_db_scheme \<Rightarrow> market option" where
  "get_market market_id db = first_of (filter (\<lambda>m. mkt_id m = market_id) (t_rows (ld_markets db)))"

definition get_activity ::
  "string \<Rightarrow> string list \<Rightarrow> string option \<Rightarrow> int \<Rightarrow> int \<Rightarrow> 'z lending_db_scheme \<Rightarrow> lending_event list res" where
  "get_activity market_id event_types address page limit db =
    (let rows = filter (\<lambda>e. le_market_id (lev_row e) = market_id \<and> le_event_type (lev_row e) \<in> set event_types)
           (t_rows (ld_events db));
         rows2 = (case address of None \<Rightarrow> rows | Some a \<Rightarrow> filter (\<lambda>e. le_on_behalf (lev_row e) = a) rows)
     in numbered_page page limit (order_desc (\<lambda>e. le_block_time (lev_row e)) rows2))"

definition mk_lending_event :: "int \<Rightarrow> new_lending_event \<Rightarrow> lending_event" where
  "mk_lending_event i n = \<lparr>lev_id = i, lev_row = n\<rparr>"

definition new_event_key :: "new_lending_event \<Rightarrow> string \<times> int" where
  "new_event_key n = (le_transaction_id n, le_event_index n)"

definition lending_event_key :: "lending_event \<Rightarrow> string \<times> int" where
  "lending_event_key e = new_event_key (lev_row e)"

definition insert_lending_events :: "new_lending_event list \<Rightarrow> 'z lending_db_scheme \<Rightarrow> 'z lending_db_scheme" where
  "insert_lending_events events db =
    (if events = [] then db
     else db\<lparr>ld_events := insert_ignore new_event_key lending_event_key mk_lending_event events (ld_events db)\<rparr>)"

definition get_user_events_for_market :: "string \<Rightarrow> string \<Rightarrow> 'z lending_db_scheme \<Rightarrow> lending_event list" where
  "get_user_events_for_market address market_id db = sort_key (\<lambda>e. le_block_time (lev_row e))
    (filter (\<lambda>e. le_on_behalf (lev_row e) = address \<and> le_market_id (lev_row e) = market_id) (t_rows (ld_events db)))"

definition get_borrow_events_in_period ::
  "naive_datetime \<Rightarrow> naive_datetime \<Rightarrow> 'z lending_db_scheme \<Rightarrow> lending_event list" where
  "get_borrow_events_in_period start_time end_time db = filter (\<lambda>e. le_event_type (lev_row e) = ''Borrow''
    \<and> start_time \<le> le_block_time (lev_row e) \<and> le_block_time (lev_row e) < end_time) (t_rows (ld_events db))"

definition sum_event_amounts ::
  "string \<Rightarrow> string \<Rightarrow> naive_datetime \<Rightarrow> naive_datetime \<Rightarrow> 'z lending_db_scheme \<Rightarrow> rat" where
  "sum_event_amounts market_id event_type since until db = sum_list (List.map (\<lambda>e. le_amount (lev_row e))
    (filter (\<lambda>e. le_market_id (lev_row e) = market_id \<and> le_event_type (lev_row e) = event_type
      \<and> since < le_block_time (lev_row e) \<and> le_block_time (lev_row e) \<le> until) (t_rows (ld_events db))))"

text \<open>
  \<^verbatim>\<open>(fields->6->>'value')::numeric\<close>: a missing field or a JSON null is \<^verbatim>\<open>NULL\<close>, which \<^verbatim>\<open>SUM\<close>
  ignores; a text that is no number fails the query.
\<close>

fun bad_debt_value :: "(string \<Rightarrow> rat option) \<Rightarrow> json \<Rightarrow> rat option res" where
  "bad_debt_value qnum (JString s) = and_then (ok_or ''invalid input syntax for type numeric'' (qnum s)) (\<lambda>x. Inr (Some x))"
| "bad_debt_value qnum (JNumber n) = Inr (Some (of_int n))"
| "bad_debt_value qnum JNull = Inr None"
| "bad_debt_value qnum _ = Inl (Error ''invalid input syntax for type numeric'')"

definition sum_bad_debt_assets :: "(string \<Rightarrow> rat option) \<Rightarrow> string \<Rightarrow> 'z lending_db_scheme \<Rightarrow> rat res" where
  "sum_bad_debt_assets qnum market_id db =
    and_then (map_res (\<lambda>e. if 6 < length (le_fields (lev_row e))
        then bad_debt_value qnum (ef_value (le_fields (lev_row e) ! 6)) else Inr None)
      (filter (\<lambda>e. le_event_type (lev_row e) = ''Liquidate'' \<and> le_market_id (lev_row e) = market_id) (t_rows (ld_events db))))
    (\<lambda>xs. Inr (sum_list (List.map_filter id xs)))"

section \<open>Positions\<close>

text \<open>Repaid assets are the fourth field of a liquidation.\<close>

definition repaid_assets_of :: "(string \<Rightarrow> rat option) \<Rightarrow> new_lending_event \<Rightarrow> rat option" where
  "repaid_assets_of pd e =
    (if 3 < length (le_fields e) then Option.bind (json_as_str (ef_value (le_fields e ! 3))) pd else None)"

definition clamped_sub :: "rat \<Rightarrow> rat \<Rightarrow> rat" where
  "clamped_sub amount x = (if x > amount then 0 else amount - x)"

definition apply_event :: "(string \<Rightarrow> rat option) \<Rightarrow> new_lending_event \<Rightarrow> position \<Rightarrow> position" where
  "apply_event pd e p =
    (let p2 =
      (if le_event_type e = ''Supply'' then
         p\<lparr>po_supply_shares := po_supply_shares p + le_shares e, po_supplied_amount := po_supplied_amount p + le_amount e\<rparr>
       else if le_event_type e = ''Withdraw'' then
         p\<lparr>po_supply_shares := po_supply_shares p - le_shares e,
           po_supplied_amount := clamped_sub (po_supplied_amount p) (le_amount e)\<rparr>
       else if le_event_type e = ''Borrow'' then
         p\<lparr>po_borrow_shares := po_borrow_shares p + le_shares e, po_borrowed_amount := po_borrowed_amount p + le_amount e\<rparr>
       else if le_event_type e = ''Repay'' then
         p\<lparr>po_borrow_shares := po_borrow_shares p - le_shares e,
           po_borrowed_amount := clamped_sub (po_borrowed_amount p) (le_amount e)\<rparr>
       else if le_event_type e = ''SupplyCollateral'' then p\<lparr>po_collateral := po_collateral p + le_amount e\<rparr>
       else if le_event_type e = ''WithdrawCollateral'' then p\<lparr>po_collateral := po_collateral p - le_amount e\<rparr>
       else if le_event_type e = ''Liquidate'' then
         p\<lparr>po_borrow_shares := po_borrow_shares p - le_shares e, po_collateral := po_collateral p - le_amount e,
           po_borrowed_amount := (case repaid_assets_of pd e of None \<Rightarrow> po_borrowed_amount p
             | Some repaid \<Rightarrow> clamped_sub (po_borrowed_amount p) repaid)\<rparr>
       else p)
     in if le_block_time e > po_updated_at p2 then p2\<lparr>po_updated_at := le_block_time e\<rparr> else p2)"

definition empty_position :: "string \<Rightarrow> string \<Rightarrow> naive_datetime \<Rightarrow> position" where
  "empty_position address market_id t = \<lparr>po_market_id = market_id, po_address = address, po_supply_shares = 0,
    po_borrow_shares = 0, po_collateral = 0, po_supplied_amount = 0, po_borrowed_amount = 0, po_updated_at = t\<rparr>"

definition calculate_user_position ::
  "(string \<Rightarrow> rat option) \<Rightarrow> string \<Rightarrow> string \<Rightarrow> 'z lending_db_scheme \<Rightarrow> position option" where
  "calculate_user_position pd address market_id db =
    (case List.map lev_row (get_user_events_for_market address market_id db) of
      [] \<Rightarrow> None
    | e # es \<Rightarrow>
        let p = fold (apply_event pd) (e # es) (empty_position address market_id (le_block_time e))
        in if po_supply_shares p = 0 \<and> po_borrow_shares p = 0 \<and> po_collateral p = 0 then None else Some p)"

definition market_addresses :: "(string \<Rightarrow> 'k::linorder) \<Rightarrow> string \<Rightarrow> 'z lending_db_scheme \<Rightarrow> string list" where
  "market_addresses collate market_id db = sort_key collate (distinct_on id (List.map (\<lambda>e. le_on_behalf (lev_row e))
    (filter (\<lambda>e. le_market_id (lev_row e) = market_id) (t_rows (ld_events db)))))"

definition calculate_positions_for_market ::
  "(string \<Rightarrow> rat option) \<Rightarrow> (string \<Rightarrow> 'k::linorder) \<Rightarrow> string \<Rightarrow> int \<Rightarrow> int \<Rightarrow> 'z lending_db_scheme \<Rightarrow> position list res"
  where
  "calculate_positions_for_market pd collate market_id page limit db =
    and_then (numbered_page page limit (market_addresses collate market_id db)) (\<lambda>addresses.
      Inr (List.map_filter (\<lambda>address. calculate_user_position pd address market_id db) addresses))"

definition calculate_user_positions :: "(string \<Rightarrow> rat option) \<Rightarrow> string \<Rightarrow> 'z lending_db_scheme \<Rightarrow> position list" where
  "calculate_user_positions pd address db = order_desc po_updated_at
    (List.map_filter (\<lambda>m. calculate_user_position pd address (mkt_id m) db) (get_all_markets db))"

fun get_positions ::
  "(string \<Rightarrow> rat option) \<Rightarrow> (string \<Rightarrow> 'k::linorder) \<Rightarrow> string option \<Rightarrow> string option \<Rightarrow> int \<Rightarrow> int
    \<Rightarrow> 'z lending_db_scheme \<Rightarrow> position list res" where
  "get_positions pd collate (Some market_id) (Some address) page limit db =
    (case calculate_user_position pd address market_id db of Some p \<Rightarrow> Inr [p] | None \<Rightarrow> Inr [])"
| "get_positions pd collate None (Some address) page limit db = Inr (calculate_user_positions pd address db)"
| "get_positions pd collate (Some market_id) None page limit db =
    calculate_positions_for_market pd collate market_id page limit db"
| "get_positions pd collate None None page limit db =
    Inl (Error ''Either market_id or address must be provided'')"

section \<open>Snapshots\<close>

definition mk_position_snapshot :: "int \<Rightarrow> new_position_snapshot \<Rightarrow> position_snapshot" where
  "mk_position_snapshot i n = \<lparr>psn_id = i, psn_row = n\<rparr>"

text \<open>The table of position snapshots has no unique constraint, so its conflict clause never applies.\<close>

definition insert_position_snapshots ::
  "new_position_snapshot list \<Rightarrow> 'z lending_db_scheme \<Rightarrow> 'z lending_db_scheme" where
  "insert_position_snapshots snapshots db =
    (if snapshots = [] then db else db\<lparr>ld_positions := insert_all mk_position_snapshot snapshots (ld_positions db)\<rparr>)"

definition mk_market_state_snapshot :: "int \<Rightarrow> new_market_state_snapshot \<Rightarrow> market_state_snapshot" where
  "mk_market_state_snapshot i n = \<lparr>mst_id = i, mst_row = n\<rparr>"

definition new_state_key :: "new_market_state_snapshot \<Rightarrow> string \<times> naive_datetime" where
  "new_state_key n = (mss_market_id n, mss_snapshot_timestamp n)"

definition state_key :: "market_state_snapshot \<Rightarrow> string \<times> naive_datetime" where
  "state_key s = new_state_key (mst_row s)"

definition insert_market_state_snapshots ::
  "new_market_state_snapshot list \<Rightarrow> 'z lending_db_scheme \<Rightarrow> 'z lending_db_scheme" where
  "insert_market_state_snapshots snapshots db =
    (if snapshots = [] then db
     else db\<lparr>ld_states := insert_ignore new_state_key state_key mk_market_state_snapshot snapshots (ld_states db)\<rparr>)"

definition state_time :: "market_state_snapshot \<Rightarrow> naive_datetime" where
  "state_time s = mss_snapshot_timestamp (mst_row s)"

definition state_market :: "market_state_snapshot \<Rightarrow> string" where
  "state_market s = mss_market_id (mst_row s)"

definition list_snapshot_ids_for_market :: "string \<Rightarrow> 'z lending_db_scheme \<Rightarrow> (int \<times> naive_datetime) list" where
  "list_snapshot_ids_for_market market_id db = List.map (\<lambda>s. (mst_id s, state_time s))
    (sort_key state_time (filter (\<lambda>s. state_market s = market_id) (t_rows (ld_states db))))"

definition update_cumulative_volumes :: "int \<Rightarrow> rat \<Rightarrow> rat \<Rightarrow> 'z lending_db_scheme \<Rightarrow> 'z lending_db_scheme" where
  "update_cumulative_volumes snapshot_id supply_usd borrow_usd db = db\<lparr>ld_states := (ld_states db)\<lparr>t_rows :=
    List.map (\<lambda>s. if mst_id s = snapshot_id
      then s\<lparr>mst_row := (mst_row s)\<lparr>mss_cumulative_supply_volume_usd := supply_usd,
        mss_cumulative_borrow_volume_usd := borrow_usd\<rparr>\<rparr> else s) (t_rows (ld_states db))\<rparr>\<rparr>"

text \<open>The newest row of every market, by market id.\<close>

definition get_latest_market_state_snapshots ::
  "(string \<Rightarrow> 'k::linorder) \<Rightarrow> 'z lending_db_scheme \<Rightarrow> market_state_snapshot list" where
  "get_latest_market_state_snapshots collate db =
    distinct_on state_market (sort_key (\<lambda>s. collate (state_market s)) (order_desc state_time (t_rows (ld_states db))))"

definition point_of :: "series_bucket \<Rightarrow> market_state_snapshot \<Rightarrow> market_state_point" where
  "point_of b s = (let r = mst_row s in \<lparr>msp_market_id = mss_market_id r,
    msp_bucket_ts = date_trunc (date_trunc_kind b) (mss_snapshot_timestamp r),
    msp_total_supply_usd = mss_total_supply_usd r, msp_total_borrow_usd = mss_total_borrow_usd r,
    msp_total_collateral_usd = mss_total_collateral_usd r, msp_total_supply_assets = mss_total_supply_assets r,
    msp_total_borrow_assets = mss_total_borrow_assets r, msp_borrow_apy = mss_borrow_apy r, msp_fee = mss_fee r,
    msp_cumulative_supply_volume_usd = mss_cumulative_supply_volume_usd r,
    msp_cumulative_borrow_volume_usd = mss_cumulative_borrow_volume_usd r, msp_bad_debt_usd = mss_bad_debt_usd r\<rparr>)"

definition get_market_state_points ::
  "naive_datetime \<Rightarrow> (string \<Rightarrow> 'k::linorder) \<Rightarrow> string option \<Rightarrow> series_bucket \<Rightarrow> int \<Rightarrow> 'z lending_db_scheme
    \<Rightarrow> market_state_point list" where
  "get_market_state_points now collate market_id_filter b window_seconds db =
    (let rows = filter (\<lambda>s. now - window_seconds * second_ns \<le> state_time s) (t_rows (ld_states db));
         rows2 = (case market_id_filter of None \<Rightarrow> rows | Some m \<Rightarrow> filter (\<lambda>s. state_market s = m) rows);
         bucket = (\<lambda>s. date_trunc (date_trunc_kind b) (state_time s))
     in List.map (point_of b) (distinct_on (\<lambda>s. (state_market s, bucket s))
       (sort_key (\<lambda>s. collate (state_market s)) (sort_key bucket (order_desc state_time rows2)))))"

section \<open>History and statistics\<close>

text \<open>
  A point of a user's history: the bucket, the supplied and the borrowed amount. Without a market the last snapshots
  of the markets in a bucket are summed.
\<close>

definition position_time :: "position_snapshot \<Rightarrow> naive_datetime" where
  "position_time s = pos_timestamp (psn_row s)"

definition history_point :: "string \<Rightarrow> position_snapshot \<Rightarrow> naive_datetime \<times> rat \<times> rat" where
  "history_point interval s = (date_trunc interval (position_time s), pos_supply_amount_usd (psn_row s),
    pos_borrow_amount_usd (psn_row s))"

definition sum_points :: "(naive_datetime \<times> rat \<times> rat) list \<Rightarrow> (naive_datetime \<times> rat \<times> rat) list" where
  "sum_points ps = List.map (\<lambda>b. (b, sum_list (List.map (\<lambda>p. fst (snd p)) (filter (\<lambda>p. fst p = b) ps)),
    sum_list (List.map (\<lambda>p. snd (snd p)) (filter (\<lambda>p. fst p = b) ps)))) (distinct_on id (List.map fst ps))"

definition get_user_position_history ::
  "naive_datetime \<Rightarrow> string \<Rightarrow> string option \<Rightarrow> timeframe \<Rightarrow> 'z lending_db_scheme \<Rightarrow> (naive_datetime \<times> rat \<times> rat) list"
  where
  "get_user_position_history now address market_id tf db =
    (let interval = bucket_interval tf;
         bucket = (\<lambda>s. date_trunc interval (position_time s));
         rows = filter (\<lambda>s. pos_address (psn_row s) = address \<and> timeframe_start now tf \<le> position_time s)
           (t_rows (ld_positions db))
     in case market_id of
       Some m \<Rightarrow> List.map (history_point interval) (distinct_on bucket (sort_key bucket
         (order_desc position_time (filter (\<lambda>s. pos_market_id (psn_row s) = m) rows))))
     | None \<Rightarrow> sum_points (List.map (history_point interval)
         (distinct_on (\<lambda>s. (bucket s, pos_market_id (psn_row s))) (sort_key bucket (order_desc position_time rows)))))"

definition get_position_snapshots_in_period ::
  "naive_datetime \<Rightarrow> naive_datetime \<Rightarrow> 'z lending_db_scheme \<Rightarrow> position_snapshot list" where
  "get_position_snapshots_in_period start_time end_time db =
    filter (\<lambda>s. start_time \<le> position_time s \<and> position_time s < end_time) (t_rows (ld_positions db))"

definition latest_states :: "'z lending_db_scheme \<Rightarrow> market_state_snapshot list" where
  "latest_states db = distinct_on state_market (order_desc state_time (t_rows (ld_states db)))"

definition get_latest_position_snapshot_totals :: "'z lending_db_scheme \<Rightarrow> position_totals" where
  "get_latest_position_snapshot_totals db = (let rows = List.map mst_row (latest_states db) in
    \<lparr>pt_total_supply_usd = sum_list (List.map mss_total_supply_usd rows),
      pt_total_borrow_usd = sum_list (List.map mss_total_borrow_usd rows),
      pt_total_collateral_usd = sum_list (List.map mss_total_collateral_usd rows)\<rparr>)"

definition sql_supply_apy :: "(rat \<Rightarrow> rat \<Rightarrow> rat) \<Rightarrow> new_market_state_snapshot \<Rightarrow> rat" where
  "sql_supply_apy qdiv r = (if mss_total_supply_assets r > 0
    then mss_borrow_apy r * qdiv (mss_total_borrow_assets r) (mss_total_supply_assets r)
      * (1 - qdiv (mss_fee r) 1000000000000000000) else 0)"

text \<open>\<^verbatim>\<open>AVG\<close> over the rows of a market in the window; the other common table expression is the value of the
  newest row.\<close>

definition market_avg ::
  "naive_datetime \<Rightarrow> (rat \<Rightarrow> rat \<Rightarrow> rat) \<Rightarrow> 'z lending_db_scheme \<Rightarrow> (string \<times> rat) list" where
  "market_avg now qdiv db =
    (let rows = List.map mst_row (filter (\<lambda>s. now - 30 * day_ns \<le> state_time s) (t_rows (ld_states db)))
     in List.map (\<lambda>m. let xs = List.map (sql_supply_apy qdiv) (filter (\<lambda>r. mss_market_id r = m) rows)
         in (m, qdiv (sum_list xs) (of_nat (length xs)))) (distinct_on id (List.map mss_market_id rows)))"

definition market_tvl :: "'z lending_db_scheme \<Rightarrow> (string \<times> rat) list" where
  "market_tvl db = List.map (\<lambda>s. (state_market s, mss_total_supply_usd (mst_row s) + mss_total_collateral_usd (mst_row s)))
    (latest_states db)"

definition get_30d_avg_apy_tvl_weighted ::
  "naive_datetime \<Rightarrow> (rat \<Rightarrow> rat \<Rightarrow> rat) \<Rightarrow> 'z lending_db_scheme \<Rightarrow> rat" where
  "get_30d_avg_apy_tvl_weighted now qdiv db =
    (let joined = concat (List.map (\<lambda>(m, avg). List.map (\<lambda>(_, tvl). (tvl, avg))
           (filter (\<lambda>(m', tvl). m' = m \<and> tvl > 0) (market_tvl db))) (market_avg now qdiv db));
         tvl_sum = sum_list (List.map fst joined)
     in if tvl_sum = 0 then 0 else qdiv (sum_list (List.map (\<lambda>(tvl, avg). tvl * avg) joined)) tvl_sum)"

definition mk_lending_stats :: "naive_datetime \<Rightarrow> int \<Rightarrow> new_lending_stats_snapshot \<Rightarrow> lending_stats_snapshot" where
  "mk_lending_stats now i n = \<lparr>lst_id = i, lst_created_at = now, lst_row = n\<rparr>"

definition insert_lending_stats_snapshot ::
  "naive_datetime \<Rightarrow> new_lending_stats_snapshot \<Rightarrow> 'z lending_db_scheme \<Rightarrow> 'z lending_db_scheme" where
  "insert_lending_stats_snapshot now n db = db\<lparr>ld_stats := append_row (mk_lending_stats now) n (ld_stats db)\<rparr>"

definition get_latest_lending_stats :: "'z lending_db_scheme \<Rightarrow> lending_stats_snapshot option" where
  "get_latest_lending_stats db =
    first_of (order_desc (\<lambda>s. lss_snapshot_timestamp (lst_row s)) (t_rows (ld_stats db)))"

end
