(* ===== verification/Lending_Processor.thy ===== *)
theory Lending_Processor
  imports Lending_Store
begin

text \<open>
  The lending processor (\<^verbatim>\<open>processors/lending_processor.rs\<close>): market creations and lending events of the
  protocol's contract become rows of the lending tables. The time of processing is the parameter \<^verbatim>\<open>now\<close>.
\<close>

definition lending_block_time :: "date_limits \<Rightarrow> rich_block \<Rightarrow> naive_datetime" where
  "lending_block_time L block =
    (case from_timestamp L (rust_div (rb_timestamp block) 1000) 0 of None \<Rightarrow> 0 | Some t \<Rightarrow> t)"

definition parse_market_created_event ::
  "date_limits \<Rightarrow> (string \<Rightarrow> rat option) \<Rightarrow> string \<Rightarrow> rich_block \<Rightarrow> contract_event \<Rightarrow> market option" where
  "parse_market_created_event L pd linx_address block e =
    (if ce_contract_address e = linx_address \<and> ce_event_index e = 4 then
      (case (extract_string_field (ce_fields e) 0, extract_string_field (ce_fields e) 1,
          extract_string_field (ce_fields e) 2, extract_string_field (ce_fields e) 3,
          extract_string_field (ce_fields e) 4, extract_string_field (ce_fields e) 5,
          extract_bigdecimal_field pd (ce_fields e) 6) of
        (Some i, Some contract, Some loan, Some collateral, Some oracle, Some irm, Some ltv) \<Rightarrow>
          Some \<lparr>mkt_id = i, mkt_market_contract_id = contract, mkt_collateral_token = collateral,
            mkt_loan_token = loan, mkt_oracle = oracle, mkt_irm = irm, mkt_ltv = ltv,
            mkt_created_at = lending_block_time L block\<rparr>
      | _ \<Rightarrow> None)
     else None)"

definition extract_markets ::
  "date_limits \<Rightarrow> (string \<Rightarrow> rat option) \<Rightarrow> string \<Rightarrow> block_and_events \<Rightarrow> market list" where
  "extract_markets L pd linx_address bwe =
    List.map_filter (parse_market_created_event L pd linx_address (bae_block bwe)) (bae_events bwe)"

text \<open>
  The parsers of the event types differ in the name, in the token of the market that they name, and in the fields
  of amount and shares; some take a zero instead of a field.
\<close>

datatype amount_source = FieldAt nat | ZeroAmount

fun amount_from :: "(string \<Rightarrow> rat option) \<Rightarrow> event_field list \<Rightarrow> amount_source \<Rightarrow> rat option" where
  "amount_from pd fs (FieldAt i) = extract_bigdecimal_field pd fs i"
| "amount_from pd fs ZeroAmount = Some 0"

definition lending_event_of ::
  "date_limits \<Rightarrow> naive_datetime \<Rightarrow> rich_block \<Rightarrow> contract_event \<Rightarrow> string \<Rightarrow> string \<Rightarrow> string \<Rightarrow> string \<Rightarrow> rat \<Rightarrow> rat
    \<Rightarrow> new_lending_event" where
  "lending_event_of L now block e ty market_id token_id on_behalf amount shares =
    \<lparr>le_market_id = market_id, le_event_type = ty, le_token_id = token_id, le_on_behalf = on_behalf,
      le_amount = amount, le_shares = shares, le_transaction_id = ce_tx_id e, le_event_index = ce_event_index e,
      le_block_time = lending_block_time L block, le_created_at = now, le_fields = ce_fields e\<rparr>"

definition parse_user_event ::
  "date_limits \<Rightarrow> (string \<Rightarrow> rat option) \<Rightarrow> naive_datetime \<Rightarrow> rich_block \<Rightarrow> (string, market) hmap \<Rightarrow> string
    \<Rightarrow> (market \<Rightarrow> string) \<Rightarrow> amount_source \<Rightarrow> amount_source \<Rightarrow> contract_event \<Rightarrow> new_lending_event option" where
  "parse_user_event L pd now block markets_map ty token amount shares e =
    Option.bind (extract_string_field (ce_fields e) 0) (\<lambda>market_id.
      let token_id = (case map_of markets_map market_id of None \<Rightarrow> [] | Some m \<Rightarrow> token m) in
      Option.bind (extract_string_field (ce_fields e) 2) (\<lambda>on_behalf.
      Option.bind (amount_from pd (ce_fields e) amount) (\<lambda>a.
      Option.bind (amount_from pd (ce_fields e) shares) (\<lambda>s.
        Some (lending_event_of L now block e ty market_id token_id on_behalf a s)))))"

definition parse_market_created_lending_event ::
  "date_limits \<Rightarrow> naive_datetime \<Rightarrow> rich_block \<Rightarrow> contract_event \<Rightarrow> new_lending_event option" where
  "parse_market_created_lending_event L now block e = map_option (\<lambda>market_id.
    lending_event_of L now block e ''MarketCreated'' market_id [] [] 0 0) (extract_string_field (ce_fields e) 0)"

definition parse_accrue_interest_event ::
  "date_limits \<Rightarrow> (string \<Rightarrow> rat option) \<Rightarrow> naive_datetime \<Rightarrow> rich_block \<Rightarrow> (string, market) hmap \<Rightarrow> contract_event
    \<Rightarrow> new_lending_event option" where
  "parse_accrue_interest_event L pd now block markets_map e =
    Option.bind (extract_string_field (ce_fields e) 0) (\<lambda>market_id.
      let token_id = (case map_of markets_map market_id of None \<Rightarrow> [] | Some m \<Rightarrow> mkt_loan_token m) in
      Option.bind (extract_bigdecimal_field pd (ce_fields e) 2) (\<lambda>a.
      Option.bind (extract_bigdecimal_field pd (ce_fields e) 3) (\<lambda>s.
        Some (lending_event_of L now block e ''AccrueInterest'' market_id token_id [] a s))))"

definition parse_supply_event ::
  "date_limits \<Rightarrow> (string \<Rightarrow> rat option) \<Rightarrow> naive_datetime \<Rightarrow> rich_block \<Rightarrow> (string, market) hmap \<Rightarrow> contract_event
    \<Rightarrow> new_lending_event option" where
  "parse_supply_event L pd now block M =
    parse_user_event L pd now block M ''Supply'' mkt_loan_token (FieldAt 3) (FieldAt 4)"

definition parse_withdraw_event ::
  "date_limits \<Rightarrow> (string \<Rightarrow> rat option) \<Rightarrow> naive_datetime \<Rightarrow> rich_block \<Rightarrow> (string, market) hmap \<Rightarrow> contract_event
    \<Rightarrow> new_lending_event option" where
  "parse_withdraw_event L pd now block M =
    parse_user_event L pd now block M ''Withdraw'' mkt_loan_token (FieldAt 4) (FieldAt 5)"

definition parse_borrow_event ::
  "date_limits \<Rightarrow> (string \<Rightarrow> rat option) \<Rightarrow> naive_datetime \<Rightarrow> rich_block \<Rightarrow> (string, market) hmap \<Rightarrow> contract_event
    \<Rightarrow> new_lending_event option" where
  "parse_borrow_event L pd now block M =
    parse_user_event L pd now block M ''Borrow'' mkt_loan_token (FieldAt 4) (FieldAt 5)"

definition parse_repay_event ::
  "date_limits \<Rightarrow> (string \<Rightarrow> rat option) \<Rightarrow> naive_datetime \<Rightarrow> rich_block \<Rightarrow> (string, market) hmap \<Rightarrow> contract_event
    \<Rightarrow> new_lending_event option" where
  "parse_repay_event L pd now block M =
    parse_user_event L pd now block M ''Repay'' mkt_loan_token (FieldAt 3) (FieldAt 4)"

definition parse_supply_collateral_event ::
  "date_limits \<Rightarrow> (string \<Rightarrow> rat option) \<Rightarrow> naive_datetime \<Rightarrow> rich_block \<Rightarrow> (string, market) hmap \<Rightarrow> contract_event
    \<Rightarrow> new_lending_event option" where
  "parse_supply_collateral_event L pd now block M =
    parse_user_event L pd now block M ''SupplyCollateral'' mkt_collateral_token (FieldAt 3) ZeroAmount"

definition parse_withdraw_collateral_event ::
  "date_limits \<Rightarrow> (string \<Rightarrow> rat option) \<Rightarrow> naive_datetime \<Rightarrow> rich_block \<Rightarrow> (string, market) hmap \<Rightarrow> contract_event
    \<Rightarrow> new_lending_event option" where
  "parse_withdraw_collateral_event L pd now block M =
    parse_user_event L pd now block M ''WithdrawCollateral'' mkt_collateral_token (FieldAt 4) ZeroAmount"

definition parse_liquidate_event ::
  "date_limits \<Rightarrow> (string \<Rightarrow> rat option) \<Rightarrow> naive_datetime \<Rightarrow> rich_block \<Rightarrow> (string, market) hmap \<Rightarrow> contract_event
    \<Rightarrow> new_lending_event option" where
  "parse_liquidate_event L pd now block M =
    parse_user_event L pd now block M ''Liquidate'' mkt_collateral_token (FieldAt 5) (FieldAt 4)"

definition parse_lending_event ::
  "date_limits \<Rightarrow> (string \<Rightarrow> rat option) \<Rightarrow> naive_datetime \<Rightarrow> string \<Rightarrow> rich_block \<Rightarrow> (string, market) hmap \<Rightarrow> contract_event
    \<Rightarrow> new_lending_event option" where
  "parse_lending_event L pd now linx_address block M e =
    (if ce_contract_address e = linx_address \<and> ce_event_index e = 4 then parse_market_created_lending_event L now block e
     else if ce_contract_address e = linx_address \<and> ce_event_index e = 10 then parse_supply_event L pd now block M e
     else if ce_contract_address e = linx_address \<and> ce_event_index e = 11 then parse_withdraw_event L pd now block M e
     else if ce_contract_address e = linx_address \<and> ce_event_index e = 12 then parse_borrow_event L pd now block M e
     else if ce_contract_address e = linx_address \<and> ce_event_index e = 13 then parse_repay_event L pd now block M e
     else if ce_contract_address e = linx_address \<and> ce_event_index e = 14 then
       parse_supply_collateral_event L pd now block M e
     else if ce_contract_address e = linx_address \<and> ce_event_index e = 15 then
       parse_withdraw_collateral_event L pd now block M e
     else if ce_contract_address e = linx_address \<and> ce_event_index e = 16 then parse_liquidate_event L pd now block M e
     else if ce_contract_address e = linx_address \<and> ce_event_index e = 17 then
       parse_accrue_interest_event L pd now block M e
     else None)"

definition extract_lending_events ::
  "date_limits \<Rightarrow> (string \<Rightarrow> rat option) \<Rightarrow> naive_datetime \<Rightarrow> string \<Rightarrow> (string, market) hmap \<Rightarrow> block_and_events
    \<Rightarrow> new_lending_event list" where
  "extract_lending_events L pd now linx_address M bwe =
    List.map_filter (parse_lending_event L pd now linx_address (bae_block bwe) M) (bae_events bwe)"

definition lending_process_blocks ::
  "date_limits \<Rightarrow> (string \<Rightarrow> rat option) \<Rightarrow> naive_datetime \<Rightarrow> string \<Rightarrow> block_and_events list \<Rightarrow> 'z lending_db_scheme
    \<Rightarrow> app_output processor_output res" where
  "lending_process_blocks L pd now linx_address bwe db =
    (let new_markets = concat (List.map (extract_markets L pd linx_address) bwe);
         market_map = fold (\<lambda>m. hm_insert (mkt_id m) m) (get_all_markets db @ new_markets) []
     in Inr (CustomOut (LendingOutput new_markets
          (concat (List.map (extract_lending_events L pd now linx_address market_map) bwe)))))"

definition lending_store_output ::
  "app_output processor_output \<Rightarrow> ('z lending_db_scheme, error, unit) action" where
  "lending_store_output out db = (case out of
      CustomOut (LendingOutput markets events) \<Rightarrow>
        let db1 = (if markets \<noteq> [] then insert_markets markets db else db)
        in (Inr (), if events \<noteq> [] then insert_lending_events events db1 else db1)
    | _ \<Rightarrow> (Inr (), db))"

definition lending_processor ::
  "date_limits \<Rightarrow> (string \<Rightarrow> rat option) \<Rightarrow> naive_datetime \<Rightarrow> string
    \<Rightarrow> (app_output processor_output, 'z lending_db_scheme) processor" where
  "lending_processor L pd now linx_address = \<lparr>pr_name = ''lending'',
    pr_process_blocks = lending_process_blocks L pd now linx_address, pr_store_output = lending_store_output\<rparr>"

end
