(* ===== verification/Lending_Laws.thy ===== *)
theory Lending_Laws
  imports Lending_Processor Account_Processors_Laws
begin

text \<open>
  Laws of the lending store: a position is the net sum of the user's events, whatever their order; and of two events
  of one type in one transaction the second is lost.
\<close>

interpretation lend_events: keyed_table new_event_key lending_event_key mk_lending_event
  by unfold_locales (simp add: lending_event_key_def mk_lending_event_def)

interpretation state_rows: keyed_table new_state_key state_key mk_market_state_snapshot
  by unfold_locales (simp add: state_key_def mk_market_state_snapshot_def)

section \<open>Positions\<close>

text \<open>The sum of a quantity over the events of some type, and the net sums that make a position.\<close>

definition event_sum :: "(new_lending_event \<Rightarrow> rat) \<Rightarrow> string list \<Rightarrow> new_lending_event list \<Rightarrow> rat" where
  "event_sum f tys es = sum_list (List.map f (filter (\<lambda>e. le_event_type e \<in> set tys) es))"

definition net_supply_shares :: "new_lending_event list \<Rightarrow> rat" where
  "net_supply_shares es = event_sum le_shares [''Supply''] es - event_sum le_shares [''Withdraw''] es"

definition net_borrow_shares :: "new_lending_event list \<Rightarrow> rat" where
  "net_borrow_shares es = event_sum le_shares [''Borrow''] es - event_sum le_shares [''Repay'', ''Liquidate''] es"

definition net_collateral :: "new_lending_event list \<Rightarrow> rat" where
  "net_collateral es = event_sum le_amount [''SupplyCollateral''] es
    - event_sum le_amount [''WithdrawCollateral'', ''Liquidate''] es"

definition net_supplied :: "new_lending_event list \<Rightarrow> rat" where
  "net_supplied es = event_sum le_amount [''Supply''] es - event_sum le_amount [''Withdraw''] es"

lemma event_sum_Cons: "event_sum f tys (e # es) = (if le_event_type e \<in> set tys then f e else 0) + event_sum f tys es"
  by (simp add: event_sum_def)

lemma event_sum_perm: "mset es = mset es' \<Longrightarrow> event_sum f tys es = event_sum f tys es'"
  by (simp add: event_sum_def sum_mset_sum_list [symmetric])

definition user_rows :: "string \<Rightarrow> string \<Rightarrow> 'z lending_db_scheme \<Rightarrow> new_lending_event list" where
  "user_rows address market_id db = filter (\<lambda>e. le_on_behalf e = address \<and> le_market_id e = market_id)
    (List.map lev_row (t_rows (ld_events db)))"

lemma user_events_mset: "mset (List.map lev_row (get_user_events_for_market a m db)) = mset (user_rows a m db)"
  by (simp add: get_user_events_for_market_def user_rows_def filter_map comp_def)

definition event_types :: "string list" where
  "event_types = [''Supply'', ''Withdraw'', ''Borrow'', ''Repay'', ''SupplyCollateral'', ''WithdrawCollateral'', ''Liquidate'']"

lemma event_type_cases:
  obtains "le_event_type e = ''Supply''" | "le_event_type e = ''Withdraw''" | "le_event_type e = ''Borrow''"
  | "le_event_type e = ''Repay''" | "le_event_type e = ''SupplyCollateral''" | "le_event_type e = ''WithdrawCollateral''"
  | "le_event_type e = ''Liquidate''" | "le_event_type e \<notin> set event_types"
  unfolding event_types_def by (metis empty_iff empty_set insert_iff list.simps(15))

lemma apply_event_supply:
  "po_supply_shares (apply_event pd e p) = po_supply_shares p + net_supply_shares [e]"
  by (rule event_type_cases [of e]) (simp_all add: net_supply_shares_def event_sum_def apply_event_def Let_def event_types_def)

lemma apply_event_borrow:
  "po_borrow_shares (apply_event pd e p) = po_borrow_shares p + net_borrow_shares [e]"
  by (rule event_type_cases [of e]) (simp_all add: net_borrow_shares_def event_sum_def apply_event_def Let_def event_types_def)

lemma apply_event_collateral:
  "po_collateral (apply_event pd e p) = po_collateral p + net_collateral [e]"
  by (rule event_type_cases [of e]) (simp_all add: net_collateral_def event_sum_def apply_event_def Let_def event_types_def)

lemma apply_event_supplied:
  assumes "0 \<le> le_amount e" "0 \<le> po_supplied_amount p"
  shows "0 \<le> po_supplied_amount (apply_event pd e p)"
    and "po_supplied_amount p + net_supplied [e] \<le> po_supplied_amount (apply_event pd e p)"
  by (cases rule: event_type_cases [of e];
      use assms in \<open>simp add: net_supplied_def event_sum_def apply_event_def Let_def event_types_def clamped_sub_def\<close>)+

lemma apply_event_borrowed:
  assumes "0 \<le> le_amount e" "0 \<le> po_borrowed_amount p"
  shows "0 \<le> po_borrowed_amount (apply_event pd e p)"
  by (cases rule: event_type_cases [of e])
    (use assms in \<open>simp_all add: apply_event_def Let_def event_types_def clamped_sub_def split: option.splits\<close>)

lemma apply_event_other:
  "po_address (apply_event pd e p) = po_address p"
  "po_market_id (apply_event pd e p) = po_market_id p"
  "po_updated_at (apply_event pd e p) = max (po_updated_at p) (le_block_time e)"
  by (rule event_type_cases [of e]; simp add: apply_event_def Let_def event_types_def max_def)+

lemma net_Cons:
  "net_supply_shares (e # es) = net_supply_shares [e] + net_supply_shares es"
  "net_borrow_shares (e # es) = net_borrow_shares [e] + net_borrow_shares es"
  "net_collateral (e # es) = net_collateral [e] + net_collateral es"
  "net_supplied (e # es) = net_supplied [e] + net_supplied es"
  by (simp_all only: net_supply_shares_def net_borrow_shares_def net_collateral_def net_supplied_def event_sum_Cons)
    (simp_all add: event_sum_def)

lemma net_Nil [simp]: "net_supply_shares [] = 0" "net_borrow_shares [] = 0" "net_collateral [] = 0" "net_supplied [] = 0"
  by (simp_all add: net_supply_shares_def net_borrow_shares_def net_collateral_def net_supplied_def event_sum_def)

lemma fold_apply_shares:
  "po_supply_shares (fold (apply_event pd) es p) = po_supply_shares p + net_supply_shares es"
  by (induction es arbitrary: p) (simp_all, subst net_Cons(1), simp add: apply_event_supply)

lemma fold_apply_borrow:
  "po_borrow_shares (fold (apply_event pd) es p) = po_borrow_shares p + net_borrow_shares es"
  by (induction es arbitrary: p) (simp_all, subst net_Cons(2), simp add: apply_event_borrow)

lemma fold_apply_collateral:
  "po_collateral (fold (apply_event pd) es p) = po_collateral p + net_collateral es"
  by (induction es arbitrary: p) (simp_all, subst net_Cons(3), simp add: apply_event_collateral)

lemma fold_apply_other:
  "po_address (fold (apply_event pd) es p) = po_address p"
  "po_market_id (fold (apply_event pd) es p) = po_market_id p"
  "po_updated_at (fold (apply_event pd) es p) = fold max (List.map le_block_time es) (po_updated_at p)"
  by (induction es arbitrary: p) (simp_all add: apply_event_other max.commute)

lemma fold_apply_amounts:
  assumes "\<forall>e\<in>set es. 0 \<le> le_amount e" "0 \<le> po_supplied_amount p" "0 \<le> po_borrowed_amount p"
  shows "0 \<le> po_supplied_amount (fold (apply_event pd) es p) \<and> 0 \<le> po_borrowed_amount (fold (apply_event pd) es p) \<and>
    po_supplied_amount p + net_supplied es \<le> po_supplied_amount (fold (apply_event pd) es p)"
  using assms
proof (induction es arbitrary: p)
  case (Cons e es)
  have "0 \<le> po_supplied_amount (apply_event pd e p)" "0 \<le> po_borrowed_amount (apply_event pd e p)"
    "po_supplied_amount p + net_supplied [e] \<le> po_supplied_amount (apply_event pd e p)"
    using Cons.prems apply_event_supplied apply_event_borrowed by simp_all
  with Cons.IH [of "apply_event pd e p"] Cons.prems net_Cons(4) [of e es] show ?case
    by simp
qed simp

text \<open>The position that the events of a user stand for.\<close>

definition position_matches :: "new_lending_event list \<Rightarrow> position \<Rightarrow> bool" where
  "position_matches es p \<longleftrightarrow>
    po_supply_shares p = net_supply_shares es \<and> po_borrow_shares p = net_borrow_shares es \<and>
    po_collateral p = net_collateral es \<and>
    0 \<le> po_supplied_amount p \<and> net_supplied es \<le> po_supplied_amount p \<and> 0 \<le> po_borrowed_amount p \<and>
    po_updated_at p = Max (le_block_time ` set es)"

lemma position_fold:
  assumes "es = List.map lev_row (get_user_events_for_market a m db)" "es \<noteq> []"
    and "\<forall>e\<in>set (user_rows a m db). 0 \<le> le_amount e"
  shows "position_matches (user_rows a m db) (fold (apply_event pd) es (empty_position a m (le_block_time (hd es))))"
proof -
  have perm: "mset es = mset (user_rows a m db)"
    using assms(1) user_events_mset by simp
  have set: "set es = set (user_rows a m db)"
    using perm by (rule mset_eq_setD)
  have net: "net_supply_shares es = net_supply_shares (user_rows a m db)" "net_borrow_shares es = net_borrow_shares (user_rows a m db)"
    "net_collateral es = net_collateral (user_rows a m db)" "net_supplied es = net_supplied (user_rows a m db)"
    unfolding net_supply_shares_def net_borrow_shares_def net_collateral_def net_supplied_def
    using event_sum_perm [OF perm] by simp_all
  have am: "\<forall>e\<in>set es. 0 \<le> le_amount e"
    using assms(3) set by simp
  obtain e es' where es: "es = e # es'"
    using assms(2) by (cases es) auto
  have t: "fold max (List.map le_block_time es) (le_block_time (hd es)) = Max (le_block_time ` set es)"
    unfolding es by (simp add: Max.set_eq_fold [symmetric] del: Max_insert)
  show ?thesis
    using fold_apply_amounts [OF am, of "empty_position a m (le_block_time (hd es))" pd] net t set
    by (simp add: position_matches_def fold_apply_shares fold_apply_borrow fold_apply_collateral fold_apply_other
        empty_position_def)
qed

lemma position_spec:
  assumes "\<forall>e\<in>set (user_rows a m db). 0 \<le> le_amount e"
  shows "case calculate_user_position pd a m db of
      None \<Rightarrow> net_supply_shares (user_rows a m db) = 0 \<and> net_borrow_shares (user_rows a m db) = 0
        \<and> net_collateral (user_rows a m db) = 0
    | Some p \<Rightarrow> po_address p = a \<and> po_market_id p = m \<and> position_matches (user_rows a m db) p
        \<and> \<not> (po_supply_shares p = 0 \<and> po_borrow_shares p = 0 \<and> po_collateral p = 0)"
proof (cases "List.map lev_row (get_user_events_for_market a m db)")
  case Nil
  then have "user_rows a m db = []"
    using user_events_mset [of a m db] by (metis mset_zero_iff)
  with Nil show ?thesis
    by (simp add: calculate_user_position_def)
next
  case (Cons e es)
  let ?p = "fold (apply_event pd) (e # es) (empty_position a m (le_block_time e))"
  have pos: "position_matches (user_rows a m db) ?p"
    using position_fold [OF Cons [symmetric] _ assms, of pd] by simp
  have "po_address ?p = a" "po_market_id ?p = m"
    by (simp_all only: fold_apply_other) (simp_all add: empty_position_def)
  moreover have "calculate_user_position pd a m db =
    (if po_supply_shares ?p = 0 \<and> po_borrow_shares ?p = 0 \<and> po_collateral ?p = 0 then None else Some ?p)"
    unfolding calculate_user_position_def Cons list.case Let_def ..
  ultimately show ?thesis
    using pos by (auto simp: position_matches_def)
qed

text \<open>C20: A position is the net sum of the user's events in the market, whatever their order in the table: it is
  reported exactly when some net sum is not zero, its amounts never fall below zero or below the net deposits,
  and it carries the time of the newest event.\<close>
theorem position_is_net_of_events:
  assumes "\<forall>e\<in>set (user_rows a m db). 0 \<le> le_amount e"
  shows "case calculate_user_position pd a m db of
      None \<Rightarrow> net_supply_shares (user_rows a m db) = 0 \<and> net_borrow_shares (user_rows a m db) = 0
        \<and> net_collateral (user_rows a m db) = 0
    | Some p \<Rightarrow> po_address p = a \<and> po_market_id p = m \<and> position_matches (user_rows a m db) p
        \<and> \<not> (po_supply_shares p = 0 \<and> po_borrow_shares p = 0 \<and> po_collateral p = 0)"
  using assms by (rule position_spec)

section \<open>Events of one type in one transaction\<close>

lemma insert_lending_events_user:
  assumes "\<not> has_key lending_event_key (new_event_key n1) (ld_events db)" "new_event_key n2 = new_event_key n1"
  shows "List.map lev_row (t_rows (ld_events (insert_lending_events [n1, n2] db))) =
    List.map lev_row (t_rows (ld_events db)) @ [n1]"
  using assms
  by (simp add: insert_lending_events_def insert_ignore_def insert_ignore1_def mk_lending_event_def lending_event_key_def)

lemma supply_event_shape:
  assumes "parse_supply_event L pd now block M e = Some n"
  shows "new_event_key n = (ce_tx_id e, ce_event_index e) \<and> le_event_type n = ''Supply''"
  using assms
  by (auto simp: parse_supply_event_def parse_user_event_def lending_event_of_def new_event_key_def bind_eq_Some_conv)

lemma supply_event_dispatch:
  "ce_contract_address e = linx \<Longrightarrow> ce_event_index e = 10 \<Longrightarrow>
    parse_lending_event L pd now linx block M e = parse_supply_event L pd now block M e \<and>
    parse_market_created_event L pd linx block e = None"
  by (simp add: parse_lending_event_def parse_market_created_event_def)

text \<open>C21: A transaction that supplies twice counts once: the index of an event names its type, so both deposits have
  the key of the unique constraint, the second is dropped, and the position shows the shares of the first only.\<close>
theorem second_deposit_lost:
  fixes db :: "'z lending_db_scheme"
  defines "M \<equiv> fold (\<lambda>m. hm_insert (mkt_id m) m) (get_all_markets db) []"
  assumes events: "bae_events bwe = [e1, e2]" "ce_tx_id e2 = ce_tx_id e1"
      "ce_contract_address e1 = linx" "ce_event_index e1 = 10" "ce_contract_address e2 = linx" "ce_event_index e2 = 10"
    and parse: "parse_supply_event L pd now (bae_block bwe) M e1 = Some n1"
      "parse_supply_event L pd now (bae_block bwe) M e2 = Some n2"
    and user: "le_on_behalf n1 = a" "le_market_id n1 = m"
    and fresh: "user_rows a m db = []" "\<not> has_key lending_event_key (ce_tx_id e1, 10) (ld_events db)"
    and amount: "0 \<le> le_amount n1"
  shows "\<exists>out. lending_process_blocks L pd now linx [bwe] db = Inr out \<and>
    map_option po_supply_shares (calculate_user_position pd a m (snd (lending_store_output out db))) =
      (if le_shares n1 = 0 then None else Some (le_shares n1))"
proof -
  let ?out = "CustomOut (LendingOutput [] [n1, n2])"
  let ?db = "insert_lending_events [n1, n2] db"
  note shape1 = supply_event_shape [OF parse(1)] and shape2 = supply_event_shape [OF parse(2)]
  have out: "lending_process_blocks L pd now linx [bwe] db = Inr ?out"
    using supply_event_dispatch [of e1 linx L pd now "bae_block bwe" M] supply_event_dispatch [of e2 linx L pd now "bae_block bwe" M]
      events parse
    by (simp add: lending_process_blocks_def extract_markets_def extract_lending_events_def map_filter_simps M_def)
  have store: "snd (lending_store_output ?out db) = ?db"
    by (simp add: lending_store_output_def)
  have rows: "user_rows a m ?db = [n1]"
    using insert_lending_events_user [of n1 db n2] fresh shape1 shape2 events user by (simp add: user_rows_def)
  have "event_sum f tys [n1] = (if ''Supply'' \<in> set tys then f n1 else 0)" for f tys
    using shape1 by (simp add: event_sum_def)
  then have net: "net_supply_shares [n1] = le_shares n1" "net_borrow_shares [n1] = 0" "net_collateral [n1] = 0"
    by (simp_all add: net_supply_shares_def net_borrow_shares_def net_collateral_def)
  show ?thesis
    using position_spec [of a m ?db pd] amount out store
    by (intro exI [of _ ?out]) (auto simp: rows net position_matches_def split: option.splits)
qed

section \<open>Examples\<close>

definition empty_lending_db :: lending_db where
  "empty_lending_db = \<lparr>db_blocks = empty_table, db_events = empty_table, db_txs = empty_table,
    ad_account_txs = empty_table, ad_pools = empty_table, ld_markets = empty_table, ld_events = empty_table,
    ld_positions = empty_table, ld_states = empty_table, ld_stats = empty_table\<rparr>"

definition supply_event :: contract_event where
  "supply_event = plain_event ''linx'' 10 [''m'', ''caller'', ''user'', ''5'', ''6'']"

definition stored_supply :: new_lending_event where
  "stored_supply = lending_event_of \<lparr>date_min = 0, date_max = 9\<rparr> 0 (plain_block ''b'' 1) supply_event ''Supply'' ''m'' [] ''user'' 5 6"

lemma supply_parsed:
  "parse_supply_event \<lparr>date_min = 0, date_max = 9\<rparr> decimal_text 0 (bae_block (hop_block es)) [] supply_event = Some stored_supply"
  by (simp add: stored_supply_def hop_block_def supply_event_def plain_event_def text_fields_def parse_supply_event_def
      parse_user_event_def extract_string_field_def extract_bigdecimal_field_def decimal_text_def)

lemma empty_lending_db_sel [simp]:
  "get_all_markets empty_lending_db = []" "user_rows a m empty_lending_db = []"
  "t_rows (ld_events empty_lending_db) = []"
  by (simp_all add: empty_lending_db_def empty_table_def get_all_markets_def user_rows_def)

theorem second_deposit_lost_witness:
  "\<exists>out. lending_process_blocks \<lparr>date_min = 0, date_max = 9\<rparr> decimal_text 0 ''linx''
      [hop_block [supply_event, supply_event]] empty_lending_db = Inr out \<and>
    map_option po_supply_shares (calculate_user_position decimal_text ''user'' ''m''
      (snd (lending_store_output out empty_lending_db))) = Some 6"
proof -
  have e: "bae_events (hop_block [supply_event, supply_event]) = [supply_event, supply_event]"
    "ce_contract_address supply_event = ''linx''" "ce_event_index supply_event = 10"
    by (simp_all add: hop_block_def supply_event_def plain_event_def)
  have n: "le_on_behalf stored_supply = ''user''" "le_market_id stored_supply = ''m''" "le_amount stored_supply = 5"
      "le_shares stored_supply = 6"
    by (simp_all add: stored_supply_def lending_event_of_def)
  show ?thesis
    using second_deposit_lost [where db = empty_lending_db, unfolded empty_lending_db_sel fold_Nil id_apply,
        OF e(1) refl e(2,3) e(2,3) supply_parsed supply_parsed n(1,2) refl]
    by (simp add: n has_key_def)
qed

definition two_events_db :: lending_db where
  "two_events_db = empty_lending_db\<lparr>ld_events := \<lparr>t_rows = [mk_lending_event 1 stored_supply,
    mk_lending_event 2 (stored_supply\<lparr>le_event_type := ''Withdraw'', le_shares := 2, le_amount := 9\<rparr>)], t_next = 3\<rparr>\<rparr>"

lemma stored_supply_sel [simp]:
  "le_on_behalf stored_supply = ''user''" "le_market_id stored_supply = ''m''" "le_amount stored_supply = 5"
  "le_shares stored_supply = 6" "le_event_type stored_supply = ''Supply''"
  by (simp_all add: stored_supply_def lending_event_of_def)

lemma two_events_rows:
  "net_supply_shares (user_rows ''user'' ''m'' two_events_db) = 4"
  "\<forall>e\<in>set (user_rows ''user'' ''m'' two_events_db). 0 \<le> le_amount e"
proof -
  have r: "user_rows ''user'' ''m'' two_events_db =
    [stored_supply, stored_supply\<lparr>le_event_type := ''Withdraw'', le_shares := 2, le_amount := 9\<rparr>]"
    by (simp add: two_events_db_def user_rows_def mk_lending_event_def)
  show "net_supply_shares (user_rows ''user'' ''m'' two_events_db) = 4"
    "\<forall>e\<in>set (user_rows ''user'' ''m'' two_events_db). 0 \<le> le_amount e"
    by (simp_all add: r net_supply_shares_def event_sum_def)
qed

theorem position_is_net_of_events_witness:
  "\<exists>p. calculate_user_position decimal_text ''user'' ''m'' two_events_db = Some p \<and>
    po_supply_shares p = 4 \<and> 0 \<le> po_supplied_amount p"
  using position_is_net_of_events [OF two_events_rows(2), of decimal_text] two_events_rows(1)
  by (auto simp: position_matches_def split: option.splits)

end
