(* ===== verification/Lending_Services.thy ===== *)
theory Lending_Services
  imports Lending_Store
begin

text \<open>
  The services that fill the snapshot tables (\<^verbatim>\<open>services/market_state_snapshot_service.rs\<close>,
  \<^verbatim>\<open>position_snapshot_service.rs\<close>, \<^verbatim>\<open>stats_snapshot_service.rs\<close>). One call of
  \<^verbatim>\<open>generate_snapshots\<close> is a function of the database and of an environment: the node, the token service
  (constant during one call), the clock and the arithmetic of decimals.
\<close>

record service_env =
  sv_dec :: dec_ops
  sv_parse :: "string \<Rightarrow> rat option"
  sv_print :: "rat \<Rightarrow> string"
  sv_qnum :: "string \<Rightarrow> rat option"
  sv_crypto :: crypto_ops
  sv_limits :: date_limits
  sv_call_contract :: "call_contract_params \<Rightarrow> call_contract_result res"
  sv_contract_state :: "string \<Rightarrow> contract_state res"
  sv_token_info :: "string \<Rightarrow> token_info res"
  sv_token_price :: "string \<Rightarrow> rat res"
  sv_linx_address :: string
  sv_linx_group :: int
  sv_tx_id :: string
  sv_now :: naive_datetime

definition wad :: rat where
  "wad = 1000000000000000000"

definition seconds_per_year :: int where
  "seconds_per_year = 31536000"

definition virtual_assets :: rat where
  "virtual_assets = 1"

definition virtual_shares :: rat where
  "virtual_shares = 1000000"

text \<open>\<^verbatim>\<open>x.with_scale(n)\<close> drops the digits behind the \<^verbatim>\<open>n\<close>-th.\<close>

definition with_scale :: "dec_ops \<Rightarrow> nat \<Rightarrow> rat \<Rightarrow> rat" where
  "with_scale D n x = dec_trunc0 D (x * 10 ^ n) / 10 ^ n"

section \<open>Rates\<close>

definition rate_per_second_to_apy :: "dec_ops \<Rightarrow> rat \<Rightarrow> rat" where
  "rate_per_second_to_apy D rate =
    (let first_term = rate * of_int seconds_per_year;
         second_term = dec_div D (first_term * first_term) (2 * wad);
         third_term = dec_div D (second_term * first_term) (3 * wad)
     in dec_div D (first_term + second_term + third_term) wad)"

definition derive_supply_apy :: "dec_ops \<Rightarrow> rat \<Rightarrow> rat \<Rightarrow> rat \<Rightarrow> rat \<Rightarrow> rat" where
  "derive_supply_apy D borrow_apy total_supply_assets total_borrow_assets fee =
    (if total_supply_assets = 0 then 0
     else borrow_apy * dec_div D total_borrow_assets total_supply_assets * (1 - dec_div D fee wad))"

section \<open>Calls of the contracts\<close>

definition bytevec_arg :: "string \<Rightarrow> json" where
  "bytevec_arg v = JObject [(''type'', JString ''ByteVec''), (''value'', JString v)]"

definition u256_arg :: "string \<Rightarrow> json" where
  "u256_arg v = JObject [(''type'', JString ''U256''), (''value'', JString v)]"

definition struct_arg :: "json list \<Rightarrow> json" where
  "struct_arg vs = JObject [(''type'', JString ''Array''), (''value'', JArray vs)]"

definition extract_bigdecimal :: "(string \<Rightarrow> rat option) \<Rightarrow> json \<Rightarrow> rat res" where
  "extract_bigdecimal pd v = and_then (ok_or ''Invalid contract return structure''
      (Option.bind (json_get ''value'' v) json_as_str)) (\<lambda>s. ok_or ''Failed to parse BigDecimal'' (pd s))"

record raw_market_state =
  rms_total_supply_assets :: rat
  rms_total_supply_shares :: rat
  rms_total_borrow_assets :: rat
  rms_total_borrow_shares :: rat
  rms_last_update :: rat
  rms_fee :: rat

definition market_state_params :: "service_env \<Rightarrow> string \<Rightarrow> call_contract_params" where
  "market_state_params E market_id = \<lparr>ccp_group = sv_linx_group E, ccp_world_state_block_hash = None,
    ccp_tx_id = Some (sv_tx_id E), ccp_address = sv_linx_address E, ccp_method_index = 4,
    ccp_args = Some [bytevec_arg market_id], ccp_interested_contracts = None, ccp_input_assets = None\<rparr>"

definition fetch_market_state :: "service_env \<Rightarrow> string \<Rightarrow> raw_market_state res" where
  "fetch_market_state E market_id =
    and_then (with_context ''getMarketState call failed'' (sv_call_contract E (market_state_params E market_id))) (\<lambda>result.
      case ccr_result_type result of
        CallContractFailed \<Rightarrow> Inl (Error (''getMarketState failed for market '' @ market_id))
      | CallContractSucceeded \<Rightarrow>
        and_then (ok_or ''getMarketState returned no values'' (ccr_returns result)) (\<lambda>returns.
        if length returns \<noteq> 6 then Inl (Error (''expected 6 returns from getMarketState, got '' @ string_of_nat (length returns)))
        else and_then (map_res (extract_bigdecimal (sv_parse E)) returns) (\<lambda>xs.
          Inr \<lparr>rms_total_supply_assets = xs ! 0, rms_total_supply_shares = xs ! 1, rms_total_borrow_assets = xs ! 2,
            rms_total_borrow_shares = xs ! 3, rms_last_update = xs ! 4, rms_fee = xs ! 5\<rparr>)))"

definition get_borrow_rate :: "service_env \<Rightarrow> market \<Rightarrow> raw_market_state \<Rightarrow> rat res" where
  "get_borrow_rate E m state =
    (let num = (\<lambda>x. u256_arg (sv_print E x));
         market_params = struct_arg [bytevec_arg (mkt_loan_token m), bytevec_arg (mkt_collateral_token m),
           bytevec_arg (mkt_oracle m), bytevec_arg (mkt_irm m), num (mkt_ltv m)];
         market_state = struct_arg [num (rms_total_supply_assets state), num (rms_total_supply_shares state),
           num (rms_total_borrow_assets state), num (rms_total_borrow_shares state), num (rms_last_update state),
           num (rms_fee state)]
     in and_then (address_from_contract_id (sv_crypto E) (mkt_irm m)) (\<lambda>irm_address.
        and_then (with_context ''borrowRateView call failed'' (sv_call_contract E \<lparr>ccp_group = sv_linx_group E,
          ccp_world_state_block_hash = None, ccp_tx_id = Some (sv_tx_id E), ccp_address = irm_address,
          ccp_method_index = 2, ccp_args = Some [market_params, market_state], ccp_interested_contracts = None,
          ccp_input_assets = None\<rparr>)) (\<lambda>result.
        case ccr_result_type result of
          CallContractFailed \<Rightarrow> Inl (Error (''borrowRateView failed for market '' @ mkt_id m))
        | CallContractSucceeded \<Rightarrow>
          and_then (ok_or ''no returns from borrowRateView'' (ccr_returns result)) (\<lambda>returns.
          case returns of
            [] \<Rightarrow> Inl (Error (''borrowRateView returned no values for market '' @ mkt_id m))
          | r # _ \<Rightarrow> and_then (ok_or ''invalid borrowRateView return'' (Option.bind (json_get ''value'' r) json_as_str))
              (\<lambda>s. ok_or ''borrow rate not a decimal'' (sv_parse E s))))))"

section \<open>Market snapshots\<close>

definition raw_collateral :: "service_env \<Rightarrow> market \<Rightarrow> contract_state \<Rightarrow> rat" where
  "raw_collateral E m state =
    (if mkt_collateral_token m = alph_token_id
     then parse_or_zero (sv_parse E) (ca_atto_alph_amount (cs_asset state))
     else case List.find (\<lambda>t. ct_id t = mkt_collateral_token m) (ca_tokens (cs_asset state)) of
       None \<Rightarrow> 0 | Some t \<Rightarrow> parse_or_zero (sv_parse E) (ct_amount t))"

definition usd_value :: "service_env \<Rightarrow> token_info \<Rightarrow> rat \<Rightarrow> rat \<Rightarrow> rat res" where
  "usd_value E info price amount = and_then (convert_to_decimal (sv_dec E) info amount) (\<lambda>d. Inr (d * price))"

definition build_snapshot ::
  "service_env \<Rightarrow> 'z lending_db_scheme \<Rightarrow> market \<Rightarrow> naive_datetime \<Rightarrow> new_market_state_snapshot res" where
  "build_snapshot E db m snapshot_time =
    and_then (fetch_market_state E (mkt_id m)) (\<lambda>state.
    and_then (address_from_contract_id (sv_crypto E) (mkt_market_contract_id m)) (\<lambda>market_address.
    and_then (with_context ''get_contract_state failed'' (sv_contract_state E market_address)) (\<lambda>contract_state.
    let collateral = raw_collateral E m contract_state in
    and_then (sv_token_info E (mkt_loan_token m)) (\<lambda>loan_info.
    and_then (sv_token_price E (mkt_loan_token m)) (\<lambda>loan_price.
    and_then (sv_token_info E (mkt_collateral_token m)) (\<lambda>coll_info.
    and_then (sv_token_price E (mkt_collateral_token m)) (\<lambda>coll_price.
    and_then (usd_value E loan_info loan_price (rms_total_supply_assets state)) (\<lambda>total_supply_usd.
    and_then (usd_value E loan_info loan_price (rms_total_borrow_assets state)) (\<lambda>total_borrow_usd.
    and_then (usd_value E coll_info coll_price collateral) (\<lambda>total_collateral_usd.
    and_then (get_borrow_rate E m state) (\<lambda>rate.
    and_then (usd_value E loan_info loan_price (sum_event_amounts (mkt_id m) ''Supply'' 0 snapshot_time db)) (\<lambda>cum_supply_usd.
    and_then (usd_value E loan_info loan_price (sum_event_amounts (mkt_id m) ''Borrow'' 0 snapshot_time db)) (\<lambda>cum_borrow_usd.
    and_then (sum_bad_debt_assets (sv_qnum E) (mkt_id m) db) (\<lambda>bad_debt_assets.
    and_then (usd_value E loan_info loan_price bad_debt_assets) (\<lambda>bad_debt_usd.
      Inr \<lparr>mss_market_id = mkt_id m, mss_total_supply_assets = rms_total_supply_assets state,
        mss_total_supply_shares = rms_total_supply_shares state,
        mss_total_borrow_assets = rms_total_borrow_assets state,
        mss_total_borrow_shares = rms_total_borrow_shares state, mss_snapshot_timestamp = snapshot_time,
        mss_total_collateral_assets = collateral, mss_total_supply_usd = with_scale (sv_dec E) 2 total_supply_usd,
        mss_total_borrow_usd = with_scale (sv_dec E) 2 total_borrow_usd,
        mss_total_collateral_usd = with_scale (sv_dec E) 2 total_collateral_usd,
        mss_borrow_apy = with_scale (sv_dec E) 3 (rate_per_second_to_apy (sv_dec E) rate), mss_fee = rms_fee state,
        mss_cumulative_supply_volume_usd = with_scale (sv_dec E) 2 cum_supply_usd,
        mss_cumulative_borrow_volume_usd = with_scale (sv_dec E) 2 cum_borrow_usd,
        mss_bad_debt_usd = with_scale (sv_dec E) 2 bad_debt_usd\<rparr>)))))))))))))))"

text \<open>\<^verbatim>\<open>match .. { Ok(x) => .., Err(e) => log }\<close>: an error skips the element, a panic ends the task.\<close>

fun skip_error :: "'a res \<Rightarrow> 'a option res" where
  "skip_error (Inr a) = Inr (Some a)"
| "skip_error (Inl (Error m)) = Inr None"
| "skip_error (Inl (Panic m)) = Inl (Panic m)"

definition generate_market_snapshots :: "service_env \<Rightarrow> ('z lending_db_scheme, error, unit) action" where
  "generate_market_snapshots E db =
    (case map_res (\<lambda>m. skip_error (build_snapshot E db m (sv_now E))) (get_all_markets db) of
      Inl e \<Rightarrow> (Inl e, db)
    | Inr snaps \<Rightarrow> (Inr (), insert_market_state_snapshots (List.map_filter id snaps) db))"

section \<open>Position snapshots\<close>

definition to_i64 :: "rat \<Rightarrow> int option" where
  "to_i64 x = (if in_i64 (trunc_rat x) then Some (trunc_rat x) else None)"

definition get_market_state :: "service_env \<Rightarrow> string \<Rightarrow> market_state res" where
  "get_market_state E market_id =
    (let field = (\<lambda>name v. with_context (''Failed to extract '' @ name @ '' for market '' @ market_id)
       (extract_bigdecimal (sv_parse E) v)) in
     case sv_call_contract E (market_state_params E market_id) of
      Inl (Error e) \<Rightarrow> Inl (Error (''Failed to fetch market state: '' @ e))
    | Inl (Panic p) \<Rightarrow> Inl (Panic p)
    | Inr result \<Rightarrow>
      (case ccr_result_type result of
        CallContractFailed \<Rightarrow> Inl (Error (''Contract call failed for market '' @ market_id))
      | CallContractSucceeded \<Rightarrow>
        and_then (ok_or (''No returns in contract call for market '' @ market_id) (ccr_returns result)) (\<lambda>returns.
        if length returns \<noteq> 6 then Inl (Error (''Expected 6 return values for market '' @ market_id))
        else
          and_then (field ''total_supply_assets'' (returns ! 0)) (\<lambda>supply_assets.
          and_then (field ''total_supply_shares'' (returns ! 1)) (\<lambda>supply_shares.
          and_then (field ''total_borrow_assets'' (returns ! 2)) (\<lambda>borrow_assets.
          and_then (field ''total_borrow_shares'' (returns ! 3)) (\<lambda>borrow_shares.
          and_then (field ''timestamp'' (returns ! 4)) (\<lambda>ts.
          and_then (ok_or (''Failed to convert timestamp to i64 for market '' @ market_id) (to_i64 ts)) (\<lambda>timestamp.
            Inr \<lparr>ms_total_supply_assets = supply_assets, ms_total_supply_shares = supply_shares,
              ms_total_borrow_assets = borrow_assets, ms_total_borrow_shares = borrow_shares,
              ms_last_update = timestamp_millis_to_naive_datetime (sv_limits E) timestamp,
              ms_fee = (case extract_bigdecimal (sv_parse E) (returns ! 5) of Inl _ \<Rightarrow> 0 | Inr f \<Rightarrow> f)\<rparr>))))))))) "

text \<open>The amount that shares stand for, by the formula of the protocol.\<close>

definition assets_of_shares :: "dec_ops \<Rightarrow> rat \<Rightarrow> rat \<Rightarrow> rat \<Rightarrow> rat res" where
  "assets_of_shares D shares total_assets total_shares =
    (if shares = 0 then Inr 0
     else and_then (div_res D (shares * (total_assets + virtual_assets)) (total_shares + virtual_shares))
       (\<lambda>x. Inr (with_scale D 0 x)))"

record market_context =
  mc_info :: token_info
  mc_price :: rat
  mc_collateral_info :: token_info
  mc_collateral_price :: rat
  mc_state :: market_state

definition position_snapshot_of ::
  "service_env \<Rightarrow> string \<Rightarrow> market_context \<Rightarrow> position \<Rightarrow> new_position_snapshot res" where
  "position_snapshot_of E market_id K p =
    and_then (assets_of_shares (sv_dec E) (po_supply_shares p) (ms_total_supply_assets (mc_state K))
      (ms_total_supply_shares (mc_state K))) (\<lambda>raw_supply_amount.
    and_then (assets_of_shares (sv_dec E) (po_borrow_shares p) (ms_total_borrow_assets (mc_state K))
      (ms_total_borrow_shares (mc_state K))) (\<lambda>raw_borrow_amount.
    and_then (usd_value E (mc_info K) (mc_price K) raw_supply_amount) (\<lambda>supply_amount_usd.
    and_then (usd_value E (mc_info K) (mc_price K) raw_borrow_amount) (\<lambda>borrow_amount_usd.
    and_then (usd_value E (mc_collateral_info K) (mc_collateral_price K) (po_collateral p)) (\<lambda>collateral_amount_usd.
      Inr \<lparr>pos_address = po_address p, pos_market_id = market_id, pos_supply_amount = raw_supply_amount,
        pos_supply_amount_usd = with_scale (sv_dec E) 2 supply_amount_usd, pos_timestamp = sv_now E,
        pos_borrow_amount = raw_borrow_amount, pos_borrow_amount_usd = with_scale (sv_dec E) 2 borrow_amount_usd,
        pos_collateral_amount = po_collateral p,
        pos_collateral_amount_usd = with_scale (sv_dec E) 2 collateral_amount_usd\<rparr>)))))"

definition position_page_size :: int where
  "position_page_size = 100"

text \<open>The loop over the pages of a market ends with the first page without positions; \<^verbatim>\<open>None\<close> would be a loop
  that never ends.\<close>

partial_function (option) position_pages ::
  "service_env \<Rightarrow> (string \<Rightarrow> 'k::linorder) \<Rightarrow> string \<Rightarrow> market_context \<Rightarrow> int \<Rightarrow> 'z lending_db_scheme
    \<Rightarrow> (unit res \<times> 'z lending_db_scheme) option" where
  "position_pages E collate market_id K page db =
    (case get_positions (sv_parse E) collate (Some market_id) None page position_page_size db of
      Inl e \<Rightarrow> Some (Inl e, db)
    | Inr positions \<Rightarrow>
        if positions = [] then Some (Inr (), db)
        else (case map_res (position_snapshot_of E market_id K) positions of
          Inl e \<Rightarrow> Some (Inl e, db)
        | Inr snapshots \<Rightarrow> position_pages E collate market_id K (page + 1) (insert_position_snapshots snapshots db)))"

definition market_context_of :: "service_env \<Rightarrow> market \<Rightarrow> market_context res" where
  "market_context_of E m =
    and_then (sv_token_info E (mkt_loan_token m)) (\<lambda>info.
    and_then (sv_token_price E (mkt_loan_token m)) (\<lambda>price.
    and_then (sv_token_info E (mkt_collateral_token m)) (\<lambda>cinfo.
    and_then (sv_token_price E (mkt_collateral_token m)) (\<lambda>cprice.
    and_then (get_market_state E (mkt_id m)) (\<lambda>state.
      Inr \<lparr>mc_info = info, mc_price = price, mc_collateral_info = cinfo, mc_collateral_price = cprice,
        mc_state = state\<rparr>)))))"

fun position_markets ::
  "service_env \<Rightarrow> (string \<Rightarrow> 'k::linorder) \<Rightarrow> market list \<Rightarrow> ('z lending_db_scheme, unit) run" where
  "position_markets E collate [] db = Some (Inr (), db)"
| "position_markets E collate (m # ms) db =
    (case skip_error (market_context_of E m) of
      Inl e \<Rightarrow> Some (Inl e, db)
    | Inr None \<Rightarrow> position_markets E collate ms db
    | Inr (Some K) \<Rightarrow> bind_run (position_pages E collate (mkt_id m) K 1) (\<lambda>_. position_markets E collate ms) db)"

definition generate_position_snapshots ::
  "service_env \<Rightarrow> (string \<Rightarrow> 'k::linorder) \<Rightarrow> ('z lending_db_scheme, unit) run" where
  "generate_position_snapshots E collate db = position_markets E collate (get_all_markets db) db"

section \<open>Protocol statistics\<close>

definition generate_stats_snapshot ::
  "dec_ops \<Rightarrow> (rat \<Rightarrow> rat \<Rightarrow> rat) \<Rightarrow> naive_datetime \<Rightarrow> 'z lending_db_scheme \<Rightarrow> 'z lending_db_scheme" where
  "generate_stats_snapshot D qdiv now db =
    (let totals = get_latest_position_snapshot_totals db;
         apy_30d = get_30d_avg_apy_tvl_weighted now qdiv db;
         tvl_usd = pt_total_supply_usd totals + pt_total_collateral_usd totals
     in insert_lending_stats_snapshot now \<lparr>lss_total_supply_usd = with_scale D 2 (pt_total_supply_usd totals),
       lss_total_borrow_usd = with_scale D 2 (pt_total_borrow_usd totals),
       lss_total_collateral_usd = with_scale D 2 (pt_total_collateral_usd totals),
       lss_tvl_usd = with_scale D 2 tvl_usd, lss_apy_30d_avg = with_scale D 3 apy_30d,
       lss_snapshot_timestamp = now\<rparr> db)"

end
