(* ===== verification/Lending_Api.thy ===== *)
theory Lending_Api
  imports Lending_Services Api_Errors
begin

text \<open>
  The lending API (\<^verbatim>\<open>routers/lending_router.rs\<close>): every handler as a function of its query and the database.
  Handlers only read, so they return a value or a \<^verbatim>\<open>handler_error\<close>. The division of decimals never has a zero
  divisor here. Route registration and the JSON form of responses are not modelled.
\<close>

section \<open>Lists of markets, events and positions\<close>

record lending_pagination =
  lpg_limit :: int
  lpg_page :: int

record activity_query =
  aq_limit :: int
  aq_page :: int
  aq_market_id :: string
  aq_address :: "string option"

record positions_query =
  pq_limit :: int
  pq_page :: int
  pq_market_id :: "string option"
  pq_address :: "string option"

definition lending_default_limit :: int where
  "lending_default_limit = 20"

definition lending_default_page :: int where
  "lending_default_page = 1"

definition check_page :: "int \<Rightarrow> int \<Rightarrow> handler_error + unit" where
  "check_page page limit =
    (if limit \<le> 0 \<or> limit > 100 then Inl (Rejected (BadRequest ''Limit must be between 1 and 100''))
     else if page < 1 then Inl (Rejected (BadRequest ''Page must be a positive integer''))
     else Inr ())"

definition markets_handler :: "lending_pagination \<Rightarrow> 'z lending_db_scheme \<Rightarrow> handler_error + market list" where
  "markets_handler q db = and_then (check_page (lpg_page q) (lpg_limit q)) (\<lambda>_.
    map_err handler_err (get_markets (lpg_page q) (lpg_limit q) db))"

definition borrow_activity_handler :: "activity_query \<Rightarrow> 'z lending_db_scheme \<Rightarrow> handler_error + lending_event list" where
  "borrow_activity_handler q db = and_then (check_page (aq_page q) (aq_limit q)) (\<lambda>_.
    map_err handler_err (get_activity (aq_market_id q)
      [''Borrow'', ''Repay'', ''Liquidate'', ''SupplyCollateral'', ''WithdrawCollateral'']
      (aq_address q) (aq_page q) (aq_limit q) db))"

definition earn_activity_handler :: "activity_query \<Rightarrow> 'z lending_db_scheme \<Rightarrow> handler_error + lending_event list" where
  "earn_activity_handler q db = and_then (check_page (aq_page q) (aq_limit q)) (\<lambda>_.
    map_err handler_err (get_activity (aq_market_id q) [''Supply'', ''Withdraw'']
      (aq_address q) (aq_page q) (aq_limit q) db))"

definition positions_handler ::
  "(string \<Rightarrow> rat option) \<Rightarrow> (string \<Rightarrow> 'k::linorder) \<Rightarrow> positions_query \<Rightarrow> 'z lending_db_scheme
    \<Rightarrow> handler_error + position list" where
  "positions_handler pd collate q db = and_then (check_page (pq_page q) (pq_limit q)) (\<lambda>_.
    if pq_market_id q = None \<and> pq_address q = None
    then Inl (Rejected (BadRequest ''Either market_id or address must be provided''))
    else map_err handler_err (get_positions pd collate (pq_market_id q) (pq_address q) (pq_page q) (pq_limit q) db))"

record user_position_history_query =
  hq_address :: string
  hq_market_id :: "string option"
  hq_timeframe :: timeframe

text \<open>\<^verbatim>\<open>trim\<close> removes white space; on ASCII text these are the characters 9 to 13 and the space.\<close>

definition is_blank :: "string \<Rightarrow> bool" where
  "is_blank s \<longleftrightarrow> list_all (\<lambda>c. let n = (of_char c :: nat) in n = 32 \<or> (9 \<le> n \<and> n \<le> 13)) s"

definition user_position_history_handler ::
  "naive_datetime \<Rightarrow> user_position_history_query \<Rightarrow> 'z lending_db_scheme
    \<Rightarrow> handler_error + (naive_datetime \<times> rat \<times> rat) list" where
  "user_position_history_handler now q db =
    (if is_blank (hq_address q) then Inl (Rejected (BadRequest ''address is required''))
     else if (case hq_market_id q of None \<Rightarrow> False | Some m \<Rightarrow> is_blank m)
       then Inl (Rejected (BadRequest ''market_id cannot be blank''))
     else Inr (get_user_position_history now (hq_address q) (hq_market_id q) (hq_timeframe q) db))"

section \<open>Statistics\<close>

record risk_params =
  rp_ltv :: rat
  rp_liq_bonus :: rat
  rp_ir_model :: string
  rp_oracle :: string
  rp_ir_contract :: string

record market_stats_item =
  msi_id :: string
  msi_tokens :: "string \<times> string"
  msi_tvl_usd :: rat
  msi_supply_usd :: rat
  msi_borrow_usd :: rat
  msi_utilization :: rat
  msi_liquidity :: rat
  msi_supply_apr :: rat
  msi_borrow_apr :: rat
  msi_bad_debt :: rat
  msi_risk :: risk_params

record aggregate_stats_item =
  ag_id :: string
  ag_tvl_usd :: rat
  ag_supply_usd :: rat
  ag_borrow_usd :: rat
  ag_collateral_usd :: rat
  ag_utilization :: rat
  ag_liquidity :: rat
  ag_supply_apr :: rat
  ag_borrow_apr :: rat
  ag_bad_debt :: rat

definition utilization :: "dec_ops \<Rightarrow> rat \<Rightarrow> rat \<Rightarrow> rat" where
  "utilization D total_supply_assets total_borrow_assets =
    (if total_supply_assets = 0 then 0 else dec_div D total_borrow_assets total_supply_assets)"

definition ir_model_for :: "string \<Rightarrow> string" where
  "ir_model_for irm = ''Dynamic''"

definition wad_to_fraction :: "dec_ops \<Rightarrow> rat \<Rightarrow> rat" where
  "wad_to_fraction D v = dec_div D v wad"

definition liquidation_bonus_fraction :: "dec_ops \<Rightarrow> rat \<Rightarrow> rat" where
  "liquidation_bonus_fraction D ltv_wad =
    (let lltv = wad_to_fraction D ltv_wad;
         cursor = 3 / 10;
         max_lif = 115 / 100;
         denom = cursor * lltv + (1 - cursor);
         lif_uncapped = (if denom = 0 then max_lif else dec_div D 1 denom);
         lif = (if lif_uncapped > max_lif then max_lif else lif_uncapped)
     in lif - 1)"

definition build_risk :: "dec_ops \<Rightarrow> market \<Rightarrow> risk_params" where
  "build_risk D m = \<lparr>rp_ltv = with_scale D 3 (wad_to_fraction D (mkt_ltv m)),
    rp_liq_bonus = with_scale D 3 (liquidation_bonus_fraction D (mkt_ltv m)), rp_ir_model = ir_model_for (mkt_irm m),
    rp_oracle = mkt_oracle m, rp_ir_contract = mkt_irm m\<rparr>"

definition row_supply_apy :: "dec_ops \<Rightarrow> new_market_state_snapshot \<Rightarrow> rat" where
  "row_supply_apy D r = derive_supply_apy D (mss_borrow_apy r) (mss_total_supply_assets r) (mss_total_borrow_assets r) (mss_fee r)"

definition row_tvl :: "new_market_state_snapshot \<Rightarrow> rat" where
  "row_tvl r = mss_total_supply_usd r + mss_total_collateral_usd r"

definition build_market_item :: "dec_ops \<Rightarrow> new_market_state_snapshot \<Rightarrow> market \<Rightarrow> market_stats_item" where
  "build_market_item D r m = \<lparr>msi_id = mss_market_id r, msi_tokens = (mkt_collateral_token m, mkt_loan_token m),
    msi_tvl_usd = with_scale D 2 (row_tvl r), msi_supply_usd = mss_total_supply_usd r,
    msi_borrow_usd = mss_total_borrow_usd r,
    msi_utilization = with_scale D 3 (utilization D (mss_total_supply_assets r) (mss_total_borrow_assets r)),
    msi_liquidity = with_scale D 2 (mss_total_supply_usd r - mss_total_borrow_usd r),
    msi_supply_apr = with_scale D 3 (row_supply_apy D r), msi_borrow_apr = mss_borrow_apy r,
    msi_bad_debt = mss_bad_debt_usd r, msi_risk = build_risk D m\<rparr>"

text \<open>The running totals of the loops that sum over markets.\<close>

record market_totals =
  mtot_supply :: rat
  mtot_borrow :: rat
  mtot_collateral :: rat
  mtot_tvl :: rat
  mtot_bad_debt :: rat
  mtot_util :: rat
  mtot_sup :: rat
  mtot_bor :: rat

definition zero_totals :: market_totals where
  "zero_totals = \<lparr>mtot_supply = 0, mtot_borrow = 0, mtot_collateral = 0, mtot_tvl = 0, mtot_bad_debt = 0,
    mtot_util = 0, mtot_sup = 0, mtot_bor = 0\<rparr>"

definition add_totals :: "dec_ops \<Rightarrow> new_market_state_snapshot \<Rightarrow> market_totals \<Rightarrow> market_totals" where
  "add_totals D r t =
    (let tvl = row_tvl r;
         util = utilization D (mss_total_supply_assets r) (mss_total_borrow_assets r);
         supply_apy = row_supply_apy D r
     in \<lparr>mtot_supply = mtot_supply t + mss_total_supply_usd r, mtot_borrow = mtot_borrow t + mss_total_borrow_usd r,
       mtot_collateral = mtot_collateral t + mss_total_collateral_usd r, mtot_tvl = mtot_tvl t + tvl,
       mtot_bad_debt = mtot_bad_debt t + mss_bad_debt_usd r, mtot_util = mtot_util t + util * tvl,
       mtot_sup = mtot_sup t + supply_apy * tvl, mtot_bor = mtot_bor t + mss_borrow_apy r * tvl\<rparr>)"

definition weighted :: "dec_ops \<Rightarrow> rat \<Rightarrow> rat \<Rightarrow> rat" where
  "weighted D weighted_sum total_tvl = (if total_tvl = 0 then 0 else dec_div D weighted_sum total_tvl)"

definition build_aggregate :: "dec_ops \<Rightarrow> new_market_state_snapshot list \<Rightarrow> aggregate_stats_item" where
  "build_aggregate D rows =
    (let t = fold (add_totals D) rows zero_totals in
     \<lparr>ag_id = ''all'', ag_tvl_usd = with_scale D 2 (mtot_tvl t), ag_supply_usd = with_scale D 2 (mtot_supply t),
       ag_borrow_usd = with_scale D 2 (mtot_borrow t), ag_collateral_usd = with_scale D 2 (mtot_collateral t),
       ag_utilization = with_scale D 3 (weighted D (mtot_util t) (mtot_tvl t)),
       ag_liquidity = with_scale D 2 (mtot_supply t - mtot_borrow t),
       ag_supply_apr = with_scale D 3 (weighted D (mtot_sup t) (mtot_tvl t)),
       ag_borrow_apr = with_scale D 3 (weighted D (mtot_bor t) (mtot_tvl t)),
       ag_bad_debt = with_scale D 2 (mtot_bad_debt t)\<rparr>)"

definition lending_stats_handler ::
  "dec_ops \<Rightarrow> (string \<Rightarrow> 'k::linorder) \<Rightarrow> 'z lending_db_scheme
    \<Rightarrow> handler_error + market_stats_item list \<times> aggregate_stats_item" where
  "lending_stats_handler D collate db =
    (let snapshots = List.map mst_row (get_latest_market_state_snapshots collate db) in
     if snapshots = [] then Inl (Rejected (NotFound ''no market state snapshots available yet''))
     else let meta_by_id = fold (\<lambda>m. hm_insert (mkt_id m) m) (get_all_markets db) [] in
       Inr (List.map_filter (\<lambda>r. map_option (build_market_item D r) (map_of meta_by_id (mss_market_id r))) snapshots,
         build_aggregate D snapshots))"

section \<open>Series\<close>

datatype stats_range = Last24H | Last7D | Last30D | Last90D

definition range_bucket :: "stats_range \<Rightarrow> series_bucket" where
  "range_bucket r = (case r of Last24H \<Rightarrow> HourBucket | _ \<Rightarrow> DayBucket)"

definition window_seconds :: "stats_range \<Rightarrow> int" where
  "window_seconds r = (case r of Last24H \<Rightarrow> 24 * 3600 | Last7D \<Rightarrow> 7 * 24 * 3600 | Last30D \<Rightarrow> 30 * 24 * 3600
    | Last90D \<Rightarrow> 90 * 24 * 3600)"

text \<open>The vectors of the response have one element per bucket; here they are one list of rows.\<close>

record series_row =
  sr_timestamp :: int
  sr_tvl_usd :: rat
  sr_supply_usd :: rat
  sr_borrow_usd :: rat
  sr_utilization :: rat
  sr_supply_apr :: rat
  sr_borrow_apr :: rat
  sr_cumulative_supply_volume_usd :: rat
  sr_cumulative_borrow_volume_usd :: rat
  sr_bad_debt_usd :: rat

definition snapshot_of_point :: "market_state_point \<Rightarrow> new_market_state_snapshot" where
  "snapshot_of_point p = \<lparr>mss_market_id = msp_market_id p, mss_total_supply_assets = msp_total_supply_assets p,
    mss_total_supply_shares = 0, mss_total_borrow_assets = msp_total_borrow_assets p, mss_total_borrow_shares = 0,
    mss_snapshot_timestamp = msp_bucket_ts p, mss_total_collateral_assets = 0,
    mss_total_supply_usd = msp_total_supply_usd p, mss_total_borrow_usd = msp_total_borrow_usd p,
    mss_total_collateral_usd = msp_total_collateral_usd p, mss_borrow_apy = msp_borrow_apy p, mss_fee = msp_fee p,
    mss_cumulative_supply_volume_usd = msp_cumulative_supply_volume_usd p,
    mss_cumulative_borrow_volume_usd = msp_cumulative_borrow_volume_usd p, mss_bad_debt_usd = msp_bad_debt_usd p\<rparr>"

definition single_market_row :: "dec_ops \<Rightarrow> market_state_point \<Rightarrow> series_row" where
  "single_market_row D p =
    (let util = utilization D (msp_total_supply_assets p) (msp_total_borrow_assets p);
         supply_apy = derive_supply_apy D (msp_borrow_apy p) (msp_total_supply_assets p) (msp_total_borrow_assets p) (msp_fee p)
     in \<lparr>sr_timestamp = timestamp_millis (msp_bucket_ts p),
       sr_tvl_usd = with_scale D 2 (msp_total_supply_usd p + msp_total_collateral_usd p),
       sr_supply_usd = msp_total_supply_usd p, sr_borrow_usd = msp_total_borrow_usd p,
       sr_utilization = with_scale D 3 util, sr_supply_apr = with_scale D 3 supply_apy,
       sr_borrow_apr = msp_borrow_apy p, sr_cumulative_supply_volume_usd = msp_cumulative_supply_volume_usd p,
       sr_cumulative_borrow_volume_usd = msp_cumulative_borrow_volume_usd p, sr_bad_debt_usd = msp_bad_debt_usd p\<rparr>)"

definition single_market_series :: "dec_ops \<Rightarrow> market_state_point list \<Rightarrow> series_row list" where
  "single_market_series D points = List.map (single_market_row D) (sort_key msp_bucket_ts points)"

text \<open>The loop over the points of a bucket keeps the same totals as \<^verbatim>\<open>build_aggregate\<close>, and two more sums.\<close>

definition aggregate_row :: "dec_ops \<Rightarrow> naive_datetime \<times> market_state_point list \<Rightarrow> series_row" where
  "aggregate_row D = (\<lambda>(bucket_ts, ps).
    (let t = fold (\<lambda>p. add_totals D (snapshot_of_point p)) ps zero_totals in
     \<lparr>sr_timestamp = timestamp_millis bucket_ts, sr_tvl_usd = with_scale D 2 (mtot_tvl t),
       sr_supply_usd = with_scale D 2 (mtot_supply t), sr_borrow_usd = with_scale D 2 (mtot_borrow t),
       sr_utilization = with_scale D 3 (weighted D (mtot_util t) (mtot_tvl t)),
       sr_supply_apr = with_scale D 3 (weighted D (mtot_sup t) (mtot_tvl t)),
       sr_borrow_apr = with_scale D 3 (weighted D (mtot_bor t) (mtot_tvl t)),
       sr_cumulative_supply_volume_usd = with_scale D 2 (sum_list (List.map msp_cumulative_supply_volume_usd ps)),
       sr_cumulative_borrow_volume_usd = with_scale D 2 (sum_list (List.map msp_cumulative_borrow_volume_usd ps)),
       sr_bad_debt_usd = with_scale D 2 (mtot_bad_debt t)\<rparr>))"

text \<open>A \<^verbatim>\<open>BTreeMap\<close> is iterated in the order of its keys.\<close>

definition aggregate_series :: "dec_ops \<Rightarrow> market_state_point list \<Rightarrow> series_row list" where
  "aggregate_series D points = List.map (aggregate_row D) (sort_key fst (group_by msp_bucket_ts points))"

definition lending_stats_series_handler ::
  "dec_ops \<Rightarrow> naive_datetime \<Rightarrow> (string \<Rightarrow> 'k::linorder) \<Rightarrow> string option \<Rightarrow> stats_range \<Rightarrow> 'z lending_db_scheme
    \<Rightarrow> series_row list" where
  "lending_stats_series_handler D now collate market r db =
    (let market_filter = (case market of Some m \<Rightarrow> if m \<noteq> [] \<and> m \<noteq> ''all'' then Some m else None | None \<Rightarrow> None);
         points = get_market_state_points now collate market_filter (range_bucket r) (window_seconds r) db
     in if market_filter \<noteq> None then single_market_series D points else aggregate_series D points)"

end
