(* ===== verification/Lending_Services_Laws.thy ===== *)
theory Lending_Services_Laws
  imports Lending_Api Lending_Laws
begin

text \<open>
  Laws of the snapshot services and of the statistics: which positions a snapshot run covers, the annual rate against
  the exponential it approximates, and the agreement of the statistics computed in SQL with those of the API.
\<close>

section \<open>The newest row of each market\<close>

lemma distinct_on_set: "set (distinct_on f xs) \<subseteq> set xs"
  by (induction xs) auto

lemma distinct_distinct_on: "distinct (List.map f (distinct_on f xs))"
  by (induction xs) (auto simp: distinct_map_filter)

lemma distinct_on_first: "r \<in> set (distinct_on f xs) \<longleftrightarrow> first_of (filter (\<lambda>x. f x = f r) xs) = Some r"
proof (induction xs)
  case (Cons x xs)
  show ?case
    by (cases "f x = f r") (use Cons in auto)
qed simp

text \<open>Sorting by a function of the key keeps the rows of each key in their order.\<close>

lemma filter_sort_key_key: "filter (\<lambda>x. f x = k) (sort_key (\<lambda>x. g (f x)) xs) = filter (\<lambda>x. f x = k) xs"
proof -
  have "filter (\<lambda>x. f x = k) (sort_key (\<lambda>x. g (f x)) xs) =
      filter (\<lambda>x. f x = k) (filter (\<lambda>x. g (f x) = g k) (sort_key (\<lambda>x. g (f x)) xs))"
    unfolding filter_filter by (rule filter_cong) auto
  also have "\<dots> = filter (\<lambda>x. f x = k) (filter (\<lambda>x. g (f x) = g k) xs)"
    by (simp only: sort_key_stable)
  also have "\<dots> = filter (\<lambda>x. f x = k) xs"
    unfolding filter_filter by (rule filter_cong) auto
  finally show ?thesis .
qed

lemma distinct_on_sorted_mset:
  "mset (distinct_on f (sort_key (\<lambda>x. g (f x)) xs)) = mset (distinct_on f xs)"
proof -
  have "set (distinct_on f (sort_key (\<lambda>x. g (f x)) xs)) = set (distinct_on f xs)"
    by (auto simp: distinct_on_first filter_sort_key_key)
  moreover have "distinct (distinct_on f ys)" for ys :: "'a list"
    using distinct_distinct_on [of f ys] by (simp add: distinct_map)
  ultimately show ?thesis
    by (simp add: set_eq_iff_mset_eq_distinct [symmetric])
qed

section \<open>Statistics\<close>

lemma fold_add_totals:
  "mtot_supply (fold (add_totals D) rs t) = mtot_supply t + sum_list (List.map mss_total_supply_usd rs)"
  "mtot_borrow (fold (add_totals D) rs t) = mtot_borrow t + sum_list (List.map mss_total_borrow_usd rs)"
  "mtot_collateral (fold (add_totals D) rs t) = mtot_collateral t + sum_list (List.map mss_total_collateral_usd rs)"
  "mtot_tvl (fold (add_totals D) rs t) = mtot_tvl t + sum_list (List.map row_tvl rs)"
  by (induction rs arbitrary: t) (simp_all add: add_totals_def Let_def)

lemma latest_rows_mset:
  "mset (get_latest_market_state_snapshots collate db) = mset (latest_states db)"
  unfolding get_latest_market_state_snapshots_def latest_states_def by (rule distinct_on_sorted_mset)

lemma sum_latest:
  "sum_list (List.map (\<lambda>x. f (mst_row x)) (get_latest_market_state_snapshots collate db)) =
    (sum_list (List.map (\<lambda>x. f (mst_row x)) (latest_states db)) :: rat)"
proof -
  have "mset (List.map (\<lambda>x. f (mst_row x)) (get_latest_market_state_snapshots collate db)) =
      mset (List.map (\<lambda>x. f (mst_row x)) (latest_states db))"
    by (simp add: latest_rows_mset)
  then show ?thesis
    by (metis sum_mset_sum_list)
qed

lemma row_tvl_sum: "sum_list (List.map (\<lambda>x. row_tvl (g x)) xs) =
    sum_list (List.map (\<lambda>x. mss_total_supply_usd (g x)) xs) + sum_list (List.map (\<lambda>x. mss_total_collateral_usd (g x)) xs)"
  by (induction xs) (simp_all add: row_tvl_def)

definition newest_stats :: "'z lending_db_scheme \<Rightarrow> new_lending_stats_snapshot" where
  "newest_stats db = lst_row (last (t_rows (ld_stats db)))"

text \<open>C23: The protocol statistics that a snapshot run stores, computed in SQL, agree with the aggregate that the
  API computes from the newest rows, whatever the order of texts in the database.\<close>
theorem stats_snapshot_agrees_with_api:
  assumes "lending_stats_handler D collate db = Inr (items, ag)"
  shows "let s = newest_stats (generate_stats_snapshot D qdiv now db) in
    lss_total_supply_usd s = ag_supply_usd ag \<and> lss_total_borrow_usd s = ag_borrow_usd ag \<and>
    lss_total_collateral_usd s = ag_collateral_usd ag \<and> lss_tvl_usd s = ag_tvl_usd ag"
proof -
  have ag: "ag = build_aggregate D (List.map mst_row (get_latest_market_state_snapshots collate db))"
    using assms by (auto simp: lending_stats_handler_def Let_def split: if_splits)
  show ?thesis
    unfolding ag
    by (simp add: newest_stats_def generate_stats_snapshot_def insert_lending_stats_snapshot_def Let_def append_row_def
        mk_lending_stats_def get_latest_position_snapshot_totals_def build_aggregate_def fold_add_totals zero_totals_def
        sum_latest row_tvl_sum comp_def)
qed

section \<open>The annual rate\<close>

lemma exp_cubic:
  fixes x :: real
  assumes "0 \<le> x"
  shows "1 + x + x ^ 2 / 2 + x ^ 3 / 6 \<le> exp x"
proof -
  have "(\<Sum>n<4. x ^ n /\<^sub>R fact n) \<le> (\<Sum>n. x ^ n /\<^sub>R fact n)"
    by (rule sum_le_suminf) (use assms summable_exp_generic [of x] in auto)
  moreover have "(\<Sum>n<4. x ^ n /\<^sub>R fact n) = 1 + x + x ^ 2 / 2 + x ^ 3 / 6"
  proof -
    have "(\<Sum>n<4. f n) = f 0 + f 1 + f 2 + f 3" for f :: "nat \<Rightarrow> real"
      by (simp add: numeral_eq_Suc)
    then have "(\<Sum>n<4. x ^ n /\<^sub>R fact n) = x ^ 0 /\<^sub>R fact 0 + x ^ 1 /\<^sub>R fact 1 + x ^ 2 /\<^sub>R fact 2 + x ^ 3 /\<^sub>R fact 3"
      by (rule trans) (rule refl)
    moreover have "fact 2 = (2 :: real)" "fact 3 = (6 :: real)"
      by (simp_all add: fact_numeral)
    ultimately show ?thesis
      by (simp only: real_scaleR_def) simp
  qed
  ultimately show ?thesis
    by (simp only: exp_def)
qed

lemma taylor_scaled:
  fixes y w :: rat
  assumes "w \<noteq> 0"
  shows "(y + y * y / (2 * w) + y * y / (2 * w) * y / (3 * w)) / w = y / w + (y / w) ^ 2 / 2 + (y / w) ^ 3 / 6"
proof -
  define z where "z = y / w"
  have y: "y = z * w"
    using assms by (simp add: z_def)
  have two: "y * y / (2 * w) = z * z * w / 2"
    using assms by (simp add: y)
  have three: "z * z * w / 2 * y / (3 * w) = z * z * z * w / 6"
    using assms by (simp add: y)
  have "(z * w + z * z * w / 2 + z * z * z * w / 6) / w = z + z * z / 2 + z * z * z / 6"
    using assms by (simp add: add_divide_distrib)
  then show ?thesis
    unfolding z_def [symmetric] two three y [symmetric] by (simp add: y [symmetric] power2_eq_square power3_eq_cube)
qed

lemma wad_nonzero: "wad \<noteq> 0" "0 < wad"
  by (simp_all add: wad_def)

lemma apy_value:
  assumes "exact_div D"
  shows "rate_per_second_to_apy D rate = (let x = rate * of_int seconds_per_year / wad in x + x ^ 2 / 2 + x ^ 3 / 6)"
  using assms taylor_scaled [OF wad_nonzero(1), of "rate * of_int seconds_per_year"] wad_nonzero
  by (simp add: rate_per_second_to_apy_def exact_div_def Let_def)



section \<open>Which positions a snapshot run covers\<close>

function chunks :: "nat \<Rightarrow> 'a list \<Rightarrow> 'a list list" where
  "chunks n xs = (if n = 0 \<or> xs = [] then [] else take n xs # chunks n (drop n xs))"
  by pat_completeness auto
termination
  by (relation "measure (\<lambda>(n, xs). length xs)") auto

declare chunks.simps [simp del]

text \<open>The addresses with an open position, page by page, up to the first page without any.\<close>

definition covered_addresses :: "(string \<Rightarrow> bool) \<Rightarrow> string list \<Rightarrow> string list" where
  "covered_addresses is_open addresses =
    concat (takeWhile (\<lambda>pg. pg \<noteq> []) (List.map (filter is_open) (chunks 100 addresses)))"

lemma covered_step:
  "covered_addresses P xs = (if filter P (take 100 xs) = [] then [] else filter P (take 100 xs) @ covered_addresses P (drop 100 xs))"
  unfolding covered_addresses_def by (subst chunks.simps) auto

definition has_position :: "(string \<Rightarrow> rat option) \<Rightarrow> string \<Rightarrow> 'z lending_db_scheme \<Rightarrow> string \<Rightarrow> bool" where
  "has_position pd m db a \<longleftrightarrow> calculate_user_position pd a m db \<noteq> None"

definition snapshot_addresses :: "'z lending_db_scheme \<Rightarrow> string list" where
  "snapshot_addresses db = List.map (\<lambda>s. pos_address (psn_row s)) (t_rows (ld_positions db))"

lemma events_only:
  assumes "ld_events db1 = ld_events db"
  shows "calculate_user_position pd a m db1 = calculate_user_position pd a m db"
    and "market_addresses collate m db1 = market_addresses collate m db"
  using assms by (simp_all add: calculate_user_position_def get_user_events_for_market_def market_addresses_def)

lemma position_address:
  assumes "calculate_user_position pd a m db = Some p"
  shows "po_address p = a"
proof -
  obtain e es where "p = fold (apply_event pd) (e # es) (empty_position a m (le_block_time e))"
    using assms by (auto simp: calculate_user_position_def Let_def split: list.splits if_splits)
  then show ?thesis
    by (simp only: fold_apply_other) (simp add: empty_position_def)
qed

lemma page_positions_addresses:
  "List.map po_address (List.map_filter (\<lambda>a. calculate_user_position pd a m db) as) = filter (has_position pd m db) as"
  by (induction as) (auto simp: map_filter_simps has_position_def position_address split: option.splits)

lemma snapshot_address: "position_snapshot_of E m K p = Inr s \<Longrightarrow> pos_address s = po_address p"
  by (auto simp: position_snapshot_of_def res_simps)

lemma map_res_snapshots:
  assumes "\<forall>p\<in>set ps. \<exists>s. position_snapshot_of E m K p = Inr s"
  shows "\<exists>ss. map_res (position_snapshot_of E m K) ps = Inr ss \<and> List.map pos_address ss = List.map po_address ps"
  using assms
proof (induction ps)
  case (Cons p ps)
  then obtain s ss where "position_snapshot_of E m K p = Inr s" "map_res (position_snapshot_of E m K) ps = Inr ss"
      "List.map pos_address ss = List.map po_address ps"
    by auto
  then show ?case
    using snapshot_address [of E m K p s] by simp
qed simp

lemma snapshot_addresses_insert:
  "snapshot_addresses (insert_position_snapshots ss db) = snapshot_addresses db @ List.map pos_address ss"
proof -
  have "List.map (\<lambda>s. pos_address (psn_row s)) (t_rows (fold (append_row mk_position_snapshot) ss T)) =
      List.map (\<lambda>s. pos_address (psn_row s)) (t_rows T) @ List.map pos_address ss" for T
    by (induction ss arbitrary: T) (simp_all add: append_row_def mk_position_snapshot_def)
  then show ?thesis
    by (simp add: snapshot_addresses_def insert_position_snapshots_def insert_all_def)
qed

lemma numbered_page_at:
  assumes "1 \<le> k" "k \<le> 10 ^ 15"
  shows "numbered_page k 100 xs = Inr (take 100 (drop (100 * nat (k - 1)) xs))"
proof -
  have "in_i64 (k - 1)" "in_i64 ((k - 1) * 100)"
    using assms by (auto simp: in_i64_def)
  then have "numbered_page k 100 xs = sql_page ((k - 1) * 100) 100 xs"
    by (simp add: numbered_page_def wrap_i64_id)
  moreover have "nat ((k - 1) * 100) = 100 * nat (k - 1)"
    using assms by (simp add: nat_mult_distrib)
  ultimately show ?thesis
    using assms by (simp add: sql_page_def)
qed

lemma position_pages_from:
  assumes ok: "\<forall>a p. calculate_user_position (sv_parse E) a m db = Some p \<longrightarrow> (\<exists>s. position_snapshot_of E m K p = Inr s)"
    and "ld_events db1 = ld_events db" "1 \<le> k" "k + int (length (drop (100 * nat (k - 1)) (market_addresses collate m db))) \<le> 10 ^ 15"
  shows "\<exists>db'. position_pages E collate m K k db1 = Some (Inr (), db') \<and> ld_events db' = ld_events db \<and>
    snapshot_addresses db' = snapshot_addresses db1 @ covered_addresses (has_position (sv_parse E) m db)
      (drop (100 * nat (k - 1)) (market_addresses collate m db))"
  using assms(2-)
proof (induction "length (drop (100 * nat (k - 1)) (market_addresses collate m db))" arbitrary: k db1 rule: less_induct)
  case less
  let ?xs = "drop (100 * nat (k - 1)) (market_addresses collate m db)"
  let ?ps = "List.map_filter (\<lambda>a. calculate_user_position (sv_parse E) a m db) (take 100 ?xs)"
  let ?P = "has_position (sv_parse E) m db"
  have page: "get_positions (sv_parse E) collate (Some m) None k position_page_size db1 = Inr ?ps"
    using numbered_page_at [OF less.prems(2), of "market_addresses collate m db"] less.prems(3)
    by (simp add: calculate_positions_for_market_def position_page_size_def events_only [OF less.prems(1)])
  note addrs = page_positions_addresses [of "sv_parse E" m db "take 100 ?xs"]
  show ?case
  proof (cases "?ps = []")
    case True
    then have "filter ?P (take 100 ?xs) = []"
      using addrs by (metis list.simps(8))
    moreover have "position_pages E collate m K k db1 = Some (Inr (), db1)"
      unfolding position_pages.simps [of E collate m K k db1] page using True by simp
    ultimately show ?thesis
      using less.prems(1) covered_step [of ?P ?xs] by simp
  next
    case False
    have "\<forall>p\<in>set ?ps. \<exists>s. position_snapshot_of E m K p = Inr s"
      using ok by (auto simp: in_map_filter)
    then obtain ss where ss: "map_res (position_snapshot_of E m K) ?ps = Inr ss" "List.map pos_address ss = filter ?P (take 100 ?xs)"
      using map_res_snapshots addrs by metis
    have ne: "filter ?P (take 100 ?xs) \<noteq> []" "?xs \<noteq> []"
      using False addrs by auto
    let ?db2 = "insert_position_snapshots ss db1"
    have ev: "ld_events ?db2 = ld_events db"
      using less.prems(1) by (simp add: insert_position_snapshots_def)
    have k1: "nat (k + 1 - 1) = Suc (nat (k - 1))"
      using less.prems(2) by simp
    have dr: "drop (100 * nat (k + 1 - 1)) (market_addresses collate m db) = drop 100 ?xs"
      unfolding k1 by (simp add: add.commute)
    have smaller: "length (drop 100 ?xs) < length ?xs"
      using ne(2) by simp
    obtain db' where db': "position_pages E collate m K (k + 1) ?db2 = Some (Inr (), db')" "ld_events db' = ld_events db"
        "snapshot_addresses db' = snapshot_addresses ?db2 @ covered_addresses ?P (drop 100 ?xs)"
      using less.hyps [of "k + 1" ?db2] ev less.prems smaller unfolding dr by auto
    have "position_pages E collate m K k db1 = position_pages E collate m K (k + 1) ?db2"
      unfolding position_pages.simps [of E collate m K k db1] page using False ss(1) by simp
    then show ?thesis
      using db' ss(2) ne covered_step [of ?P ?xs] by (simp add: snapshot_addresses_insert)
  qed
qed

text \<open>C22: The run over the positions of a market ends and takes a snapshot for every open position on the pages of
  100 addresses before the first page without an open position; the users on later pages are skipped, since an empty
  page is taken for the end of the list.\<close>
theorem position_snapshots_stop_at_empty_page:
  assumes "\<forall>a p. calculate_user_position (sv_parse E) a m db = Some p \<longrightarrow> (\<exists>s. position_snapshot_of E m K p = Inr s)"
    and "length (market_addresses collate m db) < 10 ^ 12"
  shows "\<exists>db'. position_pages E collate m K 1 db = Some (Inr (), db') \<and>
    snapshot_addresses db' = snapshot_addresses db @
      covered_addresses (has_position (sv_parse E) m db) (market_addresses collate m db)"
  using position_pages_from [OF assms(1) refl, where k = 1 and collate = collate] assms(2) by auto

section \<open>Examples\<close>

definition plain_token :: token_info where
  "plain_token = \<lparr>ti_id = ''t'', ti_name = ''t'', ti_symbol = ''t'', ti_decimals = 0, ti_description = [], ti_logo_uri = [],
    ti_price_usd = 1\<rparr>"

definition example_env :: service_env where
  "example_env = \<lparr>sv_dec = exact_dec, sv_parse = decimal_text, sv_print = (\<lambda>_. []), sv_qnum = decimal_text,
    sv_crypto = toy_crypto, sv_limits = \<lparr>date_min = 0, date_max = 9\<rparr>, sv_call_contract = (\<lambda>_. Inl (Error [])),
    sv_contract_state = (\<lambda>_. Inl (Error [])), sv_token_info = (\<lambda>_. Inr plain_token), sv_token_price = (\<lambda>_. Inr 1),
    sv_linx_address = ''linx'', sv_linx_group = 0, sv_tx_id = [], sv_now = 0\<rparr>"

definition example_context :: market_context where
  "example_context = \<lparr>mc_info = plain_token, mc_price = 1, mc_collateral_info = plain_token, mc_collateral_price = 1,
    mc_state = \<lparr>ms_total_supply_assets = 10, ms_total_supply_shares = 20, ms_total_borrow_assets = 0,
      ms_total_borrow_shares = 0, ms_last_update = 0, ms_fee = 0\<rparr>\<rparr>"

lemma example_computable: "\<exists>s. position_snapshot_of example_env m example_context p = Inr s"
  by (simp add: position_snapshot_of_def assets_of_shares_def div_res_def virtual_shares_def usd_value_def
      convert_to_decimal_def example_context_def plain_token_def wrap_u64_def)

lemma two_events_user:
  "market_addresses length ''m'' two_events_db = [''user'']"
  "calculate_user_position decimal_text ''user'' ''m'' two_events_db \<noteq> None"
proof -
  show "market_addresses length ''m'' two_events_db = [''user'']"
    by (simp add: market_addresses_def two_events_db_def mk_lending_event_def)
  show "calculate_user_position decimal_text ''user'' ''m'' two_events_db \<noteq> None"
    using position_spec [OF two_events_rows(2), of decimal_text] two_events_rows(1) by (auto split: option.splits)
qed

theorem position_snapshots_stop_at_empty_page_witness:
  "\<exists>db'. position_pages example_env length ''m'' example_context 1 two_events_db = Some (Inr (), db') \<and>
    snapshot_addresses db' = [''user'']"
proof -
  have "has_position decimal_text ''m'' two_events_db ''user''"
    using two_events_user(2) by (simp add: has_position_def)
  then have "covered_addresses (has_position (sv_parse example_env) ''m'' two_events_db)
      (market_addresses length ''m'' two_events_db) = [''user'']"
    by (simp add: two_events_user(1) covered_step example_env_def)
  moreover have "snapshot_addresses two_events_db = []"
    by (simp add: snapshot_addresses_def two_events_db_def empty_lending_db_def empty_table_def)
  ultimately show ?thesis
    using position_snapshots_stop_at_empty_page [of example_env "''m''" two_events_db example_context length]
      example_computable two_events_user(1)
    by simp
qed

definition one_state_db :: lending_db where
  "one_state_db = empty_lending_db\<lparr>ld_states := \<lparr>t_rows = [mk_market_state_snapshot 1 \<lparr>mss_market_id = ''m'',
    mss_total_supply_assets = 10, mss_total_supply_shares = 10, mss_total_borrow_assets = 5, mss_total_borrow_shares = 5,
    mss_snapshot_timestamp = 0, mss_total_collateral_assets = 7, mss_total_supply_usd = 100, mss_total_borrow_usd = 50,
    mss_total_collateral_usd = 70, mss_borrow_apy = 1 / 10, mss_fee = 0, mss_cumulative_supply_volume_usd = 0,
    mss_cumulative_borrow_volume_usd = 0, mss_bad_debt_usd = 0\<rparr>], t_next = 2\<rparr>\<rparr>"

theorem stats_snapshot_agrees_with_api_witness:
  "\<exists>items ag. lending_stats_handler exact_dec length one_state_db = Inr (items, ag) \<and>
    lss_tvl_usd (newest_stats (generate_stats_snapshot exact_dec (/) 0 one_state_db)) = ag_tvl_usd ag"
proof -
  have "get_latest_market_state_snapshots length one_state_db \<noteq> []"
    by (simp add: get_latest_market_state_snapshots_def one_state_db_def order_desc_def)
  then obtain items ag where h: "lending_stats_handler exact_dec length one_state_db = Inr (items, ag)"
    by (simp add: lending_stats_handler_def Let_def)
  with stats_snapshot_agrees_with_api [OF h, of "(/)" 0] show ?thesis
    by (auto simp: Let_def)
qed

end
