(* ===== verification/Gap_Detection.thy ===== *)
theory Gap_Detection
  imports Worker_Laws "HOL-Library.Product_Lexorder"
begin

text \<open>
  Detection and backfill of missing block heights (\<^verbatim>\<open>services/gap_detection_service.rs\<close>), with their laws:
  what is reported as missing, and that a backfill over a responding node stores it. Pauses between requests are not
  modelled.
\<close>

record block_gap =
  bg_chain_from :: int
  bg_chain_to :: int
  bg_missing_heights :: "int list"
  bg_total_missing :: nat

record gap_detection_report =
  gdr_block_gaps :: "block_gap list"
  gdr_total_missing_blocks :: nat

definition block_chain :: "block_model \<Rightarrow> int \<times> int" where
  "block_chain b = (bm_chain_from b, bm_chain_to b)"

text \<open>
  The heights of a chain in order; \<^verbatim>\<open>LAG\<close> pairs each with the one before it, and
  \<^verbatim>\<open>generate_series\<close> lists what lies between the two.
\<close>

definition chain_heights :: "int \<Rightarrow> int \<times> int \<Rightarrow> 'z chain_db_scheme \<Rightarrow> int list" where
  "chain_heights min_height c db = sort (List.map bm_height
    (filter (\<lambda>b. block_chain b = c \<and> min_height \<le> bm_height b) (t_rows (db_blocks db))))"

fun expanded_gaps :: "int list \<Rightarrow> int list" where
  "expanded_gaps (prev_height # height # hs) =
    (if height - prev_height > 1 then [prev_height + 1 .. height - 1] else []) @ expanded_gaps (height # hs)"
| "expanded_gaps _ = []"

definition missing_rows :: "int \<Rightarrow> 'z chain_db_scheme \<Rightarrow> ((int \<times> int) \<times> int) list" where
  "missing_rows min_height db = concat (List.map
    (\<lambda>c. List.map (\<lambda>h. (c, h)) (filter (\<lambda>h. min_height \<le> h) (expanded_gaps (chain_heights min_height c db))))
    (sort (remdups (List.map block_chain (filter (\<lambda>b. min_height \<le> bm_height b) (t_rows (db_blocks db)))))))"

definition detect_block_gaps :: "int option \<Rightarrow> 'z chain_db_scheme \<Rightarrow> block_gap list" where
  "detect_block_gaps min_height db =
    (let min_height_filter = (case min_height of None \<Rightarrow> 0 | Some h \<Rightarrow> h);
         gaps_by_chain = group_by fst (missing_rows min_height_filter db)
     in sort_key (\<lambda>g. (bg_chain_from g, bg_chain_to g)) (List.map (\<lambda>(c, rows).
       \<lparr>bg_chain_from = fst c, bg_chain_to = snd c, bg_missing_heights = List.map snd rows,
         bg_total_missing = length rows\<rparr>) gaps_by_chain))"

definition generate_report :: "int option \<Rightarrow> 'z chain_db_scheme \<Rightarrow> gap_detection_report" where
  "generate_report min_height db = (let gaps = detect_block_gaps min_height db in
    \<lparr>gdr_block_gaps = gaps, gdr_total_missing_blocks = sum_list (List.map bg_total_missing gaps)\<rparr>)"

definition wrap_u32 :: "int \<Rightarrow> int" where
  "wrap_u32 x = x mod 4294967296"

definition height_to_chains :: "block_gap list \<Rightarrow> (int, (int \<times> int) list) hmap" where
  "height_to_chains gaps = fold (\<lambda>g. fold (\<lambda>h. hm_entry (wrap_u64 h) []
      (\<lambda>cs. cs @ [(wrap_u32 (bg_chain_from g), wrap_u32 (bg_chain_to g))])) (bg_missing_heights g)) gaps []"

text \<open>A height that fails is logged and the next one tried; a panic ends the task.\<close>

fun backfill_heights ::
  "node_client \<Rightarrow> ('o, 'db) worker \<Rightarrow> (int, (int \<times> int) list) hmap \<Rightarrow> int list \<Rightarrow> ('db, unit) run" where
  "backfill_heights client W cmap [] db = Some (Inr (), db)"
| "backfill_heights client W cmap (h # hs) db =
    (case map_of cmap h of
      None \<Rightarrow> Some (Inl (Panic ''called Option::unwrap() on a None value''), db)
    | Some cs \<Rightarrow>
        (case sync_at_height client W h (Some cs) db of
          None \<Rightarrow> None
        | Some (Inl (Panic m), db') \<Rightarrow> Some (Inl (Panic m), db')
        | Some (_, db') \<Rightarrow> backfill_heights client W cmap hs db'))"

definition backfill_gaps ::
  "node_client \<Rightarrow> ('o, 'z chain_db_scheme) worker \<Rightarrow> int option \<Rightarrow> ('z chain_db_scheme, unit) run" where
  "backfill_gaps client W min_height db =
    (let gaps = detect_block_gaps min_height db;
         cmap = height_to_chains gaps
     in backfill_heights client W cmap (sort (List.map fst cmap)) db)"

section \<open>What is reported\<close>

lemma expanded_gaps_in:
  assumes "sorted hs"
  shows "h \<in> set (expanded_gaps hs) \<longleftrightarrow> h \<notin> set hs \<and> (\<exists>lo\<in>set hs. lo < h) \<and> (\<exists>hi\<in>set hs. h < hi)"
  using assms
proof (induction hs rule: expanded_gaps.induct)
  case (1 p q hs)
  have "h \<in> set (expanded_gaps (p # q # hs)) \<longleftrightarrow> (p < h \<and> h < q) \<or> h \<in> set (expanded_gaps (q # hs))"
    by auto
  also have "\<dots> \<longleftrightarrow> (p < h \<and> h < q) \<or> (h \<notin> set (q # hs) \<and> (\<exists>lo\<in>set (q # hs). lo < h) \<and> (\<exists>hi\<in>set (q # hs). h < hi))"
    using 1 by simp
  also have "\<dots> \<longleftrightarrow> h \<notin> set (p # q # hs) \<and> (\<exists>lo\<in>set (p # q # hs). lo < h) \<and> (\<exists>hi\<in>set (p # q # hs). h < hi)"
  proof -
    have pq: "p \<le> q" "\<forall>x\<in>set hs. q \<le> x"
      using 1(2) by auto
    show ?thesis
      using pq by (cases "h < q") (auto simp: not_less)
  qed
  finally show ?case .
qed auto

lemma expanded_gaps_distinct: "sorted hs \<Longrightarrow> sorted (expanded_gaps hs) \<and> distinct (expanded_gaps hs)"
proof (induction hs rule: expanded_gaps.induct)
  case (1 p q hs)
  then have IH: "sorted (expanded_gaps (q # hs))" "distinct (expanded_gaps (q # hs))" and s: "sorted (q # hs)"
    by simp_all
  have above: "q < x" if x: "x \<in> set (expanded_gaps (q # hs))" for x
  proof -
    obtain lo where "lo \<in> set (q # hs)" "lo < x"
      using expanded_gaps_in [OF s, of x] x by blast
    moreover have "q \<le> lo"
      using s \<open>lo \<in> set (q # hs)\<close> by auto
    ultimately show ?thesis by simp
  qed
  show ?case
    using IH by (auto simp: sorted_append dest!: above)
qed simp_all

definition stored_heights :: "int option \<Rightarrow> int \<times> int \<Rightarrow> 'z chain_db_scheme \<Rightarrow> int set" where
  "stored_heights min_height c db = {bm_height b | b. b \<in> set (t_rows (db_blocks db)) \<and> block_chain b = c \<and>
    (case min_height of None \<Rightarrow> 0 | Some m \<Rightarrow> m) \<le> bm_height b}"

lemma set_chain_heights:
  "set (chain_heights (case mh of None \<Rightarrow> 0 | Some m \<Rightarrow> m) c db) = stored_heights mh c db"
  by (auto simp: chain_heights_def stored_heights_def)

lemma missing_rows_in:
  "(c, h) \<in> set (missing_rows (case mh of None \<Rightarrow> 0 | Some m \<Rightarrow> m) db) \<longleftrightarrow>
    h \<notin> stored_heights mh c db \<and> (\<exists>lo\<in>stored_heights mh c db. lo < h) \<and> (\<exists>hi\<in>stored_heights mh c db. h < hi)"
proof -
  let ?m = "case mh of None \<Rightarrow> 0 | Some m \<Rightarrow> m"
  have "h \<in> set (expanded_gaps (chain_heights ?m c db)) \<longleftrightarrow>
      h \<notin> stored_heights mh c db \<and> (\<exists>lo\<in>stored_heights mh c db. lo < h) \<and> (\<exists>hi\<in>stored_heights mh c db. h < hi)"
    using expanded_gaps_in [of "chain_heights ?m c db" h] by (simp add: set_chain_heights) (simp add: chain_heights_def)
  then show ?thesis
    by (fastforce simp: missing_rows_def stored_heights_def)
qed

lemma gap_in:
  "g \<in> set (detect_block_gaps mh db) \<longleftrightarrow> bg_missing_heights g \<noteq> [] \<and>
    bg_missing_heights g = List.map snd (filter (\<lambda>r. fst r = (bg_chain_from g, bg_chain_to g))
      (missing_rows (case mh of None \<Rightarrow> 0 | Some m \<Rightarrow> m) db)) \<and>
    bg_total_missing g = length (bg_missing_heights g)"
proof -
  have "g \<in> set (detect_block_gaps mh db) \<longleftrightarrow> (\<exists>c rows. (c, rows) \<in> set (group_by fst (missing_rows (case mh of None \<Rightarrow> 0 | Some m \<Rightarrow> m) db)) \<and>
      g = \<lparr>bg_chain_from = fst c, bg_chain_to = snd c, bg_missing_heights = List.map snd rows, bg_total_missing = length rows\<rparr>)"
    unfolding detect_block_gaps_def Let_def set_sort set_map by (force simp: image_iff)
  then show ?thesis
    by (cases g) (auto simp: group_by_entry)
qed

lemma missing_of_chain:
  "\<exists>hs. List.map snd (filter (\<lambda>r. fst r = c) (missing_rows m db)) = hs \<and> sorted hs \<and> distinct hs"
proof -
  let ?f = "\<lambda>c. filter (\<lambda>h. m \<le> h) (expanded_gaps (chain_heights m c db))"
  have one: "List.map snd (filter (\<lambda>r. fst r = c) (concat (List.map (\<lambda>c. List.map (Pair c) (?f c)) cs))) =
      (if c \<in> set cs then ?f c else [])" if "distinct cs" for cs
    using that by (induction cs) (auto simp: filter_map comp_def filter_empty_conv)
  have "sorted (?f c)" "distinct (?f c)"
    using expanded_gaps_distinct [of "chain_heights m c db"] by (simp_all add: chain_heights_def sorted_filter [of id, simplified])
  then show ?thesis
    using one [of "sort (remdups (List.map block_chain (filter (\<lambda>b. m \<le> bm_height b) (t_rows (db_blocks db)))))"]
    by (simp add: missing_rows_def)
qed

lemma gap_counted: "g \<in> set (detect_block_gaps mh db) \<Longrightarrow> bg_total_missing g = length (bg_missing_heights g)"
  by (auto simp: gap_in)

text \<open>C26: A height is reported for a chain exactly when it is not stored and lies strictly between two stored heights
  of the chain from the minimum on; each list is ascending and counted. A gap between the minimum and the lowest
  stored height is therefore never reported.\<close>
theorem gaps_exact:
  "((\<exists>g\<in>set (detect_block_gaps mh db). (bg_chain_from g, bg_chain_to g) = c \<and> h \<in> set (bg_missing_heights g)) \<longleftrightarrow>
    h \<notin> stored_heights mh c db \<and> (\<exists>lo\<in>stored_heights mh c db. lo < h) \<and> (\<exists>hi\<in>stored_heights mh c db. h < hi)) \<and>
   list_all (\<lambda>g. sorted_wrt (<) (bg_missing_heights g) \<and> bg_total_missing g = length (bg_missing_heights g))
     (detect_block_gaps mh db)"
proof
  let ?m = "case mh of None \<Rightarrow> 0 | Some m \<Rightarrow> m"
  have "(\<exists>g\<in>set (detect_block_gaps mh db). (bg_chain_from g, bg_chain_to g) = c \<and> h \<in> set (bg_missing_heights g)) \<longleftrightarrow>
      (c, h) \<in> set (missing_rows ?m db)" (is "?L \<longleftrightarrow> ?R")
  proof
    assume ?R
    then have "h \<in> set (List.map snd (filter (\<lambda>r. fst r = c) (missing_rows ?m db)))"
      by force
    then show ?L
      by (intro bexI [where x = "\<lparr>bg_chain_from = fst c, bg_chain_to = snd c,
          bg_missing_heights = List.map snd (filter (\<lambda>r. fst r = c) (missing_rows ?m db)),
          bg_total_missing = length (filter (\<lambda>r. fst r = c) (missing_rows ?m db))\<rparr>"])
        (auto simp: gap_in filter_empty_conv)
  qed (auto simp: gap_in)
  then show "?L \<longleftrightarrow> h \<notin> stored_heights mh c db \<and> (\<exists>lo\<in>stored_heights mh c db. lo < h) \<and> (\<exists>hi\<in>stored_heights mh c db. h < hi)"
    by (simp only: missing_rows_in)
  show "list_all (\<lambda>g. sorted_wrt (<) (bg_missing_heights g) \<and> bg_total_missing g = length (bg_missing_heights g))
      (detect_block_gaps mh db)"
    using missing_of_chain [of _ ?m db] by (force simp: list_all_iff gap_in strict_sorted_iff)
qed

section \<open>Filling the gaps\<close>

definition gap_entries :: "block_gap list \<Rightarrow> (int \<times> int \<times> int) list" where
  "gap_entries gaps = concat (List.map (\<lambda>g. List.map (\<lambda>h. (wrap_u64 h, wrap_u32 (bg_chain_from g), wrap_u32 (bg_chain_to g)))
    (bg_missing_heights g)) gaps)"

lemma fold_concat_map: "fold (\<lambda>g. fold (F g) (xs g)) gs m = fold (\<lambda>(g, x). F g x) (concat (List.map (\<lambda>g. List.map (Pair g) (xs g)) gs)) m"
  by (induction gs arbitrary: m) (simp_all add: fold_map comp_def)

lemma height_to_chains_get:
  "map_of (height_to_chains gaps) h =
    (if \<exists>x\<in>set (gap_entries gaps). fst x = h then Some (List.map snd (filter (\<lambda>x. fst x = h) (gap_entries gaps))) else None)"
proof -
  have "height_to_chains gaps = accumulate fst [] (\<lambda>x cs. cs @ [snd x]) (gap_entries gaps) []"
  proof -
    have "fold (\<lambda>g. fold (\<lambda>h. hm_entry (wrap_u64 h) [] (\<lambda>cs. cs @ [(wrap_u32 (bg_chain_from g), wrap_u32 (bg_chain_to g))]))
        (bg_missing_heights g)) gaps m = accumulate fst [] (\<lambda>x cs. cs @ [snd x]) (gap_entries gaps) m" for m
      by (induction gaps arbitrary: m) (simp_all add: gap_entries_def accumulate_def fold_map comp_def)
    then show ?thesis
      by (simp add: height_to_chains_def)
  qed
  moreover have "fold (\<lambda>x cs. cs @ [snd x]) xs cs = cs @ List.map snd xs" for xs :: "(int \<times> int \<times> int) list" and cs
    by (induction xs arbitrary: cs) auto
  ultimately show ?thesis
    by (auto simp: accumulate_get)
qed

text \<open>The block that the node reports first for a height of a chain.\<close>

definition node_block :: "node_client \<Rightarrow> int \<Rightarrow> int \<times> int \<Rightarrow> block_and_events res" where
  "node_block client h c = and_then (nc_get_block_hash_by_height client h (fst c) (snd c))
    (\<lambda>hashes. and_then (first_hash hashes) (nc_get_block_and_events_by_hash client))"

lemma fetch_at_height_blocks:
  assumes "\<forall>c\<in>set cs. \<exists>b. node_block client h c = Inr b" "cs \<noteq> []"
  shows "\<exists>bs. fetch_at_height client h cs = Inr (Some bs) \<and> list_all2 (\<lambda>c b. node_block client h c = Inr b) cs bs"
proof -
  have "\<exists>hss hs bs. map_res (\<lambda>(f, t). nc_get_block_hash_by_height client h f t) cs = Inr hss \<and> map_res first_hash hss = Inr hs \<and>
      map_res (nc_get_block_and_events_by_hash client) hs = Inr bs \<and> length hss = length cs \<and>
      list_all2 (\<lambda>c b. node_block client h c = Inr b) cs bs"
    using assms(1)
  proof (induction cs)
    case (Cons c cs)
    obtain b where b: "node_block client h c = Inr b"
      using Cons.prems by auto
    then obtain hashes x where "nc_get_block_hash_by_height client h (fst c) (snd c) = Inr hashes"
        "first_hash hashes = Inr x" "nc_get_block_and_events_by_hash client x = Inr b"
      by (auto simp: node_block_def and_then_eq_Inr)
    moreover obtain hss hs bs where "map_res (\<lambda>(f, t). nc_get_block_hash_by_height client h f t) cs = Inr hss"
        "map_res first_hash hss = Inr hs" "map_res (nc_get_block_and_events_by_hash client) hs = Inr bs"
        "length hss = length cs" "list_all2 (\<lambda>c b. node_block client h c = Inr b) cs bs"
      using Cons.IH Cons.prems by auto
    ultimately show ?case
      using b by (intro exI [of _ "hashes # hss"] exI [of _ "x # hs"] exI [of _ "b # bs"]) (cases c, simp)
  qed simp
  then obtain hss hs bs where r: "map_res (\<lambda>(f, t). nc_get_block_hash_by_height client h f t) cs = Inr hss"
      "map_res first_hash hss = Inr hs" "map_res (nc_get_block_and_events_by_hash client) hs = Inr bs"
      "length hss = length cs" "list_all2 (\<lambda>c b. node_block client h c = Inr b) cs bs"
    by blast
  then have "fetch_at_height client h cs = Inr (Some bs)"
    using assms(2) by (auto simp: fetch_at_height_def Let_def with_context_def)
  with r(5) show ?thesis
    by blast
qed

text \<open>
  What the backfill needs of the processors: a run over good blocks ends, loses nothing and leaves the blocks stored.
  \<^verbatim>\<open>fine\<close> says which results such a run can have.
\<close>

locale gap_filling =
  fixes Ps :: "('o, 'db) processor list" and good :: "block_and_events \<Rightarrow> bool"
    and stored :: "'db \<Rightarrow> block_and_events \<Rightarrow> bool" and keeps :: "'db \<Rightarrow> 'db \<Rightarrow> bool" and fine :: "unit res \<Rightarrow> bool"
  assumes runs: "\<forall>b\<in>set bs. good b \<Longrightarrow> \<exists>r db'. run_pipeline Ps [\<lparr>batch_blocks = bs, batch_range = R\<rparr>] db = Some (r, db') \<and>
      fine r \<and> keeps db db' \<and> (\<forall>b\<in>set bs. stored db' b)"
    and keep_refl: "keeps db db"
    and keep_trans: "keeps db1 db2 \<Longrightarrow> keeps db2 db3 \<Longrightarrow> keeps db1 db3"
    and stored_keeps: "stored db b \<Longrightarrow> keeps db db' \<Longrightarrow> stored db' b"
begin

lemma sync_at_height_fills:
  assumes W: "wk_processors W = Ps" and cs: "cs \<noteq> []"
    and node: "\<forall>c\<in>set cs. \<exists>b. node_block client h c = Inr b \<and> good b"
  shows "\<exists>r db'. sync_at_height client W h (Some cs) db = Some (r, db') \<and> keeps db db' \<and>
    (\<forall>c\<in>set cs. \<exists>b. node_block client h c = Inr b \<and> stored db' b) \<and> ((\<forall>r. fine r \<longrightarrow> r = Inr ()) \<longrightarrow> r = Inr ())"
proof -
  obtain bs where bs: "fetch_at_height client h cs = Inr (Some bs)" "list_all2 (\<lambda>c b. node_block client h c = Inr b) cs bs"
    using fetch_at_height_blocks [of cs client h] node cs by blast
  have good: "\<forall>b\<in>set bs. good b"
    using list_all2_in(2) [OF bs(2)] node by fastforce
  obtain r db' where db': "run_pipeline (wk_processors W)
      [\<lparr>batch_blocks = bs, batch_range = \<lparr>range_from_ts = 0, range_to_ts = 0\<rparr>\<rparr>] db = Some (r, db')" "fine r" "keeps db db'"
      "\<forall>b\<in>set bs. stored db' b"
    using runs [OF good] unfolding W by blast
  have "\<forall>c\<in>set cs. \<exists>b. node_block client h c = Inr b \<and> stored db' b"
    using list_all2_in(1) [OF bs(2)] db'(4) by blast
  moreover have "sync_at_height client W h (Some cs) db =
      Some (with_context (''Failed to process blocks at height '' @ string_of_int h @ '' through pipeline'') r, db')"
    by (simp add: sync_at_height_def bind_run_def lift_run_def bs(1) context_run_def db'(1))
  ultimately show ?thesis
    using db'(2,3) by (auto simp: with_context_def)
qed

lemma backfill_heights_fills:
  assumes W: "wk_processors W = Ps"
    and cmap: "\<forall>h\<in>set hs. \<exists>cs. map_of cmap h = Some cs \<and> cs \<noteq> [] \<and> (\<forall>c\<in>set cs. \<exists>b. node_block client h c = Inr b \<and> good b)"
  shows "\<exists>r db'. backfill_heights client W cmap hs db = Some (r, db') \<and> keeps db db' \<and>
    (r = Inr () \<longrightarrow> (\<forall>h\<in>set hs. \<forall>c\<in>set (the (map_of cmap h)). \<exists>b. node_block client h c = Inr b \<and> stored db' b)) \<and>
    (\<forall>m. r \<noteq> Inl (Error m)) \<and> ((\<forall>r. fine r \<longrightarrow> r = Inr ()) \<longrightarrow> r = Inr ())"
  using cmap
proof (induction hs arbitrary: db)
  case Nil
  then show ?case
    by (simp add: keep_refl)
next
  case (Cons h hs)
  obtain cs where cs: "map_of cmap h = Some cs" "cs \<noteq> []" "\<forall>c\<in>set cs. \<exists>b. node_block client h c = Inr b \<and> good b"
    using Cons.prems by auto
  obtain r1 db1 where 1: "sync_at_height client W h (Some cs) db = Some (r1, db1)" "keeps db db1"
      "\<forall>c\<in>set cs. \<exists>b. node_block client h c = Inr b \<and> stored db1 b" "(\<forall>r. fine r \<longrightarrow> r = Inr ()) \<longrightarrow> r1 = Inr ()"
    using sync_at_height_fills [OF W cs(2,3)] by blast
  obtain r2 db2 where 2: "backfill_heights client W cmap hs db1 = Some (r2, db2)" "keeps db1 db2"
      "r2 = Inr () \<longrightarrow> (\<forall>h\<in>set hs. \<forall>c\<in>set (the (map_of cmap h)). \<exists>b. node_block client h c = Inr b \<and> stored db2 b)"
      "\<forall>m. r2 \<noteq> Inl (Error m)" "(\<forall>r. fine r \<longrightarrow> r = Inr ()) \<longrightarrow> r2 = Inr ()"
    using Cons.IH [of db1] Cons.prems by auto
  show ?case
  proof (cases "\<exists>m. r1 = Inl (Panic m)")
    case True
    then show ?thesis
      using 1 cs(1) by auto
  next
    case False
    then have "backfill_heights client W cmap (h # hs) db = Some (r2, db2)"
      using cs(1) 1(1) 2(1) by (cases r1 rule: res_cases) auto
    moreover have "\<forall>c\<in>set cs. \<exists>b. node_block client h c = Inr b \<and> stored db2 b"
      using 1(3) 2(2) stored_keeps by blast
    ultimately show ?thesis
      using keep_trans [OF 1(2) 2(2)] 2(3,4,5) cs(1) by auto
  qed
qed

end

definition gaps_in_range :: "block_gap list \<Rightarrow> bool" where
  "gaps_in_range gaps \<longleftrightarrow> (\<forall>g\<in>set gaps. 0 \<le> bg_chain_from g \<and> bg_chain_from g < 4294967296 \<and>
    0 \<le> bg_chain_to g \<and> bg_chain_to g < 4294967296 \<and> (\<forall>h\<in>set (bg_missing_heights g). in_u64 h))"

lemma gap_entries_in:
  assumes "gaps_in_range gaps"
  shows "set (gap_entries gaps) = {(h, bg_chain_from g, bg_chain_to g) | g h. g \<in> set gaps \<and> h \<in> set (bg_missing_heights g)}"
proof -
  have "(wrap_u64 h, wrap_u32 (bg_chain_from g), wrap_u32 (bg_chain_to g)) = (h, bg_chain_from g, bg_chain_to g)"
    if "g \<in> set gaps" "h \<in> set (bg_missing_heights g)" for g h
    using assms that by (simp add: gaps_in_range_def wrap_u64_id wrap_u32_def)
  then show ?thesis
    unfolding gap_entries_def by fastforce
qed

context gap_filling
begin

lemma backfill_gaps_fills:
  assumes W: "wk_processors W = Ps" and r: "gaps_in_range gaps"
    and node: "\<forall>g\<in>set gaps. \<forall>h\<in>set (bg_missing_heights g).
      \<exists>b. node_block client h (bg_chain_from g, bg_chain_to g) = Inr b \<and> good b"
  shows "\<exists>r db'. backfill_heights client W (height_to_chains gaps) (sort (List.map fst (height_to_chains gaps))) db = Some (r, db') \<and>
    keeps db db' \<and> (\<forall>m. r \<noteq> Inl (Error m)) \<and> ((\<forall>r. fine r \<longrightarrow> r = Inr ()) \<longrightarrow> r = Inr ()) \<and>
    (r = Inr () \<longrightarrow> (\<forall>g\<in>set gaps. \<forall>h\<in>set (bg_missing_heights g).
      \<exists>b. node_block client h (bg_chain_from g, bg_chain_to g) = Inr b \<and> stored db' b))"
proof -
  let ?cmap = "height_to_chains gaps"
  note entries = gap_entries_in [OF r]
  have "\<exists>cs. map_of ?cmap h = Some cs \<and> cs \<noteq> [] \<and> (\<forall>c\<in>set cs. \<exists>b. node_block client h c = Inr b \<and> good b)"
    if h: "h \<in> set (sort (List.map fst ?cmap))" for h
  proof -
    obtain cs where cs: "map_of ?cmap h = Some cs"
      using h by (cases "map_of ?cmap h") (simp_all add: map_of_eq_None_iff)
    then have "cs \<noteq> []" "\<forall>c\<in>set cs. (h, c) \<in> set (gap_entries gaps)"
      by (fastforce simp: height_to_chains_get filter_empty_conv split: if_splits)+
    with cs node show ?thesis
      unfolding entries by fastforce
  qed
  then obtain r db' where db': "backfill_heights client W ?cmap (sort (List.map fst ?cmap)) db = Some (r, db')" "keeps db db'"
      "r = Inr () \<longrightarrow> (\<forall>h\<in>fst ` set ?cmap. \<forall>c\<in>set (the (map_of ?cmap h)). \<exists>b. node_block client h c = Inr b \<and> stored db' b)"
      "\<forall>m. r \<noteq> Inl (Error m)" "(\<forall>r. fine r \<longrightarrow> r = Inr ()) \<longrightarrow> r = Inr ()"
    using backfill_heights_fills [OF W, of "sort (List.map fst ?cmap)" ?cmap client db] by auto
  have "\<exists>b. node_block client h (bg_chain_from g, bg_chain_to g) = Inr b \<and> stored db' b"
    if ok: "r = Inr ()" and g: "g \<in> set gaps" "h \<in> set (bg_missing_heights g)" for g h
  proof -
    have e: "(h, bg_chain_from g, bg_chain_to g) \<in> set (gap_entries gaps)"
      using g by (auto simp: entries)
    then have "map_of ?cmap h = Some (List.map snd (filter (\<lambda>x. fst x = h) (gap_entries gaps)))"
      unfolding height_to_chains_get by (meson fst_conv)
    moreover have "(bg_chain_from g, bg_chain_to g) \<in> set (List.map snd (filter (\<lambda>x. fst x = h) (gap_entries gaps)))"
      using e by force
    ultimately show ?thesis
      using db'(3) ok by (metis (no_types, lifting) map_of_SomeD fst_conv image_eqI option.sel)
  qed
  with db' show ?thesis
    by blast
qed

end

interpretation built_in_filling: gap_filling "built_in L uuid" good_block fully_stored keeps_rows "\<lambda>r. r = Inr ()" for L uuid
proof unfold_locales
  fix bs R and db :: "'z chain_db_scheme"
  assume "\<forall>b\<in>set bs. good_block b"
  then show "\<exists>r db'. run_pipeline (built_in L uuid) [\<lparr>batch_blocks = bs, batch_range = R\<rparr>] db = Some (r, db') \<and> r = Inr () \<and>
      keeps_rows db db' \<and> (\<forall>b\<in>set bs. fully_stored db' b)"
    using run_built_in [of "[\<lparr>batch_blocks = bs, batch_range = R\<rparr>]" L uuid db] by auto
qed (simp add: keeps_rows_def, erule (1) keeps_rows_trans, erule (1) fully_stored_keeps)

text \<open>When the node has a block for every reported height, the backfill of the gaps returns successfully, loses
  nothing, and leaves each of these blocks stored with its events and transactions.\<close>
theorem backfill_fills_gaps:
  fixes db :: "'z chain_db_scheme" and W :: "('c processor_output, 'z chain_db_scheme) worker"
  assumes P: "wk_processors W = built_in L uuid" and r: "gaps_in_range (detect_block_gaps mh db)"
    and node: "\<forall>g\<in>set (detect_block_gaps mh db). \<forall>h\<in>set (bg_missing_heights g).
      \<exists>b. node_block client h (bg_chain_from g, bg_chain_to g) = Inr b \<and> 0 \<le> rb_height (bae_block b)"
  shows "\<exists>db'. backfill_gaps client W mh db = Some (Inr (), db') \<and> keeps_rows db db' \<and>
    (\<forall>g\<in>set (detect_block_gaps mh db). \<forall>h\<in>set (bg_missing_heights g).
      \<exists>b. node_block client h (bg_chain_from g, bg_chain_to g) = Inr b \<and> fully_stored db' b)"
proof -
  have "\<forall>g\<in>set (detect_block_gaps mh db). \<forall>h\<in>set (bg_missing_heights g).
      \<exists>b. node_block client h (bg_chain_from g, bg_chain_to g) = Inr b \<and> good_block b"
    using node by (simp add: good_block_def)
  from built_in_filling.backfill_gaps_fills [OF P r this, of db] show ?thesis
    by (auto simp: backfill_gaps_def Let_def)
qed

definition example_gap_db :: chain_db where
  "example_gap_db = (let b = block_model_of \<lparr>date_min = 0, date_max = 100000\<rparr> in
    empty_chain_db\<lparr>db_blocks := append_row row_as_is (b (plain_block ''a'' 1))
      (append_row row_as_is (b (plain_block ''c'' 3)) empty_table)\<rparr>)"

definition example_gap_client :: node_client where
  "example_gap_client = example_client\<lparr>
    nc_get_block_and_events_by_hash := \<lambda>h. Inr \<lparr>bae_block = plain_block ''b'' 2, bae_events = []\<rparr>\<rparr>"

lemma example_gaps: "detect_block_gaps None example_gap_db =
    [\<lparr>bg_chain_from = 0, bg_chain_to = 0, bg_missing_heights = [2], bg_total_missing = 1\<rparr>]"
  by code_simp

theorem backfill_fills_gaps_witness:
  "detect_block_gaps None example_gap_db \<noteq> [] \<and>
   (\<exists>db' b. backfill_gaps example_gap_client example_worker None example_gap_db = Some (Inr (), db') \<and>
     node_block example_gap_client 2 (0, 0) = Inr b \<and> fully_stored db' b)"
  using backfill_fills_gaps [of example_worker "\<lparr>date_min = 0, date_max = 100000\<rparr>" "\<lambda>_ _. ''id''" None example_gap_db
      example_gap_client]
  by (auto simp: example_gaps gaps_in_range_def in_u64_def example_worker_def node_block_def example_gap_client_def
      example_client_def first_hash_def plain_block_def)

end
