(* ===== verification/Node_Client.thy ===== *)
theory Node_Client
  imports Worker
begin

text \<open>
  The HTTP client of a node (\<^verbatim>\<open>bento-core/src/client\<close>). Sending a request, with the retries of the
  middleware, the check of a URL, and reading and printing JSON are parameters; the paths, the bodies and what is
  made of the answer are the code's. \<^verbatim>\<open>node_of_client\<close> is the client as the worker sees it.
\<close>

datatype http_method = Get | Post

record http_request =
  hq_verb :: http_method
  hq_url :: string
  hq_body :: "json option"

text \<open>The printed status (\<^verbatim>\<open>Display\<close> of the HTTP library) has the code and its reason phrase.\<close>

record http_response =
  hr_status :: int
  hr_status_text :: string
  hr_body :: string

record submit_tx_response =
  str_tx_id :: string
  str_from_group :: int
  str_to_group :: int

text \<open>\<^verbatim>\<open>serde_json::from_str\<close> at the types the client asks for; the error text is kept.\<close>

record json_readers =
  jr_value :: "string \<Rightarrow> json res"
  jr_blocks :: "string \<Rightarrow> rich_block list list res"
  jr_blocks_and_events :: "string \<Rightarrow> block_and_events list list res"
  jr_block_and_events :: "string \<Rightarrow> block_and_events res"
  jr_block :: "string \<Rightarrow> block_entry res"
  jr_header :: "string \<Rightarrow> block_header_entry res"
  jr_hashes :: "string \<Rightarrow> string list res"
  jr_chain_info :: "string \<Rightarrow> chain_info res"
  jr_transaction :: "string \<Rightarrow> chain_tx option res"
  jr_transactions :: "string \<Rightarrow> chain_tx list res"
  jr_submit :: "string \<Rightarrow> submit_tx_response res"
  jr_call_result :: "string \<Rightarrow> call_contract_result res"
  jr_contract_state :: "string \<Rightarrow> contract_state res"

record http_client =
  hc_base_url :: string
  hc_parse_url :: "string \<Rightarrow> string res"
  hc_send :: "http_request \<Rightarrow> http_response res"
  hc_read :: json_readers

text \<open>\<^verbatim>\<open>Client::new\<close>: what a client needs from outside, set up for a network.\<close>

definition client_new :: "(string \<Rightarrow> string option) \<Rightarrow> http_client \<Rightarrow> network \<Rightarrow> http_client" where
  "client_new env H network = H\<lparr>hc_base_url := base_url env network\<rparr>"

definition is_success :: "http_response \<Rightarrow> bool" where
  "is_success r \<longleftrightarrow> 200 \<le> hr_status r \<and> hr_status r < 300"

definition get_path :: "http_client \<Rightarrow> string \<Rightarrow> http_response res" where
  "get_path C endpoint = and_then (hc_parse_url C (hc_base_url C @ ''/'' @ endpoint))
    (\<lambda>url. hc_send C \<lparr>hq_verb = Get, hq_url = url, hq_body = None\<rparr>)"

definition post_path :: "http_client \<Rightarrow> string \<Rightarrow> json \<Rightarrow> http_response res" where
  "post_path C endpoint body = and_then (hc_parse_url C (hc_base_url C @ ''/'' @ endpoint))
    (\<lambda>url. hc_send C \<lparr>hq_verb = Post, hq_url = url, hq_body = Some body\<rparr>)"

text \<open>\<^verbatim>\<open>self.inner.get(url).send().await?.json().await?\<close>: the status is not looked at.\<close>

definition get_json :: "http_client \<Rightarrow> (string \<Rightarrow> 'a res) \<Rightarrow> string \<Rightarrow> 'a res" where
  "get_json C rd endpoint = and_then (get_path C endpoint) (\<lambda>r. rd (hr_body r))"

section \<open>Blocks\<close>

definition client_get_blocks :: "http_client \<Rightarrow> int \<Rightarrow> int \<Rightarrow> rich_block list list res" where
  "client_get_blocks C from_ts to_ts = get_json C (jr_blocks (hc_read C))
    (''blockflow/blocks?fromTs='' @ string_of_int from_ts @ ''&toTs='' @ string_of_int to_ts)"

definition client_get_blocks_and_events :: "http_client \<Rightarrow> int \<Rightarrow> int \<Rightarrow> block_and_events list list res" where
  "client_get_blocks_and_events C from_ts to_ts =
    and_then (get_path C (''blockflow/rich-blocks?fromTs='' @ string_of_int from_ts @ ''&toTs='' @ string_of_int to_ts)) (\<lambda>response.
      if \<not> is_success response then Inl (Error (''API returned error status: '' @ hr_status_text response))
      else map_err (\<lambda>e. case e of Error m \<Rightarrow> Error (''Error decoding response body: '' @ m) | Panic p \<Rightarrow> Panic p)
        (jr_blocks_and_events (hc_read C) (hr_body response)))"

definition client_get_block :: "http_client \<Rightarrow> string \<Rightarrow> block_entry res" where
  "client_get_block C block_hash = get_json C (jr_block (hc_read C)) (''blockflow/blocks/'' @ block_hash)"

definition client_get_block_and_events_by_hash :: "http_client \<Rightarrow> string \<Rightarrow> block_and_events res" where
  "client_get_block_and_events_by_hash C block_hash =
    get_json C (jr_block_and_events (hc_read C)) (''blockflow/rich-blocks/'' @ block_hash)"

definition client_get_block_header :: "http_client \<Rightarrow> string \<Rightarrow> block_header_entry res" where
  "client_get_block_header C block_hash = get_json C (jr_header (hc_read C)) (''blockflow/headers/'' @ block_hash)"

text \<open>\<^verbatim>\<open>error_for_status\<close> rejects the client and server errors, 400 to 599.\<close>

definition client_get_block_hash_by_height :: "http_client \<Rightarrow> int \<Rightarrow> int \<Rightarrow> int \<Rightarrow> string list res" where
  "client_get_block_hash_by_height C height from_group to_group =
    and_then (get_path C (''blockflow/hashes?height='' @ string_of_int height @ ''&fromGroup='' @ string_of_int from_group
      @ ''&toGroup='' @ string_of_int to_group)) (\<lambda>response.
      if 400 \<le> hr_status response \<and> hr_status response < 600 then Inl (Error (''API returned error status: '' @ hr_status_text response))
      else jr_hashes (hc_read C) (hr_body response))"

definition client_get_chain_info :: "http_client \<Rightarrow> int \<Rightarrow> int \<Rightarrow> chain_info res" where
  "client_get_chain_info C from_group to_group = get_json C (jr_chain_info (hc_read C))
    (''blockflow/chain-info?fromGroup='' @ string_of_int from_group @ ''&toGroup='' @ string_of_int to_group)"

section \<open>Transactions\<close>

definition client_get_tx_by_hash :: "http_client \<Rightarrow> string \<Rightarrow> chain_tx option res" where
  "client_get_tx_by_hash C tx_id = get_json C (jr_transaction (hc_read C)) (''transactions/details/'' @ tx_id)"

definition client_get_block_txs :: "http_client \<Rightarrow> string \<Rightarrow> int \<Rightarrow> int \<Rightarrow> chain_tx list res" where
  "client_get_block_txs C block_hash limit offset = get_json C (jr_transactions (hc_read C))
    (''blocks/'' @ block_hash @ ''/transactions?limit='' @ string_of_int limit @ ''&offset='' @ string_of_int offset)"

definition error_detail :: "http_client \<Rightarrow> string \<Rightarrow> string" where
  "error_detail C error_text =
    (case jr_value (hc_read C) error_text of
      Inr json_error \<Rightarrow> (case Option.bind (json_get ''detail'' json_error) json_as_str of
        Some m \<Rightarrow> m | None \<Rightarrow> error_text)
    | Inl _ \<Rightarrow> error_text)"

definition submit_transaction :: "http_client \<Rightarrow> string \<Rightarrow> string \<Rightarrow> submit_tx_response res" where
  "submit_transaction C unsigned_tx signature =
    and_then (post_path C ''transactions/submit''
      (JObject [(''unsignedTx'', JString unsigned_tx), (''signature'', JString signature)])) (\<lambda>response.
      if \<not> is_success response then Inl (Error (error_detail C (hr_body response)))
      else jr_submit (hc_read C) (hr_body response))"

section \<open>Contracts\<close>

definition json_opt :: "('a \<Rightarrow> json) \<Rightarrow> 'a option \<Rightarrow> json" where
  "json_opt f x = (case x of None \<Rightarrow> JNull | Some a \<Rightarrow> f a)"

definition json_of_call_params :: "call_contract_params \<Rightarrow> json" where
  "json_of_call_params p = JObject [(''group'', JNumber (ccp_group p)),
    (''worldStateBlockHash'', json_opt JString (ccp_world_state_block_hash p)),
    (''txId'', json_opt JString (ccp_tx_id p)), (''address'', JString (ccp_address p)),
    (''methodIndex'', JNumber (ccp_method_index p)), (''args'', json_opt JArray (ccp_args p)),
    (''interestedContracts'', json_opt (\<lambda>cs. JArray (List.map JString cs)) (ccp_interested_contracts p)),
    (''inputAssets'', json_opt JArray (ccp_input_assets p))]"

definition http_error :: "string \<Rightarrow> http_response \<Rightarrow> error" where
  "http_error name r = Error (name @ '' HTTP '' @ hr_status_text r @ '': '' @ hr_body r)"

definition call_contract :: "http_client \<Rightarrow> call_contract_params \<Rightarrow> call_contract_result res" where
  "call_contract C params = and_then (post_path C ''contracts/call-contract'' (json_of_call_params params)) (\<lambda>response.
    if \<not> is_success response then Inl (http_error ''call_contract'' response)
    else jr_call_result (hc_read C) (hr_body response))"

definition get_contract_state :: "http_client \<Rightarrow> string \<Rightarrow> contract_state res" where
  "get_contract_state C address = and_then (get_path C (''contracts/'' @ address @ ''/state'')) (\<lambda>response.
    if \<not> is_success response then Inl (http_error ''get_contract_state'' response)
    else jr_contract_state (hc_read C) (hr_body response))"

section \<open>The client as a node\<close>

definition node_of_client :: "http_client \<Rightarrow> node_client" where
  "node_of_client C = \<lparr>nc_get_blocks_and_events = client_get_blocks_and_events C,
    nc_get_block_hash_by_height = client_get_block_hash_by_height C,
    nc_get_block_and_events_by_hash = client_get_block_and_events_by_hash C,
    nc_get_chain_info = client_get_chain_info C\<rparr>"

lemma submit_transaction_ok:
  "submit_transaction C tx s = Inr a \<longleftrightarrow>
    (\<exists>r. post_path C ''transactions/submit'' (JObject [(''unsignedTx'', JString tx), (''signature'', JString s)]) = Inr r \<and>
      is_success r \<and> jr_submit (hc_read C) (hr_body r) = Inr a)"
  by (auto simp: submit_transaction_def res_simps)

text \<open>A chunk is fetched only from an answer with a success status; an error page is never taken for blocks.\<close>

lemma fetch_chunk_of_client:
  assumes "fetch_chunk (node_of_client C) r = Inr b"
  shows "\<exists>resp. get_path C (''blockflow/rich-blocks?fromTs='' @ string_of_int (range_from_ts r) @ ''&toTs='' @
      string_of_int (range_to_ts r)) = Inr resp \<and> is_success resp \<and>
    (\<exists>bs. jr_blocks_and_events (hc_read C) (hr_body resp) = Inr bs \<and> batch_blocks b = concat bs)"
  using assms
  by (auto simp: fetch_chunk_def node_of_client_def client_get_blocks_and_events_def with_context_def res_simps
      split: if_splits)

end
