(* ===== verification/Server_Api.thy ===== *)
theory Server_Api
  imports Node_Client Account_Txs Api_Errors
begin

text \<open>
  The generic HTTP API (\<^verbatim>\<open>bento-server\<close>: blocks, events, transactions, health) and the account history and
  transaction submission of the application (\<^verbatim>\<open>routers/account_transactions_router.rs\<close>,
  \<^verbatim>\<open>routers/transaction_router.rs\<close>). A handler that only reads is a function of the tables to a response or a
  \<^verbatim>\<open>handler_error\<close>. Registration of routes and the JSON form of responses are not modelled.
\<close>

section \<open>Data transfer objects\<close>

text \<open>\<^verbatim>\<open>fmt\<close> prints a time as \<^verbatim>\<open>%Y-%m-%dT%H:%M:%S\<close>.\<close>

record block_dto =
  bd_hash :: string
  bd_timestamp :: string
  bd_chain_from :: int
  bd_chain_to :: int
  bd_height :: int
  bd_deps :: "string option list"
  bd_nonce :: string
  bd_version :: string
  bd_dep_state_hash :: string
  bd_txs_hash :: string
  bd_tx_number :: int
  bd_target :: string
  bd_main_chain :: bool
  bd_ghost_uncles :: json

definition block_dto_of :: "(naive_datetime \<Rightarrow> string) \<Rightarrow> block_model \<Rightarrow> block_dto" where
  "block_dto_of fmt m = \<lparr>bd_hash = bm_hash m, bd_timestamp = fmt (bm_timestamp m), bd_chain_from = bm_chain_from m,
    bd_chain_to = bm_chain_to m, bd_height = bm_height m, bd_deps = bm_deps m, bd_nonce = bm_nonce m,
    bd_version = bm_version m, bd_dep_state_hash = bm_dep_state_hash m, bd_txs_hash = bm_txs_hash m,
    bd_tx_number = bm_tx_number m, bd_target = bm_target m, bd_main_chain = bm_main_chain m,
    bd_ghost_uncles = bm_ghost_uncles m\<rparr>"

record event_dto =
  ed_id :: string
  ed_tx_id :: string
  ed_contract_address :: string
  ed_event_index :: int
  ed_fields :: json

definition event_dto_of :: "event_model \<Rightarrow> event_dto" where
  "event_dto_of m = \<lparr>ed_id = evm_id m, ed_tx_id = evm_tx_id m, ed_contract_address = evm_contract_address m,
    ed_event_index = evm_event_index m, ed_fields = evm_fields m\<rparr>"

record transaction_dto =
  tdt_tx_hash :: string
  tdt_unsigned :: json
  tdt_script_execution_ok :: bool
  tdt_contract_inputs :: json
  tdt_generated_outputs :: json
  tdt_input_signatures :: "string option list"
  tdt_script_signatures :: "string option list"
  tdt_block_hash :: string

definition transaction_dto_of :: "transaction_model \<Rightarrow> transaction_dto" where
  "transaction_dto_of m = \<lparr>tdt_tx_hash = tm_tx_hash m, tdt_unsigned = tm_unsigned m,
    tdt_script_execution_ok = tm_script_execution_ok m, tdt_contract_inputs = tm_contract_inputs m,
    tdt_generated_outputs = tm_generated_outputs m, tdt_input_signatures = tm_input_signatures m,
    tdt_script_signatures = tm_script_signatures m,
    tdt_block_hash = (case tm_block_hash m of None \<Rightarrow> [] | Some h \<Rightarrow> h)\<rparr>"

section \<open>Blocks, events, transactions\<close>

record blocks_query =
  bq_pagination :: pagination
  bq_order :: sort_order

definition get_blocks_handler :: "blocks_query \<Rightarrow> 'z chain_db_scheme \<Rightarrow> handler_error + block_model list" where
  "get_blocks_handler q db = map_err handler_err
    (get_blocks (get_limit (bq_pagination q)) (get_offset (bq_pagination q)) (Some (bq_order q)) db)"

definition found_or :: "string \<Rightarrow> 'a option \<Rightarrow> handler_error + 'a" where
  "found_or m x = (case x of None \<Rightarrow> Inl (Rejected (NotFound m)) | Some a \<Rightarrow> Inr a)"

definition get_block_by_hash_handler :: "string \<Rightarrow> 'z chain_db_scheme \<Rightarrow> handler_error + block_model" where
  "get_block_by_hash_handler hash db = found_or ''Block not found'' (get_block_by_hash hash db)"

definition get_block_by_height_handler :: "int \<Rightarrow> 'z chain_db_scheme \<Rightarrow> handler_error + block_model" where
  "get_block_by_height_handler height db = found_or ''Block not found'' (get_block_by_height height db)"

definition get_block_transactions_handler ::
  "string \<Rightarrow> 'z chain_db_scheme \<Rightarrow> handler_error + transaction_model list" where
  "get_block_transactions_handler hash db = map_err handler_err (get_block_transactions hash db)"

definition get_events_handler :: "pagination \<Rightarrow> 'z chain_db_scheme \<Rightarrow> handler_error + event_model list" where
  "get_events_handler p db = map_err handler_err (get_events (get_limit p) (get_offset p) db)"

definition get_events_by_contract_handler ::
  "string \<Rightarrow> pagination \<Rightarrow> 'z chain_db_scheme \<Rightarrow> handler_error + event_model list" where
  "get_events_by_contract_handler contract p db =
    map_err handler_err (get_events_by_contract contract (get_limit p) (get_offset p) db)"

definition get_events_by_tx_id_handler ::
  "string \<Rightarrow> pagination \<Rightarrow> 'z chain_db_scheme \<Rightarrow> handler_error + event_dto list" where
  "get_events_by_tx_id_handler tx_id p db =
    and_then (map_err handler_err (get_events_by_tx tx_id (get_limit p) (get_offset p) db))
      (\<lambda>ms. Inr (List.map event_dto_of ms))"

definition get_txs_handler :: "pagination \<Rightarrow> 'z chain_db_scheme \<Rightarrow> handler_error + transaction_model list" where
  "get_txs_handler p db = map_err handler_err (get_txs (get_limit p) (get_offset p) db)"

definition get_tx_by_hash_handler :: "string \<Rightarrow> 'z chain_db_scheme \<Rightarrow> handler_error + transaction_model" where
  "get_tx_by_hash_handler hash db =
    found_or (''Transaction with tx id '' @ hash @ '' not found'') (get_tx_by_hash hash db)"

definition get_tx_by_block_handler :: "string \<Rightarrow> 'z chain_db_scheme \<Rightarrow> handler_error + transaction_model list" where
  "get_tx_by_block_handler block_hash db = map_err handler_err (get_txs_by_block block_hash db)"

definition health_check :: "node_client \<Rightarrow> 'z chain_db_scheme \<Rightarrow> handler_error + unit" where
  "health_check client db =
    and_then (map_err handler_err (nc_get_chain_info client 0 0)) (\<lambda>info.
    (case get_latest_block 0 0 db of
      None \<Rightarrow> Inl (Rejected (Internal ''No block found in database''))
    | Some b \<Rightarrow>
        if wrap_i64 (ci_current_height info - bm_height b) > 3
        then Inl (Rejected (Internal ''Indexer is too far behind the node'')) else Inr ()))"

section \<open>Account history\<close>

record account_transactions_query =
  atq_address :: "string option"
  atq_limit :: int
  atq_cursor :: "int option"

definition account_default_limit :: int where
  "account_default_limit = 20"

record account_transaction_flattened =
  atf_id :: int
  atf_address :: string
  atf_tx_type :: string
  atf_tx_id :: string
  atf_from_group :: int
  atf_to_group :: int
  atf_block_height :: int
  atf_timestamp :: naive_datetime
  atf_details :: details

definition flattened_of :: "account_transaction \<Rightarrow> account_transaction_flattened" where
  "flattened_of t = (let r = at_row t in \<lparr>atf_id = at_id t, atf_address = nat_address r, atf_tx_type = nat_tx_type r,
    atf_tx_id = nat_tx_id r, atf_from_group = nat_from_group r, atf_to_group = nat_to_group r,
    atf_block_height = nat_block_height r, atf_timestamp = nat_timestamp r, atf_details = nat_details r\<rparr>)"

text \<open>\<^verbatim>\<open>DateTime::from_timestamp_millis\<close> divides with a nonnegative remainder.\<close>

definition from_timestamp_millis :: "date_limits \<Rightarrow> int \<Rightarrow> naive_datetime option" where
  "from_timestamp_millis L millis = from_timestamp L (millis div 1000) (millis mod 1000 * 1000000)"

definition get_account_transactions_handler ::
  "date_limits \<Rightarrow> account_transactions_query \<Rightarrow> account_transaction table
    \<Rightarrow> handler_error + account_transaction_flattened list" where
  "get_account_transactions_handler L q T =
    (if atq_limit q \<le> 0 \<or> atq_limit q > 100 then Inl (Rejected (BadRequest ''Limit must be between 1 and 100''))
     else case atq_address q of
       None \<Rightarrow> Inl (Rejected (BadRequest ''Missing parameter address''))
     | Some address \<Rightarrow>
         if address = [] then Inl (Rejected (BadRequest ''Address parameter cannot be empty''))
         else (let cursor = Option.bind (atq_cursor q) (from_timestamp_millis L) in
           and_then (map_err handler_err (get_account_transactions address (atq_limit q) cursor T))
             (\<lambda>transactions. Inr (List.map flattened_of transactions))))"

section \<open>Submission of transactions\<close>

record submit_swap_request =
  ssr_unsigned_tx :: string
  ssr_signature :: string
  ssr_user_address :: string

definition is_hexdigit :: "char \<Rightarrow> bool" where
  "is_hexdigit c \<longleftrightarrow> (let n = (of_char c :: nat) in
    (48 \<le> n \<and> n \<le> 57) \<or> (65 \<le> n \<and> n \<le> 70) \<or> (97 \<le> n \<and> n \<le> 102))"

definition validate_request :: "submit_swap_request \<Rightarrow> app_error + unit" where
  "validate_request r =
    (if ssr_unsigned_tx r = [] then Inl (BadRequest ''unsigned_tx cannot be empty'')
     else if \<not> list_all is_hexdigit (ssr_unsigned_tx r) then Inl (BadRequest ''unsigned_tx must be valid hexadecimal'')
     else if ssr_signature r = [] then Inl (BadRequest ''signature cannot be empty'')
     else if \<not> list_all is_hexdigit (ssr_signature r) then Inl (BadRequest ''signature must be valid hexadecimal'')
     else if ssr_user_address r = [] then Inl (BadRequest ''user_address cannot be empty'')
     else Inr ())"

text \<open>The answer of a successful submission carries the fields of the node's answer. Failing to record the
  transaction does not fail the request.\<close>

definition submit_swap_handler ::
  "http_client \<Rightarrow> naive_datetime \<Rightarrow> submit_swap_request
    \<Rightarrow> (linx_transaction table, handler_error, submit_tx_response) action" where
  "submit_swap_handler C now request T =
    (case validate_request request of
      Inl e \<Rightarrow> (Inl (Rejected e), T)
    | Inr _ \<Rightarrow>
      (case submit_transaction C (ssr_unsigned_tx request) (ssr_signature request) of
        Inl (Error e) \<Rightarrow> (Inl (Rejected (Internal (''Failed to submit transaction: '' @ e))), T)
      | Inl (Panic p) \<Rightarrow> (Inl (Panicked p), T)
      | Inr submit_result \<Rightarrow>
          let (_, T') = insert_linx_transaction now
            \<lparr>nlt_tx_id = str_tx_id submit_result, nlt_user_address = ssr_user_address request\<rparr> T
          in (Inr submit_result, T')))"

end
