(* ===== verification/Server_Laws.thy ===== *)
theory Server_Laws
  imports Server_Api Block_Store_Laws
begin

text \<open>
  Laws of the HTTP API: when the service reports itself healthy, which rows a reader of an account's history gets who
  follows the cursor from page to page, and what a submission leaves behind.
\<close>

section \<open>Health\<close>

text \<open>C0: The health check succeeds exactly when the node answers and some stored block of chain (0, 0) is at most
  three below the node's height.\<close>
theorem health_iff_close:
  assumes "\<forall>b\<in>set (t_rows (db_blocks db)). 0 \<le> bm_height b \<and> in_i64 (bm_height b)"
    and "\<forall>info. nc_get_chain_info client 0 0 = Inr info \<longrightarrow> 0 \<le> ci_current_height info \<and> in_i64 (ci_current_height info)"
  shows "health_check client db = Inr () \<longleftrightarrow>
    (\<exists>info. nc_get_chain_info client 0 0 = Inr info \<and>
      (\<exists>b\<in>set (t_rows (db_blocks db)). bm_chain_from b = 0 \<and> bm_chain_to b = 0 \<and>
        ci_current_height info - bm_height b \<le> 3))"
proof -
  let ?rows = "filter (\<lambda>b. bm_chain_from b = 0 \<and> bm_chain_to b = 0) (t_rows (db_blocks db))"
  have close: "health_check client db = Inr () \<longleftrightarrow> (\<exists>b\<in>set ?rows. ci_current_height info - bm_height b \<le> 3)"
    if info: "nc_get_chain_info client 0 0 = Inr info" for info
  proof (cases "get_latest_block 0 0 db")
    case None
    then have "?rows = []"
      by (simp add: get_latest_block_def)
    then have "\<not> (\<exists>b\<in>set ?rows. ci_current_height info - bm_height b \<le> 3)"
      by simp
    then show ?thesis
      using None info by (simp add: health_check_def)
  next
    case (Some b)
    note top = first_of_order_desc_max [OF Some [unfolded get_latest_block_def]]
    have "in_i64 (ci_current_height info - bm_height b)"
      using assms(1) assms(2) [rule_format, OF info] top(1) by (auto simp: in_i64_def)
    then have "health_check client db = Inr () \<longleftrightarrow> ci_current_height info - bm_height b \<le> 3"
      using Some info by (simp add: health_check_def wrap_i64_id)
    also have "\<dots> \<longleftrightarrow> (\<exists>b\<in>set ?rows. ci_current_height info - bm_height b \<le> 3)"
      using top(1) top(2) by (meson diff_left_mono order_trans)
    finally show ?thesis .
  qed
  show ?thesis
  proof (cases "nc_get_chain_info client 0 0")
    case (Inl e)
    then show ?thesis by (simp add: health_check_def)
  next
    case (Inr info)
    show ?thesis
      using close [OF Inr] Inr by auto
  qed
qed

theorem health_iff_close_witness:
  "health_check \<lparr>nc_get_blocks_and_events = (\<lambda>f t. Inr []), nc_get_block_hash_by_height = (\<lambda>h f t. Inr []),
      nc_get_block_and_events_by_hash = (\<lambda>h. Inl (Error ''none'')), nc_get_chain_info = (\<lambda>f t. Inr \<lparr>ci_current_height = 7\<rparr>)\<rparr>
    (empty_chain_db\<lparr>db_blocks := append_row row_as_is
      (block_model_of \<lparr>date_min = 0, date_max = 9\<rparr> (plain_block ''a'' 4)) empty_table\<rparr>) = Inr ()"
  by (subst health_iff_close) (simp_all add: row_as_is_def block_model_of_def plain_block_def in_i64_def)

section \<open>Following the cursor\<close>

abbreviation row_time :: "account_transaction \<Rightarrow> naive_datetime" where
  "row_time r \<equiv> nat_timestamp (at_row r)"

text \<open>A reader asks for the first page and then, as the API documents it, for the rows before the time of the last
  row received, until a page is empty.\<close>

partial_function (option) follow_cursor ::
  "date_limits \<Rightarrow> string \<Rightarrow> int \<Rightarrow> int option \<Rightarrow> account_transaction table
    \<Rightarrow> (handler_error + account_transaction_flattened list) option" where
  "follow_cursor L address limit cursor T =
    (case get_account_transactions_handler L \<lparr>atq_address = Some address, atq_limit = limit, atq_cursor = cursor\<rparr> T of
      Inl e \<Rightarrow> Some (Inl e)
    | Inr page \<Rightarrow>
        if page = [] then Some (Inr [])
        else Option.bind (follow_cursor L address limit (Some (timestamp_millis (atf_timestamp (last page)))) T)
          (\<lambda>rest. Some (and_then rest (\<lambda>ps. Inr (page @ ps)))))"

definition account_history :: "string \<Rightarrow> account_transaction table \<Rightarrow> account_transaction list" where
  "account_history address T = order_desc row_time (filter (\<lambda>r. nat_address (at_row r) = address) (t_rows T))"

definition before :: "naive_datetime option \<Rightarrow> account_transaction list \<Rightarrow> account_transaction list" where
  "before c xs = (case c of None \<Rightarrow> xs | Some t \<Rightarrow> filter (\<lambda>r. row_time r < t) xs)"

text \<open>What such a reader collects from an ordered list.\<close>

function strict_pages :: "nat \<Rightarrow> account_transaction list \<Rightarrow> account_transaction list" where
  "strict_pages n xs =
    (if n = 0 \<or> xs = [] then [] else take n xs @ strict_pages n (before (Some (row_time (last (take n xs)))) xs))"
  by auto
termination
proof (relation "measure (\<lambda>(n, xs). length xs)")
  fix n :: nat and xs :: "account_transaction list"
  assume "\<not> (n = 0 \<or> xs = [])"
  then have "last (take n xs) \<in> set xs"
    by (metis in_set_takeD last_in_set take_eq_Nil)
  then show "((n, before (Some (row_time (last (take n xs)))) xs), n, xs) \<in> measure (\<lambda>(n, xs). length xs)"
    unfolding before_def by (auto intro: length_filter_less)
qed simp

declare strict_pages.simps [simp del]

abbreviation newest_first :: "account_transaction list \<Rightarrow> bool" where
  "newest_first xs \<equiv> sorted_wrt (\<lambda>x y. row_time y \<le> row_time x) xs"

lemma newest_first_before: "newest_first xs \<Longrightarrow> newest_first (before c xs)"
  by (simp add: before_def sorted_wrt_filter split: option.split)

lemma before_less: "x \<in> set xs \<Longrightarrow> \<not> row_time x < t \<Longrightarrow> length (before (Some t) xs) < length xs"
  by (auto simp: before_def intro: length_filter_less)

lemma page_rest:
  assumes "newest_first xs"
  shows "before (Some (row_time (last (take n xs)))) xs = before (Some (row_time (last (take n xs)))) (drop n xs)"
proof -
  have "row_time (last ys) \<le> row_time y" if "newest_first ys" "y \<in> set ys" for ys y
    using that by (induction ys) auto
  then have "before (Some (row_time (last (take n xs)))) (take n xs) = []"
    using assms by (fastforce simp: before_def filter_empty_conv sorted_wrt_take not_less)
  then show ?thesis
    by (metis append_take_drop_id append_Nil before_def filter_append option.simps(5))
qed

lemma length_strict_pages: "newest_first xs \<Longrightarrow> length (strict_pages n xs) \<le> length xs"
proof (induction n xs rule: strict_pages.induct)
  case (1 n xs)
  show ?case
  proof (cases "n = 0 \<or> xs = []")
    case False
    have "length (strict_pages n (before (Some (row_time (last (take n xs)))) xs))
        \<le> length (before (Some (row_time (last (take n xs)))) (drop n xs))"
      using "1.IH" [OF False newest_first_before [OF "1.prems"]] page_rest [OF "1.prems"] by simp
    also have "\<dots> \<le> length (drop n xs)"
      unfolding before_def option.case by (rule length_filter_le)
    finally show ?thesis
      using False by (subst strict_pages.simps) simp
  qed (auto simp: strict_pages.simps)
qed

text \<open>No two rows with the same time stand on different sides of the end of a page.\<close>

definition pages_separated :: "nat \<Rightarrow> account_transaction list \<Rightarrow> bool" where
  "pages_separated n xs \<longleftrightarrow> (\<forall>i. 0 < i \<and> i * n < length xs \<longrightarrow> row_time (xs ! (i * n)) < row_time (xs ! (i * n - 1)))"

lemma pages_separated_short: "0 < n \<Longrightarrow> length xs \<le> n \<Longrightarrow> pages_separated n xs"
  unfolding pages_separated_def by (metis mult.commute mult_le_mono2 nat_mult_1_right not_less order_trans Suc_leI One_nat_def)

lemma pages_separated_drop:
  assumes "0 < n" "n < length xs"
  shows "pages_separated n xs \<longleftrightarrow> row_time (xs ! n) < row_time (xs ! (n - 1)) \<and> pages_separated n (drop n xs)"
proof -
  let ?P = "\<lambda>i. i * n < length xs \<longrightarrow> row_time (xs ! (i * n)) < row_time (xs ! (i * n - 1))"
  have shift: "?P (Suc (Suc i)) \<longleftrightarrow> (Suc i * n < length (drop n xs) \<longrightarrow>
      row_time (drop n xs ! (Suc i * n)) < row_time (drop n xs ! (Suc i * n - 1)))" for i
    using assms by (auto simp: algebra_simps)
  have "pages_separated n xs \<longleftrightarrow> ?P 1 \<and> (\<forall>i. ?P (Suc (Suc i)))"
    unfolding pages_separated_def by (metis One_nat_def gr0_conv_Suc not0_implies_Suc zero_less_Suc)
  also have "(\<forall>i. ?P (Suc (Suc i))) \<longleftrightarrow> pages_separated n (drop n xs)"
    unfolding pages_separated_def shift by (metis gr0_conv_Suc zero_less_Suc)
  finally show ?thesis
    using assms by simp
qed

lemma strict_pages_complete:
  "newest_first xs \<Longrightarrow> 0 < n \<Longrightarrow> strict_pages n xs = xs \<longleftrightarrow> pages_separated n xs"
proof (induction n xs rule: strict_pages.induct)
  case (1 n xs)
  let ?t = "row_time (last (take n xs))"
  show ?case
  proof (cases "length xs \<le> n")
    case True
    then have "before (Some ?t) (drop n xs) = []"
      by (simp add: before_def)
    then have "strict_pages n xs = xs"
      using True page_rest [OF "1.prems"(1), of n] "1.prems"(2) by (subst strict_pages.simps) (simp add: strict_pages.simps)
    then show ?thesis
      using pages_separated_short [OF "1.prems"(2) True] by simp
  next
    case False
    then have ne: "\<not> (n = 0 \<or> xs = [])"
      using "1.prems" by auto
    have t: "?t = row_time (xs ! (n - 1))"
      using False ne by (subst last_conv_nth) (auto simp: min_def)
    have pages: "strict_pages n xs = take n xs @ strict_pages n (before (Some ?t) (drop n xs))"
      using ne page_rest [OF "1.prems"(1)] by (subst strict_pages.simps) simp
    show ?thesis
    proof (cases "row_time (xs ! n) < row_time (xs ! (n - 1))")
      case True
      have "row_time x < ?t" if x: "x \<in> set (drop n xs)" for x
      proof -
        obtain k where k: "n + k < length xs" "x = xs ! (n + k)"
          using x False by (auto simp: in_set_conv_nth less_diff_conv add.commute)
        then have "row_time x \<le> row_time (xs ! n)"
          using "1.prems"(1) by (cases "k = 0") (auto simp: sorted_wrt_iff_nth_less)
        with True t show ?thesis by simp
      qed
      then have "before (Some ?t) (drop n xs) = drop n xs"
        by (simp add: before_def filter_id_conv)
      then have "strict_pages n xs = xs \<longleftrightarrow> strict_pages n (drop n xs) = drop n xs"
          and "before (Some ?t) xs = drop n xs"
        using pages page_rest [OF "1.prems"(1), of n] by (metis append_take_drop_id same_append_eq, simp)
      moreover have "strict_pages n (drop n xs) = drop n xs \<longleftrightarrow> pages_separated n (drop n xs)"
        using "1.IH" [OF ne] calculation(2) "1.prems" by (simp add: sorted_wrt_drop)
      ultimately show ?thesis
        using pages_separated_drop [OF "1.prems"(2)] False True by simp
    next
      case split: False
      have "xs ! n \<in> set (drop n xs)"
        using False by (simp add: Cons_nth_drop_Suc [symmetric])
      moreover have "\<not> row_time (xs ! n) < ?t"
        using split t by simp
      ultimately have "length (before (Some ?t) (drop n xs)) < length (drop n xs)"
        by (rule before_less)
      moreover have "length (strict_pages n (before (Some ?t) (drop n xs))) \<le> length (before (Some ?t) (drop n xs))"
        using "1.prems" by (intro length_strict_pages newest_first_before sorted_wrt_drop)
      ultimately have "length (strict_pages n xs) < length xs"
        using False unfolding pages by simp
      then show ?thesis
        using split pages_separated_drop [OF "1.prems"(2)] False by auto
    qed
  qed
qed

text \<open>A time that the node can report: whole milliseconds since 1970.\<close>

definition whole_millis :: "date_limits \<Rightarrow> naive_datetime \<Rightarrow> bool" where
  "whole_millis L t \<longleftrightarrow> t mod 1000000 = 0 \<and> 0 \<le> t \<and> t div 1000000 div 86400000 \<le> date_max L"

lemma cursor_roundtrip:
  assumes "whole_millis L t" "date_min L \<le> 0"
  shows "from_timestamp_millis L (timestamp_millis t) = Some t"
proof -
  let ?ms = "timestamp_millis t"
  have t: "t = ?ms * 1000000" and ms: "0 \<le> ?ms" "?ms div 86400000 \<le> date_max L"
    using assms by (auto simp: whole_millis_def timestamp_millis_def mod_eq_0_iff_dvd pos_imp_zdiv_nonneg_iff)
  have d: "?ms div 1000 div 86400 = ?ms div 86400000"
    using zdiv_zmult2_eq [of 86400 ?ms 1000] by simp
  have "from_timestamp L (?ms div 1000) (?ms mod 1000 * 1000000) = Some (?ms div 1000 * second_ns + ?ms mod 1000 * 1000000)"
  proof (rule from_timestamp_ok)
    show "date_min L \<le> ?ms div 1000 div 86400"
      using assms(2) ms(1) unfolding d by (meson order_trans pos_imp_zdiv_nonneg_iff zero_less_numeral)
    show "?ms div 1000 div 86400 \<le> date_max L"
      using ms(2) unfolding d .
    show "?ms mod 1000 * 1000000 < 1000000000"
      using pos_mod_bound [of 1000 ?ms] by simp
  qed
  moreover have "?ms div 1000 * second_ns + ?ms mod 1000 * 1000000 = ?ms * 1000000"
    using div_mult_mod_eq [of ?ms 1000] unfolding second_ns_def by linarith
  ultimately show ?thesis
    using t by (simp add: from_timestamp_millis_def)
qed

lemma history_page:
  assumes "0 < n" "n \<le> 100" "address \<noteq> []"
  shows "get_account_transactions_handler L \<lparr>atq_address = Some address, atq_limit = int n, atq_cursor = c\<rparr> T =
    Inr (List.map flattened_of (take n (before (Option.bind c (from_timestamp_millis L)) (account_history address T))))"
proof -
  have "order_desc row_time (before t (filter (\<lambda>r. nat_address (at_row r) = address) (t_rows T)))
      = before t (account_history address T)" for t
    by (simp add: before_def account_history_def order_desc_def filter_sort split: option.split)
  then show ?thesis
    using assms by (simp add: get_account_transactions_handler_def get_account_transactions_def Let_def before_def
        sql_page_def split: option.split)
qed

lemma flattened_inj: "inj flattened_of"
  by (rule injI) (auto simp: flattened_of_def Let_def)

lemma follow_cursor_pages:
  assumes n: "0 < n" "n \<le> 100" "address \<noteq> []" and L: "date_min L \<le> 0"
    and rows: "\<forall>r\<in>set (account_history address T). whole_millis L (row_time r)"
  shows "follow_cursor L address (int n) c T =
    Some (Inr (List.map flattened_of (strict_pages n (before (Option.bind c (from_timestamp_millis L)) (account_history address T)))))"
proof (induction "length (before (Option.bind c (from_timestamp_millis L)) (account_history address T))" arbitrary: c
    rule: less_induct)
  case less
  let ?H = "account_history address T"
  let ?c = "Option.bind c (from_timestamp_millis L)"
  let ?xs = "before ?c ?H"
  show ?case
  proof (cases "?xs = []")
    case True
    then show ?thesis
      using history_page [OF n, of L c T] by (subst follow_cursor.simps) (simp add: strict_pages.simps)
  next
    case False
    let ?r = "last (take n ?xs)"
    have r: "?r \<in> set ?xs"
      using False n(1) by (metis in_set_takeD last_in_set neq0_conv not_gr0 take_eq_Nil)
    then have "?r \<in> set ?H"
      by (auto simp: before_def split: option.splits)
    then have next_cursor: "from_timestamp_millis L (timestamp_millis (row_time ?r)) = Some (row_time ?r)"
      using rows L by (blast intro: cursor_roundtrip)
    have smaller: "before (Some (row_time ?r)) ?H = before (Some (row_time ?r)) ?xs"
    proof (cases ?c)
      case (Some t)
      then have "row_time ?r < t"
        using r by (simp add: before_def)
      then show ?thesis
        using Some by (auto simp: before_def intro: filter_cong)
    qed (simp add: before_def)
    have "length (before (Some (row_time ?r)) ?xs) < length ?xs"
      by (rule before_less [OF r]) simp
    then have IH: "follow_cursor L address (int n) (Some (timestamp_millis (row_time ?r))) T =
        Some (Inr (List.map flattened_of (strict_pages n (before (Some (row_time ?r)) ?xs))))"
      using less [of "Some (timestamp_millis (row_time ?r))"] smaller next_cursor by simp
    have "atf_timestamp (last (List.map flattened_of (take n ?xs))) = row_time ?r"
      using False n(1) by (simp add: last_map flattened_of_def Let_def)
    moreover have "strict_pages n ?xs = take n ?xs @ strict_pages n (before (Some (row_time ?r)) ?xs)"
      using False n(1) by (subst strict_pages.simps) simp
    ultimately show ?thesis
      using history_page [OF n, of L c T] IH False n(1) by (subst follow_cursor.simps) simp
  qed
qed

lemma newest_first_history: "newest_first (account_history address T)"
  unfolding account_history_def by (rule sorted_order_desc)

text \<open>C25: Following the cursor always ends, and yields the whole history of the account exactly when no two rows with
  the same time are separated by the end of a page; otherwise rows are never delivered, because the next page starts
  strictly before the time of the last row received.\<close>
theorem cursor_complete_iff_pages_separated:
  assumes "0 < n" "n \<le> 100" "address \<noteq> []" "date_min L \<le> 0"
    and "\<forall>r\<in>set (account_history address T). whole_millis L (nat_timestamp (at_row r))"
  shows "\<exists>rows. follow_cursor L address (int n) None T = Some (Inr rows) \<and>
    set rows \<subseteq> flattened_of ` set (account_history address T) \<and>
    (rows = List.map flattened_of (account_history address T) \<longleftrightarrow> pages_separated n (account_history address T))"
proof -
  let ?H = "account_history address T"
  have H: "follow_cursor L address (int n) None T = Some (Inr (List.map flattened_of (strict_pages n ?H)))"
    using follow_cursor_pages [OF assms, of None] by (simp add: before_def)
  have "set (strict_pages n xs) \<subseteq> set xs" for n and xs :: "account_transaction list"
  proof (induction n xs rule: strict_pages.induct)
    case (1 n xs)
    show ?case
      using 1 by (subst strict_pages.simps) (auto simp: before_def dest: in_set_takeD)
  qed
  moreover have "List.map flattened_of (strict_pages n ?H) = List.map flattened_of ?H \<longleftrightarrow> pages_separated n ?H"
    using strict_pages_complete [OF newest_first_history assms(1), of address T]
      inj_map_eq_map [OF flattened_inj] by blast
  ultimately show ?thesis
    unfolding H by (intro exI [of _ "List.map flattened_of (strict_pages n ?H)"]) auto
qed

definition same_time_txs :: "account_transaction table" where
  "same_time_txs = insert_transactions
    (List.map (\<lambda>(tx, t). \<lparr>nat_address = ''a'', nat_tx_type = ''transfer'', nat_tx_id = tx, nat_from_group = 0,
      nat_to_group = 0, nat_block_height = 1, nat_timestamp = t, nat_details = CallJson \<lparr>ccd_contract_address = ''c''\<rparr>\<rparr>)
      [(''x'', 2000000), (''y'', 2000000), (''z'', 1000000)]) empty_table"

text \<open>Pages of one row deliver the first of two transactions of a block and skip the second; pages of two deliver
  everything.\<close>

theorem cursor_complete_iff_pages_separated_witness:
  "(\<exists>rows. follow_cursor \<lparr>date_min = 0, date_max = 100000\<rparr> ''a'' 1 None same_time_txs = Some (Inr rows) \<and>
     rows \<noteq> List.map flattened_of (account_history ''a'' same_time_txs)) \<and>
   (\<exists>rows. follow_cursor \<lparr>date_min = 0, date_max = 100000\<rparr> ''a'' 2 None same_time_txs = Some (Inr rows) \<and>
     rows = List.map flattened_of (account_history ''a'' same_time_txs))"
proof -
  let ?H = "account_history ''a'' same_time_txs"
  have len: "length ?H = 3" and times: "row_time (?H ! 0) = 2000000" "row_time (?H ! 1) = 2000000" "row_time (?H ! 2) = 1000000"
    by code_simp+
  have millis: "\<forall>r\<in>set ?H. whole_millis \<lparr>date_min = 0, date_max = 100000\<rparr> (nat_timestamp (at_row r))"
    by code_simp
  have "\<not> pages_separated 1 ?H"
    unfolding pages_separated_def using len times by (auto intro!: exI [of _ 1])
  moreover have "pages_separated 2 ?H"
  proof -
    have "row_time (?H ! (i * 2)) < row_time (?H ! (i * 2 - 1))" if "0 < i \<and> i * 2 < 3" for i :: nat
    proof -
      from that have "i = 1" by simp
      then show ?thesis using times by (simp add: numeral_2_eq_2)
    qed
    then show ?thesis
      unfolding pages_separated_def len by blast
  qed
  ultimately show ?thesis
    using cursor_complete_iff_pages_separated [OF _ _ _ _ millis, of 1] cursor_complete_iff_pages_separated [OF _ _ _ _ millis, of 2]
    by auto
qed

section \<open>Submission\<close>

text \<open>C0: A submission succeeds exactly for a well-formed request that the node accepts. The transaction is then
  recorded under its first submitter, and earlier records stay; a request that fails stores nothing.\<close>
theorem submission_recorded:
  assumes "submit_swap_handler C now request T = (result, T')"
  shows "((\<exists>answer. result = Inr answer) \<longleftrightarrow>
      validate_request request = Inr () \<and>
      (\<exists>answer. submit_transaction C (ssr_unsigned_tx request) (ssr_signature request) = Inr answer)) \<and>
    (case result of
      Inl _ \<Rightarrow> T' = T
    | Inr answer \<Rightarrow>
        submit_transaction C (ssr_unsigned_tx request) (ssr_signature request) = Inr answer \<and>
        is_linx_transaction (str_tx_id answer) T' \<and>
        map_option lt_user_address (lookup lt_tx_id (str_tx_id answer) T') =
          Some (case lookup lt_tx_id (str_tx_id answer) T of
            None \<Rightarrow> ssr_user_address request | Some r \<Rightarrow> lt_user_address r) \<and>
        (\<exists>added. t_rows T' = t_rows T @ added))"
proof -
  let ?s = "submit_transaction C (ssr_unsigned_tx request) (ssr_signature request)"
  consider (bad) e where "validate_request request = Inl e"
    | (down) e where "validate_request request = Inr ()" "?s = Inl e"
    | (ok) a where "validate_request request = Inr ()" "?s = Inr a"
    by (cases "validate_request request"; cases ?s) auto
  then show ?thesis
  proof cases
    case bad
    then show ?thesis
      using assms by (auto simp: submit_swap_handler_def)
  next
    case down
    then show ?thesis
      using assms by (cases e) (auto simp: submit_swap_handler_def)
  next
    case (ok a)
    let ?n = "\<lparr>nlt_tx_id = str_tx_id a, nlt_user_address = ssr_user_address request\<rparr>"
    have r: "result = Inr a" "T' = snd (insert_linx_transaction now ?n T)"
      using ok assms by (auto simp: submit_swap_handler_def Let_def split: prod.splits)
    show ?thesis
    proof (cases "has_key lt_tx_id (str_tx_id a) T")
      case True
      then obtain row where "lookup lt_tx_id (str_tx_id a) T = Some row"
        using lookup_None_iff [of lt_tx_id "str_tx_id a" T] by blast
      moreover have "T' = skip_row T"
        using True r(2) by (simp add: insert_linx_transaction_def insert_unique_def)
      ultimately show ?thesis
        using ok r(1) True
        by (auto simp: is_linx_transaction_def has_key_def lookup_def filter_empty_conv)
    next
      case False
      then have "lookup lt_tx_id (str_tx_id a) T = None"
        by (simp add: lookup_None_iff)
      moreover have "T' = append_row (mk_linx_tx now) ?n T"
        using False r(2) by (simp add: insert_linx_transaction_def insert_unique_def)
      ultimately show ?thesis
        using ok r(1) by (auto simp: is_linx_transaction_def lookup_def find_append mk_linx_tx_def)
    qed
  qed
qed

definition example_http :: http_client where
  "example_http = \<lparr>hc_base_url = ''node'', hc_parse_url = Inr,
    hc_send = (\<lambda>r. Inr \<lparr>hr_status = 200, hr_status_text = ''200 OK'', hr_body = []\<rparr>),
    hc_read = \<lparr>jr_value = (\<lambda>s. Inr JNull), jr_blocks = (\<lambda>s. Inr []), jr_blocks_and_events = (\<lambda>s. Inr []), jr_block_and_events = (\<lambda>s. Inl (Error ''none'')),
      jr_block = (\<lambda>s. Inl (Error ''none'')), jr_header = (\<lambda>s. Inl (Error ''none'')), jr_hashes = (\<lambda>s. Inr []), jr_chain_info = (\<lambda>s. Inl (Error ''none'')),
      jr_transaction = (\<lambda>s. Inr None), jr_transactions = (\<lambda>s. Inr []),
      jr_submit = (\<lambda>s. Inr \<lparr>str_tx_id = ''tx'', str_from_group = 0, str_to_group = 1\<rparr>),
      jr_call_result = (\<lambda>s. Inl (Error ''none'')), jr_contract_state = (\<lambda>s. Inl (Error ''none''))\<rparr>\<rparr>"

theorem submission_recorded_witness:
  "\<exists>answer T'. submit_swap_handler example_http 0
      \<lparr>ssr_unsigned_tx = ''00ff'', ssr_signature = ''ab'', ssr_user_address = ''alice''\<rparr> empty_table = (Inr answer, T') \<and>
    is_linx_transaction (str_tx_id answer) T'"
proof -
  let ?r = "\<lparr>ssr_unsigned_tx = ''00ff'', ssr_signature = ''ab'', ssr_user_address = ''alice''\<rparr>"
  obtain result T' where r: "submit_swap_handler example_http 0 ?r empty_table = (result, T')"
    by (cases "submit_swap_handler example_http 0 ?r empty_table")
  have "validate_request ?r = Inr ()"
    by code_simp
  moreover have "submit_transaction example_http ''00ff'' ''ab'' = Inr \<lparr>str_tx_id = ''tx'', str_from_group = 0, str_to_group = 1\<rparr>"
    by (simp add: submit_transaction_def post_path_def example_http_def is_success_def)
  ultimately show ?thesis
    using submission_recorded [OF r] r by (auto split: sum.splits)
qed

end
