(* ===== verification/Snapshot_Jobs.thy ===== *)
theory Snapshot_Jobs
  imports Lending_Services
begin

text \<open>
  The program that runs the snapshot services (\<^verbatim>\<open>bin/snapshots.rs\<close>, \<^verbatim>\<open>jobs.rs\<close>): the registered
  jobs, one run by name, the endless loop of a job as the run over its ticks, and the backfill of the cumulative
  volumes. Every tick has its own environment, with its own clock and answers of the node.
\<close>

section \<open>Jobs\<close>

datatype job = PositionJob | MarketStateJob | StatsJob

definition job_name :: "job \<Rightarrow> string" where
  "job_name j = (case j of PositionJob \<Rightarrow> ''position-snapshots'' | MarketStateJob \<Rightarrow> ''market-state-snapshots''
    | StatsJob \<Rightarrow> ''lending-stats-snapshots'')"

text \<open>Seconds between two ticks.\<close>

definition job_interval :: "job \<Rightarrow> int" where
  "job_interval j = (case j of PositionJob \<Rightarrow> 300 | MarketStateJob \<Rightarrow> 3600 | StatsJob \<Rightarrow> 3600)"

definition build_jobs :: "job list" where
  "build_jobs = [PositionJob, MarketStateJob, StatsJob]"

definition job_tick ::
  "(rat \<Rightarrow> rat \<Rightarrow> rat) \<Rightarrow> (string \<Rightarrow> 'k::linorder) \<Rightarrow> service_env \<Rightarrow> job \<Rightarrow> ('z lending_db_scheme, unit) run" where
  "job_tick qdiv collate E j db = (case j of
      PositionJob \<Rightarrow> generate_position_snapshots E collate db
    | MarketStateJob \<Rightarrow> Some (generate_market_snapshots E db)
    | StatsJob \<Rightarrow> Some (Inr (), generate_stats_snapshot (sv_dec E) qdiv (sv_now E) db))"

definition run_once ::
  "(rat \<Rightarrow> rat \<Rightarrow> rat) \<Rightarrow> (string \<Rightarrow> 'k::linorder) \<Rightarrow> service_env \<Rightarrow> string \<Rightarrow> ('z lending_db_scheme, unit) run" where
  "run_once qdiv collate E name db =
    (case List.find (\<lambda>j. job_name j = name) build_jobs of
      None \<Rightarrow> Some (Inl (Error (''unknown job: '' @ name)), db)
    | Some j \<Rightarrow> job_tick qdiv collate E j db)"

text \<open>\<^verbatim>\<open>run_job_forever\<close> up to some tick: an error is logged and the loop goes on, a panic ends the task.\<close>

fun run_job_ticks ::
  "(rat \<Rightarrow> rat \<Rightarrow> rat) \<Rightarrow> (string \<Rightarrow> 'k::linorder) \<Rightarrow> job \<Rightarrow> service_env list \<Rightarrow> ('z lending_db_scheme, unit) run" where
  "run_job_ticks qdiv collate j [] db = Some (Inr (), db)"
| "run_job_ticks qdiv collate j (E # Es) db =
    (case job_tick qdiv collate E j db of
      None \<Rightarrow> None
    | Some (Inl (Panic p), db') \<Rightarrow> Some (Inl (Panic p), db')
    | Some (_, db') \<Rightarrow> run_job_ticks qdiv collate j Es db')"

section \<open>Backfill of the cumulative volumes\<close>

definition cumulative_usd ::
  "service_env \<Rightarrow> token_info \<Rightarrow> rat \<Rightarrow> string \<Rightarrow> string \<Rightarrow> naive_datetime \<Rightarrow> 'z lending_db_scheme \<Rightarrow> rat res" where
  "cumulative_usd E loan_info loan_price market_id event_type snapshot_ts db =
    and_then (usd_value E loan_info loan_price (sum_event_amounts market_id event_type 0 snapshot_ts db))
      (\<lambda>x. Inr (with_scale (sv_dec E) 2 x))"

fun backfill_rows ::
  "service_env \<Rightarrow> token_info \<Rightarrow> rat \<Rightarrow> string \<Rightarrow> (int \<times> naive_datetime) list \<Rightarrow> ('z lending_db_scheme, error, unit) action" where
  "backfill_rows E loan_info loan_price market_id [] db = (Inr (), db)"
| "backfill_rows E loan_info loan_price market_id ((snapshot_id, snapshot_ts) # rows) db =
    (case and_then (cumulative_usd E loan_info loan_price market_id ''Supply'' snapshot_ts db)
        (\<lambda>s. and_then (cumulative_usd E loan_info loan_price market_id ''Borrow'' snapshot_ts db) (\<lambda>b. Inr (s, b))) of
      Inl e \<Rightarrow> (Inl e, db)
    | Inr (supply_usd, borrow_usd) \<Rightarrow>
        backfill_rows E loan_info loan_price market_id rows (update_cumulative_volumes snapshot_id supply_usd borrow_usd db))"

fun backfill_markets :: "service_env \<Rightarrow> market list \<Rightarrow> ('z lending_db_scheme, error, unit) action" where
  "backfill_markets E [] db = (Inr (), db)"
| "backfill_markets E (m # ms) db =
    (case and_then (sv_token_info E (mkt_loan_token m)) (\<lambda>info.
        and_then (sv_token_price E (mkt_loan_token m)) (\<lambda>price. Inr (info, price))) of
      Inl e \<Rightarrow> (Inl e, db)
    | Inr (loan_info, loan_price) \<Rightarrow>
        (case backfill_rows E loan_info loan_price (mkt_id m) (list_snapshot_ids_for_market (mkt_id m) db) db of
          (Inl e, db') \<Rightarrow> (Inl e, db')
        | (Inr _, db') \<Rightarrow> backfill_markets E ms db'))"

definition backfill_cumulative_volumes :: "service_env \<Rightarrow> ('z lending_db_scheme, error, unit) action" where
  "backfill_cumulative_volumes E db = backfill_markets E (get_all_markets db) db"

end
