(* ===== verification/Snapshot_Jobs_Laws.thy ===== *)
theory Snapshot_Jobs_Laws
  imports Snapshot_Jobs Lending_Services_Laws
begin

text \<open>
  The backfill of the cumulative volumes writes, for every snapshot of a known market, the priced sums of the events
  up to the time of the snapshot, touches nothing else, and may be repeated.
\<close>

definition set_volumes :: "rat \<times> rat \<Rightarrow> market_state_snapshot \<Rightarrow> market_state_snapshot" where
  "set_volumes v s = s\<lparr>mst_row := (mst_row s)\<lparr>mss_cumulative_supply_volume_usd := fst v,
    mss_cumulative_borrow_volume_usd := snd v\<rparr>\<rparr>"

lemma set_volumes_simps [simp]:
  "mst_id (set_volumes v s) = mst_id s" "state_market (set_volumes v s) = state_market s"
  "state_time (set_volumes v s) = state_time s" "set_volumes v (set_volumes w s) = set_volumes v s"
  by (simp_all add: set_volumes_def state_market_def state_time_def)

definition with_states :: "market_state_snapshot list \<Rightarrow> 'z lending_db_scheme \<Rightarrow> 'z lending_db_scheme" where
  "with_states rows db = db\<lparr>ld_states := (ld_states db)\<lparr>t_rows := rows\<rparr>\<rparr>"

abbreviation states :: "'z lending_db_scheme \<Rightarrow> market_state_snapshot list" where
  "states db \<equiv> t_rows (ld_states db)"

lemma with_states_simps [simp]:
  "states (with_states rows db) = rows" "ld_events (with_states rows db) = ld_events db"
  "ld_markets (with_states rows db) = ld_markets db" "with_states rs (with_states rows db) = with_states rs db"
  "with_states (states db) db = db"
  by (simp_all add: with_states_def)

lemma sums_with_states [simp]:
  "sum_event_amounts m ty a b (with_states rows db) = sum_event_amounts m ty a b db"
  "get_all_markets (with_states rows db) = get_all_markets db"
  by (simp_all add: sum_event_amounts_def get_all_markets_def)

text \<open>The two values of a snapshot.\<close>

definition volumes_at ::
  "service_env \<Rightarrow> token_info \<Rightarrow> rat \<Rightarrow> string \<Rightarrow> naive_datetime \<Rightarrow> 'z lending_db_scheme \<Rightarrow> (rat \<times> rat) res" where
  "volumes_at E i p m t db = and_then (cumulative_usd E i p m ''Supply'' t db)
    (\<lambda>s. and_then (cumulative_usd E i p m ''Borrow'' t db) (\<lambda>b. Inr (s, b)))"

lemma volumes_with_states [simp]: "volumes_at E i p m t (with_states rows db) = volumes_at E i p m t db"
  by (simp add: volumes_at_def cumulative_usd_def)

definition on_ok :: "(rat \<times> rat) res \<Rightarrow> market_state_snapshot \<Rightarrow> market_state_snapshot" where
  "on_ok r s = (case r of Inl e \<Rightarrow> s | Inr v \<Rightarrow> set_volumes v s)"

lemma on_ok_simps [simp]:
  "mst_id (on_ok r s) = mst_id s" "state_market (on_ok r s) = state_market s" "state_time (on_ok r s) = state_time s"
  "on_ok (Inr v) s = set_volumes v s" "on_ok r (on_ok r s) = on_ok r s"
  by (simp_all add: on_ok_def split: sum.split)

lemma backfill_rows_iff:
  "backfill_rows E i p m rs db = (Inr (), db') \<longleftrightarrow>
    (\<forall>(n, t)\<in>set rs. \<exists>v. volumes_at E i p m t db = Inr v) \<and>
    db' = with_states (fold (\<lambda>(n, t). List.map (\<lambda>s. if mst_id s = n then on_ok (volumes_at E i p m t db) s else s)) rs (states db)) db"
proof (induction rs arbitrary: db)
  case (Cons r rs)
  obtain n t where r: "r = (n, t)"
    by (cases r)
  show ?case
  proof (cases "volumes_at E i p m t db")
    case (Inl e)
    then show ?thesis
      by (simp add: r volumes_at_def [symmetric])
  next
    case (Inr v)
    have u: "update_cumulative_volumes n (fst v) (snd v) db =
        with_states (List.map (\<lambda>s. if mst_id s = n then on_ok (volumes_at E i p m t db) s else s) (states db)) db"
      by (simp add: update_cumulative_volumes_def with_states_def Inr set_volumes_def cong: if_cong)
    have step: "backfill_rows E i p m (r # rs) db = backfill_rows E i p m rs (update_cumulative_volumes n (fst v) (snd v) db)"
      using Inr by (cases v) (simp add: r volumes_at_def [symmetric])
    show ?thesis
      unfolding step u Cons.IH by (simp add: r Inr cong: if_cong)
  qed
qed auto

text \<open>With distinct ids, a market's run touches each of its snapshots once.\<close>

lemma fold_by_id:
  assumes "distinct (List.map fst rs)"
    and "\<And>n t s. mst_id (f t s) = mst_id s"
  shows "fold (\<lambda>(n, t). List.map (\<lambda>s. if mst_id s = n then f t s else s)) rs ss =
    List.map (\<lambda>s. case map_of rs (mst_id s) of None \<Rightarrow> s | Some t \<Rightarrow> f t s) ss"
  using assms(1)
proof (induction rs arbitrary: ss)
  case (Cons r rs)
  obtain n t where r: "r = (n, t)"
    by (cases r)
  have "map_of rs n = None"
    using Cons.prems by (simp add: r map_of_eq_None_iff)
  with Cons show ?case
    by (auto simp: r assms(2) intro!: map_cong split: option.split)
qed simp

lemma snapshot_ids_get:
  assumes "distinct (List.map mst_id (states db))" "s \<in> set (states db)"
  shows "map_of (list_snapshot_ids_for_market m db) (mst_id s) = (if state_market s = m then Some (state_time s) else None)"
    and "distinct (List.map fst (list_snapshot_ids_for_market m db))"
proof -
  let ?ss = "sort_key state_time (filter (\<lambda>s. state_market s = m) (states db))"
  have "mset (List.map mst_id ?ss) = mset (List.map mst_id (filter (\<lambda>s. state_market s = m) (states db)))"
    by simp
  then have d: "distinct (List.map mst_id ?ss)"
    using assms(1) by (metis distinct_map_filter mset_eq_imp_distinct_iff)
  then show dd: "distinct (List.map fst (list_snapshot_ids_for_market m db))"
    by (simp add: list_snapshot_ids_for_market_def comp_def)
  show "map_of (list_snapshot_ids_for_market m db) (mst_id s) = (if state_market s = m then Some (state_time s) else None)"
  proof (cases "state_market s = m")
    case True
    then have "(mst_id s, state_time s) \<in> set (list_snapshot_ids_for_market m db)"
      using assms(2) by (force simp: list_snapshot_ids_for_market_def)
    with dd True show ?thesis
      by simp
  next
    case False
    have ne: "mst_id s \<noteq> mst_id s'" if "s' \<in> set (states db)" "state_market s' = m" for s'
      using distinct_map_unique [OF assms(1) assms(2) that(1)] that(2) False by blast
    then show ?thesis
      using False by (simp add: list_snapshot_ids_for_market_def map_of_eq_None_iff) (use ne in fastforce)
  qed
qed

text \<open>The values for a snapshot of a market, token data included.\<close>

definition market_volumes :: "service_env \<Rightarrow> market \<Rightarrow> naive_datetime \<Rightarrow> 'z lending_db_scheme \<Rightarrow> (rat \<times> rat) res" where
  "market_volumes E m t db = and_then (sv_token_info E (mkt_loan_token m)) (\<lambda>i.
    and_then (sv_token_price E (mkt_loan_token m)) (\<lambda>p. volumes_at E i p (mkt_id m) t db))"

definition recompute :: "service_env \<Rightarrow> 'z lending_db_scheme \<Rightarrow> market \<Rightarrow> market_state_snapshot \<Rightarrow> market_state_snapshot" where
  "recompute E db m s = (if state_market s = mkt_id m then on_ok (market_volumes E m (state_time s) db) s else s)"

lemma recompute_simps [simp]:
  "mst_id (recompute E db m s) = mst_id s" "state_market (recompute E db m s) = state_market s"
  "state_time (recompute E db m s) = state_time s" "recompute E (with_states rows db) m s = recompute E db m s"
  "market_volumes E m t (with_states rows db) = market_volumes E m t db"
  by (simp_all add: recompute_def market_volumes_def)

definition computable :: "service_env \<Rightarrow> 'z lending_db_scheme \<Rightarrow> market \<Rightarrow> bool" where
  "computable E db m \<longleftrightarrow> (\<exists>i p. sv_token_info E (mkt_loan_token m) = Inr i \<and> sv_token_price E (mkt_loan_token m) = Inr p) \<and>
    (\<forall>s\<in>set (states db). state_market s = mkt_id m \<longrightarrow> (\<exists>v. market_volumes E m (state_time s) db = Inr v))"

lemma computable_recompute [simp]:
  "computable E (with_states (List.map (recompute E db' m') (states db)) db) m \<longleftrightarrow> computable E db m"
  by (simp add: computable_def)

lemma backfill_one_market:
  assumes d: "distinct (List.map mst_id (states db))"
    and ip: "sv_token_info E (mkt_loan_token m) = Inr i" "sv_token_price E (mkt_loan_token m) = Inr p"
  shows "backfill_rows E i p (mkt_id m) (list_snapshot_ids_for_market (mkt_id m) db) db = (Inr (), db') \<longleftrightarrow>
    computable E db m \<and> db' = with_states (List.map (recompute E db m) (states db)) db"
proof -
  let ?rs = "list_snapshot_ids_for_market (mkt_id m) db"
  have v: "market_volumes E m t db = volumes_at E i p (mkt_id m) t db" for t
    by (simp add: market_volumes_def ip)
  have dd: "distinct (List.map fst ?rs)"
  proof (cases "states db")
    case (Cons s ss)
    then show ?thesis
      using snapshot_ids_get(2) [OF d, of s] by simp
  qed (simp add: list_snapshot_ids_for_market_def)
  have "(\<forall>(n, t)\<in>set ?rs. \<exists>w. volumes_at E i p (mkt_id m) t db = Inr w) \<longleftrightarrow> computable E db m"
    by (auto simp: computable_def ip v list_snapshot_ids_for_market_def)
  moreover have "fold (\<lambda>(n, t). List.map (\<lambda>s. if mst_id s = n then on_ok (volumes_at E i p (mkt_id m) t db) s else s)) ?rs (states db) =
      List.map (recompute E db m) (states db)"
    by (subst fold_by_id [OF dd]) (auto simp: snapshot_ids_get(1) [OF d] recompute_def v intro!: map_cong)
  ultimately show ?thesis
    unfolding backfill_rows_iff by simp
qed

lemma backfill_markets_iff:
  assumes "distinct (List.map mst_id (states db))"
  shows "backfill_markets E ms db = (Inr (), db') \<longleftrightarrow> list_all (computable E db) ms \<and>
    db' = with_states (List.map (fold (recompute E db) ms) (states db)) db"
  using assms
proof (induction ms arbitrary: db)
  case (Cons m ms)
  show ?case
  proof (cases "\<exists>i p. sv_token_info E (mkt_loan_token m) = Inr i \<and> sv_token_price E (mkt_loan_token m) = Inr p")
    case False
    then have "\<exists>e. and_then (sv_token_info E (mkt_loan_token m)) (\<lambda>info. and_then (sv_token_price E (mkt_loan_token m))
        (\<lambda>price. Inr (info, price))) = Inl e"
      by (cases "sv_token_info E (mkt_loan_token m)"; cases "sv_token_price E (mkt_loan_token m)") auto
    with False show ?thesis
      by (auto simp: computable_def)
  next
    case True
    then obtain i p where ip: "sv_token_info E (mkt_loan_token m) = Inr i" "sv_token_price E (mkt_loan_token m) = Inr p"
      by blast
    let ?db1 = "with_states (List.map (recompute E db m) (states db)) db"
    have d1: "distinct (List.map mst_id (states ?db1))"
      using Cons.prems by (simp add: comp_def)
    have same: "computable E ?db1 = computable E db" "recompute E ?db1 = recompute E db"
      by (auto intro!: ext)
    have "backfill_markets E (m # ms) db = (Inr (), db') \<longleftrightarrow>
        computable E db m \<and> backfill_markets E ms ?db1 = (Inr (), db')"
    proof -
      note one = backfill_one_market [OF Cons.prems ip]
      obtain r d where rd: "backfill_rows E i p (mkt_id m) (list_snapshot_ids_for_market (mkt_id m) db) db = (r, d)"
        by (cases "backfill_rows E i p (mkt_id m) (list_snapshot_ids_for_market (mkt_id m) db) db")
      show ?thesis
      proof (cases r)
        case (Inl e)
        then have "\<not> computable E db m"
          using one [of ?db1] rd by simp
        then show ?thesis
          using Inl rd by (simp add: ip)
      next
        case (Inr u)
        then have "computable E db m \<and> d = ?db1"
          using one [of d] rd by simp
        then show ?thesis
          using Inr rd by (simp add: ip)
      qed
    qed
    then show ?thesis
      unfolding Cons.IH [OF d1] same by (simp add: comp_def)
  qed
qed auto

lemma fold_recompute_other:
  "\<forall>m\<in>set ms. mkt_id m \<noteq> state_market s \<Longrightarrow> fold (recompute E db) ms s = s"
  by (induction ms arbitrary: s) (auto simp: recompute_def)

lemma fold_recompute:
  assumes "distinct (List.map mkt_id ms)"
  shows "fold (recompute E db) ms s = (case List.find (\<lambda>m. mkt_id m = state_market s) ms of None \<Rightarrow> s | Some m \<Rightarrow> recompute E db m s)"
  using assms
proof (induction ms arbitrary: s)
  case (Cons m ms)
  show ?case
  proof (cases "mkt_id m = state_market s")
    case True
    then have "\<forall>m'\<in>set ms. mkt_id m' \<noteq> state_market (recompute E db m s)"
      using Cons.prems by (fastforce simp: image_iff)
    then show ?thesis
      using True by (simp add: fold_recompute_other)
  next
    case False
    then have "recompute E db m s = s"
      by (simp add: recompute_def)
    then show ?thesis
      using Cons False by simp
  qed
qed simp

lemma recompute_twice: "recompute E db m (recompute E db m s) = recompute E db m s"
  by (simp add: recompute_def)

text \<open>C27: A successful backfill of the cumulative volumes gives every snapshot of a stored market the priced sums of
  the market's events up to the time of the snapshot, leaves the other columns, snapshots and tables as they were,
  and repeating it changes nothing.\<close>
theorem volume_backfill_exact:
  assumes "distinct (List.map mst_id (t_rows (ld_states db)))" "distinct (List.map mkt_id (t_rows (ld_markets db)))"
    and "backfill_cumulative_volumes E db = (Inr (), db')"
  shows "db' = db\<lparr>ld_states := (ld_states db)\<lparr>t_rows := t_rows (ld_states db')\<rparr>\<rparr> \<and>
    list_all2 (\<lambda>s s'. case get_market (state_market s) db of
        None \<Rightarrow> s' = s
      | Some m \<Rightarrow> \<exists>supply borrow. market_volumes E m (state_time s) db = Inr (supply, borrow) \<and>
          s' = s\<lparr>mst_row := (mst_row s)\<lparr>mss_cumulative_supply_volume_usd := supply,
            mss_cumulative_borrow_volume_usd := borrow\<rparr>\<rparr>)
      (t_rows (ld_states db)) (t_rows (ld_states db')) \<and>
    backfill_cumulative_volumes E db' = (Inr (), db')"
proof -
  let ?ms = "get_all_markets db"
  let ?f = "fold (recompute E db) ?ms"
  have ms: "distinct (List.map mkt_id ?ms)" "set ?ms = set (t_rows (ld_markets db))"
    using assms(2) by (simp_all add: get_all_markets_def) (metis mset_map mset_sort mset_eq_imp_distinct_iff)
  have run: "list_all (computable E db) ?ms" and db': "db' = with_states (List.map ?f (states db)) db"
    using assms(3) unfolding backfill_cumulative_volumes_def backfill_markets_iff [OF assms(1)] by auto
  have find: "List.find (\<lambda>m. mkt_id m = i) ?ms = get_market i db" for i
    unfolding get_market_def find_eq_first_of [symmetric]
    by (rule find_distinct_mset) (use ms assms(2) in \<open>simp_all add: get_all_markets_def\<close>)
  have f: "?f s = (case get_market (state_market s) db of None \<Rightarrow> s | Some m \<Rightarrow> recompute E db m s)" for s
    using fold_recompute [OF ms(1)] by (simp only: find)
  have key: "state_market (?f s) = state_market s" "mst_id (?f s) = mst_id s" "state_time (?f s) = state_time s" for s
    by (simp_all add: f split: option.split)
  have row: "case get_market (state_market s) db of
        None \<Rightarrow> ?f s = s
      | Some m \<Rightarrow> \<exists>supply borrow. market_volumes E m (state_time s) db = Inr (supply, borrow) \<and>
          ?f s = s\<lparr>mst_row := (mst_row s)\<lparr>mss_cumulative_supply_volume_usd := supply,
            mss_cumulative_borrow_volume_usd := borrow\<rparr>\<rparr>" if s: "s \<in> set (states db)" for s
  proof (cases "get_market (state_market s) db")
    case None
    then show ?thesis
      by (simp add: f)
  next
    case (Some m)
    have m: "m \<in> set ?ms" "state_market s = mkt_id m"
      unfolding ms(2) using first_of_in [OF Some [unfolded get_market_def]] by simp_all
    then have "computable E db m"
      using run by (simp add: list_all_iff)
    then obtain v where "market_volumes E m (state_time s) db = Inr v"
      unfolding computable_def using s m(2) by blast
    then show ?thesis
      using Some m by (cases v) (simp add: f recompute_def set_volumes_def)
  qed
  have same: "computable E db' = computable E db" "recompute E db' = recompute E db" "get_all_markets db' = ?ms"
    unfolding db' by (auto intro!: ext simp: computable_def key)
  have twice: "?f (?f s) = ?f s" for s
    by (cases "get_market (state_market s) db") (simp_all add: f recompute_twice)
  have d': "distinct (List.map mst_id (states db'))"
    using assms(1) unfolding db' by (simp add: comp_def key)
  have "with_states (List.map ?f (states db')) db' = db'"
    unfolding db' with_states_simps list.map_comp comp_def twice ..
  then have "backfill_cumulative_volumes E db' = (Inr (), db')"
    unfolding backfill_cumulative_volumes_def backfill_markets_iff [OF d'] same using run by simp
  moreover have "db' = db\<lparr>ld_states := (ld_states db)\<lparr>t_rows := states db'\<rparr>\<rparr>"
    unfolding db' by (simp add: with_states_def)
  moreover have "list_all2 (\<lambda>s s'. case get_market (state_market s) db of
        None \<Rightarrow> s' = s
      | Some m \<Rightarrow> \<exists>supply borrow. market_volumes E m (state_time s) db = Inr (supply, borrow) \<and>
          s' = s\<lparr>mst_row := (mst_row s)\<lparr>mss_cumulative_supply_volume_usd := supply,
            mss_cumulative_borrow_volume_usd := borrow\<rparr>\<rparr>) (states db) (states db')"
    unfolding db' with_states_simps list_all2_map2 by (intro list.rel_refl_strong) (rule row)
  ultimately show ?thesis
    by blast
qed

definition backfill_db :: lending_db where
  "backfill_db = one_state_db\<lparr>
    ld_markets := \<lparr>t_rows = [\<lparr>mkt_id = ''m'', mkt_market_contract_id = ''c'', mkt_collateral_token = ''u'',
      mkt_loan_token = ''t'', mkt_oracle = ''o'', mkt_irm = ''i'', mkt_ltv = 0, mkt_created_at = 0\<rparr>], t_next = 1\<rparr>,
    ld_events := \<lparr>t_rows = [mk_lending_event 1 (stored_supply\<lparr>le_block_time := 5\<rparr>)], t_next = 2\<rparr>,
    ld_states := (ld_states one_state_db)\<lparr>t_rows := List.map
      (\<lambda>s. s\<lparr>mst_row := (mst_row s)\<lparr>mss_snapshot_timestamp := 7\<rparr>\<rparr>) (t_rows (ld_states one_state_db))\<rparr>\<rparr>"

theorem volume_backfill_exact_witness:
  "\<exists>db'. backfill_cumulative_volumes example_env backfill_db = (Inr (), db') \<and>
    List.map (\<lambda>s. mss_cumulative_supply_volume_usd (mst_row s)) (t_rows (ld_states db')) = [5] \<and>
    backfill_cumulative_volumes example_env db' = (Inr (), db')"
proof -
  let ?m = "\<lparr>mkt_id = ''m'', mkt_market_contract_id = ''c'', mkt_collateral_token = ''u'', mkt_loan_token = ''t'',
    mkt_oracle = ''o'', mkt_irm = ''i'', mkt_ltv = 0, mkt_created_at = 0\<rparr>"
  have d: "distinct (List.map mst_id (states backfill_db))" "distinct (List.map mkt_id (t_rows (ld_markets backfill_db)))"
    by (simp_all add: backfill_db_def one_state_db_def)
  have m: "get_all_markets backfill_db = [?m]" "get_market ''m'' backfill_db = Some ?m"
    by (simp_all add: backfill_db_def get_all_markets_def get_market_def)
  have v: "market_volumes example_env ?m 7 backfill_db = Inr (5, 0)"
    by (simp add: market_volumes_def volumes_at_def cumulative_usd_def usd_value_def example_env_def convert_to_decimal_def
        plain_token_def wrap_u64_def sum_event_amounts_def backfill_db_def mk_lending_event_def with_scale_def trunc_rat_def div_res_def)
  obtain s where s: "states backfill_db = [s]" "state_market s = ''m''" "state_time s = 7"
    by (simp add: backfill_db_def one_state_db_def state_market_def state_time_def mk_market_state_snapshot_def)
  have "\<exists>i p. sv_token_info example_env (mkt_loan_token ?m) = Inr i \<and> sv_token_price example_env (mkt_loan_token ?m) = Inr p"
    by (simp add: example_env_def)
  then have "computable example_env backfill_db ?m"
    using s v by (simp add: computable_def)
  then obtain db' where db': "backfill_cumulative_volumes example_env backfill_db = (Inr (), db')"
    unfolding backfill_cumulative_volumes_def backfill_markets_iff [OF d(1)] m(1) by simp
  with volume_backfill_exact [OF d db'] show ?thesis
    using s v m(2) by (auto simp: list_all2_Cons1)
qed

end
