(* ===== verification/Deployment.thy ===== *)
theory Deployment
  imports Worker_Laws Lending_Processor Api_Errors
begin

text \<open>
  How a deployment is put together: configuration from the environment and the configuration file
  (\<^verbatim>\<open>bento-cli/src\<close>, \<^verbatim>\<open>linx-indexer/src/config.rs\<close>), the registered processors
  (\<^verbatim>\<open>get_processor_factories\<close> in \<^verbatim>\<open>lib.rs\<close>) and the workers built from them. The environment is a
  map from names to texts; reading TOML, parsing a JSON list and opening the database are parameters.
\<close>

type_synonym environment = "string \<Rightarrow> string option"

section \<open>Environment variables\<close>

definition env_required :: "environment \<Rightarrow> string \<Rightarrow> string \<Rightarrow> string res" where
  "env_required env name hint = ok_or (name @ '' environment variable not set'' @ hint) (env name)"

definition env_or :: "environment \<Rightarrow> string \<Rightarrow> string \<Rightarrow> string" where
  "env_or env name d = (case env name of None \<Rightarrow> d | Some v \<Rightarrow> v)"

definition get_database_url :: "environment \<Rightarrow> string res" where
  "get_database_url env =
    and_then (env_required env ''POSTGRES_USER'' ''. Please set POSTGRES_USER in .env file'') (\<lambda>user.
    and_then (env_required env ''POSTGRES_PASSWORD'' ''. Please set POSTGRES_PASSWORD in .env file'') (\<lambda>password.
    and_then (env_required env ''POSTGRES_DB'' ''. Please set POSTGRES_DB in .env file'') (\<lambda>db.
      Inr (''postgresql://'' @ user @ '':'' @ password @ ''@'' @ env_or env ''POSTGRES_HOST'' ''localhost'' @ '':''
        @ env_or env ''POSTGRES_PORT'' ''5432'' @ ''/'' @ db))))"

definition get_network :: "environment \<Rightarrow> network res" where
  "get_network env =
    and_then (env_required env ''NETWORK''
      (''. Please set NETWORK in .env file or environment. Example: export NETWORK='testnet'' @ [CHR 0x27])) (\<lambda>network_str.
    case env ''RPC_URL'' of
      Some url \<Rightarrow> and_then (network_type_of_string network_str) (\<lambda>t. Inr (CustomNetwork url t))
    | None \<Rightarrow> network_of_string network_str)"

text \<open>\<^verbatim>\<open>parse\<close> at an unsigned type: an optional plus sign and at least one digit, in range.\<close>

definition parse_unsigned :: "int \<Rightarrow> string \<Rightarrow> int option" where
  "parse_unsigned largest s =
    (let ds = (case s of c # cs \<Rightarrow> if c = CHR ''+'' then cs else s | [] \<Rightarrow> []) in
     if ds = [] then None
     else case parse_digits ds 0 of None \<Rightarrow> None | Some n \<Rightarrow> if n \<le> largest then Some n else None)"

record app_config =
  ac_gas_payer_addresses :: "string list"
  ac_linx_address :: string
  ac_linx_group :: int
  ac_dia_oracle_address :: string
  ac_linx_api_url :: string

text \<open>\<^verbatim>\<open>parse_set\<close> reads a JSON list of texts; a list that cannot be read counts as empty.\<close>

definition app_config_from_env :: "(string \<Rightarrow> string list option) \<Rightarrow> environment \<Rightarrow> app_config res" where
  "app_config_from_env parse_set env =
    (let gas_payer_addresses = (case Option.bind (env ''GAS_PAYER_ADDRESSES'') parse_set of None \<Rightarrow> [] | Some s \<Rightarrow> s) in
     and_then (env_required env ''LINX_ADDRESS'' []) (\<lambda>linx_address.
     and_then (env_required env ''LINX_GROUP'' []) (\<lambda>group_text.
     and_then (ok_or ''LINX_GROUP must be a valid u32'' (parse_unsigned 4294967295 group_text)) (\<lambda>linx_group.
     and_then (env_required env ''DIA_ORACLE_ADDRESS'' []) (\<lambda>dia_oracle_address.
     and_then (env_required env ''LINX_API_URL'' []) (\<lambda>linx_api_url.
       Inr \<lparr>ac_gas_payer_addresses = gas_payer_addresses, ac_linx_address = linx_address, ac_linx_group = linx_group,
         ac_dia_oracle_address = dia_oracle_address, ac_linx_api_url = linx_api_url\<rparr>))))))"

section \<open>Configuration file\<close>

record worker_settings =
  ws_request_interval :: int
  ws_step :: int
  ws_backstep :: int

record backfill_settings =
  bs_step :: int
  bs_backstep :: int
  bs_request_interval :: int
  bs_workers :: nat

definition default_calculation_time :: string where
  "default_calculation_time = ''01:00''"

definition default_signup_bonus :: int where
  "default_signup_bonus = 1000"

text \<open>The percentage is a floating-point number; it appears as what its conversion to a decimal gives.\<close>

record points_settings =
  pst_referral_percentage :: "rat res"
  pst_calculation_time :: string
  pst_signup_bonus :: int

record cli_config =
  cf_worker :: worker_settings
  cf_backfill :: backfill_settings
  cf_linx_api_url :: "string option"
  cf_points :: "points_settings option"

text \<open>\<^verbatim>\<open>load_config\<close>: \<^verbatim>\<open>rd\<close> reads a file, \<^verbatim>\<open>toml\<close> parses it; as a command's argument a
  failure is a panic.\<close>

definition load_config :: "(string \<Rightarrow> string res) \<Rightarrow> (string \<Rightarrow> cli_config res) \<Rightarrow> string \<Rightarrow> cli_config res" where
  "load_config rd toml path = and_then (with_context ''Failed to read config file'' (rd path))
    (\<lambda>content. with_context ''Failed to parse config file'' (toml content))"

definition config_of_args :: "(string \<Rightarrow> string res) \<Rightarrow> (string \<Rightarrow> cli_config res) \<Rightarrow> string \<Rightarrow> cli_config res" where
  "config_of_args rd toml path = map_err (\<lambda>e. case e of Error m \<Rightarrow> Panic (''Failed to load config: '' @ m) | Panic m \<Rightarrow> Panic m)
    (load_config rd toml path)"

section \<open>Processors and workers\<close>

text \<open>What the processors of the application need from outside.\<close>

record processor_env =
  pe_limits :: date_limits
  pe_parse :: "string \<Rightarrow> rat option"
  pe_crypto :: crypto_ops
  pe_info_log :: bool
  pe_now :: naive_datetime
  pe_uuid :: "block_and_events list \<Rightarrow> nat \<Rightarrow> string"

type_synonym 'z lending_app_processor = "(app_output processor_output, 'z lending_db_scheme) processor"

type_synonym 'z factory = "app_config option \<Rightarrow> 'z lending_app_processor res"

definition transfer_factory :: "processor_env \<Rightarrow> 'z factory" where
  "transfer_factory E config = Inr (transfer_processor (pe_limits E) (pe_parse E)
    (case config of None \<Rightarrow> [] | Some c \<Rightarrow> ac_gas_payer_addresses c))"

definition dex_factory :: "processor_env \<Rightarrow> 'z factory" where
  "dex_factory E config = Inr (dex_processor (pe_info_log E) (pe_crypto E) (pe_limits E) (pe_parse E))"

definition lending_factory :: "processor_env \<Rightarrow> 'z factory" where
  "lending_factory E config =
    (case config of None \<Rightarrow> Inl (Panic ''AppConfig with linx_address is required for LendingProcessor'')
    | Some c \<Rightarrow> Inr (lending_processor (pe_limits E) (pe_parse E) (pe_now E) (ac_linx_address c)))"

text \<open>The registry is a hash map; its order is the order in which the processors are started.\<close>

definition get_processor_factories :: "processor_env \<Rightarrow> (string, 'z factory) hmap" where
  "get_processor_factories E = [(''transfers'', transfer_factory E), (''dex'', dex_factory E), (''lending'', lending_factory E)]"

definition worker_processors ::
  "processor_env \<Rightarrow> bool \<Rightarrow> (string, 'z factory) hmap \<Rightarrow> app_config option \<Rightarrow> 'z lending_app_processor list res" where
  "worker_processors E include_default_processors factories config =
    and_then (map_res (\<lambda>(name, factory). factory config) factories) (\<lambda>customs.
      Inr ((if include_default_processors
        then List.map (build_processor (pe_limits E) (pe_uuid E)) [BlockProcessor, EventProcessor, TxProcessor] else [])
        @ customs))"

text \<open>
  \<^verbatim>\<open>open_pool\<close> opens the database. A worker keeps the configurations of its processors and builds
  them, always in the same way, for each pipeline; here they are built once.
\<close>

definition new_worker_from_config ::
  "processor_env \<Rightarrow> (string \<Rightarrow> unit res) \<Rightarrow> environment \<Rightarrow> (string, 'z factory) hmap \<Rightarrow> bool \<Rightarrow> nat
    \<Rightarrow> sync_options option \<Rightarrow> backfill_options option \<Rightarrow> app_config option
    \<Rightarrow> (app_output processor_output, 'z lending_db_scheme) worker res" where
  "new_worker_from_config E open_pool env factories include_default workers sync_options backfill_options config =
    and_then (get_network env) (\<lambda>network.
    and_then (get_database_url env) (\<lambda>url.
    and_then (open_pool url) (\<lambda>_.
    and_then (worker_processors E include_default factories config) (\<lambda>processors.
      Inr \<lparr>wk_processors = processors, wk_sync_opts = sync_options, wk_backfill_opts = backfill_options,
        wk_workers = workers\<rparr>))))"

definition new_realtime_worker_from_config ::
  "processor_env \<Rightarrow> (string \<Rightarrow> unit res) \<Rightarrow> environment \<Rightarrow> cli_config \<Rightarrow> (string, 'z factory) hmap \<Rightarrow> bool \<Rightarrow> app_config option
    \<Rightarrow> (app_output processor_output, 'z lending_db_scheme) worker res" where
  "new_realtime_worker_from_config E open_pool env cf factories include_default config =
    new_worker_from_config E open_pool env factories include_default 2
      (Some \<lparr>so_step = ws_step (cf_worker cf), so_backstep = ws_backstep (cf_worker cf),
        so_request_interval = ws_request_interval (cf_worker cf)\<rparr>) None config"

definition new_backfill_worker_from_config ::
  "processor_env \<Rightarrow> (string \<Rightarrow> unit res) \<Rightarrow> environment \<Rightarrow> int option \<Rightarrow> int option \<Rightarrow> cli_config \<Rightarrow> (string, 'z factory) hmap
    \<Rightarrow> bool \<Rightarrow> app_config option \<Rightarrow> (app_output processor_output, 'z lending_db_scheme) worker res" where
  "new_backfill_worker_from_config E open_pool env start_ts stop_ts cf factories include_default config =
    new_worker_from_config E open_pool env factories include_default (bs_workers (cf_backfill cf)) None
      (Some \<lparr>bo_start_ts = start_ts, bo_stop_ts = stop_ts, bo_request_interval = bs_request_interval (cf_backfill cf),
        bo_step = bs_step (cf_backfill cf), bo_backstep = bs_backstep (cf_backfill cf)\<rparr>) config"

record server_config =
  svc_network :: network
  svc_host :: string
  svc_port :: int

definition api_endpoint :: "server_config \<Rightarrow> string" where
  "api_endpoint c = svc_host c @ '':'' @ string_of_int (svc_port c)"

definition new_server_config_from_config :: "(string \<Rightarrow> unit res) \<Rightarrow> environment \<Rightarrow> server_config res" where
  "new_server_config_from_config open_pool env =
    and_then (get_database_url env) (\<lambda>url.
    and_then (open_pool url) (\<lambda>_.
    and_then (get_network env) (\<lambda>network.
    and_then (with_context ''Invalid API_PORT value''
        (ok_or ''invalid number'' (parse_unsigned 65535 (env_or env ''API_PORT'' ''8080'')))) (\<lambda>api_port.
      Inr \<lparr>svc_network = network, svc_host = env_or env ''API_HOST'' ''0.0.0.0'', svc_port = api_port\<rparr>))))"

text \<open>The command line of \<^verbatim>\<open>run_command\<close>: a mode, the path of the configuration file, and the bounds of a
  backfill. What is started is a server or a worker, which then runs.\<close>

datatype run_mode = ServerMode string | WorkerMode string | BackfillMode string "int option" "int option"

datatype 'z started = Serving server_config | Indexing "(app_output processor_output, 'z lending_db_scheme) worker"

definition run_command ::
  "processor_env \<Rightarrow> (string \<Rightarrow> unit res) \<Rightarrow> environment \<Rightarrow> (string \<Rightarrow> string res) \<Rightarrow> (string \<Rightarrow> cli_config res)
    \<Rightarrow> (string, 'z factory) hmap \<Rightarrow> bool \<Rightarrow> app_config option \<Rightarrow> run_mode \<Rightarrow> 'z started res" where
  "run_command E open_pool env rd toml factories include_default config mode =
    (case mode of
      ServerMode path \<Rightarrow> and_then (config_of_args rd toml path) (\<lambda>_.
        and_then (new_server_config_from_config open_pool env) (\<lambda>c. Inr (Serving c)))
    | WorkerMode path \<Rightarrow> and_then (config_of_args rd toml path) (\<lambda>cf.
        and_then (new_realtime_worker_from_config E open_pool env cf factories include_default config)
          (\<lambda>W. Inr (Indexing W)))
    | BackfillMode path start stop \<Rightarrow> and_then (config_of_args rd toml path) (\<lambda>cf.
        and_then (new_backfill_worker_from_config E open_pool env start stop cf factories include_default config)
          (\<lambda>W. Inr (Indexing W))))"

text \<open>The indexer's \<^verbatim>\<open>main\<close> (\<^verbatim>\<open>bin/main.rs\<close>).\<close>

definition indexer_main ::
  "processor_env \<Rightarrow> (string \<Rightarrow> unit res) \<Rightarrow> environment \<Rightarrow> (string \<Rightarrow> string list option) \<Rightarrow> (string \<Rightarrow> string res)
    \<Rightarrow> (string \<Rightarrow> cli_config res) \<Rightarrow> run_mode \<Rightarrow> 'z started res" where
  "indexer_main E open_pool env parse_set rd toml mode =
    and_then (app_config_from_env parse_set env) (\<lambda>app_config.
      run_command E open_pool env rd toml (get_processor_factories E) True (Some app_config) mode)"

text \<open>A worker is built in the order network, database, processors; each missing part ends the start.\<close>

lemma backfill_worker_options:
  "new_backfill_worker_from_config E open_pool env start_ts stop_ts cf fs d config = Inr W \<Longrightarrow>
    wk_workers W = bs_workers (cf_backfill cf) \<and> wk_sync_opts W = None \<and>
    (\<exists>o'. wk_backfill_opts W = Some o' \<and> bo_step o' = bs_step (cf_backfill cf) \<and> bo_start_ts o' = start_ts)"
  by (auto simp: new_backfill_worker_from_config_def new_worker_from_config_def res_simps)

lemma registry_needs_config:
  "worker_processors E d (get_processor_factories E) None =
    Inl (Panic ''AppConfig with linx_address is required for LendingProcessor'')"
  by (simp add: worker_processors_def get_processor_factories_def transfer_factory_def dex_factory_def lending_factory_def)

end
