(* ===== verification/Deployment_Laws.thy ===== *)
theory Deployment_Laws
  imports Deployment Lending_Laws
begin

text \<open>
  The composed indexer: the worker that a deployment builds runs the three built-in processors and those of the
  application over the same batches. What one of them stores is never lost by another, so that a failure of the
  exchange or the lending processor costs neither blocks nor transfers.
\<close>

section \<open>Processors that lose nothing\<close>

text \<open>The contract that every processor meets, whatever it makes of the blocks: storing an output keeps what \<^verbatim>\<open>keeps\<close>
  describes.\<close>

locale keeping_processor =
  fixes P :: "('o, 'db) processor" and keeps :: "'db \<Rightarrow> 'db \<Rightarrow> bool"
  assumes store_keeps: "keeps db (snd (pr_store_output P out db))"
    and keep_refl: "keeps db db"
    and keep_trans: "keeps db1 db2 \<Longrightarrow> keeps db2 db3 \<Longrightarrow> keeps db1 db3"
begin

lemma pipeline_seq_keeps: "keeps db (snd (pipeline_seq P batches db))"
proof (induction batches arbitrary: db)
  case (Cons b bs)
  show ?case
  proof (cases "pr_process_blocks P (batch_blocks b) db")
    case (Inr out)
    obtain r db1 where s: "pr_store_output P out db = (r, db1)"
      by (cases "pr_store_output P out db")
    then have "keeps db db1"
      using store_keeps [of db out] by simp
    then show ?thesis
      using Inr s Cons.IH [of db1] keep_trans by (cases r) auto
  qed (simp add: keep_refl)
qed (simp add: keep_refl)

lemma pipeline_run_keeps:
  "length batches \<le> channel_capacity \<Longrightarrow> \<exists>r db'. pipeline_run P batches db = Some (r, db') \<and> keeps db db'"
  using pipeline_seq_keeps [of db batches] by (cases "pipeline_seq P batches db") (simp add: pipeline_run_def)

end

text \<open>The rows of the chain and of the account history.\<close>

definition keeps_app :: "'z app_db_scheme \<Rightarrow> 'z app_db_scheme \<Rightarrow> bool" where
  "keeps_app db db' \<longleftrightarrow> keeps_rows db db' \<and>
    (\<forall>k. has_key at_key k (ad_account_txs db) \<longrightarrow> has_key at_key k (ad_account_txs db'))"

lemma keeps_app_refl [simp]: "keeps_app db db"
  by (simp add: keeps_app_def keeps_rows_def)

lemma keeps_app_trans: "keeps_app db1 db2 \<Longrightarrow> keeps_app db2 db3 \<Longrightarrow> keeps_app db1 db3"
  by (auto simp: keeps_app_def keeps_rows_def)

lemma keeps_app_rows: "keeps_app db db' \<Longrightarrow> keeps_rows db db'"
  by (simp add: keeps_app_def)

lemma keeps_app_chain:
  assumes "ad_account_txs db' = ad_account_txs db" "keeps_rows db db'"
  shows "keeps_app db db'"
  using assms by (simp add: keeps_app_def)

lemma keeps_app_same:
  assumes "db_blocks db' = db_blocks db" "db_events db' = db_events db" "db_txs db' = db_txs db"
    and "ad_account_txs db' = ad_account_txs db"
  shows "keeps_app db db'"
  using assms by (simp add: keeps_app_def keeps_rows_def)

lemma keys_insert_transactions:
  "has_key at_key k (insert_transactions txs T) \<longleftrightarrow> has_key at_key k T \<or> k \<in> tx_key ` set txs"
  by (auto simp: insert_transactions_def acct.has_key_ignore)

lemma keeps_app_store: "keeps_app db (snd (store_account_txs txs db))"
  by (auto simp: keeps_app_def keeps_rows_def store_account_txs_def keys_insert_transactions)

lemma block_keeps: "keeps_app db (snd (pr_store_output (block_processor L) out db))"
  by (auto simp: block_processor_def insert_blocks_to_db_def blocks.has_key_ignore keeps_app_def keeps_rows_def
      split: processor_output.split)

lemma event_keeps: "keeps_app db (snd (pr_store_output (event_processor uuid) out db))"
  by (auto simp: event_processor_def insert_events_to_db_def events.has_key_ignore keeps_app_def keeps_rows_def
      split: processor_output.split)

lemma tx_keeps: "keeps_app db (snd (pr_store_output tx_processor out db))"
  by (auto simp: tx_processor_def insert_txs_to_db_def txs.has_key_ignore keeps_app_def keeps_rows_def
      split: processor_output.split)

lemma transfer_keeps: "keeps_app db (snd (pr_store_output (transfer_processor L pd gas) out db))"
  by (auto simp: transfer_processor_def keeps_app_store split: processor_output.split app_output.split)

lemma dex_keeps: "keeps_app db (snd (pr_store_output (dex_processor info C L pd) out db))"
proof -
  have p: "keeps_app db (db\<lparr>ad_pools := x\<rparr>)" for x
    by (rule keeps_app_same) simp_all
  show ?thesis
    by (auto simp: dex_processor_def dex_store_output_def Let_def p keeps_app_store intro: keeps_app_trans [OF p keeps_app_store]
        split: processor_output.split app_output.split)
qed

lemma lending_keeps:
  fixes db :: "'z lending_db_scheme"
  shows "keeps_app db (snd (pr_store_output (lending_processor L pd now linx) out db))"
proof -
  have m: "keeps_app db (insert_markets ms db)" and e: "keeps_app db (insert_lending_events es db)"
    for ms es and db :: "'z lending_db_scheme"
    by (rule keeps_app_same; simp add: insert_markets_def insert_lending_events_def)+
  show ?thesis
    by (auto simp: lending_processor_def lending_store_output_def Let_def m e intro: keeps_app_trans [OF m e]
        split: processor_output.split app_output.split)
qed

interpretation block_keeping: keeping_processor "block_processor L" keeps_app for L
  by unfold_locales (simp_all add: block_keeps, erule (1) keeps_app_trans)

interpretation event_keeping: keeping_processor "event_processor uuid" keeps_app for uuid
  by unfold_locales (simp_all add: event_keeps, erule (1) keeps_app_trans)

interpretation tx_keeping: keeping_processor tx_processor keeps_app
  by unfold_locales (simp_all add: tx_keeps, erule (1) keeps_app_trans)

interpretation transfer_keeping: keeping_processor "transfer_processor L pd gas" keeps_app for L pd gas
  by unfold_locales (simp_all add: transfer_keeps, erule (1) keeps_app_trans)

interpretation dex_keeping: keeping_processor "dex_processor info C L pd" keeps_app for info C L pd
  by unfold_locales (simp_all add: dex_keeps, erule (1) keeps_app_trans)

interpretation lending_keeping: keeping_processor "lending_processor L pd now linx" keeps_app for L pd now linx
  by unfold_locales (simp_all add: lending_keeps, erule (1) keeps_app_trans)

section \<open>What a run over all processors leaves behind\<close>

definition always_ends :: "('o, 'z app_db_scheme) processor \<Rightarrow> bool" where
  "always_ends P \<longleftrightarrow> (\<forall>batches db. length batches \<le> channel_capacity \<longrightarrow>
    (\<exists>r db'. pipeline_run P batches db = Some (r, db') \<and> keeps_app db db'))"

lemma run_pipeline_keeps:
  assumes "\<forall>P\<in>set Ps. always_ends P" "length batches \<le> channel_capacity"
  shows "\<exists>r db'. run_pipeline Ps batches db = Some (r, db') \<and> keeps_app db db'"
  using assms(1)
proof (induction Ps arbitrary: db)
  case (Cons P Ps)
  obtain r db1 where 1: "pipeline_run P batches db = Some (r, db1)" "keeps_app db db1"
    using Cons.prems assms(2) by (fastforce simp: always_ends_def)
  obtain r2 db2 where 2: "run_pipeline Ps batches db1 = Some (r2, db2)" "keeps_app db1 db2"
    using Cons by fastforce
  show ?case
    using 1(1) 2(1) keeps_app_trans [OF 1(2) 2(2)] by simp
qed simp

text \<open>What one processor establishes holds at the end, whichever processors run before and after it.\<close>

lemma run_pipeline_establishes:
  assumes "\<forall>P\<in>set Ps. always_ends P" "length batches \<le> channel_capacity" "P \<in> set Ps"
    and est: "\<And>db. \<exists>r db'. pipeline_run P batches db = Some (r, db') \<and> Q db'"
    and up: "\<And>db db'. Q db \<Longrightarrow> keeps_app db db' \<Longrightarrow> Q db'"
    and run: "run_pipeline Ps batches db = Some (r, db')"
  shows "Q db'"
  using assms(1,3) run
proof (induction Ps arbitrary: db r db')
  case (Cons P' Ps)
  obtain r1 db1 where 1: "pipeline_run P' batches db = Some (r1, db1)"
    using Cons.prems(1) assms(2) by (fastforce simp: always_ends_def)
  obtain r2 where 2: "run_pipeline Ps batches db1 = Some (r2, db')"
    using Cons.prems(3) 1 by (auto split: option.splits prod.splits)
  show ?case
  proof (cases "P' = P")
    case True
    then have "Q db1"
      using est [of db] 1 by auto
    moreover have "keeps_app db1 db'"
      using run_pipeline_keeps [of Ps batches db1] Cons.prems(1) assms(2) 2 by auto
    ultimately show ?thesis
      by (rule up)
  next
    case False
    then show ?thesis
      using Cons.IH [OF _ _ 2] Cons.prems by auto
  qed
qed simp

definition transfers_of_block :: "date_limits \<Rightarrow> (string \<Rightarrow> rat option) \<Rightarrow> string list \<Rightarrow> block_and_events \<Rightarrow> new_account_transaction list" where
  "transfers_of_block L pd gas b = concat (List.map (extract_token_transfers L pd gas (bae_block b))
    (filter (\<lambda>t. classify [] t = Transfer) (rb_transactions (bae_block b))))"

definition transfers_stored ::
  "date_limits \<Rightarrow> (string \<Rightarrow> rat option) \<Rightarrow> string list \<Rightarrow> 'z app_db_scheme \<Rightarrow> block_and_events \<Rightarrow> bool" where
  "transfers_stored L pd gas db b \<longleftrightarrow>
    (\<forall>t\<in>set (transfers_of_block L pd gas b). has_key at_key (tx_key t) (ad_account_txs db))"

lemma transfers_stored_keeps: "transfers_stored L pd gas db b \<Longrightarrow> keeps_app db db' \<Longrightarrow> transfers_stored L pd gas db' b"
  unfolding transfers_stored_def keeps_app_def by blast

interpretation transfer_storing:
  storing_processor "transfer_processor L pd gas" "\<lambda>_. True" "transfers_stored L pd gas" keeps_app for L pd gas
proof unfold_locales
  fix bs and db :: "'z app_db_scheme"
  let ?ts = "concat (List.map (transfers_of_block L pd gas) bs)"
  let ?db' = "if ?ts \<noteq> [] then snd (store_account_txs ?ts db) else db"
  have "pr_process_blocks (transfer_processor L pd gas) bs db = Inr (CustomOut (TransferOutput ?ts))"
    by (simp add: transfer_processor_def transfers_of_block_def [abs_def])
  moreover have "pr_store_output (transfer_processor L pd gas) (CustomOut (TransferOutput ?ts)) db = (Inr (), ?db')"
    by (simp add: transfer_processor_def store_account_txs_def)
  moreover have "keeps_app db ?db'"
    by (simp add: keeps_app_store)
  moreover have "\<forall>b\<in>set bs. transfers_stored L pd gas ?db' b"
    by (force simp: transfers_stored_def store_account_txs_def keys_insert_transactions)
  ultimately show "\<exists>out db'. pr_process_blocks (transfer_processor L pd gas) bs db = Inr out \<and>
      pr_store_output (transfer_processor L pd gas) out db = (Inr (), db') \<and> keeps_app db db' \<and>
      (\<forall>b\<in>set bs. transfers_stored L pd gas db' b)"
    by blast
qed (simp_all add: transfers_stored_keeps, erule (1) keeps_app_trans)

lemma registered_end:
  "always_ends (block_processor L)" "always_ends (event_processor uuid)" "always_ends tx_processor"
  "always_ends (transfer_processor L pd gas)" "always_ends (dex_processor info C L pd)"
  "always_ends (lending_processor L pd now linx)"
  unfolding always_ends_def
  by (intro allI impI, erule block_keeping.pipeline_run_keeps event_keeping.pipeline_run_keeps tx_keeping.pipeline_run_keeps
      transfer_keeping.pipeline_run_keeps dex_keeping.pipeline_run_keeps lending_keeping.pipeline_run_keeps)+

lemma registered_processors:
  assumes "worker_processors E True factories (Some config) = Inr Ps" "set factories = set (get_processor_factories E)"
  shows "set Ps = {block_processor (pe_limits E), event_processor (pe_uuid E), tx_processor,
      transfer_processor (pe_limits E) (pe_parse E) (ac_gas_payer_addresses config),
      dex_processor (pe_info_log E) (pe_crypto E) (pe_limits E) (pe_parse E),
      lending_processor (pe_limits E) (pe_parse E) (pe_now E) (ac_linx_address config)}"
proof -
  obtain customs where c: "map_res (\<lambda>(name, factory). factory (Some config)) factories = Inr customs"
      "Ps = List.map (build_processor (pe_limits E) (pe_uuid E)) [BlockProcessor, EventProcessor, TxProcessor] @ customs"
    using assms(1) by (auto simp: worker_processors_def res_simps)
  have l: "list_all2 (\<lambda>f P. snd f (Some config) = Inr P) factories customs"
    using c(1) by (simp add: map_res_eq_Inr case_prod_beta)
  have "set customs = {P. \<exists>f\<in>set factories. snd f (Some config) = Inr P}"
    using list_all2_in(1) [OF l] list_all2_in(2) [OF l] by force
  then have "set customs = {P. \<exists>f\<in>set (get_processor_factories E). snd f (Some config) = Inr P}"
    unfolding assms(2) .
  then have "set customs = {transfer_processor (pe_limits E) (pe_parse E) (ac_gas_payer_addresses config),
      dex_processor (pe_info_log E) (pe_crypto E) (pe_limits E) (pe_parse E),
      lending_processor (pe_limits E) (pe_parse E) (pe_now E) (ac_linx_address config)}"
    by (auto simp: get_processor_factories_def transfer_factory_def dex_factory_def lending_factory_def)
  then show ?thesis
    by (auto simp: c(2))
qed

lemma indexer_stores:
  fixes db :: "'z lending_db_scheme"
  assumes P: "worker_processors E True factories (Some config) = Inr Ps" "set factories = set (get_processor_factories E)"
    and good: "\<forall>batch\<in>set batches. \<forall>b\<in>set (batch_blocks batch). good_block b" and len: "length batches \<le> channel_capacity"
  shows "\<exists>r db'. run_pipeline Ps batches db = Some (r, db') \<and> keeps_app db db' \<and>
    (\<forall>batch\<in>set batches. \<forall>b\<in>set (batch_blocks batch). fully_stored db' b \<and>
      transfers_stored (pe_limits E) (pe_parse E) (ac_gas_payer_addresses config) db' b)"
proof -
  note Ps = registered_processors [OF P]
  have ae: "\<forall>P\<in>set Ps. always_ends P"
    unfolding Ps by (simp add: registered_end)
  obtain r db' where run: "run_pipeline Ps batches db = Some (r, db')" "keeps_app db db'"
    using run_pipeline_keeps [OF ae len] by blast
  note est = run_pipeline_establishes [OF ae len _ _ _ run(1)]
  have "\<forall>batch\<in>set batches. \<forall>b\<in>set (batch_blocks batch). block_stored db' b"
    by (rule est [of "block_processor (pe_limits E)"]; (use block_storing.pipeline_run_stores [OF good len] in blast)?)
      (auto simp: Ps dest: keeps_app_rows block_storing.stored_keeps)
  moreover have "\<forall>batch\<in>set batches. \<forall>b\<in>set (batch_blocks batch). events_stored db' b"
    by (rule est [of "event_processor (pe_uuid E)"]; (use event_storing.pipeline_run_stores [OF good len] in blast)?)
      (auto simp: Ps dest: keeps_app_rows event_storing.stored_keeps)
  moreover have "\<forall>batch\<in>set batches. \<forall>b\<in>set (batch_blocks batch). txs_stored db' b"
    by (rule est [of tx_processor]; (use tx_storing.pipeline_run_stores [OF good len] in blast)?)
      (auto simp: Ps dest: keeps_app_rows tx_storing.stored_keeps)
  moreover have "\<forall>batch\<in>set batches. \<forall>b\<in>set (batch_blocks batch).
      transfers_stored (pe_limits E) (pe_parse E) (ac_gas_payer_addresses config) db' b"
    by (rule est [of "transfer_processor (pe_limits E) (pe_parse E) (ac_gas_payer_addresses config)"];
        (use transfer_storing.pipeline_run_stores [OF _ len] in blast)?)
      (auto simp: Ps intro: transfers_stored_keeps)
  ultimately show ?thesis
    using run by (auto simp: fully_stored_def)
qed

text \<open>The worker of a deployment, with the built-in processors and those of the application started in any
  order, ends every synchronisation of a range over a node that answers; whatever the exchange and the lending
  processor make of the blocks, nothing that was stored is lost, and every block of the range is stored with its
  events, its transactions and every transfer extracted from it.\<close>
theorem indexer_range_complete:
  fixes db :: "'z lending_db_scheme"
  assumes W: "new_worker_from_config E open_pool env factories True n sync backfill (Some config) = Inr W"
      "set factories = set (get_processor_factories E)"
    and s: "serves client history" "\<forall>x\<in>history. 0 \<le> rb_height (bae_block x)"
    and r: "in_u64 a" "in_u64 b" "a \<le> b" "b - a \<le> 1800000" and n: "0 < n" "n \<le> 100"
  shows "\<exists>r db'. sync_range client W a b db = Some (r, db') \<and> keeps_app db db' \<and>
    (\<forall>x\<in>history. a \<le> rb_timestamp (bae_block x) \<and> rb_timestamp (bae_block x) \<le> b \<longrightarrow> fully_stored db' x \<and>
      transfers_stored (pe_limits E) (pe_parse E) (ac_gas_payer_addresses config) db' x)"
proof -
  have P: "worker_processors E True factories (Some config) = Inr (wk_processors W)" and wn: "wk_workers W = n"
    using W(1) by (auto simp: new_worker_from_config_def res_simps)
  obtain batches where f: "fetch_parallel client \<lparr>range_from_ts = a, range_to_ts = b\<rparr> n = Inr batches" "length batches = n"
    and blocks: "\<And>batch. batch \<in> set batches \<Longrightarrow> set (batch_blocks batch) = {x \<in> history.
        range_from_ts (batch_range batch) \<le> rb_timestamp (bae_block x) \<and> rb_timestamp (bae_block x) \<le> range_to_ts (batch_range batch)}"
    using served_fetch [OF s(1) r n(1)] by blast
  have good: "\<forall>batch\<in>set batches. \<forall>x\<in>set (batch_blocks batch). good_block x"
    using blocks s(2) unfolding good_block_def by blast
  have len: "length batches \<le> channel_capacity"
    using f(2) n(2) by (simp add: channel_capacity_def)
  obtain r db' where run: "run_pipeline (wk_processors W) batches db = Some (r, db')" "keeps_app db db'"
      "\<forall>batch\<in>set batches. \<forall>x\<in>set (batch_blocks batch). fully_stored db' x \<and>
        transfers_stored (pe_limits E) (pe_parse E) (ac_gas_payer_addresses config) db' x"
    using indexer_stores [OF P W(2) good len] by blast
  have "sync_range client W a b db = Some (r, db')"
    using f n(1) run(1) by (auto simp: sync_range_def wn)
  moreover have "fully_stored db' x \<and> transfers_stored (pe_limits E) (pe_parse E) (ac_gas_payer_addresses config) db' x"
    if x: "x \<in> history" "a \<le> rb_timestamp (bae_block x)" "rb_timestamp (bae_block x) \<le> b" for x
  proof -
    obtain c where "c \<in> set batches" "range_from_ts (batch_range c) \<le> rb_timestamp (bae_block x)"
        "rb_timestamp (bae_block x) \<le> range_to_ts (batch_range c)"
      using fetch_tiles [OF r(1-3) f(1)] x(2,3) by blast
    with x(1) blocks run(3) show ?thesis by blast
  qed
  ultimately show ?thesis
    using run(2) by blast
qed

definition example_environment :: environment where
  "example_environment = map_of [(''NETWORK'', ''testnet''), (''POSTGRES_USER'', ''u''), (''POSTGRES_PASSWORD'', ''p''),
    (''POSTGRES_DB'', ''d'')]"

definition example_processor_env :: processor_env where
  "example_processor_env = \<lparr>pe_limits = \<lparr>date_min = 0, date_max = 100000\<rparr>, pe_parse = decimal_text, pe_crypto = toy_crypto,
    pe_info_log = False, pe_now = 0, pe_uuid = (\<lambda>_ _. ''id'')\<rparr>"

definition example_app_config :: app_config where
  "example_app_config = \<lparr>ac_gas_payer_addresses = [], ac_linx_address = ''linx'', ac_linx_group = 0,
    ac_dia_oracle_address = ''dia'', ac_linx_api_url = ''url''\<rparr>"

lemma example_deployment:
  "\<exists>W. new_worker_from_config example_processor_env (\<lambda>_. Inr ()) example_environment
      (get_processor_factories example_processor_env) True 4 None None (Some example_app_config) =
        Inr (W :: (app_output processor_output, lending_db) worker)"
  by (simp add: new_worker_from_config_def get_network_def env_required_def example_environment_def network_of_string_def
      get_database_url_def worker_processors_def get_processor_factories_def transfer_factory_def dex_factory_def
      lending_factory_def)

theorem indexer_range_complete_witness:
  "\<exists>W r db'. new_worker_from_config example_processor_env (\<lambda>_. Inr ()) example_environment
      (get_processor_factories example_processor_env) True 4 None None (Some example_app_config) = Inr W \<and>
    sync_range example_client W 4000 6000 empty_lending_db = Some (r, db') \<and> fully_stored db' example_bae"
proof -
  obtain W where W: "new_worker_from_config example_processor_env (\<lambda>_. Inr ()) example_environment
      (get_processor_factories example_processor_env) True 4 None None (Some example_app_config) =
        Inr (W :: (app_output processor_output, lending_db) worker)"
    using example_deployment ..
  have h: "\<forall>x\<in>{example_bae}. 0 \<le> rb_height (bae_block x)" "rb_timestamp (bae_block example_bae) = 5000"
    by (simp_all add: example_bae_def plain_block_def)
  show ?thesis
    using indexer_range_complete [OF W refl example_serves h(1), of 4000 6000 empty_lending_db] W h(2)
    by (auto simp: in_u64_def)
qed

end
