(* ===== verification/Fleet.thy ===== *)
theory Fleet
  imports Worker
begin

text \<open>
  The pipelines of all processors of a worker running at the same time on one database
  (\<^verbatim>\<open>Worker::run_pipeline\<close> with its \<^verbatim>\<open>join_all\<close>): a step of the fleet is a step of one of the
  pipelines. Processors that keep to regions of their own do not notice each other, so every schedule
  agrees with the pipelines run alone, and with the sequential \<^verbatim>\<open>run_pipeline\<close> of \<^verbatim>\<open>Worker\<close>.
\<close>

section \<open>The concurrent run\<close>

type_synonym ('o, 'db) fleet = "('o, 'db) pipe list \<times> 'db"

definition fleet_init :: "('o, 'db) processor list \<Rightarrow> block_batch list \<Rightarrow> 'db \<Rightarrow> ('o, 'db) fleet" where
  "fleet_init Ps batches db = (List.map (\<lambda>_. pipe_init batches db) Ps, db)"

text \<open>A step works on the shared database; the copy inside a pipeline is brought up to date first.\<close>

inductive fleet_step :: "('o, 'db) processor list \<Rightarrow> ('o, 'db) fleet \<Rightarrow> ('o, 'db) fleet \<Rightarrow> bool" for Ps where
  turn: "i < length Ps \<Longrightarrow> i < length ss \<Longrightarrow> pipe_step (Ps ! i) ((ss ! i)\<lparr>pp_db := db\<rparr>) t \<Longrightarrow>
    fleet_step Ps (ss, db) (ss[i := t], pp_db t)"

inductive_cases fleet_stepE: "fleet_step Ps (ss, db) c"

definition fleet_reach :: "('o, 'db) processor list \<Rightarrow> block_batch list \<Rightarrow> 'db \<Rightarrow> ('o, 'db) fleet \<Rightarrow> bool" where
  "fleet_reach Ps batches db c \<longleftrightarrow> (fleet_step Ps)\<^sup>*\<^sup>* (fleet_init Ps batches db) c"

text \<open>\<^verbatim>\<open>join_all\<close> waits for every pipeline; the first error in the order of the processors is the result.\<close>

fun fleet_result :: "('o, 'db) processor list \<Rightarrow> ('o, 'db) pipe list \<Rightarrow> unit res option" where
  "fleet_result (P # Ps) (s # ss) =
    (case pipe_result s of
      None \<Rightarrow> None
    | Some r \<Rightarrow> map_option (\<lambda>rs. and_then (processor_error (pr_name P) r) (\<lambda>_. rs)) (fleet_result Ps ss))"
| "fleet_result Ps ss = Some (Inr ())"

section \<open>Liveness\<close>

definition fleet_inv :: "('o, 'db) processor list \<Rightarrow> block_batch list \<Rightarrow> ('o, 'db) fleet \<Rightarrow> bool" where
  "fleet_inv Ps batches c \<longleftrightarrow> length (fst c) = length Ps \<and> (\<forall>s\<in>set (fst c). pipe_inv batches s)"

definition fleet_measure :: "('o, 'db) fleet \<Rightarrow> nat" where
  "fleet_measure c = sum_list (List.map pipe_measure (fst c))"

lemma pipe_inv_db [simp]: "pipe_inv batches (s\<lparr>pp_db := d\<rparr>) \<longleftrightarrow> pipe_inv batches s"
  by (simp add: pipe_inv_def)

lemma pipe_measure_db [simp]: "pipe_measure (s\<lparr>pp_db := d\<rparr>) = pipe_measure s"
  by (simp add: pipe_measure_def held_list_def)

lemma pipe_result_db [simp]: "pipe_result (s\<lparr>pp_db := d\<rparr>) = pipe_result s"
  by (simp add: pipe_result_def)

lemma sum_list_update_less:
  "i < length xs \<Longrightarrow> f y < f (xs ! i) \<Longrightarrow> sum_list (List.map f (xs[i := y])) < sum_list (List.map (f :: 'a \<Rightarrow> nat) xs)"
proof (induction xs arbitrary: i)
  case (Cons x xs)
  then show ?case by (cases i) auto
qed simp

interpretation joint: measured_system "fleet_step Ps" "fleet_inv Ps batches" fleet_measure for Ps batches
proof unfold_locales
  fix c c' :: "('a, 'b) fleet"
  assume i: "fleet_inv Ps batches c" and s: "fleet_step Ps c c'"
  from s show "fleet_inv Ps batches c'"
  proof cases
    case (turn i ss db t)
    have "pipe_inv batches t"
      using pipe_inv_step [OF turn(5)] i turn(1,4) by (simp add: fleet_inv_def)
    then show ?thesis
      using i turn(1,2) by (auto simp: fleet_inv_def dest: set_update_subset_insert [THEN subsetD])
  qed
  from s show "fleet_measure c' < fleet_measure c"
  proof cases
    case (turn i ss db t)
    then show ?thesis
      using pipe_measure_step [OF turn(5)] by (simp add: fleet_measure_def sum_list_update_less)
  qed
qed

lemma fleet_inv_init: "fleet_inv Ps batches (fleet_init Ps batches db)"
  by (auto simp: fleet_inv_def fleet_init_def pipe_inv_init)

lemma fleet_result_None:
  "length ss = length Ps \<Longrightarrow> fleet_result Ps ss = None \<longleftrightarrow> (\<exists>i<length ss. pipe_result (ss ! i) = None)"
proof (induction Ps ss rule: fleet_result.induct)
  case (1 P Ps s ss)
  then show ?case
    by (auto simp: nth_Cons' less_Suc_eq_0_disj split: option.split)
qed auto

lemma fleet_progress:
  assumes "fleet_inv Ps batches (ss, db)" "length batches \<le> channel_capacity" "fleet_result Ps ss = None"
  shows "\<exists>c. fleet_step Ps (ss, db) c"
proof -
  have len: "length ss = length Ps"
    using assms(1) by (simp add: fleet_inv_def)
  then obtain i where i: "i < length ss" "pipe_result (ss ! i) = None"
    using assms(3) fleet_result_None by blast
  have "pipe_inv batches ((ss ! i)\<lparr>pp_db := db\<rparr>)" "pipe_result ((ss ! i)\<lparr>pp_db := db\<rparr>) = None"
    using assms(1) i by (simp_all add: fleet_inv_def)
  from pipe_progress [OF this(1) assms(2) this(2)] show ?thesis
    using fleet_step.turn i len by metis
qed

lemma fleet_reach_inv: "fleet_reach Ps batches db c \<Longrightarrow> fleet_inv Ps batches c"
  unfolding fleet_reach_def by (erule joint.inv_reachable) (rule fleet_inv_init)

text \<open>At most 100 batches: the worker comes to an end under every schedule, and never waits for itself.\<close>

lemma fleet_ends:
  assumes "length batches \<le> channel_capacity"
  shows "fleet_reach Ps batches db (ss, db') \<Longrightarrow> \<not> (\<exists>c. fleet_step Ps (ss, db') c) \<Longrightarrow> fleet_result Ps ss \<noteq> None"
    and "\<not> (f 0 = fleet_init Ps batches db \<and> (\<forall>i. fleet_step Ps (f i) (f (Suc i))))"
    and "\<exists>ss db'. fleet_reach Ps batches db (ss, db') \<and> fleet_result Ps ss \<noteq> None"
proof -
  show stuck: "fleet_reach Ps batches db (ss, db') \<Longrightarrow> \<not> (\<exists>c. fleet_step Ps (ss, db') c) \<Longrightarrow> fleet_result Ps ss \<noteq> None"
    for ss db'
    using fleet_progress [OF fleet_reach_inv assms, of Ps db ss db'] by blast
  show "\<not> (f 0 = fleet_init Ps batches db \<and> (\<forall>i. fleet_step Ps (f i) (f (Suc i))))"
    using joint.no_infinite_run [of Ps batches f] fleet_inv_init by metis
  obtain c where "(fleet_step Ps)\<^sup>*\<^sup>* (fleet_init Ps batches db) c" "\<not> (\<exists>u. fleet_step Ps c u)"
    using joint.reaches_end [OF fleet_inv_init, of Ps batches db] by blast
  then show "\<exists>ss db'. fleet_reach Ps batches db (ss, db') \<and> fleet_result Ps ss \<noteq> None"
    using stuck [of "fst c" "snd c"] by (metis fleet_reach_def prod.collapse)
qed

section \<open>What a pipeline does to the database\<close>

definition outputs :: "('o, 'db) processor \<Rightarrow> 'o set" where
  "outputs P = {out. \<exists>bs db. pr_process_blocks P bs db = Inr out}"

definition queued :: "('o, 'db) pipe \<Rightarrow> 'o set" where
  "queued s = set (held_list s) \<union> set (pp_out s)"

lemma queued_db [simp]: "queued (s\<lparr>pp_db := d\<rparr>) = queued s"
  by (simp add: queued_def held_list_def)

lemma queued_step: "pipe_step P s t \<Longrightarrow> queued s \<subseteq> outputs P \<Longrightarrow> queued t \<subseteq> outputs P"
  by (induction rule: pipe_step.induct) (auto simp: queued_def held_list_def outputs_def)

lemma queued_reach: "pipe_reach P batches db s \<Longrightarrow> queued s \<subseteq> outputs P"
proof -
  assume r: "pipe_reach P batches db s"
  have "queued (pipe_init batches db) \<subseteq> outputs P"
    by (simp add: queued_def pipe_init_def held_list_def)
  with r [unfolded pipe_reach_def] show ?thesis
    by (induction rule: rtranclp_induct) (auto dest: queued_step)
qed

text \<open>Only the storing of an output touches the database.\<close>

lemma pipe_step_db:
  "pipe_step P s t \<Longrightarrow> queued s \<subseteq> outputs P \<Longrightarrow>
    pp_db t = pp_db s \<or> (\<exists>out\<in>outputs P. pp_db t = snd (pr_store_output P out (pp_db s)))"
proof (induction rule: pipe_step.induct)
  case (store s out outs msg db')
  then have "out \<in> outputs P" "pr_store_output P out (pp_db s) = (Inr (), db')"
    by (auto simp: queued_def storage_simps)
  then show ?case by force
next
  case (store_error s out outs e db')
  then have "out \<in> outputs P" "pr_store_output P out (pp_db s) = (Inl e, db')"
    by (auto simp: queued_def storage_simps)
  then show ?case by force
qed simp_all

text \<open>The database as the last field that is written.\<close>

lemma db_last:
  "s\<lparr>pp_db := d, pp_feed := bs\<rparr> = s\<lparr>pp_feed := bs, pp_db := d\<rparr>"
  "s\<lparr>pp_db := d, pp_in := bs\<rparr> = s\<lparr>pp_in := bs, pp_db := d\<rparr>"
  "s\<lparr>pp_db := d, pp_held := h\<rparr> = s\<lparr>pp_held := h, pp_db := d\<rparr>"
  "s\<lparr>pp_db := d, pp_out := outs\<rparr> = s\<lparr>pp_out := outs, pp_db := d\<rparr>"
  "s\<lparr>pp_db := d, pp_spawned := b\<rparr> = s\<lparr>pp_spawned := b, pp_db := d\<rparr>"
  "s\<lparr>pp_db := d, pp_process := r\<rparr> = s\<lparr>pp_process := r, pp_db := d\<rparr>"
  "s\<lparr>pp_db := d, pp_storage := r\<rparr> = s\<lparr>pp_storage := r, pp_db := d\<rparr>"
  by (cases s; simp)+

section \<open>Processors with regions of their own\<close>

text \<open>
  \<^verbatim>\<open>agree n\<close> says that two databases look the same to the processor named \<^verbatim>\<open>n\<close>. A processor's results
  depend on what it sees, and what the others store is outside of it.
\<close>

locale isolated_processors =
  fixes Ps :: "('o, 'db) processor list" and agree :: "string \<Rightarrow> 'db \<Rightarrow> 'db \<Rightarrow> bool"
  assumes names: "distinct (List.map pr_name Ps)"
    and agree_refl: "agree n d d"
    and agree_sym: "agree n d e \<Longrightarrow> agree n e d"
    and agree_trans: "agree n d e \<Longrightarrow> agree n e f \<Longrightarrow> agree n d f"
    and reads: "P \<in> set Ps \<Longrightarrow> agree (pr_name P) d e \<Longrightarrow> pr_process_blocks P bs d = pr_process_blocks P bs e"
    and writes: "P \<in> set Ps \<Longrightarrow> agree (pr_name P) d e \<Longrightarrow> out \<in> outputs P \<Longrightarrow>
      fst (pr_store_output P out d) = fst (pr_store_output P out e) \<and>
      agree (pr_name P) (snd (pr_store_output P out d)) (snd (pr_store_output P out e))"
    and apart: "P \<in> set Ps \<Longrightarrow> Q \<in> set Ps \<Longrightarrow> pr_name P \<noteq> pr_name Q \<Longrightarrow> out \<in> outputs Q \<Longrightarrow>
      agree (pr_name P) d (snd (pr_store_output Q out d))"
begin

text \<open>A step can be taken on every database that looks the same.\<close>

lemma step_transfer:
  assumes "pipe_step P s t" "P \<in> set Ps" "agree (pr_name P) (pp_db s) d" "queued s \<subseteq> outputs P"
  shows "\<exists>e. pipe_step P (s\<lparr>pp_db := d\<rparr>) (t\<lparr>pp_db := e\<rparr>) \<and> agree (pr_name P) (pp_db t) e"
  using assms(1)
proof cases
  case (feed b bs)
  then show ?thesis
    using assms(3) pipe_step.feed [of "s\<lparr>pp_db := d\<rparr>" b bs P] by (auto simp: db_last intro!: exI [of _ d])
next
  case spawn
  then show ?thesis
    using assms(3) pipe_step.spawn [of "s\<lparr>pp_db := d\<rparr>" P] by (auto simp: db_last intro!: exI [of _ d])
next
  case (handle b bs out)
  have "processor_stage_handle P (BatchMsg b) d = Inr (ProcessedMsg out)"
    using handle(6) reads [OF assms(2,3)] by simp
  with handle show ?thesis
    using assms(3) pipe_step.handle [of "s\<lparr>pp_db := d\<rparr>" b bs P out] by (auto simp: db_last intro!: exI [of _ d])
next
  case (handle_error b bs e)
  have "processor_stage_handle P (BatchMsg b) d = Inl e"
    using handle_error(6) reads [OF assms(2,3)] by simp
  with handle_error show ?thesis
    using assms(3) pipe_step.handle_error [of "s\<lparr>pp_db := d\<rparr>" b bs P e] by (auto simp: db_last intro!: exI [of _ d])
next
  case (send out)
  then show ?thesis
    using assms(3) pipe_step.send [of "s\<lparr>pp_db := d\<rparr>" out P] by (auto simp: db_last intro!: exI [of _ d])
next
  case (send_closed out)
  then show ?thesis
    using assms(3) pipe_step.send_closed [of "s\<lparr>pp_db := d\<rparr>" out P] by (auto simp: db_last intro!: exI [of _ d])
next
  case finish_process
  then show ?thesis
    using assms(3) pipe_step.finish_process [of "s\<lparr>pp_db := d\<rparr>" P] by (auto simp: db_last intro!: exI [of _ d])
next
  case (store out outs msg db')
  have "out \<in> outputs P" and s: "msg = CompleteMsg" "pr_store_output P out (pp_db s) = (Inr (), db')"
    using store assms(4) by (auto simp: queued_def storage_simps)
  with writes [OF assms(2,3)] obtain e where e: "pr_store_output P out d = (Inr (), e)" "agree (pr_name P) db' e"
    by (metis fst_conv snd_conv prod.collapse)
  then have "storage_stage_handle P (ProcessedMsg out) d = (Inr msg, e)"
    by (simp add: storage_simps s)
  with store e(2) show ?thesis
    using pipe_step.store [of "s\<lparr>pp_db := d\<rparr>" out outs P msg e] by (auto simp: db_last intro!: exI [of _ e])
next
  case (store_error out outs e db')
  have "out \<in> outputs P" and s: "pr_store_output P out (pp_db s) = (Inl e, db')"
    using store_error assms(4) by (auto simp: queued_def storage_simps)
  with writes [OF assms(2,3)] obtain d' where d': "pr_store_output P out d = (Inl e, d')" "agree (pr_name P) db' d'"
    by (metis fst_conv snd_conv prod.collapse)
  then have "storage_stage_handle P (ProcessedMsg out) d = (Inl e, d')"
    by (simp add: storage_simps)
  with store_error d'(2) show ?thesis
    using pipe_step.store_error [of "s\<lparr>pp_db := d\<rparr>" out outs P e d'] by (auto simp: db_last intro!: exI [of _ d'])
next
  case finish_storage
  then show ?thesis
    using assms(3) pipe_step.finish_storage [of "s\<lparr>pp_db := d\<rparr>" P] by (auto simp: db_last intro!: exI [of _ d])
qed

text \<open>Each pipeline behaves as if it ran alone.\<close>

definition alone :: "block_batch list \<Rightarrow> 'db \<Rightarrow> ('o, 'db) fleet \<Rightarrow> bool" where
  "alone batches db0 c \<longleftrightarrow> length (fst c) = length Ps \<and> (\<forall>i<length Ps. \<exists>d.
    pipe_reach (Ps ! i) batches db0 ((fst c ! i)\<lparr>pp_db := d\<rparr>) \<and> agree (pr_name (Ps ! i)) d (snd c))"

lemma name_index: "i < length Ps \<Longrightarrow> j < length Ps \<Longrightarrow> pr_name (Ps ! i) = pr_name (Ps ! j) \<Longrightarrow> i = j"
  using names by (simp add: distinct_conv_nth) metis

lemma alone_step:
  assumes "fleet_step Ps c c'" "alone batches db0 c"
  shows "alone batches db0 c'"
  using assms(1)
proof cases
  case (turn i ss db t)
  have P: "Ps ! i \<in> set Ps" using turn(3) by simp
  obtain d where d: "pipe_reach (Ps ! i) batches db0 ((ss ! i)\<lparr>pp_db := d\<rparr>)" "agree (pr_name (Ps ! i)) d db"
    using assms(2) turn(1,3) by (auto simp: alone_def)
  have q: "queued (ss ! i) \<subseteq> outputs (Ps ! i)"
    using queued_reach [OF d(1)] by simp
  have "agree (pr_name (Ps ! i)) (pp_db ((ss ! i)\<lparr>pp_db := db\<rparr>)) d"
    using agree_sym [OF d(2)] by simp
  from step_transfer [OF turn(5) P this] q obtain e where
      e: "pipe_step (Ps ! i) ((ss ! i)\<lparr>pp_db := d\<rparr>) (t\<lparr>pp_db := e\<rparr>)" "agree (pr_name (Ps ! i)) (pp_db t) e"
    by auto
  have here: "pipe_reach (Ps ! i) batches db0 (t\<lparr>pp_db := e\<rparr>)"
    using d(1) e(1) unfolding pipe_reach_def by (rule rtranclp.rtrancl_into_rtrancl)
  have there: "agree (pr_name (Ps ! j)) db (pp_db t)" if "j < length Ps" "j \<noteq> i" for j
    using pipe_step_db [OF turn(5)] q apart [of "Ps ! j" "Ps ! i"] that turn(3) name_index agree_refl by fastforce
  show ?thesis
    unfolding alone_def
  proof (intro conjI allI impI)
    show "length (fst c') = length Ps"
      using assms(2) turn(1,2) by (simp add: alone_def)
    fix j assume j: "j < length Ps"
    show "\<exists>d. pipe_reach (Ps ! j) batches db0 ((fst c' ! j)\<lparr>pp_db := d\<rparr>) \<and> agree (pr_name (Ps ! j)) d (snd c')"
    proof (cases "j = i")
      case True
      then show ?thesis using here agree_sym [OF e(2)] turn(2,4) by auto
    next
      case False
      then show ?thesis
        using assms(2) j there agree_trans turn(1,2) by (fastforce simp: alone_def)
    qed
  qed
qed

lemma reach_alone:
  assumes "fleet_reach Ps batches db0 c"
  shows "alone batches db0 c"
proof -
  have "alone batches db0 (fleet_init Ps batches db0)"
    by (auto simp: alone_def fleet_init_def pipe_reach_def pipe_init_def agree_refl intro!: exI [of _ db0])
  with assms [unfolded fleet_reach_def] show ?thesis
    by (induction rule: rtranclp_induct) (auto intro: alone_step)
qed

text \<open>The sequential runs do not notice each other either.\<close>

lemma seq_cong:
  assumes "P \<in> set Ps" "agree (pr_name P) d e"
  shows "fst (pipeline_seq P bs d) = fst (pipeline_seq P bs e) \<and>
    agree (pr_name P) (snd (pipeline_seq P bs d)) (snd (pipeline_seq P bs e))"
  using assms(2)
proof (induction bs arbitrary: d e)
  case (Cons b bs)
  show ?case
  proof (cases "pr_process_blocks P (batch_blocks b) d")
    case (Inl x)
    then show ?thesis using reads [OF assms(1) Cons.prems] Cons.prems by simp
  next
    case (Inr out)
    then have out: "out \<in> outputs P" "pr_process_blocks P (batch_blocks b) e = Inr out"
      using reads [OF assms(1) Cons.prems] by (auto simp: outputs_def)
    obtain x d1 y e1 where st: "pr_store_output P out d = (x, d1)" "pr_store_output P out e = (y, e1)"
      by fastforce
    have "x = y" "agree (pr_name P) d1 e1"
      using writes [OF assms(1) Cons.prems out(1)] st by simp_all
    then show ?thesis
      using Cons.IH [of d1 e1] st Inr out(2) by (cases y) simp_all
  qed
qed simp

lemma seq_apart:
  assumes "P \<in> set Ps" "Q \<in> set Ps" "pr_name P \<noteq> pr_name Q"
  shows "agree (pr_name P) d (snd (pipeline_seq Q bs d))"
proof (induction bs arbitrary: d)
  case (Cons b bs)
  show ?case
  proof (cases "pr_process_blocks Q (batch_blocks b) d")
    case (Inl x)
    then show ?thesis by (simp add: agree_refl)
  next
    case (Inr out)
    then have "out \<in> outputs Q" by (auto simp: outputs_def)
    from apart [OF assms this] obtain x d1 where st: "pr_store_output Q out d = (x, d1)" "agree (pr_name P) d d1"
      by (metis prod.collapse)
    then show ?thesis
      using Inr Cons.IH [of d1] agree_trans by (cases x) auto
  qed
qed (simp add: agree_refl)

lemma run_cong:
  assumes "P \<in> set Ps" "agree (pr_name P) d e" "pipeline_run P batches d = Some (r, d')"
  shows "\<exists>e'. pipeline_run P batches e = Some (r, e') \<and> agree (pr_name P) d' e'"
  using assms(3) seq_cong [OF assms(1,2), of batches]
  by (auto simp: pipeline_run_def split: if_splits prod.splits)

lemma run_apart:
  assumes "P \<in> set Ps" "Q \<in> set Ps" "pr_name P \<noteq> pr_name Q" "pipeline_run Q batches d = Some (r, d')"
  shows "agree (pr_name P) d d'"
  using assms(4) seq_apart [OF assms(1-3), of d batches] by (auto simp: pipeline_run_def split: if_splits prod.splits)

lemma sequential_apart:
  assumes "set Qs \<subseteq> set Ps" "P \<in> set Ps" "pr_name P \<notin> pr_name ` set Qs" "run_pipeline Qs batches d = Some (r, d')"
  shows "agree (pr_name P) d d'"
  using assms
proof (induction Qs arbitrary: d r)
  case (Cons Q Qs)
  then obtain r1 d1 r2 where 1: "pipeline_run Q batches d = Some (r1, d1)" "run_pipeline Qs batches d1 = Some (r2, d')"
    by (auto split: option.splits prod.splits)
  have "agree (pr_name P) d d1"
    using run_apart [OF Cons.prems(2) _ _ 1(1)] Cons.prems(1,3) by auto
  then show ?case
    using Cons.IH [OF _ _ _ 1(2)] Cons.prems agree_trans by auto
qed (auto simp: agree_refl)

lemma sequential_runs:
  assumes "set Qs \<subseteq> set Ps" "distinct (List.map pr_name Qs)" "run_pipeline Qs batches d = Some (r, d')" "P \<in> set Qs"
  shows "\<exists>r1 e. pipeline_run P batches d = Some (r1, e) \<and> agree (pr_name P) e d' \<and> (r = Inr () \<longrightarrow> r1 = Inr ())"
  using assms
proof (induction Qs arbitrary: d r)
  case (Cons Q Qs)
  then obtain r1 d1 r2 where 1: "pipeline_run Q batches d = Some (r1, d1)" "run_pipeline Qs batches d1 = Some (r2, d')"
      "r = and_then (processor_error (pr_name Q) r1) (\<lambda>_. r2)"
    by (auto split: option.splits prod.splits)
  have r: "r = Inr () \<longrightarrow> r1 = Inr () \<and> r2 = Inr ()"
    using 1(3) by (cases "(pr_name Q, r1)" rule: processor_error.cases) auto
  show ?case
  proof (cases "P = Q")
    case True
    have "agree (pr_name Q) d1 d'"
      using sequential_apart [OF _ _ _ 1(2), of Q] Cons.prems(1,2) by auto
    with 1(1) True r show ?thesis by auto
  next
    case False
    then have P: "P \<in> set Qs" "P \<in> set Ps"
      using Cons.prems(1,4) by auto
    moreover have "pr_name P \<noteq> pr_name Q"
      using P(1) Cons.prems(2) by (metis distinct.simps(2) image_eqI list.set_map list.simps(9))
    ultimately have P: "P \<in> set Qs" "P \<in> set Ps" "pr_name P \<noteq> pr_name Q" by blast+
    obtain r3 e where e: "pipeline_run P batches d1 = Some (r3, e)" "agree (pr_name P) e d'" "r2 = Inr () \<longrightarrow> r3 = Inr ()"
      using Cons.IH [OF _ _ 1(2) P(1)] Cons.prems(1,2) by auto
    have "agree (pr_name P) d1 d"
      using run_apart [OF P(2) _ P(3) 1(1)] Cons.prems(1) agree_sym by auto
    from run_cong [OF P(2) this e(1)] obtain e' where "pipeline_run P batches d = Some (r3, e')" "agree (pr_name P) e e'"
      by blast
    with e r agree_trans agree_sym show ?thesis by blast
  qed
qed simp

text \<open>
  A processor whose processing does not read the database leaves under every schedule what the sequential
  run of all processors leaves in its region; any other one leaves what some run of its own pipeline leaves.
\<close>

lemma concurrent_as_sequential:
  assumes "fleet_reach Ps batches db0 (ss, db)" "i < length Ps" "pipe_result (ss ! i) = Some r"
    and "db_independent (Ps ! i)" "run_pipeline Ps batches db0 = Some (rs, db')"
  shows "agree (pr_name (Ps ! i)) db db'" and "rs = Inr () \<Longrightarrow> r = Inr ()"
proof -
  obtain d where d: "pipe_reach (Ps ! i) batches db0 ((ss ! i)\<lparr>pp_db := d\<rparr>)" "agree (pr_name (Ps ! i)) d db"
    using reach_alone [OF assms(1)] assms(2) by (auto simp: alone_def)
  obtain r' where r': "pipeline_run (Ps ! i) batches db0 = Some (r', d)" "r = Inr () \<longleftrightarrow> r' = Inr ()"
    using ended_is_sequential [OF d(1) _ assms(4)] assms(3) by auto
  obtain r1 e where e: "pipeline_run (Ps ! i) batches db0 = Some (r1, e)" "agree (pr_name (Ps ! i)) e db'"
      "rs = Inr () \<longrightarrow> r1 = Inr ()"
    using sequential_runs [OF subset_refl names assms(5), of "Ps ! i"] assms(2) by auto
  show "agree (pr_name (Ps ! i)) db db'"
    using r'(1) e(1,2) d(2) agree_sym agree_trans by (metis option.inject prod.inject)
  show "rs = Inr () \<Longrightarrow> r = Inr ()"
    using r' e(1,3) by auto
qed

lemma concurrent_as_alone:
  assumes "fleet_reach Ps batches db0 (ss, db)" "i < length Ps" "pipe_result (ss ! i) = Some r"
  shows "\<exists>s. pipe_reach (Ps ! i) batches db0 s \<and> pipe_result s = Some r \<and> agree (pr_name (Ps ! i)) (pp_db s) db"
  using reach_alone [OF assms(1)] assms(2,3) by (force simp: alone_def)

end

end
