(* ===== verification/Fleet_Laws.thy ===== *)
theory Fleet_Laws
  imports Fleet Deployment_Laws "HOL-Library.Multiset"
begin

text \<open>
  The processors of a deployed worker have regions of their own: the built-in ones a table each, the
  lending processor its markets and events, and the transfer and the exchange processor the rows of their
  type in the table of account transactions (the key of the table contains the type). So the worker's
  concurrent pipelines agree with the sequential run.
\<close>

section \<open>Rows of one type\<close>

definition typed_rows :: "string \<Rightarrow> account_transaction table \<Rightarrow> new_account_transaction list" where
  "typed_rows ty T = filter (\<lambda>n. nat_tx_type n = ty) (List.map at_row (t_rows T))"

lemma has_key_typed: "has_key at_key (tx_key n) T \<longleftrightarrow> tx_key n \<in> tx_key ` set (typed_rows (nat_tx_type n) T)"
  by (auto simp: has_key_def at_key_def typed_rows_def tx_key_def)

lemma typed_rows_insert1:
  "typed_rows ty (insert_ignore1 tx_key at_key mk_account_tx n T) =
    (if nat_tx_type n = ty \<and> tx_key n \<notin> tx_key ` set (typed_rows ty T) then typed_rows ty T @ [n] else typed_rows ty T)"
  using has_key_typed [of n T]
  by (auto simp: insert_ignore1_def typed_rows_def append_row_def skip_row_def mk_account_tx_def)

lemma typed_rows_same:
  assumes "\<forall>n\<in>set ns. nat_tx_type n = ty" "typed_rows ty T = typed_rows ty U"
  shows "typed_rows ty (insert_transactions ns T) = typed_rows ty (insert_transactions ns U)"
proof -
  have "typed_rows ty (fold (insert_ignore1 tx_key at_key mk_account_tx) ns T)
      = typed_rows ty (fold (insert_ignore1 tx_key at_key mk_account_tx) ns U)"
    using assms
  proof (induction ns arbitrary: T U)
    case (Cons n ns)
    have "typed_rows ty (insert_ignore1 tx_key at_key mk_account_tx n T)
        = typed_rows ty (insert_ignore1 tx_key at_key mk_account_tx n U)"
      unfolding typed_rows_insert1 Cons.prems(2) ..
    then show ?case
      unfolding fold_simps using Cons.prems(1) by (intro Cons.IH) simp_all
  qed simp
  with assms(2) show ?thesis
    by (simp add: insert_transactions_def insert_ignore_def)
qed

lemma typed_rows_other:
  assumes "\<forall>n\<in>set ns. nat_tx_type n \<noteq> ty"
  shows "typed_rows ty (insert_transactions ns T) = typed_rows ty T"
proof -
  have "typed_rows ty (fold (insert_ignore1 tx_key at_key mk_account_tx) ns T) = typed_rows ty T"
    using assms by (induction ns arbitrary: T) (simp_all add: typed_rows_insert1)
  then show ?thesis
    by (simp add: insert_transactions_def insert_ignore_def)
qed

section \<open>What the processors hand to their storage task\<close>

definition dex_output :: "app_output processor_output \<Rightarrow> bool" where
  "dex_output out \<longleftrightarrow> (\<exists>pools swaps. out = CustomOut (DexOutput pools swaps) \<and> (\<forall>n\<in>set swaps. nat_tx_type n = ''swap''))"

definition transfer_output :: "app_output processor_output \<Rightarrow> bool" where
  "transfer_output out \<longleftrightarrow> (\<exists>ts. out = CustomOut (TransferOutput ts) \<and> (\<forall>n\<in>set ts. nat_tx_type n = ''transfer''))"

lemma transfer_outputs: "out \<in> outputs (transfer_processor L pd gas) \<Longrightarrow> transfer_output out"
  by (auto simp: outputs_def transfer_processor_def transfer_output_def extract_token_transfers_def transfers_to_def
      account_record_def split: if_splits prod.splits option.splits)

lemma swap_type: "swap_of_fields L pd e p block = Some n \<Longrightarrow> nat_tx_type n = ''swap''"
  by (auto simp: swap_of_fields_def account_record_def Let_def split: option.splits if_splits)

lemma parse_swap_type: "parse_swap_event L pd e pools block = Some n \<Longrightarrow> nat_tx_type n = ''swap''"
  by (auto simp: parse_swap_event_def parse_ayin_v2_swap_event_def parse_elexium_swap_event_def swap_type
      split: option.splits if_splits)

definition swaps_typed :: "(int \<times> new_account_transaction) list \<Rightarrow> bool" where
  "swaps_typed swaps \<longleftrightarrow> (\<forall>x\<in>set swaps. nat_tx_type (snd x) = ''swap'')"

lemma extract_swaps_typed: "swaps_typed (extract_swaps L pd bwe pools)"
  by (auto simp: swaps_typed_def extract_swaps_def in_map_filter dest: parse_swap_type)

lemma dex_blocks_typed:
  "fold_res (dex_block C L pd) bwe (ex, new, swaps) = Inr (ex', new', swaps') \<Longrightarrow> swaps_typed swaps \<Longrightarrow> swaps_typed swaps'"
proof (induction bwe arbitrary: ex new swaps)
  case (Cons b bwe)
  obtain st where st: "dex_block C L pd b (ex, new, swaps) = Inr st" "fold_res (dex_block C L pd) bwe st = Inr (ex', new', swaps')"
    using Cons.prems(1) by (auto simp: and_then_eq_Inr)
  obtain ex1 new1 where "st = (ex1, new1, swaps @ extract_swaps L pd b ex1)"
    using st(1) by (auto simp: dex_block_def res_simps Let_def)
  with st(2) have "fold_res (dex_block C L pd) bwe (ex1, new1, swaps @ extract_swaps L pd b ex1) = Inr (ex', new', swaps')"
    by simp
  from Cons.IH [OF this] Cons.prems(2) extract_swaps_typed [of L pd b ex1] show ?case
    by (auto simp: swaps_typed_def)
qed simp

lemma aggregate_typed:
  assumes "aggregate_tx info (txid, g) = Inr n" "swaps_typed g" "g \<noteq> []"
  shows "nat_tx_type n = ''swap''"
proof -
  have "set (sort_hops g) = set g"
    by (simp add: sort_hops_def)
  moreover from this have "sort_hops g \<noteq> []"
    using assms(3) by auto
  ultimately have "hd (List.map snd (sort_hops g)) \<in> snd ` set g"
    by (metis hd_in_set hd_map imageI)
  then have f: "nat_tx_type (hd (List.map snd (sort_hops g))) = ''swap''"
    using assms(2) by (auto simp: swaps_typed_def)
  have h: "nat_tx_type (snd (hd g)) = ''swap''"
    using assms(2,3) by (auto simp: swaps_typed_def)
  show ?thesis
    using assms(1) f h
    by (auto simp: aggregate_tx_def res_simps Let_def set_swap_details_def split: if_splits)
qed

lemma dex_outputs: "out \<in> outputs (dex_processor info C L pd :: 'z app_processor) \<Longrightarrow> dex_output out"
proof -
  assume "out \<in> outputs (dex_processor info C L pd :: 'z app_processor)"
  then obtain bwe and db :: "'z app_db_scheme" where "dex_process_blocks info C L pd bwe db = Inr out"
    by (auto simp: outputs_def dex_processor_def)
  then obtain ex pools swaps processed where f: "fold_res (dex_block C L pd) bwe (get_pools (ad_pools db), [], []) = Inr (ex, pools, swaps)"
    and a: "aggregate_multi_hop_swaps info swaps = Inr processed" and out: "out = CustomOut (DexOutput pools processed)"
    by (auto simp: dex_process_blocks_def res_simps)
  have t: "swaps_typed swaps"
    by (rule dex_blocks_typed [OF f]) (simp add: swaps_typed_def)
  have "nat_tx_type n = ''swap''" if n: "n \<in> set processed" for n
  proof -
    have l: "list_all2 (\<lambda>x y. aggregate_tx info x = Inr y) (group_by (\<lambda>s. nat_tx_id (snd s)) swaps) processed"
      using a by (simp add: aggregate_multi_hop_swaps_def map_res_eq_Inr)
    obtain x where x: "x \<in> set (group_by (\<lambda>s. nat_tx_id (snd s)) swaps)" "aggregate_tx info x = Inr n"
      using list_all2_in(2) [OF l n] by blast
    obtain k g where g: "x = (k, g)" by fastforce
    show ?thesis
      using aggregate_typed [of info k g n] x t unfolding g by (auto simp: group_by_entry swaps_typed_def)
  qed
  with out show "dex_output out" by (auto simp: dex_output_def)
qed

lemma block_outputs: "out \<in> outputs (block_processor L) \<Longrightarrow> \<exists>bs. out = BlockOut bs"
  by (auto simp: outputs_def block_processor_def)

lemma event_outputs: "out \<in> outputs (event_processor uuid) \<Longrightarrow> \<exists>es. out = EventOut es"
  by (auto simp: outputs_def event_processor_def)

lemma tx_outputs: "out \<in> outputs tx_processor \<Longrightarrow> \<exists>ts. out = TxOut ts"
  by (auto simp: outputs_def tx_processor_def)

lemma lending_outputs: "out \<in> outputs (lending_processor L pd now linx) \<Longrightarrow> \<exists>ms es. out = CustomOut (LendingOutput ms es)"
  by (auto simp: outputs_def lending_processor_def lending_process_blocks_def Let_def)

section \<open>Regions\<close>

text \<open>What the processor of a name sees of the database and writes to it.\<close>

definition region :: "string \<Rightarrow> 'z lending_db_scheme \<Rightarrow> 'z lending_db_scheme \<Rightarrow> bool" where
  "region n d e \<longleftrightarrow>
    (n = ''block'' \<longrightarrow> db_blocks d = db_blocks e) \<and>
    (n = ''event'' \<longrightarrow> db_events d = db_events e) \<and>
    (n = ''tx'' \<longrightarrow> db_txs d = db_txs e) \<and>
    (n = ''transfer'' \<longrightarrow> typed_rows ''transfer'' (ad_account_txs d) = typed_rows ''transfer'' (ad_account_txs e)) \<and>
    (n = ''dex'' \<longrightarrow> ad_pools d = ad_pools e \<and>
      typed_rows ''swap'' (ad_account_txs d) = typed_rows ''swap'' (ad_account_txs e)) \<and>
    (n = ''lending'' \<longrightarrow> ld_markets d = ld_markets e \<and> ld_events d = ld_events e)"

lemma region_simps:
  "region ''block'' d e \<longleftrightarrow> db_blocks d = db_blocks e" "region ''event'' d e \<longleftrightarrow> db_events d = db_events e"
  "region ''tx'' d e \<longleftrightarrow> db_txs d = db_txs e"
  "region ''transfer'' d e \<longleftrightarrow> typed_rows ''transfer'' (ad_account_txs d) = typed_rows ''transfer'' (ad_account_txs e)"
  "region ''dex'' d e \<longleftrightarrow> ad_pools d = ad_pools e \<and>
    typed_rows ''swap'' (ad_account_txs d) = typed_rows ''swap'' (ad_account_txs e)"
  "region ''lending'' d e \<longleftrightarrow> ld_markets d = ld_markets e \<and> ld_events d = ld_events e"
  by (simp_all add: region_def)

text \<open>The processors of the deployment, one of each kind.\<close>

inductive registered :: "(app_output processor_output, 'z lending_db_scheme) processor \<Rightarrow> bool" where
  "registered (block_processor L)"
| "registered (event_processor uuid)"
| "registered tx_processor"
| "registered (transfer_processor L pd gas)"
| "registered (dex_processor info C L pd)"
| "registered (lending_processor L pd now linx)"

lemma names_of [simp]:
  "pr_name (block_processor L) = ''block''" "pr_name (event_processor uuid) = ''event''" "pr_name tx_processor = ''tx''"
  "pr_name (transfer_processor L pd gas) = ''transfer''" "pr_name (dex_processor info C L pd) = ''dex''"
  "pr_name (lending_processor L pd now linx) = ''lending''"
  by (simp_all add: block_processor_def event_processor_def tx_processor_def transfer_processor_def dex_processor_def
      lending_processor_def)

lemma built_in_reads:
  "pr_process_blocks (block_processor L) bs d1 = pr_process_blocks (block_processor L) bs e1"
  "pr_process_blocks (event_processor uuid) bs d2 = pr_process_blocks (event_processor uuid) bs e2"
  "pr_process_blocks tx_processor bs d3 = pr_process_blocks tx_processor bs e3"
  "pr_process_blocks (transfer_processor L pd gas) bs d4 = pr_process_blocks (transfer_processor L pd gas) bs e4"
  by (simp_all only: block_processor_def event_processor_def tx_processor_def transfer_processor_def processor.select_convs)

lemma dex_reads:
  "ad_pools d = ad_pools e \<Longrightarrow>
    pr_process_blocks (dex_processor info C L pd) bs d = pr_process_blocks (dex_processor info C L pd) bs e"
  by (simp only: dex_processor_def processor.select_convs dex_process_blocks_def)

lemma lending_reads:
  "ld_markets d = ld_markets e \<Longrightarrow>
    pr_process_blocks (lending_processor L pd now linx) bs d = pr_process_blocks (lending_processor L pd now linx) bs e"
  by (simp only: lending_processor_def processor.select_convs lending_process_blocks_def get_all_markets_def)

lemma registered_reads:
  assumes "registered P" "region (pr_name P) d e"
  shows "pr_process_blocks P bs d = pr_process_blocks P bs e"
  using assms(1)
proof cases
  case (5 info C L pd)
  have "ad_pools d = ad_pools e"
    using assms(2) unfolding 5 names_of region_def by simp
  then show ?thesis
    unfolding 5 by (rule dex_reads)
next
  case (6 L pd now linx)
  have "ld_markets d = ld_markets e"
    using assms(2) unfolding 6 names_of region_def by simp
  then show ?thesis
    unfolding 6 by (rule lending_reads)
qed (metis built_in_reads)+

text \<open>What is stored of an output.\<close>

lemma stores:
  "pr_store_output (block_processor L) (BlockOut bs) db = insert_blocks_to_db bs db"
  "pr_store_output (event_processor uuid) (EventOut es) db
    = (Inr (), if es \<noteq> [] then db\<lparr>db_events := insert_ignore event_key event_key row_as_is es (db_events db)\<rparr> else db)"
  "pr_store_output tx_processor (TxOut ts) db
    = (Inr (), if ts \<noteq> [] then db\<lparr>db_txs := insert_ignore tm_tx_hash tx_row_hash mk_tx_row ts (db_txs db)\<rparr> else db)"
  by (simp_all add: block_processor_def event_processor_def tx_processor_def insert_blocks_to_db_def insert_events_to_db_def
      insert_txs_to_db_def)

lemma stores_app:
  "pr_store_output (transfer_processor L pd gas) (CustomOut (TransferOutput ns)) db'
    = (Inr (), if ns \<noteq> [] then db'\<lparr>ad_account_txs := insert_transactions ns (ad_account_txs db')\<rparr> else db')"
  "pr_store_output (dex_processor info C L pd) (CustomOut (DexOutput pools ns)) db'
    = (Inr (), let db1 = (if pools \<noteq> [] then db'\<lparr>ad_pools := insert_pools pools (ad_pools db')\<rparr> else db')
       in if ns \<noteq> [] then db1\<lparr>ad_account_txs := insert_transactions ns (ad_account_txs db1)\<rparr> else db1)"
  "pr_store_output (lending_processor L pd now linx) (CustomOut (LendingOutput ms es)) db
    = (Inr (), let db1 = (if ms \<noteq> [] then db\<lparr>ld_markets := fold insert_market1 ms (ld_markets db)\<rparr> else db)
       in if es \<noteq> [] then db1\<lparr>ld_events := insert_ignore new_event_key lending_event_key mk_lending_event es (ld_events db1)\<rparr> else db1)"
  by (simp_all add: transfer_processor_def dex_processor_def dex_store_output_def lending_processor_def lending_store_output_def
      store_account_txs_def insert_markets_def insert_lending_events_def Let_def)

lemma registered_output:
  assumes "registered P" "out \<in> outputs P"
  obtains (block) L bs where "P = block_processor L" "out = BlockOut bs"
  | (event) uuid es where "P = event_processor uuid" "out = EventOut es"
  | (tx) ts where "P = tx_processor" "out = TxOut ts"
  | (transfer) L pd gas ns where "P = transfer_processor L pd gas" "out = CustomOut (TransferOutput ns)"
      "\<forall>n\<in>set ns. nat_tx_type n = ''transfer''"
  | (dex) info C L pd pools ns where "P = dex_processor info C L pd" "out = CustomOut (DexOutput pools ns)"
      "\<forall>n\<in>set ns. nat_tx_type n = ''swap''"
  | (lending) L pd now linx ms es where "P = lending_processor L pd now linx" "out = CustomOut (LendingOutput ms es)"
  using assms(1)
proof cases
  case (1 L)
  then show thesis using block assms(2) block_outputs by blast
next
  case (2 uuid)
  then show thesis using event assms(2) event_outputs by blast
next
  case 3
  then show thesis using tx assms(2) tx_outputs by blast
next
  case (4 L pd gas)
  then show thesis using transfer assms(2) transfer_outputs unfolding transfer_output_def by blast
next
  case (5 info C L pd)
  then show thesis using dex assms(2) dex_outputs unfolding dex_output_def by blast
next
  case (6 L pd now linx)
  then show thesis using lending assms(2) lending_outputs by blast
qed

lemma registered_writes:
  assumes "registered P" "region (pr_name P) d e" "out \<in> outputs P"
  shows "fst (pr_store_output P out d) = fst (pr_store_output P out e) \<and>
    region (pr_name P) (snd (pr_store_output P out d)) (snd (pr_store_output P out e))"
  using assms(1,3)
proof (cases rule: registered_output)
  case (transfer L pd gas ns)
  show ?thesis
    using assms(2) typed_rows_same [OF transfer(3), of "ad_account_txs d" "ad_account_txs e"]
    unfolding transfer(1,2) names_of stores_app region_def by simp
next
  case (dex info C L pd pools ns)
  show ?thesis
    using assms(2) typed_rows_same [OF dex(3), of "ad_account_txs d" "ad_account_txs e"]
    unfolding dex(1,2) names_of stores_app region_def by (simp add: Let_def)
qed (use assms(2) in \<open>simp_all add: region_def stores stores_app insert_blocks_to_db_def Let_def\<close>)

lemma registered_apart:
  assumes "registered P" "registered Q" "pr_name P \<noteq> pr_name Q" "out \<in> outputs Q"
  shows "region (pr_name P) d (snd (pr_store_output Q out d))"
  using assms(2,4)
proof (cases rule: registered_output)
  case (transfer L pd gas ns)
  have "typed_rows ''swap'' (insert_transactions ns (ad_account_txs d)) = typed_rows ''swap'' (ad_account_txs d)"
    by (rule typed_rows_other) (use transfer(3) in auto)
  then show ?thesis
    using assms(3) unfolding transfer(1,2) names_of stores_app region_def by simp
next
  case (dex info C L pd pools ns)
  have "typed_rows ''transfer'' (insert_transactions ns (ad_account_txs d)) = typed_rows ''transfer'' (ad_account_txs d)"
    by (rule typed_rows_other) (use dex(3) in auto)
  then show ?thesis
    using assms(3) unfolding dex(1,2) names_of stores_app region_def by (simp add: Let_def)
qed (use assms(3) in \<open>simp_all add: region_def stores stores_app insert_blocks_to_db_def Let_def\<close>)

lemma registered_isolated:
  assumes "\<forall>P\<in>set Ps. registered P" "distinct (List.map pr_name Ps)"
  shows "isolated_processors Ps region"
proof unfold_locales
  show "region n d d" "region n d e \<Longrightarrow> region n e d" "region n d e \<Longrightarrow> region n e f \<Longrightarrow> region n d f"
    for n and d e f :: "'a lending_db_scheme"
    by (simp_all add: region_def)
qed (use assms registered_reads registered_writes registered_apart in blast)+

text \<open>The six processors of a deployment, in the order of the registry as it is written.\<close>

definition deployed_processors :: "processor_env \<Rightarrow> app_config \<Rightarrow> 'z lending_app_processor list" where
  "deployed_processors E config = List.map (build_processor (pe_limits E) (pe_uuid E)) [BlockProcessor, EventProcessor, TxProcessor]
    @ [transfer_processor (pe_limits E) (pe_parse E) (ac_gas_payer_addresses config),
      dex_processor (pe_info_log E) (pe_crypto E) (pe_limits E) (pe_parse E),
      lending_processor (pe_limits E) (pe_parse E) (pe_now E) (ac_linx_address config)]"

interpretation deployed: isolated_processors "deployed_processors E config" region for E config
  by (rule registered_isolated) (auto simp: deployed_processors_def intro: registered.intros)

lemma worker_permutes:
  assumes "worker_processors E True factories (Some config) = Inr Ps" "mset factories = mset (get_processor_factories E)"
  shows "mset Ps = mset (deployed_processors E config)"
proof -
  obtain customs where c: "map_res (\<lambda>(name, factory). factory (Some config)) factories = Inr customs"
      "Ps = List.map (build_processor (pe_limits E) (pe_uuid E)) [BlockProcessor, EventProcessor, TxProcessor] @ customs"
    using assms(1) by (auto simp: worker_processors_def res_simps)
  have l: "List.map (\<lambda>f. snd f (Some config)) factories = List.map Inr customs"
    using c(1) by (simp add: map_res_eq_Inr list_all2_conv_all_nth case_prod_beta list_eq_iff_nth_eq)
  have "image_mset Inr (mset customs) = image_mset (\<lambda>f. snd f (Some config)) (mset factories)"
    using l by (metis mset_map)
  also have "\<dots> = image_mset Inr (mset [transfer_processor (pe_limits E) (pe_parse E) (ac_gas_payer_addresses config),
      dex_processor (pe_info_log E) (pe_crypto E) (pe_limits E) (pe_parse E),
      lending_processor (pe_limits E) (pe_parse E) (pe_now E) (ac_linx_address config)])"
    unfolding assms(2) by (simp add: get_processor_factories_def transfer_factory_def dex_factory_def lending_factory_def)
  finally have "mset customs = mset [transfer_processor (pe_limits E) (pe_parse E) (ac_gas_payer_addresses config),
      dex_processor (pe_info_log E) (pe_crypto E) (pe_limits E) (pe_parse E),
      lending_processor (pe_limits E) (pe_parse E) (pe_now E) (ac_linx_address config)]"
    by (rule injD [OF multiset.inj_map, rotated]) (simp add: inj_def)
  then show ?thesis
    unfolding c(2) deployed_processors_def by simp
qed

lemma worker_isolated:
  assumes "worker_processors E True factories (Some config) = Inr Ps" "mset factories = mset (get_processor_factories E)"
  shows "isolated_processors Ps region"
proof (rule registered_isolated)
  note p = worker_permutes [OF assms]
  show "\<forall>P\<in>set Ps. registered P"
    unfolding mset_eq_setD [OF p] by (auto simp: deployed_processors_def intro: registered.intros)
  have "mset (List.map pr_name Ps) = mset (List.map pr_name (deployed_processors E config :: 'a lending_app_processor list))"
    using p by simp
  then show "distinct (List.map pr_name Ps)"
    by (rule mset_eq_imp_distinct_iff [THEN iffD2]) (simp add: deployed_processors_def)
qed

section \<open>The concurrent run of a deployed worker\<close>

lemma built_in_independent:
  "db_independent (block_processor L)" "db_independent (event_processor uuid)" "db_independent tx_processor"
  "db_independent (transfer_processor L pd gas)"
  by (simp_all only: db_independent_def) (intro allI, rule built_in_reads)+

lemma fleet_result_ended:
  "fleet_result Ps ss = Some r \<Longrightarrow> length ss = length Ps \<Longrightarrow> i < length Ps \<Longrightarrow> \<exists>r. pipe_result (ss ! i) = Some r"
  using fleet_result_None [of ss Ps] by fastforce

lemma ended_fleet_agrees:
  fixes db :: "'z lending_db_scheme"
  assumes P: "worker_processors E True factories (Some config) = Inr Ps" "mset factories = mset (get_processor_factories E)"
    and len: "length batches \<le> channel_capacity"
    and reach: "fleet_reach Ps batches db (ss, db1)" and ended: "fleet_result Ps ss = Some r"
  shows "\<exists>rs db2. run_pipeline Ps batches db = Some (rs, db2) \<and>
      (\<forall>n\<in>{''block'', ''event'', ''tx'', ''transfer''}. region n db1 db2)"
    and "n \<in> {''dex'', ''lending''} \<Longrightarrow> \<exists>P\<in>set Ps. \<exists>s. pr_name P = n \<and> pipe_reach P batches db s \<and> pipe_result s \<noteq> None \<and>
      region n (pp_db s) db1"
proof -
  note iso = worker_isolated [OF P]
  have Ps: "set Ps = set (deployed_processors E config)"
    by (rule mset_eq_setD [OF worker_permutes [OF P]])
  have l: "length ss = length Ps"
    using fleet_reach_inv [OF reach] by (simp add: fleet_inv_def)
  have "\<forall>P\<in>set Ps. always_ends P"
    unfolding Ps by (simp add: deployed_processors_def registered_end)
  then obtain rs db2 where run: "run_pipeline Ps batches db = Some (rs, db2)"
    using run_pipeline_keeps [of Ps batches db] len by blast
  have seq: "region (pr_name P) db1 db2" if Q: "P \<in> set Ps" "db_independent P" for P
  proof -
    obtain i where i: "i < length Ps" "P = Ps ! i"
      using Q(1) by (metis in_set_conv_nth)
    obtain r1 where "pipe_result (ss ! i) = Some r1"
      using fleet_result_ended [OF ended l i(1)] ..
    from isolated_processors.concurrent_as_sequential(1) [OF iso reach i(1) this _ run] show ?thesis
      using Q(2) i(2) by simp
  qed
  have "region ''block'' db1 db2"
    using seq [of "block_processor (pe_limits E)"] by (simp add: Ps deployed_processors_def built_in_independent)
  moreover have "region ''event'' db1 db2"
    using seq [of "event_processor (pe_uuid E)"] by (simp add: Ps deployed_processors_def built_in_independent)
  moreover have "region ''tx'' db1 db2"
    using seq [of tx_processor] by (simp add: Ps deployed_processors_def built_in_independent)
  moreover have "region ''transfer'' db1 db2"
    using seq [of "transfer_processor (pe_limits E) (pe_parse E) (ac_gas_payer_addresses config)"]
    by (simp add: Ps deployed_processors_def built_in_independent)
  ultimately have "\<forall>n\<in>{''block'', ''event'', ''tx'', ''transfer''}. region n db1 db2"
    by simp
  with run show "\<exists>rs db2. run_pipeline Ps batches db = Some (rs, db2) \<and>
      (\<forall>n\<in>{''block'', ''event'', ''tx'', ''transfer''}. region n db1 db2)" by blast
  assume "n \<in> {''dex'', ''lending''}"
  then have "n \<in> pr_name ` set Ps"
    unfolding Ps by (auto simp: deployed_processors_def)
  then obtain i where i: "i < length Ps" "pr_name (Ps ! i) = n"
    by (auto simp: in_set_conv_nth)
  obtain r1 where r1: "pipe_result (ss ! i) = Some r1"
    using fleet_result_ended [OF ended l i(1)] ..
  from isolated_processors.concurrent_as_alone [OF iso reach i(1) r1] obtain s where
      s: "pipe_reach (Ps ! i) batches db s" "pipe_result s = Some r1" "region (pr_name (Ps ! i)) (pp_db s) db1"
    by blast
  show "\<exists>P\<in>set Ps. \<exists>s. pr_name P = n \<and> pipe_reach P batches db s \<and> pipe_result s \<noteq> None \<and> region n (pp_db s) db1"
    by (intro bexI [of _ "Ps ! i"] exI [of _ s]) (use s i in simp_all)
qed

lemma worker_of_config:
  "new_worker_from_config E open_pool env factories True n sync backfill (Some config) = Inr W \<Longrightarrow>
    worker_processors E True factories (Some config) = Inr (wk_processors W)"
  by (auto simp: new_worker_from_config_def res_simps)

text \<open>
  C4: The processors of a deployed worker run concurrently on one database. However the steps of their pipelines
  interleave, and in whatever order the registry starts them, no run is infinite, and a run of at most 100 batches
  stops only at its end: then the blocks, events, transactions and transfers are exactly those of running the
  processors one after the other, and the pools, swaps, markets and lending events are those of a run of the
  exchange or the lending processor alone.
\<close>
theorem concurrent_processors_do_not_interfere:
  fixes db :: "'z lending_db_scheme"
  assumes W: "new_worker_from_config E open_pool env factories True n sync backfill (Some config) = Inr W"
      "mset factories = mset (get_processor_factories E)"
    and reach: "length batches \<le> 100" "fleet_reach (wk_processors W) batches db (ss, db1)"
  shows "\<not> (\<exists>f. f 0 = fleet_init (wk_processors W) batches db \<and> (\<forall>i. fleet_step (wk_processors W) (f i) (f (Suc i)))) \<and>
    ((\<exists>c. fleet_step (wk_processors W) (ss, db1) c) \<or> fleet_result (wk_processors W) ss \<noteq> None) \<and>
    (fleet_result (wk_processors W) ss \<noteq> None \<longrightarrow>
      (\<exists>rs db2. run_pipeline (wk_processors W) batches db = Some (rs, db2) \<and>
        db_blocks db1 = db_blocks db2 \<and> db_events db1 = db_events db2 \<and> db_txs db1 = db_txs db2 \<and>
        typed_rows ''transfer'' (ad_account_txs db1) = typed_rows ''transfer'' (ad_account_txs db2)) \<and>
      (\<exists>P\<in>set (wk_processors W). \<exists>s. pr_name P = ''dex'' \<and> pipe_reach P batches db s \<and> pipe_result s \<noteq> None \<and>
        ad_pools (pp_db s) = ad_pools db1 \<and>
        typed_rows ''swap'' (ad_account_txs (pp_db s)) = typed_rows ''swap'' (ad_account_txs db1)) \<and>
      (\<exists>P\<in>set (wk_processors W). \<exists>s. pr_name P = ''lending'' \<and> pipe_reach P batches db s \<and> pipe_result s \<noteq> None \<and>
        ld_markets (pp_db s) = ld_markets db1 \<and> ld_events (pp_db s) = ld_events db1))"
proof -
  let ?Ps = "wk_processors W"
  note P = worker_of_config [OF W(1)] W(2)
  have len: "length batches \<le> channel_capacity"
    using reach(1) by (simp add: channel_capacity_def)
  have inf: "\<not> (\<exists>f. f 0 = fleet_init ?Ps batches db \<and> (\<forall>i. fleet_step ?Ps (f i) (f (Suc i))))"
  proof
    assume "\<exists>f. f 0 = fleet_init ?Ps batches db \<and> (\<forall>i. fleet_step ?Ps (f i) (f (Suc i)))"
    then obtain f where "f 0 = fleet_init ?Ps batches db \<and> (\<forall>i. fleet_step ?Ps (f i) (f (Suc i)))" ..
    with fleet_ends(2) [OF len, of f ?Ps db] show False by simp
  qed
  have stuck: "(\<exists>c. fleet_step ?Ps (ss, db1) c) \<or> fleet_result ?Ps ss \<noteq> None"
    using fleet_ends(1) [OF len reach(2)] by argo
  have agree: "(\<exists>rs db2. run_pipeline ?Ps batches db = Some (rs, db2) \<and>
        db_blocks db1 = db_blocks db2 \<and> db_events db1 = db_events db2 \<and> db_txs db1 = db_txs db2 \<and>
        typed_rows ''transfer'' (ad_account_txs db1) = typed_rows ''transfer'' (ad_account_txs db2)) \<and>
      (\<exists>P\<in>set ?Ps. \<exists>s. pr_name P = ''dex'' \<and> pipe_reach P batches db s \<and> pipe_result s \<noteq> None \<and>
        ad_pools (pp_db s) = ad_pools db1 \<and>
        typed_rows ''swap'' (ad_account_txs (pp_db s)) = typed_rows ''swap'' (ad_account_txs db1)) \<and>
      (\<exists>P\<in>set ?Ps. \<exists>s. pr_name P = ''lending'' \<and> pipe_reach P batches db s \<and> pipe_result s \<noteq> None \<and>
        ld_markets (pp_db s) = ld_markets db1 \<and> ld_events (pp_db s) = ld_events db1)"
    if "fleet_result ?Ps ss = Some r" for r
  proof (intro conjI)
    note a = ended_fleet_agrees [OF P len reach(2) that]
    obtain rs db2 where run: "run_pipeline ?Ps batches db = Some (rs, db2)"
        and r: "\<forall>n\<in>{''block'', ''event'', ''tx'', ''transfer''}. region n db1 db2"
      using a(1) by (elim exE conjE)
    have "region ''block'' db1 db2" "region ''event'' db1 db2" "region ''tx'' db1 db2" "region ''transfer'' db1 db2"
      using r by simp_all
    with run show "\<exists>rs db2. run_pipeline ?Ps batches db = Some (rs, db2) \<and>
        db_blocks db1 = db_blocks db2 \<and> db_events db1 = db_events db2 \<and> db_txs db1 = db_txs db2 \<and>
        typed_rows ''transfer'' (ad_account_txs db1) = typed_rows ''transfer'' (ad_account_txs db2)"
      unfolding region_simps by blast
    show "\<exists>P\<in>set ?Ps. \<exists>s. pr_name P = ''dex'' \<and> pipe_reach P batches db s \<and> pipe_result s \<noteq> None \<and>
        ad_pools (pp_db s) = ad_pools db1 \<and>
        typed_rows ''swap'' (ad_account_txs (pp_db s)) = typed_rows ''swap'' (ad_account_txs db1)"
      by (rule a(2) [of "''dex''", unfolded region_simps]) simp
    show "\<exists>P\<in>set ?Ps. \<exists>s. pr_name P = ''lending'' \<and> pipe_reach P batches db s \<and> pipe_result s \<noteq> None \<and>
        ld_markets (pp_db s) = ld_markets db1 \<and> ld_events (pp_db s) = ld_events db1"
      by (rule a(2) [of "''lending''", unfolded region_simps]) simp
  qed
  show ?thesis
    using inf stuck agree by blast
qed

lemma transfers_stored_typed:
  "transfers_stored L pd gas db b \<longleftrightarrow>
    (\<forall>t\<in>set (transfers_of_block L pd gas b). tx_key t \<in> tx_key ` set (typed_rows ''transfer'' (ad_account_txs db)))"
proof -
  have "nat_tx_type t = ''transfer''" if "t \<in> set (transfers_of_block L pd gas b)" for t
    using that by (auto simp: transfers_of_block_def extract_token_transfers_def transfers_to_def account_record_def
        split: if_splits prod.splits option.splits)
  then show ?thesis
    by (simp add: transfers_stored_def has_key_typed)
qed


theorem concurrent_processors_do_not_interfere_witness:
  "\<exists>W ss db1 rs db2. new_worker_from_config example_processor_env (\<lambda>_. Inr ()) example_environment
      (get_processor_factories example_processor_env) True 4 None None (Some example_app_config) = Inr W \<and>
    fleet_reach (wk_processors W) [example_batch] empty_lending_db (ss, db1) \<and> fleet_result (wk_processors W) ss \<noteq> None \<and>
    run_pipeline (wk_processors W) [example_batch] empty_lending_db = Some (rs, db2) \<and> db_blocks db1 = db_blocks db2"
proof -
  obtain W where W: "new_worker_from_config example_processor_env (\<lambda>_. Inr ()) example_environment
      (get_processor_factories example_processor_env) True 4 None None (Some example_app_config) =
        Inr (W :: (app_output processor_output, lending_db) worker)"
    using example_deployment ..
  obtain ss db1 where r: "fleet_reach (wk_processors W) [example_batch] empty_lending_db (ss, db1)"
      "fleet_result (wk_processors W) ss \<noteq> None"
    using fleet_ends(3) [of "[example_batch]" "wk_processors W" empty_lending_db] by (auto simp: channel_capacity_def)
  obtain rs db2 where "run_pipeline (wk_processors W) [example_batch] empty_lending_db = Some (rs, db2)"
      "db_blocks db1 = db_blocks db2"
    using concurrent_processors_do_not_interfere [OF W refl _ r(1)] r(2) by auto
  with W r show ?thesis by blast
qed


end
