(* ===== verification/Commands.thy ===== *)
theory Commands
  imports Deployment Snapshot_Jobs Gap_Detection Points_Calculator Node_Client
begin

text \<open>
  The executables beside the indexer: \<^verbatim>\<open>gap_detector\<close>, \<^verbatim>\<open>points\<close> and \<^verbatim>\<open>snapshots\<close>
  (\<^verbatim>\<open>src/bin\<close>). Each reads its configuration, picks a command from its arguments and runs the services of
  the other theories. What is printed is a value; logging is left out. The debug form of an error inside the message
  of a panic is shortened to its text.
\<close>

text \<open>What a process is given: environment variables, arguments (the first is the program), the database, files,
  TOML and JSON readers, HTTP, and what the processors need.\<close>

record process =
  ps_env :: environment
  ps_args :: "string list"
  ps_open_pool :: "string \<Rightarrow> unit res"
  ps_parse_set :: "string \<Rightarrow> string list option"
  ps_read_file :: "string \<Rightarrow> string res"
  ps_toml :: "string \<Rightarrow> cli_config res"
  ps_http :: http_client
  ps_processors :: processor_env

definition nth_arg :: "nat \<Rightarrow> string list \<Rightarrow> string option" where
  "nth_arg i args = (if i < length args then Some (args ! i) else None)"

definition expect_res :: "string \<Rightarrow> 'a res \<Rightarrow> 'a res" where
  "expect_res m r = map_err (\<lambda>e. case e of Error x \<Rightarrow> Panic (m @ '': '' @ x) | Panic p \<Rightarrow> Panic p) r"

text \<open>What every executable does first, up to the open database.\<close>

definition start_up :: "process \<Rightarrow> app_config res" where
  "start_up P =
    and_then (app_config_from_env (ps_parse_set P) (ps_env P)) (\<lambda>app_config.
    and_then (expect_res ''DATABASE_URL must be set in environment'' (get_database_url (ps_env P))) (\<lambda>url.
    and_then (ps_open_pool P url) (\<lambda>_. Inr app_config)))"

definition expect_network :: "process \<Rightarrow> network res" where
  "expect_network P = expect_res ''NETWORK must be set in environment'' (get_network (ps_env P))"

section \<open>Gap detector\<close>

text \<open>An option is looked for among all arguments; a value that is not a number counts as missing. The delay between
  two heights only pauses.\<close>

definition flag_value :: "string \<Rightarrow> (string \<Rightarrow> 'a option) \<Rightarrow> string list \<Rightarrow> 'a option" where
  "flag_value flag parse args =
    Option.bind (List.find (starts_with flag) args) (\<lambda>arg. parse (drop (length flag) arg))"

definition min_height_arg :: "string list \<Rightarrow> int option" where
  "min_height_arg = flag_value ''--min-height='' i64_from_str"

datatype gap_line = AllHeights "int \<times> int" nat "int list" | FirstLast "int \<times> int" nat "int list" "int list"

text \<open>Slicing out of range panics.\<close>

definition slice_to :: "nat \<Rightarrow> 'a list \<Rightarrow> 'a list res" where
  "slice_to n xs = (if n \<le> length xs then Inr (take n xs) else Inl (Panic ''range end index out of range''))"

definition slice_from :: "nat \<Rightarrow> 'a list \<Rightarrow> 'a list res" where
  "slice_from n xs = (if n \<le> length xs then Inr (drop n xs) else Inl (Panic ''range start index out of range''))"

definition gap_line_of :: "block_gap \<Rightarrow> gap_line res" where
  "gap_line_of gap =
    (let c = (bg_chain_from gap, bg_chain_to gap) in
     if bg_total_missing gap \<le> 20 then Inr (AllHeights c (bg_total_missing gap) (bg_missing_heights gap))
     else and_then (slice_to 10 (bg_missing_heights gap)) (\<lambda>first.
       and_then (slice_from (bg_total_missing gap - 10) (bg_missing_heights gap)) (\<lambda>last.
         Inr (FirstLast c (bg_total_missing gap) first last))))"

definition detect_lines :: "gap_detection_report \<Rightarrow> gap_line list res" where
  "detect_lines report =
    (if gdr_total_missing_blocks report = 0 then Inr [] else map_res gap_line_of (gdr_block_gaps report))"

datatype gap_outcome = GapReport nat nat "gap_line list" | GapsBackfilled | GapUsage

definition gap_worker ::
  "process \<Rightarrow> (string, 'z factory) hmap \<Rightarrow> app_config
    \<Rightarrow> (node_client \<times> (app_output processor_output, 'z lending_db_scheme) worker) res" where
  "gap_worker P factories app_config =
    and_then (expect_network P) (\<lambda>network.
    and_then (new_worker_from_config (ps_processors P) (ps_open_pool P) (ps_env P) factories True 1
        (Some \<lparr>so_step = 0, so_backstep = 0, so_request_interval = 0\<rparr>)
        (Some \<lparr>bo_start_ts = None, bo_stop_ts = None, bo_request_interval = 0, bo_step = 0, bo_backstep = 0\<rparr>)
        (Some app_config)) (\<lambda>W.
      Inr (node_of_client (client_new (ps_env P) (ps_http P) network), W)))"

definition gap_detector_main :: "process \<Rightarrow> (string, 'z factory) hmap \<Rightarrow> ('z lending_db_scheme, gap_outcome) run" where
  "gap_detector_main P factories =
    bind_run (lift_run (\<lambda>_. start_up P)) (\<lambda>app_config.
      let min_height = min_height_arg (ps_args P) in
      if nth_arg 1 (ps_args P) = Some ''detect'' then
        lift_run (\<lambda>db. let report = generate_report min_height db in
          and_then (detect_lines report) (\<lambda>ls.
            Inr (GapReport (gdr_total_missing_blocks report) (length (gdr_block_gaps report)) ls)))
      else if nth_arg 1 (ps_args P) = Some ''backfill'' then
        bind_run (lift_run (\<lambda>_. gap_worker P factories app_config)) (\<lambda>(client, W).
        bind_run (backfill_gaps client W min_height) (\<lambda>_. lift_run (\<lambda>_. Inr GapsBackfilled)))
      else lift_run (\<lambda>_. Inr GapUsage))"

section \<open>Points\<close>

datatype points_task = PointsOnce naive_date | PointsRange naive_date naive_date | PointsDaemon | PointsUsage

text \<open>\<^verbatim>\<open>parse_date\<close> reads \<^verbatim>\<open>YYYY-MM-DD\<close>.\<close>

definition points_task_of :: "(string \<Rightarrow> naive_date option) \<Rightarrow> string list \<Rightarrow> points_task res" where
  "points_task_of parse_date args =
    (case nth_arg 1 args of None \<Rightarrow> Inr PointsUsage
    | Some command \<Rightarrow>
       if command = ''once'' then
         and_then (unwrap ''Usage: points once <date> (format: YYYY-MM-DD)'' (nth_arg 2 args)) (\<lambda>date_str.
         and_then (unwrap ''Invalid date format. Use YYYY-MM-DD'' (parse_date date_str)) (\<lambda>date. Inr (PointsOnce date)))
       else if command = ''range'' \<or> command = ''backfill'' then
         and_then (unwrap ''Usage: points range <start-date> <end-date> (format: YYYY-MM-DD)'' (nth_arg 2 args)) (\<lambda>start_str.
         and_then (unwrap ''Usage: points range <start-date> <end-date> (format: YYYY-MM-DD)'' (nth_arg 3 args)) (\<lambda>end_str.
         and_then (unwrap ''Invalid start date format. Use YYYY-MM-DD'' (parse_date start_str)) (\<lambda>start_date.
         and_then (unwrap ''Invalid end date format. Use YYYY-MM-DD'' (parse_date end_str)) (\<lambda>end_date.
           if end_date < start_date then Inl (Error ''Start date must be before or equal to end date'')
           else Inr (PointsRange start_date end_date)))))
       else if command = ''daemon'' then Inr PointsDaemon
       else Inr PointsUsage)"

definition points_start_up :: "process \<Rightarrow> calc_deps \<Rightarrow> calc_deps res" where
  "points_start_up P E =
    and_then (app_config_from_env (ps_parse_set P) (ps_env P)) (\<lambda>_.
    and_then (expect_res ''Failed to load config'' (load_config (ps_read_file P) (ps_toml P) ''config.toml'')) (\<lambda>config.
    and_then (start_up P) (\<lambda>_.
    and_then (expect_network P) (\<lambda>_.
    and_then (unwrap ''Points configuration not found in config.toml. Add [points] section.'' (cf_points config)) (\<lambda>points_config.
      Inr (E\<lparr>cd_referral_percentage := pst_referral_percentage points_config,
        cd_calculation_time := pst_calculation_time points_config\<rparr>))))))"

text \<open>The daemon is observed over some ticks of its timer.\<close>

datatype points_final = Finished "unit res" points_db | DaemonAt "scheduler res"

definition points_main ::
  "process \<Rightarrow> calc_deps \<Rightarrow> (string \<Rightarrow> naive_date option) \<Rightarrow> naive_datetime \<Rightarrow> naive_datetime list \<Rightarrow> points_db \<Rightarrow> points_final" where
  "points_main P E0 parse_date now ticks db =
    (case and_then (points_start_up P E0) (\<lambda>E. and_then (points_task_of parse_date (ps_args P)) (\<lambda>task. Inr (E, task))) of
      Inl e \<Rightarrow> Finished (Inl e) db
    | Inr (E, PointsOnce date) \<Rightarrow> (case calculate_points_for_date E now date db of (r, db') \<Rightarrow> Finished r db')
    | Inr (E, PointsRange start_date end_date) \<Rightarrow>
        (case calculate_points_for_range E now start_date end_date db of (r, db') \<Rightarrow> Finished r db')
    | Inr (E, PointsDaemon) \<Rightarrow> DaemonAt (run_scheduler E ticks db)
    | Inr (E, PointsUsage) \<Rightarrow> Finished (Inr ()) db)"

section \<open>Snapshots\<close>

datatype snapshots_task = RunJobs | RunOnce string | ListJobs | BackfillMetric string | SnapshotsUsage

definition snapshots_task_of :: "string list \<Rightarrow> snapshots_task" where
  "snapshots_task_of args =
    (case (nth_arg 1 args, nth_arg 2 args) of
      (Some c, None) \<Rightarrow> if c = ''run'' then RunJobs else if c = ''list'' then ListJobs else SnapshotsUsage
    | (Some c, Some x) \<Rightarrow> if c = ''run-once'' then RunOnce x else if c = ''backfill'' then BackfillMetric x else SnapshotsUsage
    | _ \<Rightarrow> SnapshotsUsage)"

text \<open>
  The jobs run concurrently; \<^verbatim>\<open>ticks\<close> is the order in which their ticks happen, each with the environment it
  meets. A failed tick is logged; a job that panics ends the process with the error of the join.
\<close>

fun run_jobs ::
  "(rat \<Rightarrow> rat \<Rightarrow> rat) \<Rightarrow> (string \<Rightarrow> 'k::linorder) \<Rightarrow> (job \<times> service_env) list \<Rightarrow> ('z lending_db_scheme, unit) run" where
  "run_jobs qdiv collate [] db = Some (Inr (), db)"
| "run_jobs qdiv collate ((j, E) # ticks) db =
    (case job_tick qdiv collate E j db of
      None \<Rightarrow> None
    | Some (Inl (Panic p), db') \<Rightarrow> Some (Inl (Error (''task panicked: '' @ p)), db')
    | Some (_, db') \<Rightarrow> run_jobs qdiv collate ticks db')"

definition snapshots_main ::
  "process \<Rightarrow> (rat \<Rightarrow> rat \<Rightarrow> rat) \<Rightarrow> (string \<Rightarrow> 'k::linorder) \<Rightarrow> service_env \<Rightarrow> (job \<times> service_env) list
    \<Rightarrow> ('z lending_db_scheme, unit) run" where
  "snapshots_main P qdiv collate E ticks =
    bind_run (lift_run (\<lambda>_. and_then (start_up P) (\<lambda>_. expect_network P))) (\<lambda>_.
      case snapshots_task_of (ps_args P) of
        RunJobs \<Rightarrow> run_jobs qdiv collate ticks
      | RunOnce name \<Rightarrow> run_once qdiv collate E name
      | BackfillMetric metric \<Rightarrow>
          if metric = ''cumulative-volumes'' then (\<lambda>db. Some (backfill_cumulative_volumes E db))
          else lift_run (\<lambda>_. Inl (Error (''unknown backfill metric: '' @ metric)))
      | _ \<Rightarrow> lift_run (\<lambda>_. Inr ()))"

end
