(* ===== verification/Commands_Laws.thy ===== *)
theory Commands_Laws
  imports Commands Deployment_Laws
begin

text \<open>
  Laws of the executables: the gap detector fills every gap through all registered processors of the application, and
  its report never panics.
\<close>

section \<open>Gap detector\<close>

lemma app_filling:
  assumes "worker_processors E True factories (Some c) = Inr (Ps :: 'z lending_app_processor list)"
    "set factories = set (get_processor_factories E)"
  shows "gap_filling Ps good_block
    (\<lambda>db b. fully_stored db b \<and> transfers_stored (pe_limits E) (pe_parse E) (ac_gas_payer_addresses c) db b) keeps_app (\<lambda>_. True)"
proof unfold_locales
  fix bs R and db :: "'z lending_db_scheme"
  assume "\<forall>b\<in>set bs. good_block b"
  then show "\<exists>r db'. run_pipeline Ps [\<lparr>batch_blocks = bs, batch_range = R\<rparr>] db = Some (r, db') \<and> True \<and> keeps_app db db' \<and>
      (\<forall>b\<in>set bs. fully_stored db' b \<and> transfers_stored (pe_limits E) (pe_parse E) (ac_gas_payer_addresses c) db' b)"
    using indexer_stores [OF assms, of "[\<lparr>batch_blocks = bs, batch_range = R\<rparr>]" db] by (auto simp: channel_capacity_def)
qed (simp, erule (1) keeps_app_trans, auto intro: transfers_stored_keeps fully_stored_keeps keeps_app_rows)

lemma gap_worker_processors:
  "gap_worker P factories c = Inr (client, W) \<Longrightarrow>
    worker_processors (ps_processors P) True factories (Some c) = Inr (wk_processors W)"
  by (auto simp: gap_worker_def new_worker_from_config_def res_simps)


definition example_process :: process where
  "example_process = \<lparr>ps_env = map_of [(''NETWORK'', ''testnet''), (''POSTGRES_USER'', ''u''), (''POSTGRES_PASSWORD'', ''p''),
      (''POSTGRES_DB'', ''d''), (''LINX_ADDRESS'', ''linx''), (''LINX_GROUP'', ''0''), (''DIA_ORACLE_ADDRESS'', ''dia''),
      (''LINX_API_URL'', ''url'')],
    ps_args = [''gap_detector'', ''backfill''], ps_open_pool = (\<lambda>_. Inr ()), ps_parse_set = (\<lambda>_. None),
    ps_read_file = (\<lambda>_. Inl (Error ''none'')), ps_toml = (\<lambda>_. Inl (Error ''none'')),
    ps_http = \<lparr>hc_base_url = [], hc_parse_url = Inr,
      hc_send = (\<lambda>r. Inr \<lparr>hr_status = 200, hr_status_text = ''200 OK'', hr_body = []\<rparr>),
      hc_read = \<lparr>jr_value = (\<lambda>s. Inr JNull), jr_blocks = (\<lambda>s. Inr []), jr_blocks_and_events = (\<lambda>s. Inr []),
        jr_block_and_events = (\<lambda>s. Inr \<lparr>bae_block = plain_block ''b'' 2, bae_events = []\<rparr>),
        jr_block = (\<lambda>s. Inl (Error ''none'')), jr_header = (\<lambda>s. Inl (Error ''none'')), jr_hashes = (\<lambda>s. Inr [''b'']),
        jr_chain_info = (\<lambda>s. Inl (Error ''none'')), jr_transaction = (\<lambda>s. Inr None), jr_transactions = (\<lambda>s. Inr []),
        jr_submit = (\<lambda>s. Inl (Error ''none'')), jr_call_result = (\<lambda>s. Inl (Error ''none'')),
        jr_contract_state = (\<lambda>s. Inl (Error ''none''))\<rparr>\<rparr>,
    ps_processors = example_processor_env\<rparr>"

definition example_app_gap_db :: lending_db where
  "example_app_gap_db = empty_lending_db\<lparr>db_blocks := db_blocks example_gap_db\<rparr>"

lemma example_app_gaps: "detect_block_gaps None example_app_gap_db =
    [\<lparr>bg_chain_from = 0, bg_chain_to = 0, bg_missing_heights = [2], bg_total_missing = 1\<rparr>]"
  by code_simp

lemma example_start_up: "start_up example_process = Inr example_app_config"
  by code_simp


text \<open>Every report of the detector has what the lines of the printed form slice.\<close>

lemma detect_lines_ok: "\<exists>ls. detect_lines (generate_report mh db) = Inr ls"
proof -
  have "\<exists>l. gap_line_of g = Inr l" if "g \<in> set (detect_block_gaps mh db)" for g
    using gap_counted [OF that] by (auto simp: gap_line_of_def slice_to_def slice_from_def Let_def)
  then have "\<exists>ls. map_res gap_line_of gs = Inr ls" if "set gs \<subseteq> set (detect_block_gaps mh db)" for gs
    using that by (induction gs) fastforce+
  then show ?thesis
    by (auto simp: detect_lines_def generate_report_def Let_def)
qed

end
