(* ===== verification/Schema.thy ===== *)
theory Schema
  imports Points_Store Account_Txs Lending_Models Block_Store
begin

text \<open>
  The database schema (\<^verbatim>\<open>schema.rs\<close> of the application and of \<^verbatim>\<open>bento-types\<close>) and the values that
  the insertable structures of the models put into its columns. \<^verbatim>\<open>fits\<close> says that each value has the type of
  its column; integers are bounded by the width of the column. Texts, times, numbers and JSON are not bounded further.
\<close>

datatype sql_type = Int2 | Int4 | Int8 | Text | Varchar "nat option" | Numeric | Timestamp | Timestamptz | Date | Bool | Jsonb
  | Nullable sql_type | ArrayOf sql_type

datatype sql_value = VInt int | VText string | VNumeric rat | VTimestamp naive_datetime | VDate naive_date | VBool bool
  | VJson | VNull | VArray "sql_value list"

type_synonym sql_table = "string \<times> (string \<times> sql_type) list"

type_synonym sql_row = "(string \<times> sql_value) list"

definition nullable :: "('a \<Rightarrow> sql_value) \<Rightarrow> 'a option \<Rightarrow> sql_value" where
  "nullable f x = (case x of None \<Rightarrow> VNull | Some a \<Rightarrow> f a)"

fun has_type :: "sql_type \<Rightarrow> sql_value \<Rightarrow> bool" where
  "has_type (Nullable t) v = (v = VNull \<or> has_type t v)"
| "has_type (ArrayOf t) (VArray vs) = list_all (has_type t) vs"
| "has_type Int2 (VInt n) = (- 32768 \<le> n \<and> n < 32768)"
| "has_type Int4 (VInt n) = in_i32 n"
| "has_type Int8 (VInt n) = in_i64 n"
| "has_type Text (VText s) = True"
| "has_type (Varchar w) (VText s) = (case w of None \<Rightarrow> True | Some k \<Rightarrow> length s \<le> k)"
| "has_type Numeric (VNumeric x) = True"
| "has_type Timestamp (VTimestamp t) = True"
| "has_type Timestamptz (VTimestamp t) = True"
| "has_type Date (VDate d) = True"
| "has_type Bool (VBool b) = True"
| "has_type Jsonb VJson = True"
| "has_type _ _ = False"

fun column_type :: "(string \<times> sql_type) list \<Rightarrow> string \<Rightarrow> sql_type option" where
  "column_type [] c = None"
| "column_type ((c', t) # cs) c = (if c' = c then Some t else column_type cs c)"

definition fits :: "sql_table \<Rightarrow> sql_row \<Rightarrow> bool" where
  "fits T r \<longleftrightarrow> list_all (\<lambda>(c, v). case column_type (snd T) c of None \<Rightarrow> False | Some t \<Rightarrow> has_type t v) r"

section \<open>Tables\<close>

text \<open>The primary key, and the columns with their types.\<close>

definition account_transactions_table :: sql_table where
  "account_transactions_table = (''id'', [(''id'', Int8), (''address'', Text), (''tx_type'', Text), (''tx_id'', Text),
    (''from_group'', Int2), (''to_group'', Int2), (''block_height'', Int8), (''timestamp'', Timestamp),
    (''details'', Jsonb), (''tx_key'', Nullable Text)])"

definition blocks_table :: sql_table where
  "blocks_table = (''hash'', [(''hash'', Text), (''timestamp'', Timestamp), (''chain_from'', Int8), (''chain_to'', Int8),
    (''height'', Int8), (''nonce'', Text), (''version'', Text), (''dep_state_hash'', Text),
    (''txs_hash'', Text), (''tx_number'', Int8), (''target'', Text), (''ghost_uncles'', Jsonb),
    (''main_chain'', Bool), (''deps'', ArrayOf (Nullable Text))])"

definition events_table :: sql_table where
  "events_table = (''id'', [(''id'', Text), (''tx_id'', Text), (''contract_address'', Text), (''event_index'', Int4),
    (''fields'', Jsonb)])"

definition lending_events_table :: sql_table where
  "lending_events_table = (''id'', [(''id'', Int8), (''market_id'', Text), (''event_type'', Text), (''token_id'', Text),
    (''on_behalf'', Text), (''amount'', Numeric), (''shares'', Numeric), (''transaction_id'', Text),
    (''event_index'', Int4), (''block_time'', Timestamp), (''created_at'', Timestamp), (''fields'', Jsonb)])"

definition lending_markets_table :: sql_table where
  "lending_markets_table = (''id'', [(''id'', Text), (''market_contract_id'', Text), (''collateral_token'', Text),
    (''loan_token'', Text), (''oracle'', Text), (''irm'', Text), (''ltv'', Numeric),
    (''created_at'', Timestamp)])"

definition lending_position_snapshots_table :: sql_table where
  "lending_position_snapshots_table = (''id'', [(''id'', Int8), (''address'', Text), (''market_id'', Text),
    (''supply_amount'', Numeric), (''supply_amount_usd'', Numeric), (''timestamp'', Timestamp),
    (''borrow_amount'', Numeric), (''borrow_amount_usd'', Numeric), (''collateral_amount'', Numeric),
    (''collateral_amount_usd'', Numeric)])"

definition lending_stats_snapshots_table :: sql_table where
  "lending_stats_snapshots_table = (''id'', [(''id'', Int4), (''total_supply_usd'', Numeric),
    (''total_borrow_usd'', Numeric), (''total_collateral_usd'', Numeric), (''tvl_usd'', Numeric),
    (''apy_30d_avg'', Numeric), (''snapshot_timestamp'', Timestamp), (''created_at'', Timestamp)])"

definition linx_transactions_table :: sql_table where
  "linx_transactions_table = (''id'', [(''id'', Int8), (''tx_id'', Text), (''user_address'', Text),
    (''created_at'', Timestamp)])"

definition loan_actions_table :: sql_table where
  "loan_actions_table = (''id'', [(''id'', Int4), (''loan_subcontract_id'', Varchar None),
    (''loan_id'', Nullable Numeric), (''by'', Varchar None), (''timestamp'', Timestamp),
    (''action_type'', Int2)])"

definition loan_details_table :: sql_table where
  "loan_details_table = (''id'', [(''id'', Int4), (''loan_subcontract_id'', Varchar None),
    (''lending_token_id'', Varchar None), (''collateral_token_id'', Varchar None),
    (''lending_amount'', Numeric), (''collateral_amount'', Numeric), (''interest_rate'', Numeric),
    (''duration'', Numeric), (''lender'', Varchar None)])"

definition market_state_snapshots_table :: sql_table where
  "market_state_snapshots_table = (''id'', [(''id'', Int4), (''market_id'', Text), (''total_supply_assets'', Numeric),
    (''total_supply_shares'', Numeric), (''total_borrow_assets'', Numeric), (''total_borrow_shares'', Numeric),
    (''snapshot_timestamp'', Timestamp), (''total_collateral_assets'', Numeric),
    (''total_supply_usd'', Numeric), (''total_borrow_usd'', Numeric), (''total_collateral_usd'', Numeric),
    (''borrow_apy'', Numeric), (''fee'', Numeric), (''cumulative_supply_volume_usd'', Numeric),
    (''cumulative_borrow_volume_usd'', Numeric), (''bad_debt_usd'', Numeric)])"

definition points_config_table :: sql_table where
  "points_config_table = (''id'', [(''id'', Int4), (''action_type'', Text), (''points_per_usd'', Nullable Numeric),
    (''points_per_usd_per_day'', Nullable Numeric), (''is_active'', Bool), (''created_at'', Timestamp),
    (''updated_at'', Timestamp)])"

definition points_multipliers_table :: sql_table where
  "points_multipliers_table = (''id'', [(''id'', Int4), (''multiplier_type'', Text), (''threshold_value'', Numeric),
    (''multiplier'', Numeric), (''is_active'', Bool), (''created_at'', Timestamp)])"

definition points_seasons_table :: sql_table where
  "points_seasons_table = (''id'', [(''id'', Int4), (''season_number'', Int4), (''start_date'', Date),
    (''end_date'', Date), (''max_tokens_distribution'', Numeric), (''is_active'', Bool),
    (''created_at'', Timestamp), (''tokens_allocation'', Numeric)])"

definition points_snapshots_table :: sql_table where
  "points_snapshots_table = (''id'', [(''id'', Int4), (''address'', Text), (''snapshot_date'', Date),
    (''swap_points'', Int4), (''supply_points'', Int4), (''borrow_points'', Int4),
    (''base_points_total'', Int4), (''multiplier_type'', Nullable Text), (''multiplier_value'', Numeric),
    (''multiplier_points'', Int4), (''referral_points'', Int4), (''total_points'', Int4),
    (''total_volume_usd'', Numeric), (''created_at'', Timestamp), (''season_id'', Int4)])"

definition pools_table :: sql_table where
  "pools_table = (''id'', [(''id'', Int8), (''address'', Text), (''token_a'', Text), (''token_b'', Text),
    (''factory_address'', Text)])"

definition processor_status_table :: sql_table where
  "processor_status_table = (''processor'', [(''processor'', Varchar (Some 50)), (''last_timestamp'', Int8)])"

definition referral_codes_table :: sql_table where
  "referral_codes_table = (''id'', [(''id'', Int4), (''code'', Text), (''owner_address'', Text),
    (''created_at'', Timestamp)])"

definition transactions_table :: sql_table where
  "transactions_table = (''tx_hash'', [(''tx_hash'', Text), (''unsigned'', Jsonb), (''script_execution_ok'', Bool),
    (''contract_inputs'', Jsonb), (''generated_outputs'', Jsonb),
    (''input_signatures'', ArrayOf (Nullable Text)), (''script_signatures'', ArrayOf (Nullable Text)),
    (''created_at'', Nullable Timestamptz), (''updated_at'', Nullable Timestamptz), (''main_chain'', Bool),
    (''block_hash'', Nullable Text)])"

definition user_referrals_table :: sql_table where
  "user_referrals_table = (''id'', [(''id'', Int4), (''user_address'', Text), (''referred_by_address'', Text),
    (''created_at'', Timestamp)])"

definition app_schema :: "(string \<times> sql_table) list" where
  "app_schema = [(''account_transactions'', account_transactions_table), (''blocks'', blocks_table),
    (''events'', events_table), (''lending_events'', lending_events_table),
    (''lending_markets'', lending_markets_table),
    (''lending_position_snapshots'', lending_position_snapshots_table),
    (''lending_stats_snapshots'', lending_stats_snapshots_table),
    (''linx_transactions'', linx_transactions_table), (''loan_actions'', loan_actions_table),
    (''loan_details'', loan_details_table), (''market_state_snapshots'', market_state_snapshots_table),
    (''points_config'', points_config_table), (''points_multipliers'', points_multipliers_table),
    (''points_seasons'', points_seasons_table), (''points_snapshots'', points_snapshots_table),
    (''pools'', pools_table), (''processor_status'', processor_status_table),
    (''referral_codes'', referral_codes_table), (''transactions'', transactions_table),
    (''user_referrals'', user_referrals_table)]"

text \<open>The tables that \<^verbatim>\<open>bento-types\<close> declares for itself are the same.\<close>

definition core_schema :: "(string \<times> sql_table) list" where
  "core_schema = [(''blocks'', blocks_table),
    (''events'', events_table),
    (''loan_actions'', loan_actions_table),
    (''loan_details'', loan_details_table),
    (''processor_status'', processor_status_table),
    (''transactions'', transactions_table)]"

section \<open>What the insertable structures write\<close>

text \<open>The columns that the database fills itself, such as identifiers and creation times, are not among them.\<close>

definition account_transaction_row :: "new_account_transaction \<Rightarrow> sql_row" where
  "account_transaction_row r = [(''address'', VText (nat_address r)), (''tx_type'', VText (nat_tx_type r)),
    (''tx_id'', VText (nat_tx_id r)), (''from_group'', VInt (nat_from_group r)),
    (''to_group'', VInt (nat_to_group r)), (''block_height'', VInt (nat_block_height r)),
    (''timestamp'', VTimestamp (nat_timestamp r)), (''details'', VJson)]"

definition block_row :: "block_model \<Rightarrow> sql_row" where
  "block_row r = [(''hash'', VText (bm_hash r)), (''timestamp'', VTimestamp (bm_timestamp r)),
    (''chain_from'', VInt (bm_chain_from r)), (''chain_to'', VInt (bm_chain_to r)),
    (''height'', VInt (bm_height r)), (''deps'', VArray (List.map (nullable VText) (bm_deps r))),
    (''nonce'', VText (bm_nonce r)), (''version'', VText (bm_version r)),
    (''dep_state_hash'', VText (bm_dep_state_hash r)), (''txs_hash'', VText (bm_txs_hash r)),
    (''tx_number'', VInt (bm_tx_number r)), (''target'', VText (bm_target r)),
    (''main_chain'', VBool (bm_main_chain r)), (''ghost_uncles'', VJson)]"

definition event_row :: "event_model \<Rightarrow> sql_row" where
  "event_row r = [(''id'', VText (evm_id r)), (''tx_id'', VText (evm_tx_id r)),
    (''contract_address'', VText (evm_contract_address r)),
    (''event_index'', VInt (evm_event_index r)), (''fields'', VJson)]"

definition transaction_row :: "transaction_model \<Rightarrow> sql_row" where
  "transaction_row r = [(''tx_hash'', VText (tm_tx_hash r)), (''unsigned'', VJson),
    (''script_execution_ok'', VBool (tm_script_execution_ok r)), (''contract_inputs'', VJson),
    (''generated_outputs'', VJson),
    (''input_signatures'', VArray (List.map (nullable VText) (tm_input_signatures r))),
    (''script_signatures'', VArray (List.map (nullable VText) (tm_script_signatures r))),
    (''block_hash'', nullable VText (tm_block_hash r))]"

definition market_row :: "market \<Rightarrow> sql_row" where
  "market_row r = [(''id'', VText (mkt_id r)), (''market_contract_id'', VText (mkt_market_contract_id r)),
    (''collateral_token'', VText (mkt_collateral_token r)), (''loan_token'', VText (mkt_loan_token r)),
    (''oracle'', VText (mkt_oracle r)), (''irm'', VText (mkt_irm r)), (''ltv'', VNumeric (mkt_ltv r)),
    (''created_at'', VTimestamp (mkt_created_at r))]"

definition lending_event_row :: "new_lending_event \<Rightarrow> sql_row" where
  "lending_event_row r = [(''market_id'', VText (le_market_id r)), (''event_type'', VText (le_event_type r)),
    (''token_id'', VText (le_token_id r)), (''on_behalf'', VText (le_on_behalf r)),
    (''amount'', VNumeric (le_amount r)), (''shares'', VNumeric (le_shares r)),
    (''transaction_id'', VText (le_transaction_id r)), (''event_index'', VInt (le_event_index r)),
    (''block_time'', VTimestamp (le_block_time r)), (''created_at'', VTimestamp (le_created_at r)),
    (''fields'', VJson)]"

definition position_row :: "new_position_snapshot \<Rightarrow> sql_row" where
  "position_row r = [(''address'', VText (pos_address r)), (''market_id'', VText (pos_market_id r)),
    (''supply_amount'', VNumeric (pos_supply_amount r)),
    (''supply_amount_usd'', VNumeric (pos_supply_amount_usd r)),
    (''timestamp'', VTimestamp (pos_timestamp r)), (''borrow_amount'', VNumeric (pos_borrow_amount r)),
    (''borrow_amount_usd'', VNumeric (pos_borrow_amount_usd r)),
    (''collateral_amount'', VNumeric (pos_collateral_amount r)),
    (''collateral_amount_usd'', VNumeric (pos_collateral_amount_usd r))]"

definition market_state_row :: "new_market_state_snapshot \<Rightarrow> sql_row" where
  "market_state_row r = [(''market_id'', VText (mss_market_id r)),
    (''total_supply_assets'', VNumeric (mss_total_supply_assets r)),
    (''total_supply_shares'', VNumeric (mss_total_supply_shares r)),
    (''total_borrow_assets'', VNumeric (mss_total_borrow_assets r)),
    (''total_borrow_shares'', VNumeric (mss_total_borrow_shares r)),
    (''snapshot_timestamp'', VTimestamp (mss_snapshot_timestamp r)),
    (''total_collateral_assets'', VNumeric (mss_total_collateral_assets r)),
    (''total_supply_usd'', VNumeric (mss_total_supply_usd r)),
    (''total_borrow_usd'', VNumeric (mss_total_borrow_usd r)),
    (''total_collateral_usd'', VNumeric (mss_total_collateral_usd r)),
    (''borrow_apy'', VNumeric (mss_borrow_apy r)), (''fee'', VNumeric (mss_fee r)),
    (''cumulative_supply_volume_usd'', VNumeric (mss_cumulative_supply_volume_usd r)),
    (''cumulative_borrow_volume_usd'', VNumeric (mss_cumulative_borrow_volume_usd r)),
    (''bad_debt_usd'', VNumeric (mss_bad_debt_usd r))]"

definition lending_stats_row :: "new_lending_stats_snapshot \<Rightarrow> sql_row" where
  "lending_stats_row r = [(''total_supply_usd'', VNumeric (lss_total_supply_usd r)),
    (''total_borrow_usd'', VNumeric (lss_total_borrow_usd r)),
    (''total_collateral_usd'', VNumeric (lss_total_collateral_usd r)),
    (''tvl_usd'', VNumeric (lss_tvl_usd r)), (''apy_30d_avg'', VNumeric (lss_apy_30d_avg r)),
    (''snapshot_timestamp'', VTimestamp (lss_snapshot_timestamp r))]"

definition pool_row :: "new_pool_dto \<Rightarrow> sql_row" where
  "pool_row r = [(''token_a'', VText (npd_token_a r)), (''token_b'', VText (npd_token_b r)),
    (''factory_address'', VText (npd_factory_address r)), (''address'', VText (npd_address r))]"

definition linx_transaction_row :: "new_linx_transaction \<Rightarrow> sql_row" where
  "linx_transaction_row r = [(''tx_id'', VText (nlt_tx_id r)), (''user_address'', VText (nlt_user_address r))]"

definition points_config_row :: "new_points_config \<Rightarrow> sql_row" where
  "points_config_row r = [(''action_type'', VText (npc_action_type r)),
    (''points_per_usd'', nullable VNumeric (npc_points_per_usd r)),
    (''points_per_usd_per_day'', nullable VNumeric (npc_points_per_usd_per_day r)),
    (''is_active'', VBool (npc_is_active r))]"

definition points_multiplier_row :: "new_points_multiplier \<Rightarrow> sql_row" where
  "points_multiplier_row r = [(''multiplier_type'', VText (npm_multiplier_type r)),
    (''threshold_value'', VNumeric (npm_threshold_value r)),
    (''multiplier'', VNumeric (npm_multiplier r)), (''is_active'', VBool (npm_is_active r))]"

definition season_row :: "new_season \<Rightarrow> sql_row" where
  "season_row r = [(''season_number'', VInt (nse_season_number r)), (''start_date'', VDate (nse_start_date r)),
    (''end_date'', VDate (nse_end_date r)),
    (''max_tokens_distribution'', VNumeric (nse_max_tokens_distribution r)),
    (''is_active'', VBool (nse_is_active r)),
    (''tokens_allocation'', VNumeric (nse_tokens_allocation r))]"

definition referral_code_row :: "new_referral_code \<Rightarrow> sql_row" where
  "referral_code_row r = [(''code'', VText (nrc_code r)), (''owner_address'', VText (nrc_owner_address r))]"

definition user_referral_row :: "new_user_referral \<Rightarrow> sql_row" where
  "user_referral_row r = [(''user_address'', VText (nur_user_address r)),
    (''referred_by_address'', VText (nur_referred_by_address r))]"

definition snapshot_row :: "new_points_snapshot \<Rightarrow> sql_row" where
  "snapshot_row r = [(''address'', VText (nps_address r)), (''snapshot_date'', VDate (nps_snapshot_date r)),
    (''swap_points'', VInt (nps_swap_points r)), (''supply_points'', VInt (nps_supply_points r)),
    (''borrow_points'', VInt (nps_borrow_points r)),
    (''base_points_total'', VInt (nps_base_points_total r)),
    (''multiplier_type'', nullable VText (nps_multiplier_type r)),
    (''multiplier_value'', VNumeric (nps_multiplier_value r)),
    (''multiplier_points'', VInt (nps_multiplier_points r)),
    (''referral_points'', VInt (nps_referral_points r)), (''total_points'', VInt (nps_total_points r)),
    (''total_volume_usd'', VNumeric (nps_total_volume_usd r)), (''season_id'', VInt (nps_season_id r))]"

section \<open>Computing whether a row fits\<close>

lemma fits_Cons:
  "fits T ((c, v) # r) \<longleftrightarrow> (case column_type (snd T) c of None \<Rightarrow> False | Some t \<Rightarrow> has_type t v) \<and> fits T r"
  "fits T [] \<longleftrightarrow> True"
  by (simp_all add: fits_def)

lemma nullable_fits:
  "nullable VText x = VNull \<or> has_type Text (nullable VText x) \<longleftrightarrow> True"
  "nullable VNumeric y = VNull \<or> has_type Numeric (nullable VNumeric y) \<longleftrightarrow> True"
  by (simp_all add: nullable_def split: option.split)

lemma texts_fit: "list_all (has_type (Nullable Text)) (List.map (nullable VText) xs) \<longleftrightarrow> True"
  by (simp add: list_all_iff nullable_def split: option.split)

text \<open>First the columns are looked up; then the literals are compared.\<close>

lemmas fits_unfold = fits_Cons snd_conv column_type.simps

lemmas fits_simps = list.inject char.inject simp_thms if_True if_False list.distinct option.case has_type.simps
  nullable_fits texts_fit

end
