(* ===== verification/Schema_Laws.thy ===== *)
theory Schema_Laws
  imports Schema Points_Daily_Laws Deployment_Laws
begin

text \<open>
  Types of stored values: what the daily points calculation and the processors of the indexer write fits the columns
  of the schema. Identifiers come from the database's own sequences and are not part of it.
\<close>

section \<open>A property of every row of a table\<close>

definition all_rows :: "('r \<Rightarrow> bool) \<Rightarrow> 'r table \<Rightarrow> bool" where
  "all_rows Q T \<longleftrightarrow> list_all Q (t_rows T)"

named_theorems rows_intros

lemma all_rows_empty [rows_intros]: "all_rows Q empty_table"
  by (simp add: all_rows_def empty_table_def)

lemma all_rows_append [rows_intros]: "all_rows Q T \<Longrightarrow> (\<And>i. Q (mk i n)) \<Longrightarrow> all_rows Q (append_row mk n T)"
  by (simp add: all_rows_def append_row_def)

lemma all_rows_skip [rows_intros]: "all_rows Q T \<Longrightarrow> all_rows Q (skip_row T)"
  by (simp add: all_rows_def skip_row_def)

lemma all_rows_ignore [rows_intros]:
  "all_rows Q T \<Longrightarrow> (\<And>n i. n \<in> set ns \<Longrightarrow> Q (mk i n)) \<Longrightarrow> all_rows Q (insert_ignore kn kr mk ns T)"
  unfolding insert_ignore_def
  by (induction ns arbitrary: T) (simp_all add: insert_ignore1_def rows_intros)

lemma all_rows_unique [rows_intros]:
  "all_rows Q T \<Longrightarrow> (\<And>i. Q (mk i n)) \<Longrightarrow> all_rows Q (snd (insert_unique kn kr mk n T))"
  by (simp add: insert_unique_def rows_intros)

lemma all_rows_map [rows_intros]:
  "all_rows Q T \<Longrightarrow> (\<And>r. Q r \<Longrightarrow> Q (f r)) \<Longrightarrow> all_rows Q (T\<lparr>t_rows := List.map f (t_rows T)\<rparr>)"
  by (simp add: all_rows_def list_all_iff)

lemma all_rows_upsert [rows_intros]:
  assumes "all_rows Q T" "\<And>n i. n \<in> set ns \<Longrightarrow> Q (mk i n)" "\<And>n r. n \<in> set ns \<Longrightarrow> Q r \<Longrightarrow> Q (upd n r)"
  shows "all_rows Q (snd (upsert kn kr mk upd ns T))"
proof -
  have "all_rows Q (fold (upsert1 kn kr mk upd) ns T)"
    using assms
    by (induction ns arbitrary: T) (simp_all add: upsert1_def rows_intros all_rows_map [OF all_rows_skip, simplified])
  with assms(1) show ?thesis
    by (simp add: upsert_def)
qed

section \<open>Points\<close>

definition snapshot_fits :: "new_points_snapshot \<Rightarrow> bool" where
  "snapshot_fits n \<longleftrightarrow> fits points_snapshots_table (snapshot_row n)"

lemma snapshot_fits_iff: "snapshot_fits n \<longleftrightarrow> in_i32 (nps_swap_points n) \<and> in_i32 (nps_supply_points n) \<and>
    in_i32 (nps_borrow_points n) \<and> in_i32 (nps_base_points_total n) \<and> in_i32 (nps_multiplier_points n) \<and>
    in_i32 (nps_referral_points n) \<and> in_i32 (nps_total_points n) \<and> in_i32 (nps_season_id n)"
  unfolding snapshot_fits_def snapshot_row_def fits_Cons points_snapshots_table_def snd_conv
  by (simp only: column_type.simps) (simp only: fits_simps)

text \<open>The snapshots fit, and so do the numbers of the seasons that they refer to.\<close>

definition points_typed :: "points_db \<Rightarrow> bool" where
  "points_typed db \<longleftrightarrow> all_rows (\<lambda>s. snapshot_fits (ps_row s)) (pd_snapshots db) \<and> all_rows (\<lambda>s. in_i32 (se_id s)) (pd_seasons db)"

definition activity_fits :: "user_daily_activity \<Rightarrow> bool" where
  "activity_fits u \<longleftrightarrow> in_i32 (uda_swap_points u) \<and> in_i32 (uda_supply_points u) \<and> in_i32 (uda_borrow_points u) \<and>
    in_i32 (uda_base_points_total u) \<and> in_i32 (uda_referral_points u)"

lemma new_activity_fits: "activity_fits (new_activity a)"
  by (simp add: activity_fits_def new_activity_def in_i32_def)

definition activities_fit :: "activities \<Rightarrow> bool" where
  "activities_fit acts \<longleftrightarrow> (\<forall>u\<in>snd ` set acts. activity_fits u)"

lemma activities_fit_Nil: "activities_fit []"
  by (simp add: activities_fit_def)

lemma activities_fit_entry:
  "activities_fit acts \<Longrightarrow> (\<And>u. activity_fits u \<Longrightarrow> activity_fits (f u)) \<Longrightarrow> activities_fit (hm_entry a (new_activity a) f acts)"
  unfolding activities_fit_def by (rule hm_entry_values) (simp_all add: new_activity_fits)

lemma activities_fit_values_mut:
  "activities_fit acts \<Longrightarrow> (\<And>u. activity_fits u \<Longrightarrow> activity_fits (f u)) \<Longrightarrow> activities_fit (hm_values_mut f acts)"
  unfolding activities_fit_def by (rule hm_values_mut_values)

lemma set_swap_points_fit: "activities_fit acts \<Longrightarrow> activities_fit (set_swap_points D ppu av acts)"
  unfolding set_swap_points_def by (cases av) (auto intro: activities_fit_entry simp: activity_fits_def)

lemma user_lending_fits: "activity_fits u \<Longrightarrow> activity_fits (user_lending D day_end sr br snaps u)"
  by (simp add: user_lending_def activity_fits_def Let_def)

lemma add_user_lending_fit: "activities_fit acts \<Longrightarrow> activities_fit (add_user_lending D day_end sr br us acts)"
  unfolding add_user_lending_def Let_def
  by (cases us) (auto intro: activities_fit_entry user_lending_fits)

lemma finalize_fits: "activity_fits u \<Longrightarrow> activity_fits (finalize u)"
  by (simp add: finalize_def activity_fits_def)

lemma multiply_points_fits: "activity_fits u \<Longrightarrow> activity_fits (multiply_points D ms u)"
  by (simp add: multiply_points_def activity_fits_def Let_def split: option.split)

lemma add_referrer_fit: "activities_fit acts \<Longrightarrow> activities_fit (add_referrer D pct rs acts)"
  unfolding add_referrer_def Let_def
  by (cases rs) (auto intro!: activities_fit_entry simp: activity_fits_def)

lemma fold_keeps: "Q s \<Longrightarrow> (\<And>x s. Q s \<Longrightarrow> Q (f x s)) \<Longrightarrow> Q (fold f xs s)"
  by (induction xs arbitrary: s) simp_all

lemma swap_points_fit:
  "calculate_swap_points E date config acts = Inr acts' \<Longrightarrow> activities_fit acts \<Longrightarrow> activities_fit acts'"
  unfolding calculate_swap_points_def
  by (auto simp: res_simps split: option.splits intro!: fold_keeps [where Q = activities_fit] set_swap_points_fit)

lemma lending_points_fit:
  "calculate_lending_points E date config acts = Inr acts' \<Longrightarrow> activities_fit acts \<Longrightarrow> activities_fit acts'"
  unfolding calculate_lending_points_def
  by (auto simp: res_simps Let_def split: option.splits intro!: fold_keeps [where Q = activities_fit] add_user_lending_fit)

lemma day_activities_fit:
  assumes "day_activities E date db = Inr acts"
  shows "activities_fit acts"
proof -
  obtain acts1 acts2 pct where c: "calculate_swap_points E date (load_points_config db) [] = Inr acts1"
      "calculate_lending_points E date (load_points_config db) acts1 = Inr acts2"
      "acts = fold (add_referrer (cd_dec E) pct) (group_by ur_referred_by_address (get_all_user_referrals db))
        (apply_multipliers (cd_dec E) (get_multipliers_by_type ''volume'' db) (hm_values_mut finalize acts2))"
    using assms by (auto simp: day_activities_def calculate_referral_points_def Let_def res_simps)
  have "activities_fit acts2"
    using swap_points_fit [OF c(1) activities_fit_Nil] lending_points_fit [OF c(2)] by simp
  then have "activities_fit (hm_values_mut finalize acts2)"
    by (rule activities_fit_values_mut) (rule finalize_fits)
  then have "activities_fit (apply_multipliers (cd_dec E) (get_multipliers_by_type ''volume'' db) (hm_values_mut finalize acts2))"
    unfolding apply_multipliers_def by (rule activities_fit_values_mut) (rule multiply_points_fits)
  then show ?thesis
    unfolding c(3) by (rule fold_keeps) (rule add_referrer_fit)
qed

lemma activity_snapshot_fits:
  "activity_fits u \<Longrightarrow> in_i32 season \<Longrightarrow> snapshot_fits (activity_snapshot db previous date season u)"
  by (simp add: activity_snapshot_def snapshot_fits_iff activity_fits_def Let_def) (simp add: in_i32_def)

lemma carried_snapshot_fits: "snapshot_fits (ps_row prev) \<Longrightarrow> in_i32 season \<Longrightarrow> snapshot_fits (carried_snapshot date season prev)"
  by (simp add: carried_snapshot_def snapshot_fits_iff) (simp add: in_i32_def)

lemma day_snapshots_fit:
  assumes "points_typed db" "activities_fit acts" "in_i32 season" "n \<in> set (day_snapshots db previous date season acts)"
  shows "snapshot_fits n"
  using assms
  by (auto simp: day_snapshots_def points_typed_def all_rows_def list_all_iff activities_fit_def get_snapshots_by_date_def
      intro!: activity_snapshot_fits carried_snapshot_fits)

lemma active_season_typed: "points_typed db \<Longrightarrow> get_active_season db = Some se \<Longrightarrow> in_i32 (se_id se)"
  by (auto simp: points_typed_def all_rows_def list_all_iff get_active_season_def dest!: first_of_in)

lemma points_typed_snapshots:
  "points_typed db \<Longrightarrow> all_rows (\<lambda>s. snapshot_fits (ps_row s)) T \<Longrightarrow> points_typed (db\<lparr>pd_snapshots := T\<rparr>)"
  by (simp add: points_typed_def)

lemma insert_snapshots_typed:
  assumes "points_typed db" "\<And>n. n \<in> set snaps \<Longrightarrow> snapshot_fits n"
  shows "points_typed (snd (insert_snapshots now snaps db))"
proof -
  have "all_rows (\<lambda>s. snapshot_fits (ps_row s)) (snd (upsert snap_key row_key (mk_snapshot now) excluded snaps (pd_snapshots db)))"
  proof (rule all_rows_upsert)
    show "all_rows (\<lambda>s. snapshot_fits (ps_row s)) (pd_snapshots db)"
      using assms(1) by (simp add: points_typed_def)
  qed (use assms(2) in \<open>simp_all add: mk_snapshot_def excluded_def snapshot_fits_iff\<close>)
  with assms(1) show ?thesis
    by (auto simp: insert_snapshots_def points_typed_snapshots split: prod.split)
qed

lemma calculate_day_typed:
  assumes "points_typed db"
  shows "points_typed (snd (calculate_points_for_date E now date db))"
proof (cases "get_active_season db")
  case (Some se)
  then have "in_i32 (se_id se)"
    by (rule active_season_typed [OF assms])
  then have "points_typed (snd (store_snapshots E now date (se_id se) acts db))" if "activities_fit acts" for acts
    using assms that
    by (auto simp: store_snapshots_def intro!: insert_snapshots_typed day_snapshots_fit split: option.split)
  with Some assms show ?thesis
    by (auto simp: calculate_points_for_date_def dest: day_activities_fit split: sum.split)
qed (simp add: calculate_points_for_date_def assms)

lemma calculate_range_typed: "points_typed db \<Longrightarrow> points_typed (snd (calculate_points_for_range E now d e db))"
proof (induction E now d e db rule: calculate_points_for_range.induct)
  case (1 E now d e db)
  show ?case
  proof (cases "d \<le> e")
    case True
    obtain r db1 where day: "calculate_points_for_date E now d db = (r, db1)"
      by (cases "calculate_points_for_date E now d db")
    then have "points_typed db1"
      using calculate_day_typed [OF 1(2), of E now d] by simp
    with True day show ?thesis
      using 1(1) by (auto simp: calculate_points_for_range.simps [of E now d e db] split: sum.split option.split)
  qed (simp add: calculate_points_for_range.simps 1(2))
qed

lemma award_bonus_typed:
  assumes "points_typed db" "in_i32 bonus" "in_i32 season"
  shows "points_typed (snd (award_bonus_points now user bonus season db))"
proof (cases "get_latest_snapshot user season db")
  case None
  have "snapshot_fits (bonus_snapshot user bonus season d)" for d
    using assms(2,3) by (simp add: bonus_snapshot_def snapshot_fits_iff) (simp add: in_i32_def)
  then have "all_rows (\<lambda>s. snapshot_fits (ps_row s)) (snd (insert_unique snap_key row_key (mk_snapshot now)
      (bonus_snapshot user bonus season (date_of now - 1)) (pd_snapshots db)))"
    using assms(1) by (intro all_rows_unique) (simp_all add: points_typed_def mk_snapshot_def)
  with None assms(1) show ?thesis
    by (auto simp: award_bonus_points_def points_typed_snapshots split: prod.split sum.split)
next
  case (Some s)
  then show ?thesis
    using assms(1)
    by (auto simp: award_bonus_points_def Let_def points_typed_def snapshot_fits_iff add_bonus_def all_rows_def list_all_iff)
qed

text \<open>C19: The points tables stay well typed: when every stored snapshot fits the 32-bit columns of the schema, it does so
  after a calculation of one day or of a range of days, however it ends, and after any award of a 32-bit bonus. Prices,
  volumes and rates cannot drive a column out of its type.\<close>
theorem points_stay_typed:
  assumes "points_typed db"
  shows "points_typed (snd (calculate_points_for_date E now date db)) \<and>
    points_typed (snd (calculate_points_for_range E now date end_date db)) \<and>
    (in_i32 bonus \<and> in_i32 season \<longrightarrow> points_typed (snd (award_bonus_points now user bonus season db)))"
  using assms by (simp add: calculate_day_typed calculate_range_typed award_bonus_typed)

theorem points_stay_typed_witness:
  "points_typed example_db \<and> points_typed (snd (calculate_points_for_date example_deps 0 5 example_db)) \<and>
    points_typed (snd (award_bonus_points 0 ''u'' 500 1 example_db))"
proof -
  have "points_typed example_db"
    by (simp add: points_typed_def all_rows_def example_db_def empty_points_db_def mk_season_def empty_table_def append_row_def
        in_i32_def)
  then show ?thesis
    using points_stay_typed [of example_db example_deps 0 5 5 500 1 "''u''"] by (simp add: in_i32_def)
qed

section \<open>The indexer's tables\<close>

lemma block_fits_iff: "fits blocks_table (block_row b) \<longleftrightarrow>
    in_i64 (bm_chain_from b) \<and> in_i64 (bm_chain_to b) \<and> in_i64 (bm_height b) \<and> in_i64 (bm_tx_number b)"
  unfolding block_row_def fits_Cons blocks_table_def snd_conv
  by (simp only: column_type.simps) (simp only: fits_simps)

lemma event_fits_iff: "fits events_table (event_row e) \<longleftrightarrow> in_i32 (evm_event_index e)"
  unfolding event_row_def fits_Cons events_table_def snd_conv
  by (simp only: column_type.simps) (simp only: fits_simps)

lemma transaction_fits: "fits transactions_table (transaction_row t)"
  unfolding transaction_row_def fits_Cons transactions_table_def snd_conv
  by (simp only: column_type.simps) (simp only: fits_simps)

lemma account_transaction_fits_iff: "fits account_transactions_table (account_transaction_row t) \<longleftrightarrow>
    (- 32768 \<le> nat_from_group t \<and> nat_from_group t < 32768) \<and> (- 32768 \<le> nat_to_group t \<and> nat_to_group t < 32768) \<and>
    in_i64 (nat_block_height t)"
  unfolding account_transaction_row_def fits_Cons account_transactions_table_def snd_conv
  by (simp only: column_type.simps) (simp only: fits_simps)

lemma lending_event_fits_iff: "fits lending_events_table (lending_event_row e) \<longleftrightarrow> in_i32 (le_event_index e)"
  unfolding lending_event_row_def fits_Cons lending_events_table_def snd_conv
  by (simp only: column_type.simps) (simp only: fits_simps)

definition app_typed :: "'z lending_db_scheme \<Rightarrow> bool" where
  "app_typed db \<longleftrightarrow> all_rows (\<lambda>b. fits blocks_table (block_row b)) (db_blocks db) \<and>
    all_rows (\<lambda>e. fits events_table (event_row e)) (db_events db) \<and>
    all_rows (\<lambda>t. fits transactions_table (transaction_row (txr_model t))) (db_txs db) \<and>
    all_rows (\<lambda>t. fits account_transactions_table (account_transaction_row (at_row t))) (ad_account_txs db) \<and>
    all_rows (\<lambda>e. fits lending_events_table (lending_event_row (lev_row e))) (ld_events db)"

text \<open>The numbers of a decoded block: the decoder of the node's answer only yields values of these ranges.\<close>

definition node_typed :: "block_and_events \<Rightarrow> bool" where
  "node_typed b \<longleftrightarrow> in_i64 (rb_chain_from (bae_block b)) \<and> in_i64 (rb_chain_to (bae_block b)) \<and>
    in_i64 (rb_height (bae_block b)) \<and> in_i64 (int (length (rb_transactions (bae_block b)))) \<and>
    (\<forall>e\<in>set (bae_events b). in_i32 (ce_event_index e))"

text \<open>What a processor makes of typed blocks is an output that keeps the tables typed when it is stored.\<close>

locale typed_processor =
  fixes P :: "('o, 'db) processor" and typed :: "'db \<Rightarrow> bool"
  assumes process_store: "\<forall>b\<in>set bs. node_typed b \<Longrightarrow> pr_process_blocks P bs db0 = Inr out \<Longrightarrow> typed db \<Longrightarrow>
    typed (snd (pr_store_output P out db))"
begin

lemma pipeline_seq_typed:
  "\<forall>batch\<in>set batches. \<forall>b\<in>set (batch_blocks batch). node_typed b \<Longrightarrow> typed db \<Longrightarrow> typed (snd (pipeline_seq P batches db))"
proof (induction batches arbitrary: db)
  case (Cons b bs)
  show ?case
  proof (cases "pr_process_blocks P (batch_blocks b) db")
    case (Inr out)
    obtain r db1 where s: "pr_store_output P out db = (r, db1)"
      by (cases "pr_store_output P out db")
    then have "typed db1"
      using process_store [OF _ Inr Cons.prems(2)] Cons.prems(1) by simp
    then show ?thesis
      using Inr s Cons.IH [of db1] Cons.prems(1) by (cases r) auto
  qed (simp add: Cons.prems(2))
qed simp

lemma pipeline_run_typed:
  assumes "\<forall>batch\<in>set batches. \<forall>b\<in>set (batch_blocks batch). node_typed b" "typed db"
    and "pipeline_run P batches db = Some (r, db')"
  shows "typed db'"
  using pipeline_seq_typed [OF assms(1,2)] assms(3) by (auto simp: pipeline_run_def split: if_splits prod.splits)

end

lemma account_txs_typed:
  fixes db :: "'z lending_db_scheme"
  assumes "app_typed db" "\<And>t. t \<in> set ts \<Longrightarrow> fits account_transactions_table (account_transaction_row t)"
  shows "app_typed (snd (store_account_txs ts db))"
  using assms by (auto simp: app_typed_def store_account_txs_def insert_transactions_def mk_account_tx_def intro!: all_rows_ignore)

lemma account_record_fits:
  "in_i64 (rb_height block) \<Longrightarrow> fits account_transactions_table (account_transaction_row (account_record L block ty txid d a))"
  by (simp add: account_transaction_fits_iff account_record_def wrap_i16_range)

interpretation block_typed: typed_processor "block_processor L" "app_typed :: 'z lending_db_scheme \<Rightarrow> bool" for L
proof unfold_locales
  fix bs out and db0 db :: "'z lending_db_scheme"
  assume "\<forall>b\<in>set bs. node_typed b" "pr_process_blocks (block_processor L) bs db0 = Inr out" "app_typed db"
  then show "app_typed (snd (pr_store_output (block_processor L) out db))"
    by (auto simp: block_processor_def insert_blocks_to_db_def app_typed_def convert_bwe_to_block_models_def row_as_is_def
        block_fits_iff block_model_of_def node_typed_def intro!: all_rows_ignore)
qed

interpretation event_typed: typed_processor "event_processor uuid" "app_typed :: 'z lending_db_scheme \<Rightarrow> bool" for uuid
proof unfold_locales
  fix bs out and db0 db :: "'z lending_db_scheme"
  assume "\<forall>b\<in>set bs. node_typed b" "pr_process_blocks (event_processor uuid) bs db0 = Inr out" "app_typed db"
  then show "app_typed (snd (pr_store_output (event_processor uuid) out db))"
    by (auto simp: event_processor_def insert_events_to_db_def app_typed_def convert_bwe_to_event_models_def row_as_is_def
        event_fits_iff event_model_of_def node_typed_def Let_def intro!: all_rows_ignore dest!: set_zip_rightD)
qed

interpretation tx_typed: typed_processor tx_processor "app_typed :: 'z lending_db_scheme \<Rightarrow> bool"
  by unfold_locales (auto simp: tx_processor_def insert_txs_to_db_def app_typed_def transaction_fits intro!: all_rows_ignore)

abbreviation acct_fits :: "new_account_transaction \<Rightarrow> bool" where
  "acct_fits t \<equiv> fits account_transactions_table (account_transaction_row t)"

lemma transfers_fit:
  assumes "in_i64 (rb_height block)" "t \<in> set (extract_token_transfers L pd gas block x)"
  shows "fits account_transactions_table (account_transaction_row t)"
  using assms
  by (auto simp: extract_token_transfers_def transfers_to_def account_record_fits split: if_splits option.splits)

interpretation transfer_typed: typed_processor "transfer_processor L pd gas" "app_typed :: 'z lending_db_scheme \<Rightarrow> bool" for L pd gas
proof unfold_locales
  fix bs out and db0 db :: "'z lending_db_scheme"
  assume "\<forall>b\<in>set bs. node_typed b" "pr_process_blocks (transfer_processor L pd gas) bs db0 = Inr out" "app_typed db"
  then have "out = CustomOut (TransferOutput ts) \<Longrightarrow> t \<in> set ts \<Longrightarrow> acct_fits t" for ts t
    using transfers_fit by (fastforce simp: transfer_processor_def node_typed_def)
  with \<open>app_typed db\<close> show "app_typed (snd (pr_store_output (transfer_processor L pd gas) out db))"
    by (auto simp: transfer_processor_def intro!: account_txs_typed split: processor_output.split app_output.split)
qed

text \<open>A swap is an account record; aggregation only replaces its details.\<close>

lemma swap_event_fits:
  "in_i64 (rb_height block) \<Longrightarrow> parse_swap_event L pd e pools block = Some t \<Longrightarrow> acct_fits t"
  by (auto simp: parse_swap_event_def parse_ayin_v2_swap_event_def parse_elexium_swap_event_def swap_of_fields_def Let_def
      account_record_fits split: option.splits if_splits)

lemma extract_swaps_fit:
  "node_typed b \<Longrightarrow> (i, t) \<in> set (extract_swaps L pd b pools) \<Longrightarrow> acct_fits t"
  by (auto simp: extract_swaps_def in_map_filter node_typed_def dest: swap_event_fits)

lemma set_swap_details_fits [simp]: "acct_fits (set_swap_details t d) = acct_fits t"
  by (simp add: account_transaction_fits_iff set_swap_details_def)

lemma aggregate_tx_fits:
  assumes "aggregate_tx info (k, xs) = Inr t" "\<forall>x\<in>set xs. acct_fits (snd x)" "xs \<noteq> []"
  shows "acct_fits t"
proof -
  have s: "set (sort_hops xs) = set xs"
    by (simp add: sort_hops_def)
  then have "sort_hops xs \<noteq> []"
    using assms(3) by force
  then have h: "acct_fits (hd (List.map snd (sort_hops xs)))"
    using assms(2) s hd_in_set [of "sort_hops xs"] by (simp add: hd_map)
  show ?thesis
  proof (cases "length xs = 1")
    case True
    then show ?thesis
      using assms by (cases xs) (auto simp: aggregate_tx_def)
  next
    case False
    then show ?thesis
      using assms(1) h by (auto simp: aggregate_tx_def Let_def res_simps split: if_splits)
  qed
qed

lemma dex_block_fits:
  assumes "dex_block C L pd b s = Inr s'" "node_typed b" "\<forall>x\<in>set (snd (snd s)). acct_fits (snd x)"
  shows "\<forall>x\<in>set (snd (snd s')). acct_fits (snd x)"
  using assms extract_swaps_fit [OF assms(2)]
  by (cases s) (fastforce simp: dex_block_def Let_def res_simps)

lemma dex_output_fits:
  assumes "dex_process_blocks info C L pd bs db = Inr out" "\<forall>b\<in>set bs. node_typed b"
  shows "\<exists>pools swaps. out = CustomOut (DexOutput pools swaps) \<and> (\<forall>t\<in>set swaps. acct_fits t)"
proof -
  obtain e pools found swaps where f: "fold_res (dex_block C L pd) bs (get_pools (ad_pools db), [], []) = Inr (e, pools, found)"
      "map_res (aggregate_tx info) (group_by (\<lambda>s. nat_tx_id (snd s)) found) = Inr swaps" "out = CustomOut (DexOutput pools swaps)"
    using assms(1) by (auto simp: dex_process_blocks_def aggregate_multi_hop_swaps_def res_simps)
  have found: "\<forall>x\<in>set found. acct_fits (snd x)"
    using fold_res_inv [OF f(1), where P = "\<lambda>s. \<forall>x\<in>set (snd (snd s)). acct_fits (snd x)"] dex_block_fits assms(2)
    by (metis empty_iff empty_set snd_conv)
  have "acct_fits t" if t: "t \<in> set swaps" for t
  proof -
    obtain k xs where "(k, xs) \<in> set (group_by (\<lambda>s. nat_tx_id (snd s)) found)" "aggregate_tx info (k, xs) = Inr t"
      using list_all2_in(2) [OF f(2) [unfolded map_res_eq_Inr] t] by auto
    then have "xs = filter (\<lambda>s. nat_tx_id (snd s) = k) found \<and> xs \<noteq> []" "aggregate_tx info (k, xs) = Inr t"
      unfolding group_by_entry by blast+
    moreover from this found have "\<forall>x\<in>set xs. acct_fits (snd x)"
      by simp
    ultimately show ?thesis
      using aggregate_tx_fits by blast
  qed
  with f(3) show ?thesis by blast
qed

interpretation dex_typed: typed_processor "dex_processor info C L pd" "app_typed :: 'z lending_db_scheme \<Rightarrow> bool" for info C L pd
proof unfold_locales
  fix bs out and db0 db :: "'z lending_db_scheme"
  assume "\<forall>b\<in>set bs. node_typed b" "pr_process_blocks (dex_processor info C L pd) bs db0 = Inr out" and db: "app_typed db"
  then obtain pools swaps where out: "out = CustomOut (DexOutput pools swaps)" "\<forall>t\<in>set swaps. acct_fits t"
    using dex_output_fits by (fastforce simp: dex_processor_def)
  have "app_typed (db\<lparr>ad_pools := x\<rparr>)" for x
    using db by (simp add: app_typed_def)
  with out db show "app_typed (snd (pr_store_output (dex_processor info C L pd) out db))"
    by (auto simp: dex_processor_def dex_store_output_def Let_def intro!: account_txs_typed)
qed

lemma lending_event_index:
  "parse_lending_event L pd now linx block M e = Some x \<Longrightarrow> le_event_index x = ce_event_index e"
  by (auto simp: parse_lending_event_def parse_market_created_lending_event_def parse_supply_event_def parse_withdraw_event_def
      parse_borrow_event_def parse_repay_event_def parse_supply_collateral_event_def parse_withdraw_collateral_event_def
      parse_liquidate_event_def parse_accrue_interest_event_def parse_user_event_def lending_event_of_def Let_def bind_eq_Some_conv
      split: if_splits)

interpretation lending_typed: typed_processor "lending_processor L pd now linx" "app_typed :: 'z lending_db_scheme \<Rightarrow> bool"
  for L pd now linx
proof unfold_locales
  fix bs out and db0 db :: "'z lending_db_scheme"
  assume good: "\<forall>b\<in>set bs. node_typed b" and "pr_process_blocks (lending_processor L pd now linx) bs db0 = Inr out"
    and db: "app_typed db"
  then obtain ms M where o: "out = CustomOut (LendingOutput ms (concat (List.map (extract_lending_events L pd now linx M) bs)))"
    by (auto simp: lending_processor_def lending_process_blocks_def Let_def)
  define es where "es = concat (List.map (extract_lending_events L pd now linx M) bs)"
  have out: "out = CustomOut (LendingOutput ms es)" "\<forall>e\<in>set es. in_i32 (le_event_index e)"
    using o good unfolding es_def
    by (auto simp: extract_lending_events_def in_map_filter node_typed_def lending_event_index)
  have m: "app_typed (insert_markets ms db)"
    using db by (simp add: insert_markets_def app_typed_def)
  have "app_typed (insert_lending_events es d)" if "app_typed d" for d :: "'z lending_db_scheme"
    using that out(2)
    by (auto simp: insert_lending_events_def app_typed_def mk_lending_event_def lending_event_fits_iff intro!: all_rows_ignore)
  with out m db show "app_typed (snd (pr_store_output (lending_processor L pd now linx) out db))"
    by (simp add: lending_processor_def lending_store_output_def Let_def)
qed

section \<open>A worker keeps the types\<close>

definition keeps_types :: "('o, 'z lending_db_scheme) processor \<Rightarrow> bool" where
  "keeps_types P \<longleftrightarrow> (\<forall>batches db r db'. (\<forall>batch\<in>set batches. \<forall>b\<in>set (batch_blocks batch). node_typed b) \<longrightarrow> app_typed db \<longrightarrow>
    pipeline_run P batches db = Some (r, db') \<longrightarrow> app_typed db')"

lemma registered_keep_types:
  "keeps_types (block_processor L)" "keeps_types (event_processor uuid)" "keeps_types tx_processor"
  "keeps_types (transfer_processor L pd gas)" "keeps_types (dex_processor info C L pd)"
  "keeps_types (lending_processor L pd now linx)"
  unfolding keeps_types_def
  by (blast intro: block_typed.pipeline_run_typed event_typed.pipeline_run_typed tx_typed.pipeline_run_typed
      transfer_typed.pipeline_run_typed dex_typed.pipeline_run_typed lending_typed.pipeline_run_typed)+

lemma run_pipeline_typed:
  assumes "\<forall>P\<in>set Ps. keeps_types P" "\<forall>batch\<in>set batches. \<forall>b\<in>set (batch_blocks batch). node_typed b"
    and "app_typed db" "run_pipeline Ps batches db = Some (r, db')"
  shows "app_typed db'"
  using assms(1,3,4)
proof (induction Ps arbitrary: db r)
  case (Cons P Ps)
  obtain r1 db1 r2 where 1: "pipeline_run P batches db = Some (r1, db1)" "run_pipeline Ps batches db1 = Some (r2, db')"
    using Cons.prems(3) by (auto split: option.splits)
  have "app_typed db1"
    using Cons.prems(1,2) assms(2) 1(1) unfolding keeps_types_def by (meson list.set_intros(1))
  with Cons.IH 1(2) Cons.prems(1) show ?case
    by auto
qed simp

text \<open>A node whose answers are decoded blocks.\<close>

definition answers_typed :: "node_client \<Rightarrow> bool" where
  "answers_typed client \<longleftrightarrow> (\<forall>f t groups. nc_get_blocks_and_events client f t = Inr groups \<longrightarrow>
    (\<forall>g\<in>set groups. \<forall>b\<in>set g. node_typed b))"

lemma fetch_parallel_typed:
  assumes "answers_typed client" "fetch_parallel client R n = Inr batches" "batch \<in> set batches" "b \<in> set (batch_blocks batch)"
  shows "node_typed b"
proof -
  have l: "list_all2 (\<lambda>i batch. with_context (''Failed to fetch chunk (worker '' @ string_of_nat i @ ''/'' @ string_of_nat n @ '')'')
      (fetch_chunk client (chunk_range R n i)) = Inr batch) [0..<n] batches"
    using assms(2) by (auto simp: fetch_parallel_def map_res_eq_Inr split: if_splits)
  obtain i where "fetch_chunk client (chunk_range R n i) = Inr batch"
    using list_all2_in(2) [OF l assms(3)] by (auto simp: with_context_def res_simps)
  then show ?thesis
    using assms(1,4) by (auto simp: fetch_chunk_def answers_typed_def res_simps split: if_splits)
qed

text \<open>C11: Whatever the worker of a deployment does over a range, and however its processors end, the rows of blocks,
  events, transactions, account transactions and lending events fit the columns of the schema afterwards when they did
  before, in particular the 16-bit group columns that take the chain numbers of a block.\<close>
theorem indexer_keeps_types:
  fixes db :: "'z lending_db_scheme"
  assumes W: "new_worker_from_config E open_pool env factories True n sync backfill (Some config) = Inr W"
      "set factories = set (get_processor_factories E)"
    and client: "answers_typed client" and db: "app_typed db" and run: "sync_range client W a b db = Some (r, db')"
  shows "app_typed db'"
proof -
  have P: "worker_processors E True factories (Some config) = Inr (wk_processors W)"
    using W(1) by (auto simp: new_worker_from_config_def res_simps)
  have "\<forall>P\<in>set (wk_processors W). keeps_types P"
    unfolding registered_processors [OF P W(2)] by (simp add: registered_keep_types)
  note kept = run_pipeline_typed [OF this _ db]
  show ?thesis
    using run db kept fetch_parallel_typed [OF client]
    unfolding sync_range_def by (fastforce split: sum.splits error.splits if_splits)
qed

theorem indexer_keeps_types_witness:
  "\<exists>(W :: (app_output processor_output, lending_db) worker) r db'.
    sync_range example_client W 4000 6000 empty_lending_db = Some (r, db') \<and> wk_workers W = 4 \<and> app_typed db'"
proof -
  obtain W where W: "new_worker_from_config example_processor_env (\<lambda>_. Inr ()) example_environment
      (get_processor_factories example_processor_env) True 4 None None (Some example_app_config) =
        Inr (W :: (app_output processor_output, lending_db) worker)"
    using example_deployment ..
  then have w: "worker_processors example_processor_env True (get_processor_factories example_processor_env)
      (Some example_app_config) = Inr (wk_processors W)" "wk_workers W = 4"
    by (auto simp: new_worker_from_config_def res_simps)
  obtain batches where f: "fetch_parallel example_client \<lparr>range_from_ts = 4000, range_to_ts = 6000\<rparr> 4 = Inr batches"
      "length batches = 4"
    using served_fetch [OF example_serves, of 4000 6000 4] by (auto simp: in_u64_def)
  have "\<forall>P\<in>set (wk_processors W). always_ends P"
    unfolding registered_processors [OF w(1) refl] by (simp add: registered_end)
  then obtain r db' where "run_pipeline (wk_processors W) batches empty_lending_db = Some (r, db')"
    using run_pipeline_keeps [of "wk_processors W" batches empty_lending_db] f(2) by (auto simp: channel_capacity_def)
  then have run: "sync_range example_client W 4000 6000 empty_lending_db = Some (r, db')"
    using f by (auto simp: sync_range_def w(2))
  have "answers_typed example_client"
    by (auto simp: answers_typed_def example_client_def example_bae_def plain_block_def node_typed_def in_i64_def in_i32_def
        split: if_splits)
  moreover have "app_typed empty_lending_db"
    by (simp add: app_typed_def empty_lending_db_def all_rows_def empty_table_def)
  ultimately show ?thesis
    using indexer_keeps_types [OF W refl _ _ run] run w(2) by blast
qed

end
