(* ===== verification/Routes.thy ===== *)
theory Routes
  imports Points_Api Points_Calculator Lending_Api Server_Api
begin

text \<open>
  The HTTP interface as a table: which method and path lead to which handler (\<^verbatim>\<open>configure_api\<close> of
  \<^verbatim>\<open>bento-server/src/lib.rs\<close>, the \<^verbatim>\<open>register\<close> functions, and \<^verbatim>\<open>bin/main.rs\<close> for the application),
  and what the OpenAPI annotation of each handler says. Matching follows the documentation of the router library:
  a path is compared segment by segment, and a segment in braces takes any non-empty one. How the library picks among
  several matching routes is left open; it matters only where more than one matches. Of an annotation, the method, path,
  tag and statuses are kept, not its texts and schemas.
\<close>

section \<open>Routes and annotations\<close>

datatype http_method = Get | Post

datatype handler =
    Root | HealthCheck
  | GetBlocks | GetBlockByHash | GetBlockByHeight | GetBlockTransactions
  | GetEvents | GetEventsByContract | GetEventsByTxId
  | GetTxs | GetTxByHash | GetTxByBlock
  | GetAccountTransactions
  | GetMarkets | GetBorrowActivity | GetEarnActivity | GetPositions | GetUserPositionHistory
  | GetLendingStats | GetLendingStatsSeries
  | GetLeaderboard | GetCurrentSeason | ApplyReferralCode | GetReferralDetails | GetShareImage | GetUserPoints
  | GetStats
  | SubmitSwap

record route =
  rt_method :: http_method
  rt_path :: string
  rt_handler :: handler

record endpoint_doc =
  ed_method :: http_method
  ed_path :: string
  ed_tag :: string
  ed_statuses :: "nat list"

definition route_at :: "http_method \<Rightarrow> string \<Rightarrow> handler \<Rightarrow> route" where
  "route_at m p h = \<lparr>rt_method = m, rt_path = p, rt_handler = h\<rparr>"

definition doc :: "http_method \<Rightarrow> string \<Rightarrow> string \<Rightarrow> nat list \<Rightarrow> endpoint_doc" where
  "doc m p t ss = \<lparr>ed_method = m, ed_path = p, ed_tag = t, ed_statuses = ss\<rparr>"

text \<open>\<^verbatim>\<open>routes!(handler)\<close> takes method and path from the annotation of the handler.\<close>

definition annotated :: "endpoint_doc \<Rightarrow> handler \<Rightarrow> route" where
  "annotated d h = route_at (ed_method d) (ed_path d) h"

text \<open>\<^verbatim>\<open>nest\<close>: the root of the nested router answers under the prefix itself.\<close>

definition nest :: "string \<Rightarrow> route list \<Rightarrow> route list" where
  "nest prefix rs = List.map (\<lambda>r. r\<lparr>rt_path := (if rt_path r = ''/'' then prefix else prefix @ rt_path r)\<rparr>) rs"

section \<open>The generic API\<close>

definition get_blocks_doc :: endpoint_doc where
  "get_blocks_doc = doc Get ''/'' ''Blocks'' [200, 500]"

definition get_block_by_hash_doc :: endpoint_doc where
  "get_block_by_hash_doc = doc Get ''/hash'' ''Blocks'' [200, 404, 500]"

definition get_block_by_height_doc :: endpoint_doc where
  "get_block_by_height_doc = doc Get ''/height'' ''Blocks'' [200, 404, 500]"

definition get_block_transactions_doc :: endpoint_doc where
  "get_block_transactions_doc = doc Get ''/transactions'' ''Blocks'' [200, 404, 500]"

definition block_routes :: "route list" where
  "block_routes = [annotated get_blocks_doc GetBlocks, annotated get_block_by_hash_doc GetBlockByHash,
    annotated get_block_by_height_doc GetBlockByHeight, annotated get_block_transactions_doc GetBlockTransactions]"

definition get_events_doc :: endpoint_doc where
  "get_events_doc = doc Get ''/'' ''Events'' [200]"

definition get_events_by_contract_doc :: endpoint_doc where
  "get_events_by_contract_doc = doc Get ''/contract'' ''Events'' [200]"

definition get_events_by_tx_id_doc :: endpoint_doc where
  "get_events_by_tx_id_doc = doc Get ''/tx'' ''Events'' [200]"

definition event_routes :: "route list" where
  "event_routes = [annotated get_events_doc GetEvents, annotated get_events_by_contract_doc GetEventsByContract,
    annotated get_events_by_tx_id_doc GetEventsByTxId]"

definition get_txs_doc :: endpoint_doc where
  "get_txs_doc = doc Get ''/'' ''Transactions'' [200, 500]"

definition get_tx_by_hash_doc :: endpoint_doc where
  "get_tx_by_hash_doc = doc Get ''/hash'' ''Transactions'' [200, 404, 500]"

definition get_tx_by_block_doc :: endpoint_doc where
  "get_tx_by_block_doc = doc Get ''/block'' ''Transactions'' [200, 404, 500]"

definition transaction_routes :: "route list" where
  "transaction_routes = [annotated get_txs_doc GetTxs, annotated get_tx_by_hash_doc GetTxByHash,
    annotated get_tx_by_block_doc GetTxByBlock]"

definition root_handler :: "handler_error + string" where
  "root_handler = Inr ''Hello Alephium Indexer API''"

definition configure_api :: "route list option \<Rightarrow> route list" where
  "configure_api custom_router =
    (let router = nest ''/v1/blocks'' block_routes @ nest ''/v1/events'' event_routes
       @ nest ''/v1/transactions'' transaction_routes @ [route_at Get ''/'' Root, route_at Get ''/v1/health'' HealthCheck]
     in case custom_router of None \<Rightarrow> router | Some custom \<Rightarrow> router @ custom)"

section \<open>The routers of the application\<close>

definition get_account_transactions_doc :: endpoint_doc where
  "get_account_transactions_doc = doc Get ''/history/v1/account-transactions'' ''Account Transactions'' [200, 400, 500]"

definition account_transactions_routes :: "route list" where
  "account_transactions_routes = [annotated get_account_transactions_doc GetAccountTransactions]"

definition get_markets_doc :: endpoint_doc where
  "get_markets_doc = doc Get ''/lending/markets'' ''Markets'' [200, 400, 500]"

definition get_borrow_activity_doc :: endpoint_doc where
  "get_borrow_activity_doc = doc Get ''/lending/borrow-activity'' ''Borrow Activity'' [200, 400, 500]"

definition get_earn_activity_doc :: endpoint_doc where
  "get_earn_activity_doc = doc Get ''/lending/earn-activity'' ''Earn Activity'' [200, 400, 500]"

definition get_positions_doc :: endpoint_doc where
  "get_positions_doc = doc Get ''/lending/positions'' ''Positions'' [200, 400, 500]"

definition get_user_position_history_doc :: endpoint_doc where
  "get_user_position_history_doc = doc Get ''/lending/history/user-positions'' ''History'' [200, 400, 500]"

definition get_lending_stats_doc :: endpoint_doc where
  "get_lending_stats_doc = doc Get ''/lending/v1/stats'' ''Stats'' [200, 404, 500]"

definition get_lending_stats_series_doc :: endpoint_doc where
  "get_lending_stats_series_doc = doc Get ''/lending/v1/stats/series'' ''Stats'' [200, 500]"

definition lending_routes :: "route list" where
  "lending_routes = [route_at Get ''/lending/v1/markets'' GetMarkets, route_at Get ''/lending/v1/borrow-activity'' GetBorrowActivity,
    route_at Get ''/lending/v1/earn-activity'' GetEarnActivity, route_at Get ''/lending/v1/positions'' GetPositions,
    route_at Get ''/lending/v1/history/user-positions'' GetUserPositionHistory, route_at Get ''/lending/v1/stats'' GetLendingStats,
    route_at Get ''/lending/v1/stats/series'' GetLendingStatsSeries]"

definition get_leaderboard_doc :: endpoint_doc where
  "get_leaderboard_doc = doc Get ''/points/leaderboard'' ''Points'' [200, 404, 500]"

definition get_user_points_doc :: endpoint_doc where
  "get_user_points_doc = doc Get ''/points/{address}'' ''Points'' [200, 404, 500]"

definition get_current_season_doc :: endpoint_doc where
  "get_current_season_doc = doc Get ''/points/season'' ''Points'' [200, 404, 500]"

definition apply_referral_doc :: endpoint_doc where
  "apply_referral_doc = doc Post ''/points/apply-referral'' ''Points'' [200, 400, 403, 500]"

definition get_referral_details_doc :: endpoint_doc where
  "get_referral_details_doc = doc Get ''/points/referrals/{address}'' ''Points'' [200, 400, 404, 500]"

definition points_routes :: "route list" where
  "points_routes = [route_at Get ''/points/v1/leaderboard'' GetLeaderboard, route_at Get ''/points/v1/season'' GetCurrentSeason,
    route_at Post ''/points/v1/apply-referral'' ApplyReferralCode, route_at Get ''/points/v1/referrals/{address}'' GetReferralDetails,
    route_at Get ''/points/v1/share/{referral_code}'' GetShareImage, route_at Get ''/points/v1/{address}'' GetUserPoints]"

definition get_stats_doc :: endpoint_doc where
  "get_stats_doc = doc Get ''/stats/v1'' ''stats'' [200, 500]"

definition stats_routes :: "route list" where
  "stats_routes = [route_at Get ''/stats/v1'' GetStats]"

definition submit_swap_doc :: endpoint_doc where
  "submit_swap_doc = doc Post ''/transactions/v1/submit'' ''Transactions'' [200, 400, 500]"

definition transactions_routes :: "route list" where
  "transactions_routes = [route_at Post ''/transactions/v1/submit'' SubmitSwap]"

definition app_router :: "route list" where
  "app_router = account_transactions_routes @ lending_routes @ points_routes @ stats_routes @ transactions_routes"

section \<open>Requests\<close>

text \<open>
  A request path is split at the slashes; a segment of a route in braces is a parameter, which takes every
  segment of a request but the empty one.
\<close>

definition segments :: "string \<Rightarrow> string list" where
  "segments p = split_on CHR ''/'' p"

definition is_param :: "string \<Rightarrow> bool" where
  "is_param s \<longleftrightarrow> s \<noteq> [] \<and> hd s = CHR ''{''"

definition segment_matches :: "string \<Rightarrow> string \<Rightarrow> bool" where
  "segment_matches p s \<longleftrightarrow> (if is_param p then s \<noteq> [] else p = s)"

definition path_matches :: "string \<Rightarrow> string \<Rightarrow> bool" where
  "path_matches p s \<longleftrightarrow> list_all2 segment_matches (segments p) (segments s)"

definition serves :: "route \<Rightarrow> http_method \<Rightarrow> string \<Rightarrow> bool" where
  "serves r m s \<longleftrightarrow> rt_method r = m \<and> path_matches (rt_path r) s"

text \<open>The answer of a handler: the status of its error, or 200; a panic closes the connection without one.\<close>

fun status_of :: "handler_error + 'a \<Rightarrow> nat option" where
  "status_of (Inr a) = Some 200"
| "status_of (Inl (Rejected e)) = Some (fst (into_response e))"
| "status_of (Inl (Panicked m)) = None"

definition documented :: "endpoint_doc \<Rightarrow> handler_error + 'a \<Rightarrow> bool" where
  "documented d r \<longleftrightarrow> (case status_of r of None \<Rightarrow> False | Some s \<Rightarrow> s \<in> set (ed_statuses d))"

text \<open>The annotation of each handler.\<close>

definition annotations :: "(handler \<times> endpoint_doc) list" where
  "annotations = [(GetAccountTransactions, get_account_transactions_doc),
    (GetMarkets, get_markets_doc), (GetBorrowActivity, get_borrow_activity_doc), (GetEarnActivity, get_earn_activity_doc),
    (GetPositions, get_positions_doc), (GetUserPositionHistory, get_user_position_history_doc),
    (GetLendingStats, get_lending_stats_doc), (GetLendingStatsSeries, get_lending_stats_series_doc),
    (GetLeaderboard, get_leaderboard_doc), (GetUserPoints, get_user_points_doc), (GetCurrentSeason, get_current_season_doc),
    (ApplyReferralCode, apply_referral_doc), (GetReferralDetails, get_referral_details_doc),
    (GetStats, get_stats_doc), (SubmitSwap, submit_swap_doc)]"

end
