(* ===== verification/Routes_Laws.thy ===== *)
theory Routes_Laws
  imports Routes
begin

text \<open>
  The route table leads every request to at most one handler, but for two paths below the points of a user; which
  annotations describe a path that is not served; and which handlers answer within the statuses they document.
\<close>

section \<open>One route for a request\<close>

definition may_meet :: "string \<Rightarrow> string \<Rightarrow> bool" where
  "may_meet p q \<longleftrightarrow> is_param p \<or> is_param q \<or> p = q"

lemma meeting_segments:
  "list_all2 segment_matches ps s \<Longrightarrow> list_all2 segment_matches qs s \<Longrightarrow> list_all2 may_meet ps qs"
  by (auto simp: list_all2_conv_all_nth may_meet_def segment_matches_def split: if_splits) metis

text \<open>The routes as method, segments and handler, and the pairs of them that some request could meet.\<close>

definition entry :: "route \<Rightarrow> http_method \<times> string list \<times> handler" where
  "entry r = (rt_method r, segments (rt_path r), rt_handler r)"

definition entries_meet :: "http_method \<times> string list \<times> handler \<Rightarrow> http_method \<times> string list \<times> handler \<Rightarrow> bool" where
  "entries_meet e e' \<longleftrightarrow> fst e = fst e' \<and> list_all2 may_meet (fst (snd e)) (fst (snd e'))"

lemma serving_meets:
  assumes "serves r m s" "serves r' m s"
  shows "entries_meet (entry r) (entry r')"
  using assms meeting_segments by (auto simp: serves_def path_matches_def entries_meet_def entry_def)

definition all_entries :: "(http_method \<times> string list \<times> handler) list" where
  "all_entries = List.map entry (configure_api (Some app_router))"

definition user_points_overlap :: "handler \<Rightarrow> handler \<Rightarrow> bool" where
  "user_points_overlap h h' \<longleftrightarrow> h = GetUserPoints \<and> h' \<in> {GetLeaderboard, GetCurrentSeason}"

lemma entries_checked:
  "list_all (\<lambda>e. list_all (\<lambda>e'. entries_meet e e' \<longrightarrow> snd (snd e) = snd (snd e')
      \<or> user_points_overlap (snd (snd e)) (snd (snd e')) \<or> user_points_overlap (snd (snd e')) (snd (snd e)))
    all_entries) all_entries"
  by code_simp

lemma handlers_distinct: "distinct (List.map (\<lambda>e. snd (snd e)) all_entries)"
  by code_simp

lemma split_on_not_Nil: "split_on c xs \<noteq> []"
  by (cases xs) (auto split: list.splits)

lemma split_on_inj: "split_on c xs = split_on c ys \<Longrightarrow> xs = ys"
proof (induction xs arbitrary: ys)
  case Nil
  then show ?case
    by (cases ys) (auto simp: split_on_not_Nil split_on_not_Nil [symmetric] split: if_splits list.splits)
next
  case (Cons x xs)
  obtain w ws where x: "split_on c xs = w # ws"
    using split_on_not_Nil by (meson neq_Nil_conv)
  show ?case
  proof (cases ys)
    case Nil
    with Cons.prems x show ?thesis
      by (auto split: if_splits)
  next
    case (Cons y zs)
    obtain v vs where y: "split_on c zs = v # vs"
      using split_on_not_Nil by (meson neq_Nil_conv)
    have "x = y \<and> split_on c xs = split_on c zs"
      using Cons.prems Cons x y by (auto split: if_splits)
    then show ?thesis
      using Cons.IH Cons by simp
  qed
qed

lemma fixed_path:
  assumes "serves r m s" "list_all (\<lambda>g. \<not> is_param g) (segments (rt_path r))"
  shows "s = rt_path r"
proof -
  have "segments (rt_path r) = segments s"
    using assms unfolding serves_def path_matches_def
    by (auto simp: list_all2_conv_all_nth list_all_length segment_matches_def intro: nth_equalityI)
  then show ?thesis
    using split_on_inj unfolding segments_def by metis
qed

text \<open>The two routes beside a user's points have no parameter.\<close>

lemma overlapping_paths:
  "list_all (\<lambda>r. rt_handler r \<in> {GetLeaderboard, GetCurrentSeason} \<longrightarrow>
      rt_path r \<in> {''/points/v1/leaderboard'', ''/points/v1/season''}
      \<and> list_all (\<lambda>g. \<not> is_param g) (segments (rt_path r)))
    (configure_api (Some app_router))"
  by code_simp

lemma user_points_meet:
  assumes r: "r' \<in> set (configure_api (Some app_router))" and s: "serves r' m s"
    and h: "rt_handler r' \<in> {GetLeaderboard, GetCurrentSeason}"
  shows "s \<in> {''/points/v1/leaderboard'', ''/points/v1/season''}"
  using overlapping_paths fixed_path [OF s] r h by (auto simp: list_all_iff)

lemma served_handlers:
  assumes r: "r \<in> set (configure_api (Some app_router))" "r' \<in> set (configure_api (Some app_router))"
    and s: "serves r m s" "serves r' m s"
  shows "rt_handler r = rt_handler r' \<or> user_points_overlap (rt_handler r) (rt_handler r')
    \<or> user_points_overlap (rt_handler r') (rt_handler r)"
proof -
  have "entry r \<in> set all_entries" "entry r' \<in> set all_entries"
    using r by (auto simp: all_entries_def)
  with entries_checked serving_meets [OF s] show ?thesis
    unfolding list_all_iff entry_def by fastforce
qed

lemma one_route_per_handler:
  assumes "r \<in> set (configure_api (Some app_router))" "r' \<in> set (configure_api (Some app_router))"
    and "rt_handler r = rt_handler r'"
  shows "r = r'"
  using assms handlers_distinct
  by (auto simp: all_entries_def entry_def distinct_map comp_def inj_on_def)

text \<open>C30: Two different routes of the application answer the same request only for the paths of the leaderboard and
  of the current season, which the parameter of a user's points also takes; every other request has at most one
  handler.\<close>
theorem routes_unambiguous:
  assumes "r \<in> set (configure_api (Some app_router))" "r' \<in> set (configure_api (Some app_router))"
    and "serves r m s" "serves r' m s" "r \<noteq> r'"
  shows "s \<in> {''/points/v1/leaderboard'', ''/points/v1/season''} \<and> GetUserPoints \<in> {rt_handler r, rt_handler r'}"
  using served_handlers [OF assms(1-4)] one_route_per_handler [OF assms(1,2)] assms(5)
    user_points_meet [OF assms(1,3)] user_points_meet [OF assms(2,4)]
  by (auto simp: user_points_overlap_def)

lemma routes_unambiguous_witness:
  "GetUserPoints \<in> {rt_handler (route_at Get ''/points/v1/season'' GetCurrentSeason),
     rt_handler (route_at Get ''/points/v1/{address}'' GetUserPoints)}"
proof -
  have a: "route_at Get ''/points/v1/season'' GetCurrentSeason \<in> set (configure_api (Some app_router))"
    "route_at Get ''/points/v1/{address}'' GetUserPoints \<in> set (configure_api (Some app_router))"
    by (simp_all add: configure_api_def app_router_def points_routes_def)
  have b: "serves (route_at Get ''/points/v1/season'' GetCurrentSeason) Get ''/points/v1/season''"
    "serves (route_at Get ''/points/v1/{address}'' GetUserPoints) Get ''/points/v1/season''"
    by code_simp+
  have c: "route_at Get ''/points/v1/season'' GetCurrentSeason \<noteq> route_at Get ''/points/v1/{address}'' GetUserPoints"
    by (simp add: route_at_def)
  show ?thesis
    using routes_unambiguous [OF a b c] by (rule conjunct2)
qed

section \<open>Documented paths\<close>

definition outdated :: "handler set" where
  "outdated = {GetMarkets, GetBorrowActivity, GetEarnActivity, GetPositions, GetUserPositionHistory, GetLeaderboard,
    GetUserPoints, GetCurrentSeason, ApplyReferralCode, GetReferralDetails}"

lemma annotations_checked:
  "list_all (\<lambda>(h, d). if h \<in> outdated
      then list_all (\<lambda>e. \<not> entries_meet (ed_method d, segments (ed_path d), h) e) all_entries
      else List.member (configure_api (Some app_router)) (route_at (ed_method d) (ed_path d) h)) annotations"
  unfolding outdated_def by code_simp

lemma documented_path_meets:
  assumes "path_matches (ed_path d) s" "serves r (ed_method d) s"
  shows "entries_meet (ed_method d, segments (ed_path d), h) (entry r)"
  using assms meeting_segments by (auto simp: serves_def path_matches_def entries_meet_def entry_def)

text \<open>The annotations of ten handlers describe paths that the application does not serve at all: they lack
  the version, while the routes have it. The paths of the other annotations are served.\<close>
theorem documented_paths_served:
  assumes "(h, d) \<in> set annotations" "path_matches (ed_path d) s"
  shows "(\<exists>r\<in>set (configure_api (Some app_router)). serves r (ed_method d) s) \<longleftrightarrow>
    h \<notin> {GetMarkets, GetBorrowActivity, GetEarnActivity, GetPositions, GetUserPositionHistory, GetLeaderboard,
      GetUserPoints, GetCurrentSeason, ApplyReferralCode, GetReferralDetails}"
proof (cases "h \<in> outdated")
  case True
  then have "\<not> entries_meet (ed_method d, segments (ed_path d), h) (entry r)"
    if "r \<in> set (configure_api (Some app_router))" for r
    using annotations_checked assms(1) that by (fastforce simp: list_all_iff all_entries_def)
  then show ?thesis
    using documented_path_meets [OF assms(2)] True by (auto simp: outdated_def)
next
  case False
  then have "route_at (ed_method d) (ed_path d) h \<in> set (configure_api (Some app_router))"
    using annotations_checked assms(1) by (fastforce simp: list_all_iff)
  moreover have "serves (route_at (ed_method d) (ed_path d) h) (ed_method d) s"
    using assms(2) by (simp add: serves_def route_at_def)
  ultimately show ?thesis
    using False by (auto simp: outdated_def)
qed

lemma documented_paths_served_witness:
  "\<not> (\<exists>r\<in>set (configure_api (Some app_router)). serves r Get ''/lending/markets'')"
proof -
  have a: "(GetMarkets, get_markets_doc) \<in> set annotations"
    by (simp add: annotations_def)
  have b: "path_matches (ed_path get_markets_doc) ''/lending/markets''"
    by code_simp
  have c: "ed_method get_markets_doc = Get"
    by code_simp
  show ?thesis
    using documented_paths_served [OF a b] unfolding c by simp
qed

section \<open>Documented statuses\<close>

lemma documented_Inr [simp]: "documented d (Inr a) \<longleftrightarrow> 200 \<in> set (ed_statuses d)"
  by (simp add: documented_def)

lemma documented_Rejected [simp]: "documented d (Inl (Rejected e)) \<longleftrightarrow> fst (into_response e) \<in> set (ed_statuses d)"
  by (simp add: documented_def)

text \<open>The messages of a page out of range are internal errors.\<close>

lemma page_messages:
  "app_error_of_anyhow ''LIMIT must not be negative'' = Internal ''LIMIT must not be negative''"
  "app_error_of_anyhow ''OFFSET must not be negative'' = Internal ''OFFSET must not be negative''"
  by code_simp+

lemma internal_status [simp]: "fst (into_response (Internal m)) = 500"
  by (simp add: into_response_def)

lemma other_statuses [simp]: "fst (into_response (BadRequest m)) = 400" "fst (into_response (NotFound m)) = 404"
    "fst (into_response (Forbidden m)) = 403"
  by (simp_all add: into_response_def)

lemma documented_page:
  assumes "200 \<in> set (ed_statuses d)" "500 \<in> set (ed_statuses d)"
  shows "documented d (map_err handler_err (sql_page off n xs))"
  using assms by (auto simp: sql_page_def page_messages)

lemma documented_Panicked [simp]: "\<not> documented d (Inl (Panicked m))"
  by (simp add: documented_def)

lemma documented_Inl: "documented d (Inl e :: handler_error + 'a) = documented d (Inl e :: handler_error + 'b)"
  by (cases e) simp_all

lemma documented_then_ok:
  "documented d (and_then r (\<lambda>xs. Inr (f xs))) \<longleftrightarrow> documented d r" if "200 \<in> set (ed_statuses d)"
  using that by (cases r) (auto simp: documented_Inl)

lemmas doc_defs = doc_def get_blocks_doc_def get_block_by_hash_doc_def get_block_by_height_doc_def
  get_events_doc_def get_events_by_contract_doc_def get_events_by_tx_id_doc_def get_txs_doc_def get_tx_by_hash_doc_def
  get_account_transactions_doc_def get_markets_doc_def get_borrow_activity_doc_def get_earn_activity_doc_def
  get_positions_doc_def get_user_position_history_doc_def get_lending_stats_doc_def get_leaderboard_doc_def
  get_current_season_doc_def get_referral_details_doc_def get_stats_doc_def get_tx_by_block_doc_def

lemma documented_check_page:
  assumes "set (ed_statuses d) = {200, 400, 500}" "documented d r"
  shows "documented d (and_then (check_page p l) (\<lambda>_. r))"
  using assms by (simp add: check_page_def)

lemma chain_statuses:
  "documented get_blocks_doc (get_blocks_handler bq chain)"
  "documented get_block_by_hash_doc (get_block_by_hash_handler hash chain)"
  "documented get_block_by_height_doc (get_block_by_height_handler height chain)"
  "documented get_events_doc (get_events_handler p chain)"
  "documented get_events_by_contract_doc (get_events_by_contract_handler contract p chain)"
  "documented get_events_by_tx_id_doc (get_events_by_tx_id_handler tx p chain)"
  "documented get_txs_doc (get_txs_handler p chain)"
  "documented get_tx_by_hash_doc (get_tx_by_hash_handler hash chain)"
  by (auto simp: doc_defs get_blocks_handler_def get_blocks_def get_block_by_hash_handler_def get_block_by_height_handler_def
    get_events_handler_def get_events_def get_events_by_contract_handler_def get_events_by_contract_def
    get_events_by_tx_id_handler_def get_events_by_tx_def get_txs_handler_def get_txs_def get_tx_by_hash_handler_def
    found_or_def documented_page documented_then_ok sql_page_pagination split: option.splits sort_order.splits)

lemma tx_by_block_statuses: "documented get_tx_by_block_doc (get_tx_by_block_handler hash chain)"
proof -
  have "app_error_of_anyhow ''Block not found'' = NotFound ''block not found''"
    by code_simp
  then show ?thesis
    by (simp add: doc_defs get_tx_by_block_handler_def get_txs_by_block_def)
qed

lemma lending_statuses:
  "documented get_markets_doc (markets_handler mq ld)"
  "documented get_borrow_activity_doc (borrow_activity_handler aq ld)"
  "documented get_earn_activity_doc (earn_activity_handler aq ld)"
  "documented get_user_position_history_doc (user_position_history_handler now hq ld)"
  "documented get_lending_stats_doc (lending_stats_handler D collate ld)"
  by (auto simp: doc_defs markets_handler_def get_markets_def borrow_activity_handler_def earn_activity_handler_def
    get_activity_def numbered_page_def user_position_history_handler_def lending_stats_handler_def Let_def
    intro!: documented_check_page documented_page split: option.splits)

lemma account_statuses: "documented get_account_transactions_doc (get_account_transactions_handler L atq T)"
  by (auto simp: doc_defs get_account_transactions_handler_def get_account_transactions_def documented_then_ok Let_def
    intro!: documented_page split: option.splits)

lemma documented_read:
  assumes "200 \<in> set (ed_statuses d)"
  shows "documented d (fst (bind_act (call (read_act g)) (\<lambda>x. ret_act (f x)) s)) \<longleftrightarrow> documented d (map_err handler_err (g s))"
  using assms by (cases "g s") (auto simp: bind_act_def call_def map_err_act_def read_act_def ret_act_def documented_Inl)

lemma leaderboard_statuses: "documented get_leaderboard_doc (fst (get_leaderboard_handler db))"
proof (cases "get_active_season db")
  case None
  then show ?thesis
    by (simp add: doc_defs get_leaderboard_handler_def res_simps)
next
  case (Some season)
  have "documented get_leaderboard_doc (map_err handler_err (get_leaderboard (se_id season) None 1 50 db))"
    by (auto simp: get_leaderboard_def Let_def doc_defs intro!: documented_page split: option.splits)
  then show ?thesis
    using Some by (simp add: get_leaderboard_handler_def documented_read doc_defs res_simps)
qed

lemma referral_details_statuses:
  "documented get_referral_details_doc (fst (get_referral_details_handler pct address q db))"
proof (cases "get_active_season db")
  case None
  then show ?thesis
    by (simp add: doc_defs get_referral_details_handler_def res_simps)
next
  case (Some season)
  have "documented get_referral_details_doc
      (map_err handler_err (get_referral_details_paginated pct address (se_id season) pg l db))" for pg l
    by (auto simp: get_referral_details_paginated_def sql_page_def page_messages Let_def doc_defs)
  then show ?thesis
    using Some by (simp add: get_referral_details_handler_def documented_read doc_defs res_simps)
qed

text \<open>Without a season the referral details are an internal error; the 404 of the annotation never occurs.\<close>

lemma referral_details_without_season:
  assumes "get_active_season db = None" "0 \<le> rdq_page q" "0 < rdq_limit q" "rdq_limit q \<le> 100"
  shows "status_of (fst (get_referral_details_handler pct address q db)) = Some 500"
  using assms by (simp add: get_referral_details_handler_def res_simps)

lemma season_statuses: "documented get_current_season_doc (fst (get_current_season_handler db))"
  by (cases "get_active_season db") (simp_all add: doc_defs get_current_season_handler_def res_simps)

lemma documented_then_res:
  assumes "200 \<in> set (ed_statuses d)"
  shows "documented d (map_err handler_err (and_then r (\<lambda>x. Inr (f x)))) \<longleftrightarrow> documented d (map_err handler_err r)"
  using assms by (cases r) (auto simp: documented_Inl)

lemma positions_statuses: "documented get_positions_doc (positions_handler pd collate pq ld)"
proof -
  have "documented get_positions_doc (map_err handler_err
      (get_positions pd collate (pq_market_id pq) (pq_address pq) pg l ld))"
    if "\<not> (pq_market_id pq = None \<and> pq_address pq = None)" for pg l
    using that by (cases "pq_market_id pq"; cases "pq_address pq")
      (auto simp: doc_defs calculate_positions_for_market_def numbered_page_def documented_then_res
        intro!: documented_page split: option.splits)
  then show ?thesis
    unfolding positions_handler_def by (intro documented_check_page) (simp_all add: doc_defs)
qed


text \<open>
  The endpoint for the transactions of a block is not among them. The error of an unknown block carries the hash of
  the request, and the class of an error is read off its text.
\<close>

lemma status_of_text:
  "fst (into_response (app_error_of_anyhow m)) = (
    if contains ''database'' (to_lowercase m) then 500
    else if contains ''validation'' (to_lowercase m) then 422
    else if contains ''authentication'' (to_lowercase m) \<or> contains ''unauthorized'' (to_lowercase m) then 401
    else if contains ''not found'' (to_lowercase m) then 404 else 500)"
  using no_upper_SQL [of m] by (simp add: app_error_of_anyhow_def into_response_def Let_def)

lemma to_lowercase_prefix: "to_lowercase (''Block not found: '' @ h) = ''block not found: '' @ to_lowercase h"
proof -
  have "to_lowercase ''Block not found: '' = ''block not found: ''"
    by code_simp
  then show ?thesis
    by (simp add: to_lowercase_def)
qed

lemma word_in_message:
  "contains ''database'' (''block not found: '' @ h) = contains ''database'' h"
  "contains ''validation'' (''block not found: '' @ h) = contains ''validation'' h"
  "contains ''authentication'' (''block not found: '' @ h) = contains ''authentication'' h"
  "contains ''unauthorized'' (''block not found: '' @ h) = contains ''unauthorized'' h"
  "contains ''not found'' (''block not found: '' @ h)"
  by simp_all

text \<open>C29: For a block that is not stored, the text that the request gives for its hash decides whether the answer is
  an internal error, a validation error, a refused authentication or that nothing was found; the annotation documents
  neither the second nor the third.\<close>
theorem unknown_block_status_from_request:
  assumes "get_block_by_hash hash chain = None"
  shows "status_of (get_block_transactions_handler hash chain) = Some (
    if contains ''database'' (to_lowercase hash) then 500
    else if contains ''validation'' (to_lowercase hash) then 422
    else if contains ''authentication'' (to_lowercase hash) \<or> contains ''unauthorized'' (to_lowercase hash) then 401
    else 404)"
proof -
  have "status_of (get_block_transactions_handler hash chain)
      = Some (fst (into_response (app_error_of_anyhow (''Block not found: '' @ hash))))"
    using assms by (simp add: get_block_transactions_handler_def get_block_transactions_def)
  then show ?thesis
    by (simp only: status_of_text to_lowercase_prefix word_in_message if_True)
qed

lemma unknown_block_status_from_request_witness:
  "status_of (get_block_transactions_handler ''Unauthorized'' empty_chain_db) = Some 401"
proof -
  have none: "get_block_by_hash ''Unauthorized'' empty_chain_db = None"
    by (simp add: get_block_by_hash_def empty_chain_db_def empty_table_def)
  have l: "to_lowercase ''Unauthorized'' = ''unauthorized''"
    by code_simp
  show ?thesis
    using unknown_block_status_from_request [OF none] unfolding l by simp
qed

end
