(* ===== verification/Connections.thy ===== *)
theory Connections
  imports Prelude
begin

text \<open>
  The connections to the outside: the WebSocket client (\<^verbatim>\<open>bento-core/src/ws.rs\<close>) and the set-up of the database
  pool (\<^verbatim>\<open>bento-core/src/db.rs\<close>). Sockets, URLs, certificates and the database driver belong to libraries and are
  parameters. The text of a panic is the one in the code, without the error that the library appends.
\<close>

section \<open>The WebSocket client\<close>

text \<open>A socket takes a text message, or fails; it can be closed.\<close>

record 's socket_ops =
  so_send :: "string \<Rightarrow> 's \<Rightarrow> unit res \<times> 's"
  so_close :: "'s \<Rightarrow> unit res"

record 's connection_state =
  cs_socket :: 's
  cs_id :: int

definition connection_new :: "'s \<Rightarrow> 's connection_state" where
  "connection_new socket = \<lparr>cs_socket = socket, cs_id = 0\<rparr>"

definition ws_connect :: "(string \<Rightarrow> error + 's \<times> 'r) \<Rightarrow> string \<Rightarrow> error + 's connection_state \<times> 'r" where
  "ws_connect connect url = and_then (connect url) (\<lambda>(socket, response). Inr (connection_new socket, response))"

fun join_with :: "string \<Rightarrow> string list \<Rightarrow> string" where
  "join_with sep [] = []"
| "join_with sep [x] = x"
| "join_with sep (x # y # ys) = x @ sep @ join_with sep (y # ys)"

definition params_text :: "string list \<Rightarrow> string" where
  "params_text params =
    (let params_str = join_with '','' (List.map in_quotes params)
     in if params_str = [] then params_str else in_quotes ''params'' @ '': ['' @ params_str @ ''],'')"

definition request_text :: "string \<Rightarrow> string list \<Rightarrow> int \<Rightarrow> string" where
  "request_text method params i = ''{'' @ in_quotes ''method'' @ '':'' @ in_quotes method @ '','' @ params_text params
    @ in_quotes ''id'' @ '':'' @ string_of_int i @ ''}''"

text \<open>The number is taken before the message is sent, so a socket that fails has used it up; its error panics.\<close>

definition ws_send :: "'s socket_ops \<Rightarrow> string \<Rightarrow> string list \<Rightarrow> 's connection_state \<Rightarrow> int res \<times> 's connection_state" where
  "ws_send S method params conn =
    (let i = cs_id conn;
         conn = conn\<lparr>cs_id := wrap_u64 (i + 1)\<rparr>
     in case so_send S (request_text method params i) (cs_socket conn) of
       (Inl (Error m), s) \<Rightarrow> (Inl (Panic m), conn\<lparr>cs_socket := s\<rparr>)
     | (Inl (Panic m), s) \<Rightarrow> (Inl (Panic m), conn\<lparr>cs_socket := s\<rparr>)
     | (Inr _, s) \<Rightarrow> (Inr i, conn\<lparr>cs_socket := s\<rparr>))"

definition subscribe_blocks :: "'s socket_ops \<Rightarrow> 's connection_state \<Rightarrow> int res \<times> 's connection_state" where
  "subscribe_blocks S = ws_send S ''block_notify'' []"

definition ws_close :: "'s socket_ops \<Rightarrow> 's connection_state \<Rightarrow> unit res" where
  "ws_close S conn = so_close S (cs_socket conn)"

section \<open>The URL of the database\<close>

record 'u url_ops =
  url_parse :: "string \<Rightarrow> 'u option"
  url_query_pairs :: "'u \<Rightarrow> (string \<times> string) list"
  url_set_query :: "string option \<Rightarrow> 'u \<Rightarrow> 'u"
  url_text :: "'u \<Rightarrow> string"

definition clean_pair :: "string \<times> string \<Rightarrow> string option \<times> string \<Rightarrow> string option \<times> string" where
  "clean_pair kv acc = (if fst kv = ''sslrootcert'' then (Some (snd kv), snd acc)
    else (fst acc, snd acc @ fst kv @ ''='' @ snd kv @ ''&''))"

definition parse_and_clean_db_url :: "'u url_ops \<Rightarrow> string \<Rightarrow> (string \<times> string option) res" where
  "parse_and_clean_db_url U url =
    and_then (unwrap ''Could not parse database url'' (url_parse U url)) (\<lambda>db_url.
      let (cert_path, query) = fold clean_pair (url_query_pairs U db_url) (None, [])
      in Inr (url_text U (url_set_query U (Some query) db_url), cert_path))"

section \<open>Connecting\<close>

text \<open>Each call of a library whose failure the code turns into a panic, and the last one, whose error it returns.\<close>

record ('b, 'c, 'k, 'p, 'a) driver_ops =
  dr_read :: "string \<Rightarrow> 'b option"
  dr_from_pem :: "'b \<Rightarrow> 'c option"
  dr_connector :: "'c \<Rightarrow> 'k option"
  dr_connect :: "string \<Rightarrow> 'k \<Rightarrow> 'p option"
  dr_try_from :: "'p \<Rightarrow> 'a res"

definition establish_connection ::
  "'u url_ops \<Rightarrow> ('b, 'c, 'k, 'p, 'a) driver_ops \<Rightarrow> string \<Rightarrow> 'a res" where
  "establish_connection U D database_url =
    and_then (parse_and_clean_db_url U database_url) (\<lambda>(url, cert_path).
    and_then (unwrap ''called `Option::unwrap()` on a `None` value'' cert_path) (\<lambda>path.
    and_then (unwrap ''Could not read certificate'' (dr_read D path)) (\<lambda>bytes.
    and_then (unwrap ''Could not parse certificate'' (dr_from_pem D bytes)) (\<lambda>cert.
    and_then (unwrap ''Could not build TLS connector'' (dr_connector D cert)) (\<lambda>connector.
    and_then (unwrap ''Could not connect to database'' (dr_connect D url connector)) (dr_try_from D))))))"

datatype connection_setup = DefaultSetup | TlsSetup

record pool_config =
  plc_url :: string
  plc_setup :: connection_setup
  plc_max_size :: int
  plc_timeout_secs :: int

definition default_max_pool_size :: int where
  "default_max_pool_size = 150"

definition new_db_pool ::
  "'u url_ops \<Rightarrow> (pool_config \<Rightarrow> 'p res) \<Rightarrow> string \<Rightarrow> int option \<Rightarrow> 'p res" where
  "new_db_pool U build database_url max_pool_size =
    and_then (parse_and_clean_db_url U database_url) (\<lambda>(_, cert_path).
      build \<lparr>plc_url = database_url, plc_setup = (if cert_path \<noteq> None then TlsSetup else DefaultSetup),
        plc_max_size = (case max_pool_size of None \<Rightarrow> default_max_pool_size | Some n \<Rightarrow> n), plc_timeout_secs = 10\<rparr>)"

text \<open>The connections of a pool with the given configuration: the custom set-up, or the one of the driver.\<close>

definition pool_connect ::
  "'u url_ops \<Rightarrow> ('b, 'c, 'k, 'p, 'a) driver_ops \<Rightarrow> (string \<Rightarrow> 'a res) \<Rightarrow> pool_config \<Rightarrow> 'a res" where
  "pool_connect U D plain c = (case plc_setup c of DefaultSetup \<Rightarrow> plain (plc_url c)
    | TlsSetup \<Rightarrow> establish_connection U D (plc_url c))"

text \<open>\<^verbatim>\<open>run_pending_migrations\<close>: a migration that fails panics.\<close>

definition run_pending_migrations :: "('s \<Rightarrow> unit res \<times> 's) \<Rightarrow> 's \<Rightarrow> unit res \<times> 's" where
  "run_pending_migrations run s = (case run s of
      (Inl (Error m), t) \<Rightarrow> (Inl (Panic ''[Parser] Migrations failed!''), t)
    | (Inl (Panic m), t) \<Rightarrow> (Inl (Panic m), t)
    | (Inr u, t) \<Rightarrow> (Inr u, t))"

section \<open>Request numbers\<close>

fun send_all :: "'s socket_ops \<Rightarrow> (string \<times> string list) list \<Rightarrow> 's connection_state \<Rightarrow> int res list \<times> 's connection_state"
  where
  "send_all S [] conn = ([], conn)"
| "send_all S (r # rs) conn =
    (let (i, conn) = ws_send S (fst r) (snd r) conn; (is, conn) = send_all S rs conn in (i # is, conn))"

lemma ws_send_number:
  "cs_id (snd (ws_send S m ps conn)) = wrap_u64 (cs_id conn + 1)"
  "fst (ws_send S m ps conn) = Inr i \<Longrightarrow> i = cs_id conn"
  by (auto simp: ws_send_def Let_def split: prod.splits sum.splits error.splits)

lemma send_all_numbers:
  "in_u64 (cs_id conn) \<Longrightarrow> k < length rs \<Longrightarrow> fst (send_all S rs conn) ! k = Inr i
    \<Longrightarrow> i = wrap_u64 (cs_id conn + int k)"
proof (induction rs arbitrary: conn k)
  case (Cons r rs)
  show ?case
  proof (cases k)
    case 0
    then show ?thesis
      using Cons.prems ws_send_number(2) [of S "fst r" "snd r" conn i] by (simp add: case_prod_beta Let_def int_simps)
  next
    case (Suc j)
    then have "fst (send_all S rs (snd (ws_send S (fst r) (snd r) conn))) ! j = Inr i"
      using Cons.prems(3) by (simp add: case_prod_beta Let_def)
    moreover have "in_u64 (cs_id (snd (ws_send S (fst r) (snd r) conn)))"
      by (simp add: ws_send_number)
    ultimately have "i = wrap_u64 (wrap_u64 (cs_id conn + 1) + int j)"
      using Cons.IH [of "snd (ws_send S (fst r) (snd r) conn)" j] Cons.prems(2) Suc by (simp add: ws_send_number)
    then show ?thesis
      using Suc by (simp add: wrap_u64_def mod_simps algebra_simps)
  qed
qed simp

text \<open>Requests of one connection that were sent carry different numbers, unless there are more than the 64 bits of the
  counter allow; failed ones are not used again.\<close>

theorem request_numbers_distinct:
  assumes "length rs \<le> 2 ^ 64" "j < k" "k < length rs"
    and "fst (send_all S rs (connection_new s)) ! j = Inr a" "fst (send_all S rs (connection_new s)) ! k = Inr b"
  shows "a = int j \<and> b = int k"
proof -
  have "in_u64 (cs_id (connection_new s))"
    by (simp add: connection_new_def in_u64_def)
  from send_all_numbers [OF this _ assms(4)] send_all_numbers [OF this assms(3,5)] assms(1-3)
  show ?thesis
    by (simp add: connection_new_def wrap_u64_def)
qed

section \<open>The certificate\<close>

lemma fold_clean_pair:
  "fold clean_pair kvs (c, q) =
    ((case filter (\<lambda>kv. fst kv = ''sslrootcert'') kvs of [] \<Rightarrow> c | xs \<Rightarrow> Some (snd (last xs))),
     q @ concat (List.map (\<lambda>kv. fst kv @ ''='' @ snd kv @ ''&'') (filter (\<lambda>kv. fst kv \<noteq> ''sslrootcert'') kvs)))"
  by (induction kvs arbitrary: c q) (auto simp: clean_pair_def split: list.splits)

text \<open>The last certificate of the URL is taken, and the URL keeps the other parameters in their order.\<close>

theorem parse_and_clean_db_url_spec:
  assumes "url_parse U url = Some u"
  shows "parse_and_clean_db_url U url = Inr
    (url_text U (url_set_query U (Some (concat (List.map (\<lambda>kv. fst kv @ ''='' @ snd kv @ ''&'')
        (filter (\<lambda>kv. fst kv \<noteq> ''sslrootcert'') (url_query_pairs U u))))) u),
     (case filter (\<lambda>kv. fst kv = ''sslrootcert'') (url_query_pairs U u) of [] \<Rightarrow> None | xs \<Rightarrow> Some (snd (last xs))))"
  using assms by (simp add: parse_and_clean_db_url_def fold_clean_pair)

text \<open>A pool uses the set-up with a certificate exactly when the URL names one, so the unwrapped path is there.\<close>

theorem pool_has_certificate:
  assumes pool: "new_db_pool U Inr database_url n = Inr c" and tls: "plc_setup c = TlsSetup"
  obtains url path where "parse_and_clean_db_url U (plc_url c) = Inr (url, Some path)"
  using assms by (auto simp: new_db_pool_def and_then_eq_Inr split: if_splits)

end
