(* ===== verification/Share_Image.thy ===== *)
theory Share_Image
  imports Points_Api
begin

text \<open>
  The image for sharing (\<^verbatim>\<open>share_image.rs\<close>): two background pictures and the fonts are loaded on first use and kept
  for the life of the process; an image is the background with the text of the points and of the referral code drawn
  over it. Environment variables, files, SVG and PNG are parameters.
\<close>

section \<open>The libraries\<close>

text \<open>Sizes are 32-bit floats; their products with the scales 1 and 2 are exact, so they are rationals here.\<close>

record ('f, 't, 'p) image_ops =
  io_var :: "string \<Rightarrow> string option"
  io_read :: "string \<Rightarrow> string + string"
  io_exists :: "string \<Rightarrow> bool"
  io_no_fonts :: 'f
  io_load_dir :: "string \<Rightarrow> 'f \<Rightarrow> 'f"
  io_fonts_empty :: "'f \<Rightarrow> bool"
  io_system_fonts :: "'f \<Rightarrow> 'f"
  io_parse :: "'f option \<Rightarrow> string \<Rightarrow> string + 't"
  io_size :: "'t \<Rightarrow> rat \<times> rat"
  io_pixmap :: "int \<Rightarrow> int \<Rightarrow> 'p option"
  io_render :: "'t \<Rightarrow> rat \<Rightarrow> 'p \<Rightarrow> 'p"
  io_png :: "'p \<Rightarrow> string + nat list"

text \<open>A float cast to \<^verbatim>\<open>u32\<close> loses its fraction and stays within the type.\<close>

definition float_as_u32 :: "rat \<Rightarrow> int" where
  "float_as_u32 x = max 0 (min 4294967295 \<lfloor>x\<rfloor>)"

definition image_scale :: "image_format \<Rightarrow> rat" where
  "image_scale fmt = (case fmt of Portrait \<Rightarrow> 2 | Landscape \<Rightarrow> 1)"

definition template_var :: "image_format \<Rightarrow> string" where
  "template_var fmt = (case fmt of Portrait \<Rightarrow> ''SHARE_TEMPLATE_PATH'' | Landscape \<Rightarrow> ''SHARE_TEMPLATE_LANDSCAPE_PATH'')"

definition default_template :: "image_format \<Rightarrow> string" where
  "default_template fmt = (case fmt of Portrait \<Rightarrow> ''assets/share_background.svg''
    | Landscape \<Rightarrow> ''assets/share_background_landscape.svg'')"

definition pre_render_background :: "('f, 't, 'p) image_ops \<Rightarrow> string \<Rightarrow> string \<Rightarrow> rat \<Rightarrow> string + 'p" where
  "pre_render_background V env_var default_path scale =
    (let path = (case io_var V env_var of None \<Rightarrow> default_path | Some p \<Rightarrow> p) in
     and_then (map_err (\<lambda>e. ''Failed to read '' @ path @ '': '' @ e) (io_read V path)) (\<lambda>svg_str.
     and_then (map_err (\<lambda>e. ''Failed to parse SVG: '' @ e) (io_parse V None svg_str)) (\<lambda>tree.
     let (w, h) = io_size V tree;
         width = float_as_u32 (w * scale);
         height = float_as_u32 (h * scale)
     in case io_pixmap V width height of
          None \<Rightarrow> Inl ''Failed to create pixmap''
        | Some pixmap \<Rightarrow> Inr (io_render V tree scale pixmap))))"

definition background_of :: "('f, 't, 'p) image_ops \<Rightarrow> image_format \<Rightarrow> string + 'p" where
  "background_of V fmt = pre_render_background V (template_var fmt) (default_template fmt) (image_scale fmt)"

definition load_fonts :: "('f, 't, 'p) image_ops \<Rightarrow> 'f" where
  "load_fonts V =
    (let db = fold (\<lambda>dir db. if io_exists V dir then io_load_dir V dir db else db)
           [''/usr/share/fonts'', ''/usr/local/share/fonts''] (io_no_fonts V)
     in if io_fonts_empty V db then io_system_fonts V db else db)"

section \<open>The text\<close>

definition attribute :: "string \<Rightarrow> string \<Rightarrow> string" where
  "attribute name v = '' '' @ name @ ''='' @ in_quotes v"

definition text_element :: "string \<Rightarrow> string \<Rightarrow> string \<Rightarrow> string \<Rightarrow> string" where
  "text_element x y font_size content = ''  <text'' @ attribute ''x'' x @ attribute ''y'' y @ attribute ''text-anchor'' ''middle''
    @ attribute ''fill'' ''white'' @ attribute ''font-size'' font_size @ attribute ''font-weight'' ''bold''
    @ attribute ''font-family'' ''Arial, Liberation Sans, Helvetica, sans-serif'' @ ''>'' @ content @ ''</text>'' @ [CHR 0x0A]"

definition svg_document :: "string \<Rightarrow> string \<Rightarrow> string \<Rightarrow> string" where
  "svg_document width height body = ''<svg'' @ attribute ''width'' width @ attribute ''height'' height
    @ attribute ''xmlns'' ''http://www.w3.org/2000/svg'' @ ''>'' @ [CHR 0x0A] @ body @ ''</svg>''"

definition text_svg :: "image_format \<Rightarrow> string \<Rightarrow> string \<Rightarrow> string" where
  "text_svg fmt formatted_points referral_code = (case fmt of
      Portrait \<Rightarrow> svg_document ''382'' ''516''
        (text_element ''191'' ''155'' ''40'' formatted_points @ text_element ''191'' ''487'' ''18'' referral_code)
    | Landscape \<Rightarrow> svg_document ''1200'' ''630''
        (text_element ''325'' ''330'' ''90'' formatted_points @ text_element ''325'' ''545'' ''40'' referral_code))"

section \<open>Images\<close>

text \<open>The lazy statics: nothing before the first use, afterwards the value of the first use, an error included.\<close>

record ('f, 'p) image_statics =
  is_portrait :: "(string + 'p) option"
  is_landscape :: "(string + 'p) option"
  is_fontdb :: "'f option"

definition fresh_statics :: "('f, 'p) image_statics" where
  "fresh_statics = \<lparr>is_portrait = None, is_landscape = None, is_fontdb = None\<rparr>"

definition force :: "'a option \<Rightarrow> 'a \<Rightarrow> 'a" where
  "force l v = (case l of None \<Rightarrow> v | Some w \<Rightarrow> w)"

definition format_name :: "image_format \<Rightarrow> string" where
  "format_name fmt = (case fmt of Portrait \<Rightarrow> ''Portrait'' | Landscape \<Rightarrow> ''Landscape'')"

definition force_background ::
  "('f, 't, 'p) image_ops \<Rightarrow> image_format \<Rightarrow> ('f, 'p) image_statics \<Rightarrow> (string + 'p) \<times> ('f, 'p) image_statics" where
  "force_background V fmt st = (case fmt of
      Portrait \<Rightarrow> (let bg = force (is_portrait st) (background_of V Portrait) in (bg, st\<lparr>is_portrait := Some bg\<rparr>))
    | Landscape \<Rightarrow> (let bg = force (is_landscape st) (background_of V Landscape) in (bg, st\<lparr>is_landscape := Some bg\<rparr>)))"

definition generate_share_image ::
  "('f, 't, 'p) image_ops \<Rightarrow> int \<Rightarrow> string \<Rightarrow> image_format \<Rightarrow> ('f, 'p) image_statics
    \<Rightarrow> nat list res \<times> ('f, 'p) image_statics" where
  "generate_share_image V points referral_code fmt st =
    (let (bg, st) = force_background V fmt st in
     case bg of
       Inl e \<Rightarrow> (Inl (Error (format_name fmt @ '' background not available: '' @ e)), st)
     | Inr background \<Rightarrow>
         (let svg = text_svg fmt (format_with_commas points) referral_code;
              fonts = force (is_fontdb st) (load_fonts V);
              st = st\<lparr>is_fontdb := Some fonts\<rparr>
          in (and_then (map_err Error (io_parse V (Some fonts) svg)) (\<lambda>text_tree.
                map_err Error (io_png V (io_render V text_tree (image_scale fmt) background))), st)))"

section \<open>What the statics mean for requests\<close>

text \<open>A history: requests in the environments of their time.\<close>

fun image_history :: "(('f, 't, 'p) image_ops \<times> int \<times> string \<times> image_format) list \<Rightarrow> ('f, 'p) image_statics
    \<Rightarrow> ('f, 'p) image_statics" where
  "image_history [] st = st"
| "image_history ((V, points, code, fmt) # rs) st = image_history rs (snd (generate_share_image V points code fmt st))"

definition background_static :: "image_format \<Rightarrow> ('f, 'p) image_statics \<Rightarrow> (string + 'p) option" where
  "background_static fmt st = (case fmt of Portrait \<Rightarrow> is_portrait st | Landscape \<Rightarrow> is_landscape st)"

definition loaded_from :: "('f, 't, 'p) image_ops \<Rightarrow> ('f, 'p) image_statics \<Rightarrow> bool" where
  "loaded_from V st \<longleftrightarrow> (\<forall>fmt. force (background_static fmt st) (background_of V fmt) = background_of V fmt)
    \<and> force (is_fontdb st) (load_fonts V) = load_fonts V"

lemma force_Some [simp]: "force (Some w) v = w"
  by (simp add: force_def)

lemma force_None [simp]: "force None v = v"
  by (simp add: force_def)

lemmas static_defs = force_background_def background_static_def force_def Let_def

lemma force_background_result:
  "fst (force_background V fmt st) = force (background_static fmt st) (background_of V fmt)"
  by (cases fmt) (simp_all add: static_defs)

lemma force_background_static:
  "background_static f (snd (force_background V fmt st)) =
    (if f = fmt then Some (fst (force_background V fmt st)) else background_static f st)"
  by (cases fmt; cases f) (simp_all add: static_defs)

lemma force_background_fonts: "is_fontdb (snd (force_background V fmt st)) = is_fontdb st"
  by (cases fmt) (simp_all add: static_defs)

lemma fonts_keep_background: "background_static f (st\<lparr>is_fontdb := x\<rparr>) = background_static f st"
  by (simp add: background_static_def split: image_format.split)

lemma generate_static:
  "background_static f (snd (generate_share_image V p c fmt st)) =
    (if f = fmt then Some (force (background_static fmt st) (background_of V fmt)) else background_static f st)"
  by (auto simp: generate_share_image_def case_prod_beta Let_def force_background_static force_background_result
    fonts_keep_background split: sum.splits)

lemma generate_fonts:
  "is_fontdb (snd (generate_share_image V p c fmt st)) \<in> {is_fontdb st, Some (force (is_fontdb st) (load_fonts V))}"
  by (auto simp: generate_share_image_def case_prod_beta Let_def force_background_fonts split: sum.splits)

lemma generate_loaded: "loaded_from V st \<Longrightarrow> loaded_from V (snd (generate_share_image V p c fmt st))"
  using generate_fonts [of V p c fmt st] unfolding loaded_from_def generate_static by auto

lemma history_loaded:
  "loaded_from V st \<Longrightarrow> \<forall>r\<in>set rs. fst r = V \<Longrightarrow> loaded_from V (image_history rs st)"
  by (induction rs st rule: image_history.induct) (auto intro: generate_loaded)

lemma fresh_loaded: "loaded_from V fresh_statics"
  by (simp add: loaded_from_def fresh_statics_def background_static_def split: image_format.split)

lemma generate_of_loaded:
  assumes "loaded_from V st"
  shows "fst (generate_share_image V p c fmt st) = fst (generate_share_image V p c fmt fresh_statics)"
proof -
  have b: "force (background_static fmt s) (background_of V fmt) = background_of V fmt"
      and f: "force (is_fontdb s) (load_fonts V) = load_fonts V" if "loaded_from V s" for s
    using that unfolding loaded_from_def by auto
  show ?thesis
    using b [OF assms] f [OF assms] b [OF fresh_loaded] f [OF fresh_loaded]
    by (simp add: generate_share_image_def case_prod_beta Let_def force_background_result force_background_fonts
      split: sum.splits)
qed

lemma history_keeps_background:
  "background_static fmt st = Some bg \<Longrightarrow> background_static fmt (image_history rs st) = Some bg"
proof (induction rs st rule: image_history.induct)
  case (2 V p c f rs st)
  have "background_static fmt (snd (generate_share_image V p c f st)) = Some bg"
    using 2(2) by (cases "f = fmt") (simp_all add: generate_static)
  then show ?case
    using 2(1) by simp
qed simp

text \<open>As long as the environment stays the same, an image does not depend on the requests before it: it is
  the one of a fresh process.\<close>
theorem image_independent_of_history:
  assumes "\<forall>r\<in>set rs. fst r = V"
  shows "fst (generate_share_image V points code fmt (image_history rs fresh_statics))
    = fst (generate_share_image V points code fmt fresh_statics)"
  by (rule generate_of_loaded [OF history_loaded [OF fresh_loaded assms]])

text \<open>A background that could not be loaded on its first use stays unavailable for the life of the process,
  whatever the files and variables are later.\<close>
theorem failed_background_sticks:
  assumes "background_of V fmt = Inl e" "background_static fmt st = None"
  shows "fst (generate_share_image V' points' code' fmt
      (image_history rs (snd (generate_share_image V points code fmt st))))
    = Inl (Error (format_name fmt @ '' background not available: '' @ e))"
proof -
  have "background_static fmt (snd (generate_share_image V points code fmt st)) = Some (Inl e)"
    using assms by (simp add: generate_static)
  from history_keeps_background [OF this, of rs] show ?thesis
    by (simp add: generate_share_image_def case_prod_beta Let_def force_background_result)
qed

text \<open>Libraries that keep texts as they are: the picture is the text of the file, and a file that is missing cannot be read.\<close>

definition text_image_ops :: "bool \<Rightarrow> (nat, string, string) image_ops" where
  "text_image_ops present = \<lparr>io_var = (\<lambda>_. None), io_read = (\<lambda>p. if present then Inr p else Inl ''missing''),
    io_exists = (\<lambda>_. True), io_no_fonts = 0, io_load_dir = (\<lambda>_. Suc), io_fonts_empty = (\<lambda>n. n = 0),
    io_system_fonts = Suc, io_parse = (\<lambda>_. Inr), io_size = (\<lambda>_. (382, 516)), io_pixmap = (\<lambda>w h. Some []),
    io_render = (\<lambda>t _ p. p @ t), io_png = (\<lambda>p. Inr (List.map of_char p))\<rparr>"

lemma image_independent_of_history_witness:
  "fst (generate_share_image (text_image_ops True) 5 ''ab'' Portrait
      (image_history [(text_image_ops True, 7, ''cd'', Portrait)] fresh_statics))
    = fst (generate_share_image (text_image_ops True) 5 ''ab'' Portrait fresh_statics)"
  by (rule image_independent_of_history) simp

lemma failed_background_sticks_witness:
  "fst (generate_share_image (text_image_ops True) 5 ''ab'' Landscape
      (image_history [] (snd (generate_share_image (text_image_ops False) 7 ''cd'' Landscape fresh_statics))))
    = Inl (Error (format_name Landscape @ '' background not available: '' @
        ''Failed to read assets/share_background_landscape.svg: missing''))"
proof (rule failed_background_sticks)
  show "background_of (text_image_ops False) Landscape
      = Inl ''Failed to read assets/share_background_landscape.svg: missing''"
    by (simp add: background_of_def pre_render_background_def text_image_ops_def default_template_def Let_def)
  show "background_static Landscape (fresh_statics :: (nat, string) image_statics) = None"
    by (simp add: background_static_def fresh_statics_def)
qed

end
