(* ===== verification/Spec2Isabelle.thy ===== *)
theory Spec2Isabelle
  imports Prelude Decimal Calendar Api_Errors Keyed_Store Points_Store Points_Store_Laws Account_Txs Chain_Types
    Lending_Models Hex_Crypto Token_Prices Points_Calculator Points_Calculator_Laws Points_Daily_Laws Points_Api Points_Ledger
    Transitions Block_Store Block_Store_Laws Pipeline Worker Worker_Laws Account_Processors Account_Processors_Laws
    Lending_Store Lending_Processor Lending_Laws Lending_Services Lending_Api Lending_Services_Laws Gap_Detection
    Node_Client Server_Api Server_Laws Snapshot_Jobs Snapshot_Jobs_Laws Deployment Deployment_Laws Fleet Fleet_Laws Commands Commands_Laws Schema Schema_Laws
    Routes Routes_Laws Connections Share_Image
begin
text \<open>
  A verification library of the indexer backend: the indexer framework under \<^verbatim>\<open>src/crates\<close> and the application
  \<^verbatim>\<open>src/examples/linx-indexer\<close> on top of it. This theory imports every other one.

  \<^bold>\<open>The program.\<close> A worker fetches the blocks of a node range by range (\<^verbatim>\<open>worker.rs\<close>, \<^verbatim>\<open>fetch.rs\<close>) and
  hands them to processors; each runs in a pipeline of a processing and a storing task (\<^verbatim>\<open>pipeline.rs\<close>,
  \<^verbatim>\<open>stage.rs\<close>). Three built-in processors store blocks, events and transactions; those of the application record
  token transfers, contract calls, swaps with their pools, and the events of a lending protocol. Services of their own
  compute snapshots of lending positions and markets and, once a day, the points of every user. HTTP servers read the
  tables and accept referrals and signed transactions. Everything meets in one PostgreSQL database.

  \<^bold>\<open>Theories.\<close> A theory named after a component models its code; the one with the suffix
  \<^verbatim>\<open>_Laws\<close> proves its properties.
  \<^item> \<^verbatim>\<open>Prelude\<close>, \<^verbatim>\<open>Keyed_Store\<close>, \<^verbatim>\<open>Transitions\<close>: results and panics, machine integers, hash maps,
    SQL clauses; tables with a unique key and their three ways of writing; step relations with invariant and measure.
  \<^item> \<^verbatim>\<open>Decimal\<close>, \<^verbatim>\<open>Calendar\<close>, \<^verbatim>\<open>Chain_Types\<close>, \<^verbatim>\<open>Hex_Crypto\<close>, \<^verbatim>\<open>Api_Errors\<close>: decimal numbers, dates, the
    node's data and networks, hexadecimal text and keys (\<^verbatim>\<open>lib.rs\<close>, \<^verbatim>\<open>crypto.rs\<close>), errors of the HTTP layer.
  \<^item> \<^verbatim>\<open>Pipeline\<close>: the tasks of \<^verbatim>\<open>Pipeline::run\<close> as a step relation over bounded channels, with the
    sequential run as specification. \<^verbatim>\<open>Worker\<close>: parallel fetch, backfill, synchronisation, the built-in processors.
    \<^verbatim>\<open>Fleet\<close>: the pipelines of all processors running concurrently on one database (\<^verbatim>\<open>Worker::run_pipeline\<close>).
    \<^verbatim>\<open>Block_Store\<close>: models and repositories of \<^verbatim>\<open>bento-types\<close>.
  \<^item> \<^verbatim>\<open>Account_Txs\<close>, \<^verbatim>\<open>Account_Processors\<close>: account transactions, pools, and the processors of transfers, contract
    calls and swaps (\<^verbatim>\<open>processors\<close>). \<^verbatim>\<open>Lending_Models\<close>, \<^verbatim>\<open>Lending_Store\<close>, \<^verbatim>\<open>Lending_Processor\<close>: the lending
    tables and the processor that fills them.
  \<^item> \<^verbatim>\<open>Lending_Services\<close>, \<^verbatim>\<open>Lending_Api\<close>, \<^verbatim>\<open>Snapshot_Jobs\<close>: the snapshot services, the handlers of
    \<^verbatim>\<open>lending_router.rs\<close>, the scheduled jobs and the backfill of volumes.
  \<^item> \<^verbatim>\<open>Token_Prices\<close>, \<^verbatim>\<open>Points_Store\<close>, \<^verbatim>\<open>Points_Calculator\<close>, \<^verbatim>\<open>Points_Api\<close>: prices with their cache, the points
    tables, the daily calculation and its scheduler, the handlers of the points API (laws of the calculation also in
    \<^verbatim>\<open>Points_Daily_Laws\<close>). \<^verbatim>\<open>Points_Ledger\<close>: the points tables as an abstract ledger, with histories of
    calculated days and referral requests. \<^verbatim>\<open>Share_Image\<close>: the picture for sharing and its lazily loaded parts.
  \<^item> \<^verbatim>\<open>Gap_Detection\<close>: the query for missing heights and their backfill. \<^verbatim>\<open>Node_Client\<close>: the HTTP client
    of the node. \<^verbatim>\<open>Server_Api\<close>: the generic API, account history and submission of transactions.
  \<^item> \<^verbatim>\<open>Deployment\<close>, \<^verbatim>\<open>Commands\<close>: configuration, registry of processors, construction of workers, and the executables.
    \<^verbatim>\<open>Schema\<close>: the columns of the tables and what the models write into them.
  \<^item> \<^verbatim>\<open>Routes\<close>: the table of HTTP routes with the annotations of the handlers (\<^verbatim>\<open>configure_api\<close>, the
    \<^verbatim>\<open>register\<close> functions). \<^verbatim>\<open>Connections\<close>: the WebSocket client and the set-up of the database pool
    (\<^verbatim>\<open>ws.rs\<close>, \<^verbatim>\<open>db.rs\<close>).

  \<^bold>\<open>Conventions.\<close> A \<^verbatim>\<open>Result\<close> is a sum with the error on the left; an unwinding panic is the error \<^verbatim>\<open>Panic\<close>, so
  that code which inspects errors does not catch it. Definitions that change state return the result with the new state; a
  call that may never return is an option, with None for no return. The binaries are built in release mode, so integer
  arithmetic wraps and is written \<^verbatim>\<open>wrap_i32\<close>, \<^verbatim>\<open>wrap_u64\<close> and so on. A \<^verbatim>\<open>BigDecimal\<close> is a rational; division and
  rounding are parameters with documented laws (\<^verbatim>\<open>dec_laws\<close>), instantiated by exact arithmetic in the witnesses. A hash
  map is an association list with distinct keys; where its iteration order is visible the properties hold for any order or
  say which order decides. A table is the list of its rows with the next identifier; rows that tie in an
  \<^verbatim>\<open>ORDER BY\<close> keep table order. Names of fields carry a prefix of their structure.

  \<^bold>\<open>Parameters.\<close> Code outside the repository is an argument: the node's answers and the HTTP transport, JSON and
  TOML readers, hashes and signatures (\<^verbatim>\<open>crypto_ops\<close>), parsing of decimals (\<^verbatim>\<open>pd\<close>), division and text conversion
  of PostgreSQL (\<^verbatim>\<open>qdiv\<close>, \<^verbatim>\<open>qnum\<close>), its order of texts (\<^verbatim>\<open>collate\<close>), random identifiers, floating-point
  rounding, and the clock, which stands still within one call of a service.

  \<^bold>\<open>What is shown.\<close>
  \<^item> Indexing: every schedule of a pipeline ends like the sequential run, and runs end exactly when at most 100 batches
    are given; the concurrent pipelines of a deployed worker end under every schedule, and agree with running the
    processors one after the other, or for the two that read the database with running them alone; the chunks of a fetch tile the range; a backfill terminates and stores every block with its events and
    transactions; the deployed worker with all six processors does so for transfers as well, under every
    schedule; a synchronisation round covers the last \<^verbatim>\<open>backstep\<close> milliseconds; the gap report is exact and its backfill
    closes the gaps.
  \<^item> Processors: the extracted transfers are exactly those of the single paying address; several swaps of a transaction
    become one; where event-type numbers stand for positions, and where pools are read too early, the records go wrong.
  \<^item> Lending: a position is the net of its events in any order, except for second events of one type in a transaction; the
    statistics of the job agree with those of the API; the annual rate lies between simple and continuous interest;
    the volume backfill is exact and idempotent.
  \<^item> Points: the tables refine a ledger, in which an orderly history counts every point and bonus once (a bonus granted
    before the day before is calculated can be lost); lending points are the balance held at every second of the day;
    swap points the priced volume; daily totals are cumulative and reproducible; multipliers, referrals, bonuses, ranks and referral codes behave as stated; the
    scheduler calculates each day at most once.
  \<^item> Tables: unique keys and fresh identifiers are invariants; rows stay within the column types of the schema; main-chain
    flags follow the parents; bulk writes read back and are idempotent.
  \<^item> API: a referral is only applied for an authenticated user; cursor paging is complete exactly when no page ends between
    rows of one time; every request has at most one handler but for two paths, and most handlers keep to the statuses they
    document.

  The contracts between components are locales: \<^verbatim>\<open>keyed_table\<close>, \<^verbatim>\<open>upsert_table\<close> and \<^verbatim>\<open>id_table\<close> (tables),
  \<^verbatim>\<open>invariant_system\<close>, \<^verbatim>\<open>measured_system\<close> (step relations) and \<^verbatim>\<open>simulation\<close> (ledger), \<^verbatim>\<open>isolated_processors\<close>
  (processors with regions of their own), \<^verbatim>\<open>storing_processor\<close> and
  \<^verbatim>\<open>keeping_processor\<close> (what a worker may rely on), \<^verbatim>\<open>typed_processor\<close> (types of rows), \<^verbatim>\<open>gap_filling\<close> (what the
  gap backfill needs), and \<^verbatim>\<open>ttl_cache\<close> (cached prices). Each is interpreted on the model's own definitions.

  \<^bold>\<open>Bounds and termination.\<close> Loops over data are structural or have a measure. \<^verbatim>\<open>random_fallback\<close>,
  \<^verbatim>\<open>backfill_loop\<close>, \<^verbatim>\<open>update_main_chain\<close>, \<^verbatim>\<open>position_pages\<close> and the reader \<^verbatim>\<open>follow_cursor\<close> of the history can run
  forever and are partial functions in the option monad; the laws say when they return. Endless loops (synchronisation, the
  scheduler, the jobs) are runs over a given list of rounds or ticks of any length. The only fixed bound is the
  capacity 100 of the pipeline's channels, which is the code's.

  \<^bold>\<open>Not modelled.\<close> The start of the HTTP server (port, CORS, Swagger pages), which only calls libraries; loss of the database connection and timeouts; SQL migrations, whose constraints are built into the
  stores; log lines, except where one can panic. The functions of the worker use the
  sequential \<^verbatim>\<open>run_pipeline\<close>; \<^verbatim>\<open>Fleet_Laws\<close> shows what other schedules change, each storage call being one step. The jobs of \<^verbatim>\<open>snapshots run\<close> tick one at a time.
  An MD5 collision of the generated key of an account transaction is not considered.
\<close>

end
